(* ===== verification/Prelude.thy ===== *)
theory Prelude
  imports Main "HOL-Library.Char_ord" "HOL-Library.List_Lexorder" "HOL-Library.Sublist"
begin

text \<open>
  Shared ground of the development: Python computations with exceptions and state, the rules by
  which a relation between states is carried through such a computation, and database tables in
  insertion order.

  A Python \<open>str\<close> is a \<^typ>\<open>string\<close> whose characters are the code points U+0000 to U+00FF.
  UUIDs are kept in their canonical text form and datetimes in their ISO text form, so that
  \<open>str\<close>, \<open>UUID\<close>, \<open>isoformat\<close> and \<open>fromisoformat\<close> are the identity on them.
\<close>

section \<open>Names of the model's base types\<close>

type_synonym uuid = string
type_synonym datetime = string

named_theorems py_simps "unfoldings of the combinators for Python computations"
named_theorems frame_rules "a state relation is kept by a computation"

section \<open>Computations with exceptions\<close>

text \<open>
  A computation takes the state, and either raises (\<open>Inl\<close>) or returns (\<open>Inr\<close>); the state changes made
  before a raise persist, as they do in Python, unless a transaction rolls them back.
\<close>

type_synonym ('s, 'e, 'a) py = "'s \<Rightarrow> ('e + 'a) \<times> 's"

definition ret :: "'a \<Rightarrow> ('s, 'e, 'a) py" where
  "ret a = (\<lambda>s. (Inr a, s))"

definition raise :: "'e \<Rightarrow> ('s, 'e, 'a) py" where
  "raise e = (\<lambda>s. (Inl e, s))"

definition bindE :: "('s, 'e, 'a) py \<Rightarrow> ('a \<Rightarrow> ('s, 'e, 'b) py) \<Rightarrow> ('s, 'e, 'b) py" where
  "bindE m f = (\<lambda>s. case m s of (Inl e, t) \<Rightarrow> (Inl e, t) | (Inr a, t) \<Rightarrow> f a t)"

definition catchE :: "('s, 'e, 'a) py \<Rightarrow> ('e \<Rightarrow> ('s, 'e, 'a) py) \<Rightarrow> ('s, 'e, 'a) py" where
  "catchE m h = (\<lambda>s. case m s of (Inl e, t) \<Rightarrow> h e t | (Inr a, t) \<Rightarrow> (Inr a, t))"

definition getS :: "('s \<Rightarrow> 'a) \<Rightarrow> ('s, 'e, 'a) py" where
  "getS f = (\<lambda>s. (Inr (f s), s))"

definition modS :: "('s \<Rightarrow> 's) \<Rightarrow> ('s, 'e, unit) py" where
  "modS f = (\<lambda>s. (Inr (), f s))"

definition liftE :: "'e + 'a \<Rightarrow> ('s, 'e, 'a) py" where
  "liftE r = (\<lambda>s. (r, s))"

text \<open>\<open>with connection:\<close> commits on a normal exit and rolls back when the block raises.\<close>

definition txn :: "('s, 'e, 'a) py \<Rightarrow> ('s, 'e, 'a) py" where
  "txn m = (\<lambda>s. case m s of (Inl e, t) \<Rightarrow> (Inl e, s) | (Inr a, t) \<Rightarrow> (Inr a, t))"

text \<open>A computation on a part of the state.\<close>

definition zoom :: "('w \<Rightarrow> 's) \<Rightarrow> ('s \<Rightarrow> 'w \<Rightarrow> 'w) \<Rightarrow> ('s, 'e, 'a) py \<Rightarrow> ('w, 'e, 'a) py" where
  "zoom g p m = (\<lambda>w. case m (g w) of (r, t) \<Rightarrow> (r, p t w))"

lemmas py_unfold = ret_def raise_def bindE_def catchE_def getS_def modS_def liftE_def txn_def
  zoom_def

lemma bindE_ret [py_simps]: "bindE (ret a) f = f a"
  by (simp add: py_unfold)

lemma bindE_raise [py_simps]: "bindE (raise e) f = raise e"
  by (simp add: py_unfold)

lemma bindE_getS [py_simps]: "bindE (getS g) f s = f (g s) s"
  by (simp add: py_unfold)

lemma bindE_modS [py_simps]: "bindE (modS g) f s = f () (g s)"
  by (simp add: py_unfold)

lemma bindE_liftE [py_simps]:
  "bindE (liftE r) f s = (case r of Inl e \<Rightarrow> (Inl e, s) | Inr a \<Rightarrow> f a s)"
  by (simp add: py_unfold)

lemma bindE_assoc: "bindE (bindE m f) g = bindE m (\<lambda>a. bindE (f a) g)"
  by (rule ext) (auto simp: py_unfold split: sum.splits prod.splits)

lemma txn_raises: "fst (txn m s) = Inl e \<Longrightarrow> snd (txn m s) = s"
  by (auto simp: txn_def split: sum.splits prod.splits)

lemma txn_fst: "fst (txn m s) = fst (m s)"
  by (auto simp: txn_def split: sum.splits prod.splits)

lemma txn_Inr: "m s = (Inr a, t) \<Longrightarrow> txn m s = (Inr a, t)"
  by (simp add: txn_def)

lemma bindE_Inr: "bindE m f s = (Inr b, u) \<longleftrightarrow> (\<exists>a t. m s = (Inr a, t) \<and> f a t = (Inr b, u))"
  by (auto simp: bindE_def split: sum.splits prod.splits)

lemma liftE_Inr: "liftE r s = (Inr b, u) \<longleftrightarrow> r = Inr b \<and> u = s"
  by (auto simp: liftE_def)

section \<open>Relations kept by a computation\<close>

text \<open>
  \<open>steps R m\<close>: whatever the start state and the outcome (an exception included), the end state of
  \<open>m\<close> is \<open>R\<close>-related to the start. For a reflexive and transitive \<open>R\<close> the rules below follow the
  syntax of the computation, so that a property of every primitive operation becomes a property of
  every service operation. An invariant \<open>I\<close> is the relation \<open>I s \<longrightarrow> I t\<close>.
\<close>

definition steps :: "('s \<Rightarrow> 's \<Rightarrow> bool) \<Rightarrow> ('s, 'e, 'a) py \<Rightarrow> bool" where
  "steps R m \<longleftrightarrow> (\<forall>s. R s (snd (m s)))"

lemma stepsI: "(\<And>s. R s (snd (m s))) \<Longrightarrow> steps R m"
  by (simp add: steps_def)

lemma stepsD: "steps R m \<Longrightarrow> m s = (r, t) \<Longrightarrow> R s t"
  by (metis snd_conv steps_def)

lemma steps_snd: "steps R m \<Longrightarrow> R s (snd (m s))"
  by (simp add: steps_def)

locale frame_rel =
  fixes R :: "'s \<Rightarrow> 's \<Rightarrow> bool"
  assumes R_refl: "R s s"
    and R_trans: "R s t \<Longrightarrow> R t u \<Longrightarrow> R s u"
begin

lemma steps_ret [frame_rules]: "steps R (ret a)"
  by (simp add: steps_def ret_def R_refl)

lemma steps_raise [frame_rules]: "steps R (raise e)"
  by (simp add: steps_def raise_def R_refl)

lemma steps_getS [frame_rules]: "steps R (getS f)"
  by (simp add: steps_def getS_def R_refl)

lemma steps_liftE [frame_rules]: "steps R (liftE r)"
  by (simp add: steps_def liftE_def R_refl)

lemma steps_bindE [frame_rules]:
  assumes "steps R m" and "\<And>a. steps R (f a)"
  shows "steps R (bindE m f)"
proof (rule stepsI)
  fix s
  obtain r t where mt: "m s = (r, t)" by fastforce
  with assms(1) have st: "R s t" by (rule stepsD)
  show "R s (snd (bindE m f s))"
  proof (cases r)
    case (Inl e)
    with mt st show ?thesis by (simp add: bindE_def)
  next
    case (Inr a)
    have "R t (snd (f a t))" using assms(2) by (simp add: steps_def)
    with mt Inr st show ?thesis by (auto simp: bindE_def intro: R_trans)
  qed
qed

lemma steps_catchE [frame_rules]:
  assumes "steps R m" and "\<And>e. steps R (h e)"
  shows "steps R (catchE m h)"
proof (rule stepsI)
  fix s
  obtain r t where mt: "m s = (r, t)" by fastforce
  with assms(1) have st: "R s t" by (rule stepsD)
  show "R s (snd (catchE m h s))"
  proof (cases r)
    case (Inl e)
    have "R t (snd (h e t))" using assms(2) by (simp add: steps_def)
    with mt Inl st show ?thesis by (auto simp: catchE_def intro: R_trans)
  next
    case (Inr a)
    with mt st show ?thesis by (simp add: catchE_def)
  qed
qed

lemma steps_txn [frame_rules]: "steps R m \<Longrightarrow> steps R (txn m)"
  by (auto simp: steps_def txn_def R_refl split: sum.splits prod.splits) (metis snd_conv)

lemma steps_if [frame_rules]: "(b \<Longrightarrow> steps R m) \<Longrightarrow> (\<not> b \<Longrightarrow> steps R n) \<Longrightarrow> steps R (if b then m else n)"
  by simp

lemma steps_case_option [frame_rules]:
  "steps R m \<Longrightarrow> (\<And>a. steps R (f a)) \<Longrightarrow> steps R (case x of None \<Rightarrow> m | Some a \<Rightarrow> f a)"
  by (cases x) simp_all

lemma steps_case_sum [frame_rules]:
  "(\<And>a. steps R (f a)) \<Longrightarrow> (\<And>b. steps R (g b)) \<Longrightarrow> steps R (case x of Inl a \<Rightarrow> f a | Inr b \<Rightarrow> g b)"
  by (cases x) simp_all

lemma steps_Let [frame_rules]: "steps R (f x) \<Longrightarrow> steps R (Let x f)"
  by simp

lemma steps_modS: "(\<And>s. R s (f s)) \<Longrightarrow> steps R (modS f)"
  by (simp add: steps_def modS_def)

end

lemma frame_rel_invariant: "frame_rel (\<lambda>s t. I s \<longrightarrow> I t)"
  by unfold_locales auto

lemma frame_rel_eq_on: "frame_rel (\<lambda>s t. f t = f s)"
  by unfold_locales auto

lemma frame_rel_prefix: "frame_rel (\<lambda>s t. \<forall>k. prefix (f k s) (f k t))"
  by unfold_locales (auto intro: prefix_order.trans)

lemma frame_rel_map_le: "frame_rel (\<lambda>s t. f s \<subseteq>\<^sub>m f t)"
  by unfold_locales (auto intro: map_le_trans)

lemma steps_zoom:
  assumes "steps R m" and "\<And>w t. R (g w) t \<Longrightarrow> R' w (p t w)"
  shows "steps R' (zoom g p m)"
  using assms by (auto simp: steps_def zoom_def split: prod.splits) (metis snd_conv)

section \<open>Tables in row order\<close>

text \<open>
  A table with a text primary key is the list of its rows in \<open>rowid\<close> order. \<open>INSERT OR REPLACE\<close>
  deletes the row in conflict and inserts the new one under a new, largest \<open>rowid\<close>; \<open>UPDATE\<close> keeps
  the \<open>rowid\<close>.
\<close>

definition tbl_replace :: "'k \<Rightarrow> 'v \<Rightarrow> ('k \<times> 'v) list \<Rightarrow> ('k \<times> 'v) list" where
  "tbl_replace k v t = filter (\<lambda>r. fst r \<noteq> k) t @ [(k, v)]"

definition tbl_has :: "'k \<Rightarrow> ('k \<times> 'v) list \<Rightarrow> bool" where
  "tbl_has k t \<longleftrightarrow> k \<in> set (map fst t)"

lemma map_of_filter_key: "map_of (filter (\<lambda>r. fst r \<noteq> k) t) j = (if j = k then None else map_of t j)"
  by (induction t) auto

lemma tbl_replace_get [simp]: "map_of (tbl_replace k v t) = (map_of t)(k \<mapsto> v)"
  by (rule ext) (auto simp: tbl_replace_def map_of_filter_key map_add_def split: option.splits)

lemma tbl_has_iff: "tbl_has k t \<longleftrightarrow> map_of t k \<noteq> None"
  by (induction t) (auto simp: tbl_has_def)

lemma tbl_absent: "\<not> tbl_has k t \<Longrightarrow> map_of t k = None"
  by (metis tbl_has_iff)

lemma tbl_replace_distinct: "distinct (map fst t) \<Longrightarrow> distinct (map fst (tbl_replace k v t))"
  by (auto simp: tbl_replace_def distinct_map_filter)

lemma tbl_append_distinct:
  "distinct (map fst t) \<Longrightarrow> \<not> tbl_has k t \<Longrightarrow> distinct (map fst (t @ [(k, v)]))"
  by (auto simp: tbl_has_def)

lemma map_of_snoc: "\<not> tbl_has k t \<Longrightarrow> map_of (t @ [(k, v)]) = (map_of t)(k \<mapsto> v)"
  by (rule ext) (auto simp: tbl_has_iff map_add_def split: option.splits)

lemma rev_tbl_replace: "rev (tbl_replace k v t) = (k, v) # filter (\<lambda>r. fst r \<noteq> k) (rev t)"
  by (simp add: tbl_replace_def rev_filter)

end
