(* ===== verification/Json.thy ===== *)
theory Json
  imports Text
begin

text \<open>
  Decoded JSON (what \<open>json.loads\<close> yields and \<open>dict[str, Any]\<close> documents hold), dictionary access in
  Python's insertion order, and \<open>json.dumps\<close> with its options. A float is kept as the opaque text of
  its literal: no modelled code computes with one.
\<close>

section \<open>Values and dictionaries\<close>

datatype json =
    JNull
  | JBool bool
  | JInt int
  | JFloat string
  | JStr string
  | JArr "json list"
  | JObj "(string \<times> json) list"

type_synonym dict = "(string \<times> json) list"

abbreviation dict_get :: "dict \<Rightarrow> string \<Rightarrow> json option" where
  "dict_get d k \<equiv> map_of d k"

fun dict_set :: "dict \<Rightarrow> string \<Rightarrow> json \<Rightarrow> dict" where
  "dict_set [] k v = [(k, v)]"
| "dict_set ((j, u) # d) k v = (if j = k then (j, v) # d else (j, u) # dict_set d k v)"

definition dict_pop :: "dict \<Rightarrow> string \<Rightarrow> dict" where
  "dict_pop d k = filter (\<lambda>e. fst e \<noteq> k) d"

lemma dict_get_set [simp]: "dict_get (dict_set d k v) = (dict_get d)(k \<mapsto> v)"
  by (induction d k v rule: dict_set.induct) auto

lemma dict_keys_set: "set (map fst (dict_set d k v)) = insert k (set (map fst d))"
  by (induction d k v rule: dict_set.induct) auto

lemma dict_get_pop [simp]: "dict_get (dict_pop d k) j = (if j = k then None else dict_get d j)"
  by (simp add: dict_pop_def map_of_filter_key)

text \<open>\<open>dict.get(key)\<close> without a default: a missing key reads as \<open>None\<close>, like a stored null.\<close>

definition get_or_null :: "dict \<Rightarrow> string \<Rightarrow> json" where
  "get_or_null d k = (case dict_get d k of None \<Rightarrow> JNull | Some v \<Rightarrow> v)"

fun is_str :: "json \<Rightarrow> bool" where
  "is_str (JStr _) = True" | "is_str _ = False"

fun is_bool :: "json \<Rightarrow> bool" where
  "is_bool (JBool _) = True" | "is_bool _ = False"

text \<open>\<open>isinstance(v, int)\<close> also holds of a \<open>bool\<close>; \<open>type(v) is int\<close> does not.\<close>

fun is_instance_int :: "json \<Rightarrow> bool" where
  "is_instance_int (JInt _) = True"
| "is_instance_int (JBool _) = True"
| "is_instance_int _ = False"

fun is_exact_int :: "json \<Rightarrow> bool" where
  "is_exact_int (JInt _) = True" | "is_exact_int _ = False"

fun int_value :: "json \<Rightarrow> int" where
  "int_value (JInt i) = i"
| "int_value (JBool b) = (if b then 1 else 0)"
| "int_value _ = 0"

text \<open>Truth value of a decoded JSON value; the text of a float is true unless it denotes zero.\<close>

fun truthy :: "json \<Rightarrow> bool" where
  "truthy JNull = False"
| "truthy (JBool b) = b"
| "truthy (JInt i) = (i \<noteq> 0)"
| "truthy (JFloat t) = (t \<notin> {''0.0'', ''-0.0''})"
| "truthy (JStr s) = (s \<noteq> [])"
| "truthy (JArr xs) = (xs \<noteq> [])"
| "truthy (JObj d) = (d \<noteq> [])"

section \<open>\<open>json.dumps\<close>\<close>

definition hex_digit :: "nat \<Rightarrow> char" where
  "hex_digit n = (if n < 10 then chr (48 + n) else chr (87 + n))"

definition unicode_escape :: "char \<Rightarrow> string" where
  "unicode_escape c = [CHR 0x5C, CHR ''u'', CHR ''0'', CHR ''0'',
     hex_digit (code c div 16), hex_digit (code c mod 16)]"

definition escape_char :: "bool \<Rightarrow> char \<Rightarrow> string" where
  "escape_char ensure_ascii c =
     (if code c = 34 then [CHR 0x5C, CHR 0x22]
      else if code c = 92 then [CHR 0x5C, CHR 0x5C]
      else if code c = 10 then [CHR 0x5C, CHR ''n'']
      else if code c = 13 then [CHR 0x5C, CHR ''r'']
      else if code c = 9 then [CHR 0x5C, CHR ''t'']
      else if code c = 12 then [CHR 0x5C, CHR ''f'']
      else if code c = 8 then [CHR 0x5C, CHR ''b'']
      else if code c < 32 \<or> (ensure_ascii \<and> 126 < code c) then unicode_escape c
      else [c])"

definition dumps_str :: "bool \<Rightarrow> string \<Rightarrow> string" where
  "dumps_str ensure_ascii s = CHR 0x22 # concat (map (escape_char ensure_ascii) s) @ [CHR 0x22]"

fun join :: "string \<Rightarrow> string list \<Rightarrow> string" where
  "join sep [] = []"
| "join sep [x] = x"
| "join sep (x # y # zs) = x @ sep @ join sep (y # zs)"

text \<open>\<open>json.dumps(v, ensure_ascii=a, separators=(isep, ksep))\<close>\<close>

fun dumps :: "bool \<Rightarrow> string \<Rightarrow> string \<Rightarrow> json \<Rightarrow> string"
  and dumps_item :: "bool \<Rightarrow> string \<Rightarrow> string \<Rightarrow> string \<times> json \<Rightarrow> string" where
  "dumps a isep ksep JNull = ''null''"
| "dumps a isep ksep (JBool b) = (if b then ''true'' else ''false'')"
| "dumps a isep ksep (JInt i) = show_int i"
| "dumps a isep ksep (JFloat t) = t"
| "dumps a isep ksep (JStr s) = dumps_str a s"
| "dumps a isep ksep (JArr vs) = ''['' @ join isep (map (dumps a isep ksep) vs) @ '']''"
| "dumps a isep ksep (JObj d) = ''{'' @ join isep (map (dumps_item a isep ksep) d) @ ''}''"
| "dumps_item a isep ksep (k, v) = dumps_str a k @ ksep @ dumps a isep ksep v"

definition dumps_compact :: "bool \<Rightarrow> json \<Rightarrow> string" where
  "dumps_compact a = dumps a '','' '':''"

definition dumps_default :: "json \<Rightarrow> string" where
  "dumps_default = dumps True '', '' '': ''"

text \<open>\<open>json.dumps(v, indent=2, ensure_ascii=a)\<close>: one entry a line, indented by its depth.\<close>

definition line_at :: "nat \<Rightarrow> string" where
  "line_at n = chr 10 # replicate (2 * n) (CHR '' '')"

fun dumps_indent :: "bool \<Rightarrow> nat \<Rightarrow> json \<Rightarrow> string"
  and dumps_indent_item :: "bool \<Rightarrow> nat \<Rightarrow> string \<times> json \<Rightarrow> string" where
  "dumps_indent a n (JArr vs) = (if vs = [] then ''[]'' else
     ''['' @ line_at (Suc n) @ join ('','' @ line_at (Suc n)) (map (dumps_indent a (Suc n)) vs) @ line_at n @ '']'')"
| "dumps_indent a n (JObj d) = (if d = [] then ''{}'' else
     ''{'' @ line_at (Suc n) @ join ('','' @ line_at (Suc n)) (map (dumps_indent_item a (Suc n)) d)
     @ line_at n @ ''}'')"
| "dumps_indent a n v = dumps a '','' '': '' v"
| "dumps_indent_item a n (k, v) = dumps_str a k @ '': '' @ dumps_indent a n v"

text \<open>\<open>sort_keys=True\<close> sorts every object by key, nested ones included.\<close>

fun sorted_keys :: "json \<Rightarrow> json"
  and sorted_keys_item :: "string \<times> json \<Rightarrow> string \<times> json" where
  "sorted_keys (JArr vs) = JArr (map sorted_keys vs)"
| "sorted_keys (JObj d) = JObj (sort_key fst (map sorted_keys_item d))"
| "sorted_keys JNull = JNull"
| "sorted_keys (JBool b) = JBool b"
| "sorted_keys (JInt i) = JInt i"
| "sorted_keys (JFloat t) = JFloat t"
| "sorted_keys (JStr s) = JStr s"
| "sorted_keys_item (k, v) = (k, sorted_keys v)"

section \<open>\<open>str\<close> and \<open>repr\<close> of decoded JSON\<close>

definition repr_char :: "char \<Rightarrow> char \<Rightarrow> string" where
  "repr_char q c =
     (if c = q \<or> code c = 92 then [CHR 0x5C, c]
      else if code c = 10 then [CHR 0x5C, CHR ''n'']
      else if code c = 13 then [CHR 0x5C, CHR ''r'']
      else if code c = 9 then [CHR 0x5C, CHR ''t'']
      else if code c < 32 \<or> (126 < code c \<and> code c < 161) \<or> code c = 173
      then [CHR 0x5C, CHR ''x'', hex_digit (code c div 16), hex_digit (code c mod 16)]
      else [c])"

definition repr_str :: "string \<Rightarrow> string" where
  "repr_str s =
     (let q = (if CHR 0x27 \<in> set s \<and> CHR 0x22 \<notin> set s then CHR 0x22 else CHR 0x27)
      in q # concat (map (repr_char q) s) @ [q])"

fun py_repr :: "json \<Rightarrow> string"
  and py_repr_item :: "string \<times> json \<Rightarrow> string" where
  "py_repr JNull = ''None''"
| "py_repr (JBool b) = (if b then ''True'' else ''False'')"
| "py_repr (JInt i) = show_int i"
| "py_repr (JFloat t) = t"
| "py_repr (JStr s) = repr_str s"
| "py_repr (JArr vs) = ''['' @ join '', '' (map py_repr vs) @ '']''"
| "py_repr (JObj d) = ''{'' @ join '', '' (map py_repr_item d) @ ''}''"
| "py_repr_item (k, v) = repr_str k @ '': '' @ py_repr v"

fun py_str :: "json \<Rightarrow> string" where
  "py_str (JStr s) = s"
| "py_str v = py_repr v"

subsection \<open>The encoding of a string is injective\<close>

text \<open>No escape sequence is a proper prefix of another one, so an escaped string decodes uniquely.\<close>

definition hex_value :: "char \<Rightarrow> nat" where
  "hex_value h = (if code h < 58 then code h - 48 else code h - 87)"

fun decode_char :: "string \<Rightarrow> char \<times> string" where
  "decode_char (b # x # r) =
     (if code b \<noteq> 92 then (b, x # r)
      else if code x = 117
        then (chr (16 * hex_value (r ! 2) + hex_value (r ! 3)), drop 4 r)
      else (if code x = 110 then chr 10 else if code x = 114 then chr 13
            else if code x = 116 then chr 9 else if code x = 102 then chr 12
            else if code x = 98 then chr 8 else x, r))"
| "decode_char [b] = (b, [])"
| "decode_char [] = (chr 0, [])"

lemma hex_value_digit: "n < 16 \<Longrightarrow> hex_value (hex_digit n) = n"
  by (auto simp: hex_value_def hex_digit_def)

lemma code_lt: "code c < 256"
  by (simp add: code_def of_char_def)

lemma chr_code [simp]: "chr (code c) = c"
  by (simp add: chr_def code_def)

lemma code_eqD: "code c = n \<Longrightarrow> c = chr n"
  by auto

lemma decode_unicode: "decode_char (unicode_escape c @ xs) = (c, xs)"
proof -
  have "hex_value (hex_digit (code c div 16)) = code c div 16"
    using code_lt [of c] by (intro hex_value_digit) simp
  moreover have "hex_value (hex_digit (code c mod 16)) = code c mod 16"
    by (intro hex_value_digit) simp
  ultimately show ?thesis
    by (simp add: unicode_escape_def code_def [of "CHR 0x5C"] code_def [of "CHR ''u''"])
qed

lemma decode_plain: "code c \<noteq> 92 \<Longrightarrow> decode_char (c # xs) = (c, xs)"
  by (cases xs) auto

lemma chr_quote: "CHR 0x22 = chr 34"
  by (rule code_inject [THEN iffD1]) (simp add: code_def chr_def)

lemma chr_backslash: "CHR 0x5C = chr 92"
  by (rule code_inject [THEN iffD1]) (simp add: code_def chr_def)

lemma code_letters:
  "code (CHR ''n'') = 110" "code (CHR ''r'') = 114" "code (CHR ''t'') = 116"
  "code (CHR ''f'') = 102" "code (CHR ''b'') = 98" "code (CHR ''u'') = 117"
  by (simp_all add: code_def)

lemma decode_escape: "decode_char (escape_char a c @ xs) = (c, xs)"
proof -
  consider "code c \<in> {34, 92, 10, 13, 9, 12, 8}" | "code c \<notin> {34, 92, 10, 13, 9, 12, 8}"
    by blast
  then show ?thesis
  proof cases
    case 1
    moreover have "code c = n \<Longrightarrow> n \<noteq> 92 \<Longrightarrow> n \<noteq> 117 \<Longrightarrow> c = chr n" for n
      by (rule code_eqD)
    ultimately show ?thesis unfolding escape_char_def chr_quote chr_backslash
      by (elim insertE emptyE) (simp_all add: code_letters code_eqD [symmetric])
  next
    case 2
    then have "escape_char a c = unicode_escape c \<or> escape_char a c = [c] \<and> code c \<noteq> 92"
      by (simp add: escape_char_def)
    then show ?thesis using decode_unicode decode_plain by force
  qed
qed

lemma escape_char_inject:
  "escape_char a c @ xs = escape_char a d @ ys \<Longrightarrow> c = d \<and> xs = ys"
  by (metis decode_escape prod.inject)

lemma escape_char_shape: "\<exists>x r. escape_char a c = x # r \<and> x \<noteq> CHR 0x22"
  by (auto simp: escape_char_def unicode_escape_def code_def)

lemma dumps_str_inject:
  "dumps_str a s @ xs = dumps_str a t @ ys \<Longrightarrow> s = t \<and> xs = ys"
proof -
  have body: "concat (map (escape_char a) s) @ CHR 0x22 # xs
      = concat (map (escape_char a) t) @ CHR 0x22 # ys \<Longrightarrow> s = t \<and> xs = ys" for s t
  proof (induction s arbitrary: t)
    case Nil
    show ?case
    proof (cases t)
      case (Cons d u)
      with Nil escape_char_shape [of a d] show ?thesis by auto
    qed (use Nil in simp)
  next
    case (Cons c s)
    then obtain d u where t: "t = d # u"
      using escape_char_shape [of a c] by (cases t) auto
    have "escape_char a c @ concat (map (escape_char a) s) @ CHR 0x22 # xs
        = escape_char a d @ concat (map (escape_char a) u) @ CHR 0x22 # ys"
      using Cons.prems t by simp
    then have "c = d" and "concat (map (escape_char a) s) @ CHR 0x22 # xs
        = concat (map (escape_char a) u) @ CHR 0x22 # ys"
      by (blast dest: escape_char_inject)+
    with Cons.IH [of u] t show ?case by blast
  qed
  assume "dumps_str a s @ xs = dumps_str a t @ ys"
  then show "s = t \<and> xs = ys"
    by (intro body) (simp add: dumps_str_def)
qed

lemma dumps_pair:
  "dumps_compact a (JArr [JStr s, JStr t]) = ''['' @ dumps_str a s @ '','' @ dumps_str a t @ '']''"
  by (simp add: dumps_compact_def)

lemma dumps_pair_inject:
  "dumps_compact a (JArr [JStr s, JStr t]) = dumps_compact a (JArr [JStr u, JStr v]) \<longleftrightarrow>
     s = u \<and> t = v"
proof
  assume "dumps_compact a (JArr [JStr s, JStr t]) = dumps_compact a (JArr [JStr u, JStr v])"
  then have eq: "dumps_str a s @ '','' @ dumps_str a t @ '']'' = dumps_str a u @ '','' @ dumps_str a v @ '']''"
    unfolding dumps_pair same_append_eq .
  note outer = dumps_str_inject [OF eq]
  then have "dumps_str a t @ '']'' = dumps_str a v @ '']''"
    unfolding same_append_eq by (rule conjunct2)
  note inner = dumps_str_inject [OF this]
  show "s = u \<and> t = v" by (rule conjI, rule conjunct1 [OF outer], rule conjunct1 [OF inner])
qed simp

end
