(* ===== verification/Errors.thy ===== *)
theory Errors
  imports Json
begin

text \<open>
  The exceptions of the Product (\<open>errors.py\<close> and the Python exceptions its code raises or catches)
  and the mapping of Reactor error codes to canonical codes, causes and recovery actions.
\<close>

section \<open>Exception values\<close>

record product_error =
  pe_code :: string
  pe_title :: string
  pe_detail :: string
  pe_status :: int
  pe_retryable :: bool
  pe_resource_ref :: "string option"

record engine_failure =
  ef_detail :: string
  ef_execution_ref :: "string option"
  ef_endpoint_url :: "string option"
  ef_status :: int
  ef_retryable :: bool

text \<open>
  \<open>PyException name text code\<close> stands for any other exception: its class, its \<open>str\<close> and its
  \<open>code\<close> attribute when it has one. Pydantic's and \<open>json\<close>'s errors are \<open>ValueError\<close>s.
\<close>

datatype exn =
    ProductError product_error
  | EngineFailure engine_failure
  | OwnerFailure string int
  | BindingFailure string string
  | HttpError int string
  | ValueError string
  | KeyError string
  | TypeError string
  | IntegrityError string
  | PyException string string "string option"

type_synonym 'a res = "exn + 'a"

definition resB :: "'a res \<Rightarrow> ('a \<Rightarrow> 'b res) \<Rightarrow> 'b res" where
  "resB r f = (case r of Inl e \<Rightarrow> Inl e | Inr a \<Rightarrow> f a)"

lemma resB_simps [simp]: "resB (Inl e) f = Inl e" "resB (Inr a) f = f a"
  by (simp_all add: resB_def)

lemma resB_Inr_iff: "resB r f = Inr b \<longleftrightarrow> (\<exists>a. r = Inr a \<and> f a = Inr b)"
  by (cases r) simp_all

text \<open>\<open>ReactorProductError(code=..., title=..., detail=..., status=...)\<close> with its defaults\<close>

definition product_failure :: "string \<Rightarrow> string \<Rightarrow> string \<Rightarrow> int \<Rightarrow> exn" where
  "product_failure c t d s = ProductError
     \<lparr>pe_code = c, pe_title = t, pe_detail = d, pe_status = s, pe_retryable = False,
      pe_resource_ref = None\<rparr>"

text \<open>\<open>ServingEngineFailure(detail)\<close> with its defaults\<close>

definition serving_engine_failure :: "string \<Rightarrow> engine_failure" where
  "serving_engine_failure d =
     \<lparr>ef_detail = d, ef_execution_ref = None, ef_endpoint_url = None, ef_status = 422,
      ef_retryable = False\<rparr>"

section \<open>Canonical error codes\<close>

record error_mapping =
  em_code :: string
  em_cause_kind :: string
  em_recovery_action :: string

definition REACTOR_ERROR_MAPPINGS :: "(string \<times> error_mapping) list" where
  "REACTOR_ERROR_MAPPINGS = map (\<lambda>(k, c, r). (''REACTOR_'' @ k,
      \<lparr>em_code = ''PRODUCT.REACTOR.'' @ k, em_cause_kind = c, em_recovery_action = r\<rparr>))
     [(''PERMISSION_DENIED'', ''permission'', ''fix_configuration''),
      (''CREDENTIAL_INVALID'', ''credential'', ''fix_configuration''),
      (''REQUEST_INVALID'', ''validation'', ''fix_configuration''),
      (''BINDING_PERMISSION_DENIED'', ''permission'', ''fix_configuration''),
      (''BINDING_UNAVAILABLE'', ''infrastructure'', ''query_state_first''),
      (''DEPLOYMENT_NOT_FOUND'', ''not_found'', ''user_action_required''),
      (''DEPLOYMENT_DRAFT_NOT_FOUND'', ''not_found'', ''user_action_required''),
      (''MODEL_IMPORT_NOT_FOUND'', ''not_found'', ''user_action_required''),
      (''MODEL_IMPORT_FAILED'', ''execution'', ''fix_configuration''),
      (''IDEMPOTENCY_CONFLICT'', ''conflict'', ''safely_retry''),
      (''HANDOFF_FAILED'', ''network'', ''safely_retry''),
      (''INTERNAL_ERROR'', ''internal'', ''query_state_first'')]"

definition map_reactor_error :: "string \<Rightarrow> error_mapping" where
  "map_reactor_error raw =
     (case map_of REACTOR_ERROR_MAPPINGS raw of
        Some m \<Rightarrow> m
      | None \<Rightarrow>
          (let normalized = replace_char CHR '' '' CHR ''_'' (upper raw);
               canonical = (if \<not> startswith normalized ''PRODUCT.REACTOR.''
                            then ''PRODUCT.REACTOR.'' @ removeprefix normalized ''REACTOR_''
                            else normalized)
           in \<lparr>em_code = canonical, em_cause_kind = ''unknown'',
               em_recovery_action = ''query_state_first''\<rparr>))"

lemma listed_mapping:
  "map_of REACTOR_ERROR_MAPPINGS raw = Some m \<Longrightarrow> \<forall>e \<in> set REACTOR_ERROR_MAPPINGS. P (snd e) \<Longrightarrow> P m"
  by (auto dest!: map_of_SomeD)

lemma mapped_code_prefix: "startswith (em_code (map_reactor_error raw)) ''PRODUCT.REACTOR.''"
proof (cases "map_of REACTOR_ERROR_MAPPINGS raw")
  case None
  then show ?thesis unfolding map_reactor_error_def Let_def
    by (simp add: startswith_def)
next
  case (Some m)
  have "\<forall>e \<in> set REACTOR_ERROR_MAPPINGS. startswith (em_code (snd e)) ''PRODUCT.REACTOR.''"
    by (simp add: REACTOR_ERROR_MAPPINGS_def startswith_def)
  with Some show ?thesis
    by (simp add: map_reactor_error_def listed_mapping [where P = "\<lambda>m. startswith (em_code m) ''PRODUCT.REACTOR.''"])
qed

abbreviation normalize_code :: "string \<Rightarrow> string" where
  "normalize_code s \<equiv> replace_char CHR '' '' CHR ''_'' (upper s)"

lemma normalize_map:
  "normalize_code s = map (\<lambda>c. if to_upper c = CHR '' '' then CHR ''_'' else to_upper c) s"
  by (simp add: replace_char_def upper_def)

lemma normalize_idem: "normalize_code (normalize_code s) = normalize_code s"
  by (simp add: normalize_map)
    (simp add: to_upper_def is_lower_def code_def)

lemma normalize_removeprefix:
  "normalize_code s = s \<Longrightarrow> normalize_code (removeprefix s p) = removeprefix s p"
  by (simp add: normalize_map removeprefix_def) (metis drop_map)

lemma mapped_code_normal: "normalize_code (em_code (map_reactor_error raw)) = em_code (map_reactor_error raw)"
proof (cases "map_of REACTOR_ERROR_MAPPINGS raw")
  case None
  have "normalize_code (''PRODUCT.REACTOR.'' @ u) = ''PRODUCT.REACTOR.'' @ normalize_code u" for u
    by (simp add: normalize_map to_upper_def is_lower_def code_def)
  then show ?thesis using None normalize_removeprefix [OF normalize_idem]
    by (simp add: map_reactor_error_def Let_def normalize_idem)
next
  case (Some m)
  have "\<forall>e \<in> set REACTOR_ERROR_MAPPINGS. normalize_code (em_code (snd e)) = em_code (snd e)"
    by (simp add: REACTOR_ERROR_MAPPINGS_def normalize_map to_upper_def is_lower_def code_def)
  with Some show ?thesis
    by (simp add: map_reactor_error_def listed_mapping [where P = "\<lambda>m. normalize_code (em_code m) = em_code m"])
qed

lemma mapped_code_unlisted:
  "startswith s ''PRODUCT.REACTOR.'' \<Longrightarrow> map_of REACTOR_ERROR_MAPPINGS s = None"
proof -
  assume "startswith s ''PRODUCT.REACTOR.''"
  then have "hd s = CHR ''P''" by (auto simp: startswith_iff)
  moreover have "\<forall>k \<in> fst ` set REACTOR_ERROR_MAPPINGS. hd k = CHR ''R''"
    by (simp add: REACTOR_ERROR_MAPPINGS_def)
  ultimately have "s \<notin> fst ` set REACTOR_ERROR_MAPPINGS" by auto
  then show ?thesis by (simp add: map_of_eq_None_iff)
qed

end
