(* ===== verification/Domain.thy ===== *)
theory Domain
  imports Errors
begin

text \<open>
  The Product's documents (\<open>domain.py\<close>): enumerations, Deployment, Endpoint, ModelImport, drafts,
  events and diagnostics records, with the field constraints and the model validators. The Yield
  ModelVersion SDK and Pydantic's \<open>ArtifactRef.model_validate\<close> are not part of the repository: they
  are the parameter \<open>sdk\<close> of the validators.
\<close>

section \<open>Enumerations\<close>

datatype desired_state = DS_ACTIVE | DS_STOPPED

datatype observed_state =
  OS_STARTING | OS_READY | OS_DEGRADED | OS_FAILED | OS_STOPPING | OS_STOPPED

datatype deployment_phase =
    PH_QUEUED | PH_IMPORTING | PH_LOADING | PH_PROBING
  | PH_READY | PH_STOPPING | PH_RELEASED | PH_FAILED

datatype model_composition = FULL_MODEL | BASE_PLUS_LORA

datatype endpoint_state = ES_PROVISIONING | ES_READY | ES_UNHEALTHY | ES_RETIRED

datatype import_source_kind = HUGGING_FACE | LOCAL_PATH

datatype import_state = MI_VALIDATING | MI_READY | MI_FAILED

datatype draft_state = DR_DRAFT | DR_STARTED

datatype artifact_kind =
    AK_generic | AK_model | AK_dataset | AK_checkpoint | AK_training_spec
  | AK_metrics | AK_merged | AK_quantized | AK_report

fun composition_value :: "model_composition \<Rightarrow> string" where
  "composition_value FULL_MODEL = ''FULL_MODEL''"
| "composition_value BASE_PLUS_LORA = ''BASE_PLUS_LORA''"

section \<open>Documents\<close>

record deployment_event =
  ev_sequence :: int
  ev_phase :: deployment_phase
  ev_message :: string
  ev_occurred_at :: datetime
  ev_failure_code :: "string option"

record artifact_ref =
  ar_uri :: string
  ar_digest :: string
  ar_size_bytes :: int
  ar_kind :: artifact_kind
  ar_manifest_digest :: "string option"

definition hex64 :: "string \<Rightarrow> bool" where
  "hex64 s \<longleftrightarrow> length s = 64 \<and> (\<forall>c \<in> set s. is_hex c)"

definition sha256_ref :: "string \<Rightarrow> bool" where
  "sha256_ref s \<longleftrightarrow> startswith s ''sha256:'' \<and> hex64 (drop 7 s)"

definition artifact_ref_ok :: "artifact_ref \<Rightarrow> bool" where
  "artifact_ref_ok a \<longleftrightarrow>
     startswith (ar_uri a) ''artifact://sha256/'' \<and> hex64 (drop 18 (ar_uri a))
   \<and> sha256_ref (ar_digest a) \<and> 0 \<le> ar_size_bytes a
   \<and> (case ar_manifest_digest a of None \<Rightarrow> True | Some d \<Rightarrow> sha256_ref d)"

record product_failure_doc =
  pf_code :: string
  pf_message :: string
  pf_retryable :: bool

record node_ref =
  nr_node_id :: string
  nr_node_epoch :: int

record import_source =
  is_kind :: import_source_kind
  is_repository :: "string option"
  is_revision :: "string option"
  is_path :: "string option"

record import_validation =
  iv_weights :: bool
  iv_config :: bool
  iv_tokenizer :: bool
  iv_chat_template :: bool
  iv_license :: "string option"
  iv_provenance :: string
  iv_digest :: string
  iv_issues :: "string list"

record import_result =
  ir_model_artifact :: artifact_ref
  ir_validation :: import_validation

record model_import =
  mi_id :: uuid
  mi_name :: string
  mi_serving_binding_id :: string
  mi_source :: import_source
  mi_credential_ref :: "string option"
  mi_state :: import_state
  mi_model_artifact :: "artifact_ref option"
  mi_validation :: "import_validation option"
  mi_failure :: "product_failure_doc option"
  mi_created_at :: datetime
  mi_updated_at :: datetime
  mi_resource_version :: int

record import_request =
  iq_name :: string
  iq_serving_binding_id :: string
  iq_source :: import_source
  iq_credential_ref :: "string option"
  iq_trust_remote_code :: bool

record deployment =
  dp_id :: uuid
  dp_name :: string
  dp_model_artifact :: "artifact_ref option"
  dp_composition :: model_composition
  dp_model_version :: "dict option"
  dp_desired_state :: desired_state
  dp_observed_state :: observed_state
  dp_serving_binding_id :: string
  dp_node_ref :: "node_ref option"
  dp_endpoint_id :: "uuid option"
  dp_failure :: "product_failure_doc option"
  dp_created_at :: datetime
  dp_updated_at :: datetime
  dp_resource_version :: int

record endpoint =
  ep_id :: uuid
  ep_deployment_id :: uuid
  ep_state :: endpoint_state
  ep_url :: string
  ep_model :: "string option"
  ep_created_at :: datetime
  ep_updated_at :: datetime
  ep_resource_version :: int

text \<open>\<open>cq_composition_set\<close>: the caller supplied the field (\<open>"composition" in model_fields_set\<close>).\<close>

record deployment_request =
  cq_name :: string
  cq_model_artifact :: "artifact_ref option"
  cq_composition :: model_composition
  cq_composition_set :: bool
  cq_model_version :: "dict option"
  cq_serving_binding_id :: string
  cq_node_ref :: "node_ref option"

record engine_handle =
  eh_execution_ref :: string
  eh_endpoint_url :: string
  eh_model :: "string option"
  eh_model_version_id :: "string option"

record engine_observation =
  eo_ready :: bool
  eo_detail :: string

record resource_ref =
  rr_uri :: string
  rr_id :: uuid
  rr_resource_version :: int

record deployment_draft =
  dd_source_ref :: resource_ref
  dd_model_version :: dict
  dd_id :: uuid
  dd_resource_ref :: resource_ref
  dd_state :: draft_state
  dd_deployment_ref :: "resource_ref option"
  dd_created_at :: datetime

record diagnostic_record =
  dg_sequence :: int
  dg_timestamp :: string
  dg_level :: string
  dg_source :: string
  dg_stream :: string
  dg_code :: "string option"
  dg_message :: string
  dg_request_id :: "string option"
  dg_operation_id :: "string option"
  dg_resource_id :: "string option"
  dg_attempt_id :: "string option"
  dg_truncated :: bool

section \<open>Model versions\<close>

text \<open>
  \<open>sdk_from_dict\<close> and \<open>sdk_create\<close> are \<open>ModelVersion.from_dict(p).to_dict()\<close> and
  \<open>ModelVersion.create(p).to_dict()\<close>; \<open>sdk_artifact\<close> is \<open>ArtifactRef.model_validate\<close>.
\<close>

record sdk =
  sdk_from_dict :: "dict \<Rightarrow> json res"
  sdk_create :: "dict \<Rightarrow> json res"
  sdk_artifact :: "dict \<Rightarrow> artifact_ref res"

definition MODEL_VERSION_INVALID :: exn where
  "MODEL_VERSION_INVALID = ValueError ''MODEL_VERSION_INVALID: Yield ModelVersion validation failed''"

fun is_value_key_type_error :: "exn \<Rightarrow> bool" where
  "is_value_key_type_error (ValueError _) = True"
| "is_value_key_type_error (KeyError _) = True"
| "is_value_key_type_error (TypeError _) = True"
| "is_value_key_type_error _ = False"

fun canonical_document :: "json \<Rightarrow> dict option" where
  "canonical_document (JObj d) =
     (if is_str (get_or_null d ''id'')
         \<and> get_or_null d ''composition'' \<in> {JStr ''FULL_MODEL'', JStr ''BASE_PLUS_LORA''}
      then Some d else None)"
| "canonical_document _ = None"

definition canonical_model_version :: "sdk \<Rightarrow> dict \<Rightarrow> dict res" where
  "canonical_model_version k value =
     (case (if dict_get value ''id'' \<noteq> None then sdk_from_dict k value else sdk_create k value) of
        Inl e \<Rightarrow> Inl (if is_value_key_type_error e then MODEL_VERSION_INVALID else e)
      | Inr document \<Rightarrow>
          (case canonical_document document of
             None \<Rightarrow> Inl MODEL_VERSION_INVALID
           | Some d \<Rightarrow> Inr d))"

definition model_version_artifact :: "sdk \<Rightarrow> dict \<Rightarrow> artifact_ref res" where
  "model_version_artifact k document =
     (let value =
        (if get_or_null document ''composition'' = JStr ''FULL_MODEL''
         then get_or_null document ''fullModelArtifact''
         else if get_or_null document ''composition'' = JStr ''BASE_PLUS_LORA''
         then (case get_or_null document ''baseModel'' of
                 JObj b \<Rightarrow> get_or_null b ''artifact'' | _ \<Rightarrow> JNull)
         else JNull)
      in case value of
           JObj v \<Rightarrow> sdk_artifact k v
         | _ \<Rightarrow> Inl (ValueError ''MODEL_VERSION_INVALID: serving artifact is missing''))"

definition version_composition :: "dict \<Rightarrow> model_composition" where
  "version_composition canonical =
     (if get_or_null canonical ''composition'' = JStr ''FULL_MODEL'' then FULL_MODEL
      else BASE_PLUS_LORA)"

text \<open>\<open>model_version["id"]\<close> and its \<open>str\<close>\<close>

definition version_key :: "dict \<Rightarrow> json res" where
  "version_key mv = (case dict_get mv ''id'' of None \<Rightarrow> Inl (KeyError ''id'') | Some v \<Rightarrow> Inr v)"

definition version_id :: "dict \<Rightarrow> string res" where
  "version_id mv = (case version_key mv of Inl e \<Rightarrow> Inl e | Inr v \<Rightarrow> Inr (py_str v))"

section \<open>Model validators\<close>

definition MODEL_VERSION_REQUIRED :: exn where
  "MODEL_VERSION_REQUIRED =
     ValueError ''MODEL_VERSION_REQUIRED: composed deployments require modelVersion''"

definition validate_deployment :: "sdk \<Rightarrow> deployment \<Rightarrow> deployment res" where
  "validate_deployment k d =
     (case dp_model_version d of
        None \<Rightarrow>
          (if dp_composition d \<noteq> FULL_MODEL \<or> dp_model_artifact d = None
           then Inl MODEL_VERSION_REQUIRED else Inr d)
      | Some mv \<Rightarrow>
          (case canonical_model_version k mv of
             Inl e \<Rightarrow> Inl e
           | Inr canonical \<Rightarrow>
               (if version_composition canonical \<noteq> dp_composition d
                then Inl (ValueError ''MODEL_COMPOSITION_MISMATCH: deployment and modelVersion disagree'')
                else case model_version_artifact k canonical of
                  Inl e \<Rightarrow> Inl e
                | Inr projection \<Rightarrow>
                    (if dp_model_artifact d \<noteq> None \<and> dp_model_artifact d \<noteq> Some projection
                     then Inl (ValueError ''MODEL_ARTIFACT_MISMATCH: modelArtifact must match modelVersion'')
                     else Inr (d\<lparr>dp_model_version := Some canonical,
                                 dp_model_artifact := Some projection\<rparr>)))))"

definition validate_request :: "sdk \<Rightarrow> deployment_request \<Rightarrow> deployment_request res" where
  "validate_request k c =
     (case cq_model_version c of
        None \<Rightarrow>
          (if cq_composition c \<noteq> FULL_MODEL \<or> cq_model_artifact c = None
           then Inl MODEL_VERSION_REQUIRED else Inr c)
      | Some mv \<Rightarrow>
          (case canonical_model_version k mv of
             Inl e \<Rightarrow> Inl e
           | Inr canonical \<Rightarrow>
               (let mismatch = Inl (ValueError ''MODEL_COMPOSITION_MISMATCH: request and modelVersion disagree'');
                    finish = (\<lambda>c. case model_version_artifact k canonical of
                        Inl e \<Rightarrow> Inl e
                      | Inr projection \<Rightarrow>
                          (if cq_model_artifact c \<noteq> None \<and> cq_model_artifact c \<noteq> Some projection
                           then Inl (ValueError ''MODEL_ARTIFACT_MISMATCH: modelArtifact must match modelVersion'')
                           else Inr (c\<lparr>cq_model_version := Some canonical,
                                       cq_model_artifact := Some projection\<rparr>)))
                in if cq_composition c = FULL_MODEL \<and> version_composition canonical = BASE_PLUS_LORA
                   then (if cq_composition_set c then mismatch
                         else finish (c\<lparr>cq_composition := version_composition canonical\<rparr>))
                   else if version_composition canonical \<noteq> cq_composition c then mismatch
                   else finish c)))"

text \<open>\<open>Path(path).parts\<close> contains \<open>..\<close> exactly when a slash-separated segment of the path is \<open>..\<close>.\<close>

definition validate_source :: "import_source \<Rightarrow> import_source res" where
  "validate_source s =
     (let bad = (\<lambda>t. Inl (ValueError (''MODEL_IMPORT_SOURCE_INVALID: '' @ t)))
      in if is_kind s = HUGGING_FACE then
        (if (case is_repository s of None \<Rightarrow> True | Some r \<Rightarrow> r = [] \<or> CHR ''/'' \<notin> set r)
         then bad ''repository must be owner/name''
         else if is_revision s = None then bad ''a pinned 40-hex revision is required''
         else if is_path s \<noteq> None then bad ''a Hugging Face source cannot have a path''
         else Inr s)
      else
        (case is_path s of
           None \<Rightarrow> bad ''a local import requires an absolute path''
         | Some p \<Rightarrow>
             (if p = [] \<or> \<not> startswith p ''/'' then bad ''a local import requires an absolute path''
              else if ''..'' \<in> set (split_on CHR ''/'' p) then bad ''path traversal is not admitted''
              else if is_repository s \<noteq> None \<or> is_revision s \<noteq> None
              then bad ''a local source cannot have a repository''
              else Inr s)))"

definition DIAGNOSTIC_LEVELS :: "string list" where
  "DIAGNOSTIC_LEVELS = [''debug'', ''info'', ''warn'', ''error'']"

definition DIAGNOSTIC_STREAMS :: "string list" where
  "DIAGNOSTIC_STREAMS = [''stdout'', ''stderr'', ''combined'']"

definition DIAGNOSTIC_SOURCES :: "string list" where
  "DIAGNOSTIC_SOURCES = [''product'', ''trainer'', ''runtime'', ''platform'']"

definition json_opt_str :: "string option \<Rightarrow> json" where
  "json_opt_str x = (case x of None \<Rightarrow> JNull | Some s \<Rightarrow> JStr s)"

definition show_opt :: "string option \<Rightarrow> string" where
  "show_opt x = (case x of None \<Rightarrow> ''None'' | Some s \<Rightarrow> s)"

text \<open>
  \<open>DiagnosticRecord.model_validate\<close> on a stored document. Fields are read by their aliases, which
  is how the documents are written; unknown fields are refused (\<open>extra="forbid"\<close>).
\<close>

definition DIAGNOSTIC_FIELDS :: "string list" where
  "DIAGNOSTIC_FIELDS = [''sequence'', ''timestamp'', ''level'', ''source'', ''stream'', ''code'',
     ''message'', ''requestId'', ''operationId'', ''resourceId'', ''attemptId'', ''truncated'']"

definition field_opt_str :: "dict \<Rightarrow> string \<Rightarrow> string option res" where
  "field_opt_str d k = (case get_or_null d k of
      JNull \<Rightarrow> Inr None
    | JStr s \<Rightarrow> (if length s \<le> 200 then Inr (Some s) else Inl (ValueError k))
    | _ \<Rightarrow> Inl (ValueError k))"

definition field_literal :: "string list \<Rightarrow> string \<Rightarrow> dict \<Rightarrow> string \<Rightarrow> string res" where
  "field_literal allowed dflt d k = (case dict_get d k of
      None \<Rightarrow> Inr dflt
    | Some (JStr s) \<Rightarrow> (if s \<in> set allowed then Inr s else Inl (ValueError k))
    | Some _ \<Rightarrow> Inl (ValueError k))"

definition field_message :: "dict \<Rightarrow> string res" where
  "field_message d = (case dict_get d ''message'' of
      None \<Rightarrow> Inr []
    | Some (JStr s) \<Rightarrow> (if length s \<le> 8192 then Inr s else Inl (ValueError ''message''))
    | Some _ \<Rightarrow> Inl (ValueError ''message''))"

definition field_truncated :: "dict \<Rightarrow> bool res" where
  "field_truncated d = (case dict_get d ''truncated'' of
      None \<Rightarrow> Inr False | Some (JBool b) \<Rightarrow> Inr b | Some _ \<Rightarrow> Inl (ValueError ''truncated''))"

definition field_sequence :: "dict \<Rightarrow> int res" where
  "field_sequence d = (case dict_get d ''sequence'' of
      Some (JInt n) \<Rightarrow> (if 1 \<le> n then Inr n else Inl (ValueError ''sequence''))
    | _ \<Rightarrow> Inl (ValueError ''sequence''))"

definition field_timestamp :: "dict \<Rightarrow> string res" where
  "field_timestamp d = (case dict_get d ''timestamp'' of
      Some (JStr t) \<Rightarrow> Inr t | _ \<Rightarrow> Inl (ValueError ''timestamp''))"

definition validate_diagnostic :: "dict \<Rightarrow> diagnostic_record res" where
  "validate_diagnostic d =
     (if \<not> set (map fst d) \<subseteq> set DIAGNOSTIC_FIELDS then Inl (ValueError ''extra fields'')
      else resB (field_sequence d) (\<lambda>sq.
        resB (field_timestamp d) (\<lambda>ts.
        resB (field_literal DIAGNOSTIC_LEVELS ''info'' d ''level'') (\<lambda>lv.
        resB (field_literal DIAGNOSTIC_SOURCES ''product'' d ''source'') (\<lambda>src.
        resB (field_literal DIAGNOSTIC_STREAMS ''combined'' d ''stream'') (\<lambda>st.
        resB (field_opt_str d ''code'') (\<lambda>cd.
        resB (field_message d) (\<lambda>msg.
        resB (field_opt_str d ''requestId'') (\<lambda>rq.
        resB (field_opt_str d ''operationId'') (\<lambda>op.
        resB (field_opt_str d ''resourceId'') (\<lambda>rs.
        resB (field_opt_str d ''attemptId'') (\<lambda>at.
        resB (field_truncated d) (\<lambda>tr.
        Inr \<lparr>dg_sequence = sq, dg_timestamp = ts, dg_level = lv, dg_source = src,
             dg_stream = st, dg_code = cd, dg_message = msg, dg_request_id = rq,
             dg_operation_id = op, dg_resource_id = rs, dg_attempt_id = at,
             dg_truncated = tr\<rparr>)))))))))))))"

text \<open>\<open>model_dump(by_alias=True)\<close>\<close>

definition dump_diagnostic :: "diagnostic_record \<Rightarrow> dict" where
  "dump_diagnostic r =
     [(''sequence'', JInt (dg_sequence r)), (''timestamp'', JStr (dg_timestamp r)),
      (''level'', JStr (dg_level r)), (''source'', JStr (dg_source r)), (''stream'', JStr (dg_stream r)),
      (''code'', json_opt_str (dg_code r)), (''message'', JStr (dg_message r)),
      (''requestId'', json_opt_str (dg_request_id r)),
      (''operationId'', json_opt_str (dg_operation_id r)),
      (''resourceId'', json_opt_str (dg_resource_id r)),
      (''attemptId'', json_opt_str (dg_attempt_id r)), (''truncated'', JBool (dg_truncated r))]"

section \<open>Facts\<close>

lemma canonical_document_Some:
  "canonical_document j = Some d \<Longrightarrow>
     j = JObj d \<and> is_str (get_or_null d ''id'')
     \<and> get_or_null d ''composition'' \<in> {JStr ''FULL_MODEL'', JStr ''BASE_PLUS_LORA''}"
  by (cases j) (auto split: if_splits)

lemma canonical_model_version_ok:
  "canonical_model_version k v = Inr d \<Longrightarrow>
     is_str (get_or_null d ''id'')
     \<and> get_or_null d ''composition'' = JStr (composition_value (version_composition d))"
proof -
  assume "canonical_model_version k v = Inr d"
  then obtain j where "canonical_document j = Some d"
    unfolding canonical_model_version_def by (auto split: sum.splits option.splits if_splits)
  from canonical_document_Some [OF this]
  have "is_str (get_or_null d ''id'')"
    and "get_or_null d ''composition'' \<in> {JStr ''FULL_MODEL'', JStr ''BASE_PLUS_LORA''}"
    by blast+
  then show ?thesis
    by (cases "get_or_null d ''composition'' = JStr ''FULL_MODEL''")
      (simp_all add: version_composition_def)
qed

lemma validate_deployment_cases:
  assumes "validate_deployment k d = Inr d'"
  obtains (plain) "dp_model_version d = None" "dp_composition d = FULL_MODEL"
      "dp_model_artifact d \<noteq> None" "d' = d"
  | (versioned) mv c p where "dp_model_version d = Some mv" "canonical_model_version k mv = Inr c"
      "version_composition c = dp_composition d" "model_version_artifact k c = Inr p"
      "dp_model_artifact d = None \<or> dp_model_artifact d = Some p"
      "d' = d\<lparr>dp_model_version := Some c, dp_model_artifact := Some p\<rparr>"
proof (cases "dp_model_version d")
  case None
  with assms show ?thesis
    by (intro plain) (simp_all add: validate_deployment_def split: if_splits)
next
  case mv: (Some mv)
  show ?thesis
  proof (cases "canonical_model_version k mv")
    case c: (Inr c)
    show ?thesis
    proof (cases "model_version_artifact k c")
      case (Inr p)
      with assms mv c show ?thesis
        by (intro versioned [of mv c p]) (simp_all add: validate_deployment_def split: if_splits)
    qed (use assms mv c in \<open>simp add: validate_deployment_def split: if_splits\<close>)
  qed (use assms mv in \<open>simp add: validate_deployment_def\<close>)
qed

end
