(* ===== verification/Store.thy ===== *)
theory Store
  imports Domain
begin

text \<open>
  The Product store (\<open>store.py\<close>): the tables of the SQLite database in row order, and every
  operation of \<open>ReactorStore\<close> on deployments, endpoints, drafts, model imports, idempotency keys,
  events and diagnostics. A document column holds the document itself: Pydantic's dump and reload of
  a document is taken to be the identity. \<open>txn\<close> is \<open>with self._lock, self._connection\<close>.
\<close>

section \<open>Tables\<close>

record diagnostic_row =
  dr_index :: int
  dr_sequence :: int
  dr_document :: dict

record store =
  st_deployments :: "(uuid \<times> deployment) list"
  st_endpoints :: "(uuid \<times> uuid \<times> endpoint) list"
  st_drafts :: "(uuid \<times> deployment_draft) list"
  st_evidence :: "(uuid \<times> string) list"
  st_imports :: "(uuid \<times> model_import) list"
  st_import_scopes :: "(uuid \<times> string \<times> string) list"
  st_idempotency :: "((string \<times> string) \<times> string \<times> uuid) list"
  st_events :: "(uuid \<times> deployment_event) list"
  st_diagnostics :: "(uuid \<times> diagnostic_row) list"
  st_cursors :: "(uuid \<times> int) list"

definition empty_store :: store where
  "empty_store =
     \<lparr>st_deployments = [], st_endpoints = [], st_drafts = [], st_evidence = [], st_imports = [],
      st_import_scopes = [], st_idempotency = [], st_events = [], st_diagnostics = [],
      st_cursors = []\<rparr>"

type_synonym 'a store_op = "(store, exn, 'a) py"

definition integrity :: "string \<Rightarrow> exn" where
  "integrity t = IntegrityError (''UNIQUE constraint failed: '' @ t)"

text \<open>Rows of one deployment, in \<open>rowid\<close> order.\<close>

definition rows_of :: "('k \<times> 'v) list \<Rightarrow> 'k \<Rightarrow> 'v list" where
  "rows_of t k = map snd (filter (\<lambda>r. fst r = k) t)"

text \<open>\<open>COALESCE(MAX(x), 0)\<close>\<close>

fun max_or_zero :: "int list \<Rightarrow> int" where
  "max_or_zero [] = 0"
| "max_or_zero (x # xs) = foldl max x xs"

section \<open>Deployments and endpoints\<close>

definition save_deployment :: "deployment \<Rightarrow> unit store_op" where
  "save_deployment d = txn (modS (\<lambda>s. s\<lparr>st_deployments := tbl_replace (dp_id d) d (st_deployments s)\<rparr>))"

text \<open>
  \<open>endpoints.deployment_id\<close> is \<open>UNIQUE\<close>: the replaced rows are those with the same id and those of
  the same deployment.
\<close>

definition replace_endpoint :: "endpoint \<Rightarrow> (uuid \<times> uuid \<times> endpoint) list \<Rightarrow> (uuid \<times> uuid \<times> endpoint) list" where
  "replace_endpoint e t =
     filter (\<lambda>r. fst r \<noteq> ep_id e \<and> fst (snd r) \<noteq> ep_deployment_id e) t
       @ [(ep_id e, ep_deployment_id e, e)]"

definition save_pair :: "deployment \<Rightarrow> endpoint \<Rightarrow> string option \<Rightarrow> unit store_op" where
  "save_pair d e execution_ref = txn
     (bindE (modS (\<lambda>s. s\<lparr>st_deployments := tbl_replace (dp_id d) d (st_deployments s)\<rparr>)) (\<lambda>_.
      bindE (modS (\<lambda>s. s\<lparr>st_endpoints := replace_endpoint e (st_endpoints s)\<rparr>)) (\<lambda>_.
      case execution_ref of
        None \<Rightarrow> ret ()
      | Some x \<Rightarrow> modS (\<lambda>s. s\<lparr>st_evidence := tbl_replace (dp_id d) x (st_evidence s)\<rparr>))))"

definition get_execution_ref :: "uuid \<Rightarrow> store \<Rightarrow> string option" where
  "get_execution_ref i s = map_of (st_evidence s) i"

definition get_deployment_row :: "uuid \<Rightarrow> store \<Rightarrow> deployment option" where
  "get_deployment_row i s = map_of (st_deployments s) i"

definition list_deployments :: "store \<Rightarrow> deployment list" where
  "list_deployments s = map snd (rev (st_deployments s))"

definition get_endpoint_row :: "uuid \<Rightarrow> store \<Rightarrow> endpoint option" where
  "get_endpoint_row i s = map_option snd (map_of (st_endpoints s) i)"

section \<open>Idempotency keys\<close>

definition idempotency_conflict :: "string \<Rightarrow> string \<Rightarrow> exn" where
  "idempotency_conflict t d = product_failure ''REACTOR_IDEMPOTENCY_CONFLICT'' t d 409"

definition resolve_idempotency :: "string option \<Rightarrow> string \<Rightarrow> string option store_op" where
  "resolve_idempotency key digest =
     (case key of
        None \<Rightarrow> ret None
      | Some k \<Rightarrow>
          bindE (getS (\<lambda>s. map_of (st_idempotency s) (''create-deployment'', k))) (\<lambda>row.
            case row of
              None \<Rightarrow> ret None
            | Some r \<Rightarrow>
                (if fst r \<noteq> digest
                 then raise (idempotency_conflict ''Idempotency key conflict''
                   ''The Idempotency-Key was already used with a different request body.'')
                 else ret (Some (snd r)))))"

definition insert_idempotency :: "string \<Rightarrow> string \<Rightarrow> string \<Rightarrow> uuid \<Rightarrow> unit store_op" where
  "insert_idempotency scope key digest i =
     bindE (getS (\<lambda>s. tbl_has (scope, key) (st_idempotency s))) (\<lambda>dup.
       if dup then raise (integrity ''idempotency.scope, idempotency.key'')
       else modS (\<lambda>s. s\<lparr>st_idempotency := st_idempotency s @ [((scope, key), digest, i)]\<rparr>))"

definition remember_idempotency :: "string option \<Rightarrow> string \<Rightarrow> uuid \<Rightarrow> unit store_op" where
  "remember_idempotency key digest i =
     (case key of None \<Rightarrow> ret () | Some k \<Rightarrow> txn (insert_idempotency ''create-deployment'' k digest i))"

definition insert_deployment :: "deployment \<Rightarrow> unit store_op" where
  "insert_deployment d =
     bindE (getS (\<lambda>s. tbl_has (dp_id d) (st_deployments s))) (\<lambda>dup.
       if dup then raise (integrity ''deployments.id'')
       else modS (\<lambda>s. s\<lparr>st_deployments := st_deployments s @ [(dp_id d, d)]\<rparr>))"

definition create_intent :: "deployment \<Rightarrow> string option \<Rightarrow> string \<Rightarrow> string option store_op" where
  "create_intent d key digest = txn
     (bindE (resolve_idempotency key digest) (\<lambda>replay.
      case replay of
        Some r \<Rightarrow> ret (Some r)
      | None \<Rightarrow>
          bindE (insert_deployment d) (\<lambda>_.
          bindE (case key of
                   None \<Rightarrow> ret ()
                 | Some k \<Rightarrow> insert_idempotency ''create-deployment'' k digest (dp_id d)) (\<lambda>_.
          ret None))))"

section \<open>Drafts\<close>

definition save_draft :: "deployment_draft \<Rightarrow> unit store_op" where
  "save_draft d = txn (modS (\<lambda>s. s\<lparr>st_drafts := tbl_replace (dd_id d) d (st_drafts s)\<rparr>))"

definition get_draft :: "uuid \<Rightarrow> deployment_draft store_op" where
  "get_draft i =
     bindE (getS (\<lambda>s. map_of (st_drafts s) i)) (\<lambda>row.
       case row of
         None \<Rightarrow> raise (product_failure ''REACTOR_DRAFT_NOT_FOUND'' ''Deployment draft not found''
                   ''The selected deployment draft does not exist.'' 404)
       | Some d \<Rightarrow> ret d)"

definition list_drafts :: "store \<Rightarrow> deployment_draft list" where
  "list_drafts s = map snd (rev (st_drafts s))"

definition create_draft :: "deployment_draft \<Rightarrow> string \<Rightarrow> string \<Rightarrow> deployment_draft store_op" where
  "create_draft d key digest = txn
     (bindE (getS (\<lambda>s. map_of (st_idempotency s) (''deployment-draft'', key))) (\<lambda>row.
      case row of
        Some r \<Rightarrow>
          (if fst r \<noteq> digest
           then raise (idempotency_conflict ''Draft request conflict''
             ''This handoff key already identifies another request.'')
           else get_draft (snd r))
      | None \<Rightarrow>
          bindE (getS (\<lambda>s. tbl_has (dd_id d) (st_drafts s))) (\<lambda>dup.
          bindE (if dup then raise (integrity ''deployment_drafts.id'')
                 else modS (\<lambda>s. s\<lparr>st_drafts := st_drafts s @ [(dd_id d, d)]\<rparr>)) (\<lambda>_.
          bindE (insert_idempotency ''deployment-draft'' key digest (dd_id d)) (\<lambda>_.
          ret d)))))"

section \<open>Model imports\<close>

definition resolve_model_import_request ::
    "string option \<Rightarrow> string \<Rightarrow> string \<Rightarrow> string option store_op" where
  "resolve_model_import_request key digest scope =
     (case key of
        None \<Rightarrow> ret None
      | Some k \<Rightarrow>
          bindE (getS (\<lambda>s. map_of (st_idempotency s) (scope, k))) (\<lambda>row.
            case row of
              None \<Rightarrow> ret None
            | Some r \<Rightarrow>
                (if fst r \<noteq> digest
                 then raise (idempotency_conflict ''Idempotency key conflict''
                   ''The Idempotency-Key was already used with a different import request.'')
                 else ret (Some (snd r)))))"

definition model_import_scope :: "uuid \<Rightarrow> store \<Rightarrow> (string \<times> string) option" where
  "model_import_scope i s = map_of (st_import_scopes s) i"

definition binding_not_granted :: exn where
  "binding_not_granted = product_failure ''REACTOR_WORKSPACE_BINDING_NOT_GRANTED''
     ''Serving binding is not granted''
     ''The selected serving binding is not granted to this Workspace.'' 403"

definition insert_import :: "model_import \<Rightarrow> unit store_op" where
  "insert_import m =
     bindE (getS (\<lambda>s. tbl_has (mi_id m) (st_imports s))) (\<lambda>dup.
       if dup then raise (integrity ''model_imports.id'')
       else modS (\<lambda>s. s\<lparr>st_imports := st_imports s @ [(mi_id m, m)]\<rparr>))"

definition insert_import_scope :: "uuid \<Rightarrow> string \<times> string \<Rightarrow> unit store_op" where
  "insert_import_scope i w =
     bindE (getS (\<lambda>s. tbl_has i (st_import_scopes s))) (\<lambda>dup.
       if dup then raise (integrity ''model_import_scopes.id'')
       else modS (\<lambda>s. s\<lparr>st_import_scopes := st_import_scopes s @ [(i, w)]\<rparr>))"

definition commit_model_import_intent ::
    "model_import \<Rightarrow> string option \<Rightarrow> string \<Rightarrow> string \<Rightarrow> (string \<times> string) option
     \<Rightarrow> (string \<times> string \<times> string) list \<Rightarrow> string option store_op" where
  "commit_model_import_intent m key digest scope workspace grants = txn
     (if (case workspace of
            None \<Rightarrow> False
          | Some w \<Rightarrow> (mi_serving_binding_id m, fst w, snd w) \<notin> set grants)
      then raise binding_not_granted
      else bindE (resolve_model_import_request key digest scope) (\<lambda>replay.
        case replay of
          Some r \<Rightarrow>
            bindE (getS (model_import_scope r)) (\<lambda>w.
              if w \<noteq> workspace
              then raise (product_failure ''REACTOR_WORKSPACE_SCOPE_CONFLICT''
                ''Workspace scope conflict'' ''The ModelImport belongs to a different Workspace scope.'' 409)
              else ret (Some r))
        | None \<Rightarrow>
            bindE (insert_import m) (\<lambda>_.
            bindE (case key of None \<Rightarrow> ret () | Some k \<Rightarrow> insert_idempotency scope k digest (mi_id m)) (\<lambda>_.
            bindE (case workspace of None \<Rightarrow> ret () | Some w \<Rightarrow> insert_import_scope (mi_id m) w) (\<lambda>_.
            ret None)))))"

definition save_model_import :: "model_import \<Rightarrow> unit store_op" where
  "save_model_import m = txn (modS (\<lambda>s. s\<lparr>st_imports := tbl_replace (mi_id m) m (st_imports s)\<rparr>))"

definition get_model_import_row :: "uuid \<Rightarrow> store \<Rightarrow> model_import option" where
  "get_model_import_row i s = map_of (st_imports s) i"

definition get_unscoped_model_import :: "uuid \<Rightarrow> store \<Rightarrow> model_import option" where
  "get_unscoped_model_import i s =
     (if map_of (st_import_scopes s) i = None then map_of (st_imports s) i else None)"

definition get_model_import_for_workspace :: "uuid \<Rightarrow> string \<Rightarrow> string \<Rightarrow> store \<Rightarrow> model_import option" where
  "get_model_import_for_workspace i organization workspace s =
     (if map_of (st_import_scopes s) i = Some (organization, workspace)
      then map_of (st_imports s) i else None)"

definition list_model_imports_rows :: "store \<Rightarrow> model_import list" where
  "list_model_imports_rows s =
     map snd (filter (\<lambda>r. map_of (st_import_scopes s) (fst r) = None) (rev (st_imports s)))"

definition list_model_imports_for_workspace_rows :: "string \<Rightarrow> string \<Rightarrow> store \<Rightarrow> model_import list" where
  "list_model_imports_for_workspace_rows organization workspace s =
     map snd (filter (\<lambda>r. map_of (st_import_scopes s) (fst r) = Some (organization, workspace))
       (rev (st_imports s)))"

definition list_active_activity_tasks :: "store \<Rightarrow> (string \<times> string) list" where
  "list_active_activity_tasks s =
     map (\<lambda>m. (''model-import:'' @ mi_id m, ''RUNNING''))
       (filter (\<lambda>m. mi_state m = MI_VALIDATING) (map snd (st_imports s)))
     @ map (\<lambda>d. (''deployment:'' @ dp_id d,
                  if dp_observed_state d = OS_STOPPING then ''CANCELING'' else ''DISPATCHING''))
         (filter (\<lambda>d. dp_observed_state d \<in> {OS_STARTING, OS_STOPPING}) (list_deployments s))"

section \<open>Events\<close>

definition append_deployment_event ::
    "uuid \<Rightarrow> deployment_phase \<Rightarrow> string \<Rightarrow> datetime \<Rightarrow> string option \<Rightarrow> deployment_event store_op" where
  "append_deployment_event i phase message occurred_at failure_code = txn
     (bindE (getS (\<lambda>s. max_or_zero (map ev_sequence (rows_of (st_events s) i)) + 1)) (\<lambda>sq.
      bindE (getS (\<lambda>s. sq \<in> set (map ev_sequence (rows_of (st_events s) i)))) (\<lambda>dup.
      let event = \<lparr>ev_sequence = sq, ev_phase = phase, ev_message = message,
                   ev_occurred_at = occurred_at, ev_failure_code = failure_code\<rparr>
      in if dup then raise (integrity ''deployment_events.deployment_id, deployment_events.sequence'')
         else bindE (modS (\<lambda>s. s\<lparr>st_events := st_events s @ [(i, event)]\<rparr>)) (\<lambda>_. ret event))))"

definition list_deployment_events :: "uuid \<Rightarrow> store \<Rightarrow> deployment_event list" where
  "list_deployment_events i s = sort_key ev_sequence (rows_of (st_events s) i)"

section \<open>Diagnostics\<close>

definition replace_diagnostic ::
    "uuid \<Rightarrow> diagnostic_row \<Rightarrow> (uuid \<times> diagnostic_row) list \<Rightarrow> (uuid \<times> diagnostic_row) list" where
  "replace_diagnostic i r t =
     filter (\<lambda>q. \<not> (fst q = i \<and> dr_index (snd q) = dr_index r)) t @ [(i, r)]"

fun append_diagnostic_rows ::
    "uuid \<Rightarrow> int \<Rightarrow> int \<Rightarrow> dict list \<Rightarrow> (uuid \<times> diagnostic_row) list \<Rightarrow> (uuid \<times> diagnostic_row) list" where
  "append_diagnostic_rows i index sq [] t = t"
| "append_diagnostic_rows i index sq (document # documents) t =
     append_diagnostic_rows i (index + 1) (sq + 1) documents
       (replace_diagnostic i
          \<lparr>dr_index = index, dr_sequence = sq + 1,
           dr_document = dict_set document ''sequence'' (JInt (sq + 1))\<rparr> t)"

fun numbered_documents :: "int \<Rightarrow> dict list \<Rightarrow> dict list" where
  "numbered_documents sq [] = []"
| "numbered_documents sq (document # documents) =
     dict_set document ''sequence'' (JInt (sq + 1)) # numbered_documents (sq + 1) documents"

definition append_deployment_diagnostics :: "uuid \<Rightarrow> dict list \<Rightarrow> dict list store_op" where
  "append_deployment_diagnostics i documents =
     (if documents = [] then ret []
      else txn
        (bindE (getS (\<lambda>s. max_or_zero (map dr_sequence (rows_of (st_diagnostics s) i)))) (\<lambda>sq.
         bindE (getS (\<lambda>s. int (length (rows_of (st_diagnostics s) i)))) (\<lambda>index.
         bindE (modS (\<lambda>s. s\<lparr>st_diagnostics :=
            append_diagnostic_rows i index sq documents (st_diagnostics s)\<rparr>)) (\<lambda>_.
         ret (numbered_documents sq documents))))))"

definition deployment_diagnostics_count :: "uuid \<Rightarrow> store \<Rightarrow> int" where
  "deployment_diagnostics_count i s = int (length (rows_of (st_diagnostics s) i))"

definition list_deployment_diagnostics :: "uuid \<Rightarrow> int \<Rightarrow> int \<Rightarrow> store \<Rightarrow> dict list" where
  "list_deployment_diagnostics i after_sequence limit s =
     (let bounded = max 1 (min limit 500)
      in map dr_document (take (nat bounded)
           (sort_key dr_sequence
             (filter (\<lambda>r. after_sequence < dr_sequence r) (rows_of (st_diagnostics s) i)))))"

text \<open>\<open>LIKE '%...%'\<close> over the stored text, which SQLite compares without regard to ASCII case.\<close>

definition deployment_diagnostics_degraded :: "uuid \<Rightarrow> store \<Rightarrow> bool" where
  "deployment_diagnostics_degraded i s \<longleftrightarrow>
     (\<exists>r \<in> set (rows_of (st_diagnostics s) i).
        contains (lower (dumps_default (sorted_keys (JObj (dr_document r)))))
          (lower ''REACTOR.DIAGNOSTICS.DEGRADED''))"

definition runtime_diagnostics_cursor :: "uuid \<Rightarrow> store \<Rightarrow> int" where
  "runtime_diagnostics_cursor i s = (case map_of (st_cursors s) i of None \<Rightarrow> 0 | Some c \<Rightarrow> c)"

definition set_runtime_diagnostics_cursor :: "uuid \<Rightarrow> int \<Rightarrow> unit store_op" where
  "set_runtime_diagnostics_cursor i c =
     txn (modS (\<lambda>s. s\<lparr>st_cursors := tbl_replace i c (st_cursors s)\<rparr>))"

section \<open>Migration of public execution references\<close>

text \<open>
  Before the Product models read it, a deployment document is a JSON object. The migration works on
  the rows of \<open>deployments\<close> in this raw form and on the evidence table.
\<close>

definition legacy_ref :: "dict \<Rightarrow> string option" where
  "legacy_ref d = (case dict_get d ''engineExecutionRef'' of
      Some (JStr r) \<Rightarrow> (if r = [] then None else Some r) | _ \<Rightarrow> None)"

fun migrate_rows ::
    "(uuid \<times> dict) list \<Rightarrow> (uuid \<times> string) list \<Rightarrow> (uuid \<times> dict) list \<times> (uuid \<times> string) list" where
  "migrate_rows [] evidence = ([], evidence)"
| "migrate_rows ((i, document) # rows) evidence =
     (case legacy_ref document of
        None \<Rightarrow> (case migrate_rows rows evidence of (rs, ev) \<Rightarrow> ((i, document) # rs, ev))
      | Some r \<Rightarrow>
          (case migrate_rows rows (if tbl_has i evidence then evidence else evidence @ [(i, r)]) of
             (rs, ev) \<Rightarrow> ((i, dict_pop document ''engineExecutionRef'') # rs, ev)))"

definition migrate_execution_evidence ::
    "(uuid \<times> dict) list \<times> (uuid \<times> string) list \<Rightarrow> (uuid \<times> dict) list \<times> (uuid \<times> string) list" where
  "migrate_execution_evidence db = migrate_rows (fst db) (snd db)"

end
