(* ===== verification/Interfaces.thy ===== *)
theory Interfaces
  imports Prelude
begin

text \<open>
  The contracts between the Product store and its clients, each proved about once and interpreted on
  the store's own operations in \<open>Store_Facts\<close>: a keyed table with its newest-first listing, a
  ledger numbered from one per resource with cursor paging, and an idempotent create command.
\<close>

section \<open>Keyed tables\<close>

locale keyed_table =
  fixes inv :: "'s \<Rightarrow> bool"
    and key :: "'v \<Rightarrow> 'k"
    and put :: "'v \<Rightarrow> 's \<Rightarrow> 's"
    and get :: "'k \<Rightarrow> 's \<Rightarrow> 'v option"
    and lst :: "'s \<Rightarrow> 'v list"
  assumes inv_put: "inv s \<Longrightarrow> inv (put v s)"
    and get_put: "get k (put v s) = (if k = key v then Some v else get k s)"
    and lst_put: "inv s \<Longrightarrow> lst (put v s) = v # filter (\<lambda>w. key w \<noteq> key v) (lst s)"
    and get_lst: "inv s \<Longrightarrow> get k s = Some v \<longleftrightarrow> v \<in> set (lst s) \<and> key v = k"
begin

lemma get_put_same: "get (key v) (put v s) = Some v"
  by (simp add: get_put)

lemma put_absorbs: "inv s \<Longrightarrow> key v = key w \<Longrightarrow> lst (put w (put v s)) = lst (put w s)"
  by (simp add: lst_put inv_put)

lemma newest_first: "inv s \<Longrightarrow> hd (lst (put v s)) = v"
  by (simp add: lst_put)

lemma inv_fold_put: "inv s \<Longrightarrow> inv (fold put vs s)"
  by (induction vs arbitrary: s) (simp_all add: inv_put)

lemma get_fold_put: "k \<notin> key ` set vs \<Longrightarrow> get k (fold put vs s) = get k s"
  by (induction vs arbitrary: s) (simp_all add: get_put)

lemma last_put_wins: "k \<notin> key ` set ws \<Longrightarrow> key v = k \<Longrightarrow> get k (fold put (us @ v # ws) s) = Some v"
  by (simp add: get_fold_put get_put)

lemma listed_once: "inv s \<Longrightarrow> v \<in> set (lst s) \<Longrightarrow> w \<in> set (lst s) \<Longrightarrow> key v = key w \<Longrightarrow> v = w"
  by (metis get_lst option.inject)

end

section \<open>Numbered ledgers\<close>

text \<open>
  Under the invariant the entries of every resource carry 1, 2, 3, ... in this order; an append
  extends the entries of its resource and no other.
\<close>

locale seq_ledger =
  fixes inv :: "'s \<Rightarrow> bool"
    and entries :: "'s \<Rightarrow> 'k \<Rightarrow> 'x list"
    and seqno :: "'x \<Rightarrow> int"
    and put :: "'k \<Rightarrow> 'p \<Rightarrow> 's \<Rightarrow> 's"
    and size_of :: "'p \<Rightarrow> nat"
  assumes inv_numbered: "inv s \<Longrightarrow> map seqno (entries s k) = map int [1..<Suc (length (entries s k))]"
    and inv_put: "inv s \<Longrightarrow> inv (put k p s)"
    and put_extends: "inv s \<Longrightarrow>
        \<exists>xs. entries (put k p s) k = entries s k @ xs \<and> length xs = size_of p"
    and put_other: "j \<noteq> k \<Longrightarrow> entries (put k p s) j = entries s j"
begin

definition page :: "'s \<Rightarrow> 'k \<Rightarrow> int \<Rightarrow> nat \<Rightarrow> 'x list" where
  "page s k after n = take n (sort_key seqno (filter (\<lambda>x. after < seqno x) (entries s k)))"

definition next_cursor :: "int \<Rightarrow> 'x list \<Rightarrow> int" where
  "next_cursor after xs = (if xs = [] then after else seqno (last xs))"

lemma seqno_nth: "inv s \<Longrightarrow> n < length (entries s k) \<Longrightarrow> seqno (entries s k ! n) = int n + 1"
proof -
  assume a: "inv s" "n < length (entries s k)"
  then have "seqno (entries s k ! n) = map seqno (entries s k) ! n" by simp
  also have "\<dots> = int n + 1" using a by (simp add: inv_numbered del: upt_Suc)
  finally show ?thesis .
qed

lemma put_prefix: "inv s \<Longrightarrow> prefix (entries s j) (entries (put k p s) j)"
  using put_extends [of s k p] put_other [of j k p s] by (cases "j = k") (auto simp: prefix_def)

lemma put_length: "inv s \<Longrightarrow> length (entries (put k p s) k) = length (entries s k) + size_of p"
  using put_extends [of s k p] by (metis length_append)

lemma puts_length:
  "inv s \<Longrightarrow> length (entries (fold (put k) ps s) k) = length (entries s k) + sum_list (map size_of ps)"
  by (induction ps arbitrary: s) (simp_all add: inv_put put_length)

lemma filter_after: "inv s \<Longrightarrow> filter (\<lambda>x. int c < seqno x) (entries s k) = drop c (entries s k)"
proof -
  assume a: "inv s"
  have "entries s k = take c (entries s k) @ drop c (entries s k)" by simp
  moreover have "filter (\<lambda>x. int c < seqno x) (take c (entries s k)) = []"
    using a by (auto simp: filter_empty_conv in_set_conv_nth seqno_nth)
  moreover have "filter (\<lambda>x. int c < seqno x) (drop c (entries s k)) = drop c (entries s k)"
    using a by (auto simp: filter_id_conv in_set_conv_nth seqno_nth)
  ultimately show ?thesis by (metis append_Nil filter_append)
qed

lemma sorted_entries: "inv s \<Longrightarrow> sorted (map seqno (drop c (entries s k)))"
proof -
  assume "inv s"
  then have "sorted (map seqno (entries s k))"
    by (simp add: inv_numbered sorted_map del: upt_Suc)
  then show "sorted (map seqno (drop c (entries s k)))"
    by (metis drop_map sorted_wrt_drop)
qed

lemma page_eq: "inv s \<Longrightarrow> page s k (int c) n = take n (drop c (entries s k))"
  by (simp add: page_def filter_after sorted_entries sorted_sort_id sort_key_id_if_sorted)

lemma next_cursor_eq:
  "inv s \<Longrightarrow> c \<le> length (entries s k) \<Longrightarrow>
     next_cursor (int c) (page s k (int c) n) = int (min (length (entries s k)) (c + n))"
proof -
  assume a: "inv s" "c \<le> length (entries s k)"
  show ?thesis
  proof (cases "take n (drop c (entries s k)) = []")
    case True
    with a show ?thesis by (auto simp: next_cursor_def page_eq min_def)
  next
    case False
    define m where "m = min (length (entries s k)) (c + n)"
    from False a have m: "0 < n" "c < length (entries s k)" "c < m" by (auto simp: m_def)
    have "last (take n (drop c (entries s k))) = entries s k ! (m - 1)"
      using False a m by (simp add: last_conv_nth m_def min_def) (auto simp: nth_append)
    then show ?thesis using False a m seqno_nth [of s "m - 1" k]
      by (simp add: next_cursor_def page_eq) (simp add: m_def)
  qed
qed

text \<open>Reading on from the cursor of a page continues the stream without a gap or a repetition.\<close>

lemma pages_continue:
  assumes "inv s" and "c \<le> length (entries s k)"
  shows "page s k (int c) m @ page s k (next_cursor (int c) (page s k (int c) m)) n
    = page s k (int c) (m + n)"
proof -
  have "next_cursor (int c) (page s k (int c) m) = int (min (length (entries s k)) (c + m))"
    using assms by (rule next_cursor_eq)
  moreover have "take m (drop c (entries s k)) @ take n (drop (min (length (entries s k)) (c + m)) (entries s k))
      = take (m + n) (drop c (entries s k))"
    by (cases "c + m \<le> length (entries s k)") (simp_all add: take_add min_def add.commute)
  ultimately show ?thesis using assms by (simp add: page_eq)
qed

end

section \<open>Idempotent create commands\<close>

text \<open>
  \<open>resolve k h\<close> looks a retry key up: nothing, the identity created for it, or a conflict when the
  key is known under another digest. \<open>create d k h\<close> runs the command, for a document it admits.
\<close>

locale idempotent_create =
  fixes resolve :: "'k \<Rightarrow> 'h \<Rightarrow> 's \<Rightarrow> 'e + 'i option"
    and create :: "'d \<Rightarrow> 'k \<Rightarrow> 'h \<Rightarrow> 's \<Rightarrow> ('e + 'i option) \<times> 's"
    and ident :: "'d \<Rightarrow> 'i"
    and admitted :: "'d \<Rightarrow> bool"
    and fresh :: "'d \<Rightarrow> 's \<Rightarrow> bool"
  assumes create_fresh: "resolve k h s = Inr None \<Longrightarrow> admitted d \<Longrightarrow> fresh d s \<Longrightarrow>
        \<exists>t. create d k h s = (Inr None, t) \<and> resolve k h t = Inr (Some (ident d))"
    and create_replay: "resolve k h s = Inr (Some i) \<Longrightarrow> admitted d \<Longrightarrow> create d k h s = (Inr (Some i), s)"
    and create_conflict: "resolve k h s = Inl e \<Longrightarrow> admitted d \<Longrightarrow> create d k h s = (Inl e, s)"
    and resolve_conflict: "resolve k h s = Inr (Some i) \<Longrightarrow> h' \<noteq> h \<Longrightarrow> \<exists>e. resolve k h' s = Inl e"
begin

definition retries :: "'d list \<Rightarrow> 'k \<Rightarrow> 'h \<Rightarrow> 's \<Rightarrow> 's" where
  "retries ds k h s = fold (\<lambda>d t. snd (create d k h t)) ds s"

lemma retry_returns_first:
  assumes "resolve k h s = Inr None" and "admitted d" "fresh d s" and "create d k h s = (r, t)"
    and "admitted d'"
  shows "create d' k h t = (Inr (Some (ident d)), t)"
  using create_fresh [OF assms(1-3)] assms(4,5) create_replay by (metis prod.inject)

lemma retries_unchanged:
  "resolve k h s = Inr (Some i) \<Longrightarrow> \<forall>d \<in> set ds. admitted d \<Longrightarrow> retries ds k h s = s"
  by (induction ds) (simp_all add: retries_def create_replay)

lemma created_once:
  assumes "resolve k h s = Inr None" and "fresh d s" and "\<forall>d' \<in> set (d # ds). admitted d'"
  shows "retries (d # ds) k h s = snd (create d k h s)"
  using create_fresh [OF assms(1) _ assms(2)] retries_unchanged [of k h] assms(3)
  by (auto simp: retries_def)

lemma other_body_rejected:
  assumes "resolve k h s = Inr None" and "admitted d" "fresh d s" and "create d k h s = (r, t)"
    and "h' \<noteq> h" and "admitted d'"
  shows "\<exists>e. create d' k h' t = (Inl e, t)"
proof -
  from create_fresh [OF assms(1-3)] assms(4) have "resolve k h t = Inr (Some (ident d))" by auto
  then obtain e where "resolve k h' t = Inl e" using resolve_conflict assms(5) by blast
  then show ?thesis using create_conflict assms(6) by blast
qed

end

end
