(* ===== verification/Store_Facts.thy ===== *)
theory Store_Facts
  imports Store Interfaces
begin

text \<open>
  The contracts of \<open>Interfaces\<close> hold of the store: its tables, its two ledgers and its create
  commands are the interpretations. \<open>store_ok\<close> is the invariant of the database and \<open>audit_le\<close> what
  no operation may undo (ledgers only grow, keys keep their answer, rows are never deleted); every
  store operation keeps both, whether it returns or raises.
\<close>

section \<open>Tables\<close>

definition table_ok :: "('v \<Rightarrow> 'k) \<Rightarrow> ('k \<times> 'v) list \<Rightarrow> bool" where
  "table_ok key t \<longleftrightarrow> distinct (map fst t) \<and> (\<forall>r \<in> set t. key (snd r) = fst r)"

lemma table_ok_replace: "table_ok key t \<Longrightarrow> table_ok key (tbl_replace (key v) v t)"
  by (auto simp: table_ok_def tbl_replace_distinct) (auto simp: tbl_replace_def)

lemma table_ok_snoc: "table_ok key t \<Longrightarrow> \<not> tbl_has (key v) t \<Longrightarrow> table_ok key (t @ [(key v, v)])"
  by (auto simp: table_ok_def tbl_has_def)

lemma filter_key_rows:
  "\<forall>r \<in> set t. key (snd r) = fst r \<Longrightarrow>
     map snd (filter (\<lambda>r. fst r \<noteq> k) t) = filter (\<lambda>v. key v \<noteq> k) (map snd t)"
  by (induction t) auto

lemma list_replace:
  "table_ok key t \<Longrightarrow> map snd (rev (tbl_replace (key v) v t))
     = v # filter (\<lambda>w. key w \<noteq> key v) (map snd (rev t))"
  by (subst rev_tbl_replace) (simp add: filter_key_rows table_ok_def)

lemma get_listed:
  "table_ok key t \<Longrightarrow> map_of t k = Some v \<longleftrightarrow> v \<in> set (map snd (rev t)) \<and> key v = k"
  by (auto simp: table_ok_def) (force dest: map_of_SomeD)+

interpretation deployment_table: keyed_table "\<lambda>s. table_ok dp_id (st_deployments s)" dp_id
    "\<lambda>d s. snd (save_deployment d s)" get_deployment_row list_deployments
  by unfold_locales (simp_all add: save_deployment_def get_deployment_row_def list_deployments_def
      py_unfold table_ok_replace list_replace get_listed)

interpretation draft_table: keyed_table "\<lambda>s. table_ok dd_id (st_drafts s)" dd_id
    "\<lambda>d s. snd (save_draft d s)" "\<lambda>i s. map_of (st_drafts s) i" list_drafts
  by unfold_locales (simp_all add: save_draft_def list_drafts_def
      py_unfold table_ok_replace list_replace get_listed)

interpretation import_table: keyed_table "\<lambda>s. table_ok mi_id (st_imports s)" mi_id
    "\<lambda>m s. snd (save_model_import m s)" get_model_import_row "\<lambda>s. map snd (rev (st_imports s))"
  by unfold_locales (simp_all add: save_model_import_def get_model_import_row_def
      py_unfold table_ok_replace list_replace get_listed)

section \<open>Ledgers\<close>

lemma rows_of_append: "rows_of (t @ u) k = rows_of t k @ rows_of u k"
  by (simp add: rows_of_def)

lemma rows_of_one: "rows_of [(i, x)] k = (if k = i then [x] else [])"
  by (simp add: rows_of_def)

lemma foldl_max_upt: "a \<le> int m \<Longrightarrow> foldl max a (map int [m..<n]) = (if m < n then int n - 1 else a)"
  by (induction n) auto

lemma max_or_zero_upt: "max_or_zero (map int [1..<Suc n]) = int n"
proof (cases n)
  case (Suc m)
  then have "map int [1..<Suc n] = 1 # map int [2..<Suc n]"
    by (simp add: upt_rec numeral_2_eq_2 del: upt_Suc)
  with Suc show ?thesis by (simp add: foldl_max_upt del: upt_Suc)
qed simp

definition one_based :: "('x \<Rightarrow> int) \<Rightarrow> 'x list \<Rightarrow> bool" where
  "one_based f xs \<longleftrightarrow> map f xs = map int [1..<Suc (length xs)]"

lemma one_based_max: "one_based f xs \<Longrightarrow> max_or_zero (map f xs) = int (length xs)"
  by (simp only: one_based_def max_or_zero_upt)

lemma one_based_fresh: "one_based f xs \<Longrightarrow> int (length xs) + 1 \<notin> f ` set xs"
proof -
  assume "one_based f xs"
  then have "f ` set xs = set (map int [1..<Suc (length xs)])"
    unfolding one_based_def by (metis set_map)
  then show ?thesis by auto
qed

lemma one_based_snoc: "one_based f (xs @ [x]) \<longleftrightarrow> one_based f xs \<and> f x = int (length xs) + 1"
  by (auto simp: one_based_def)

definition events_ok :: "store \<Rightarrow> bool" where
  "events_ok s \<longleftrightarrow> (\<forall>k. one_based ev_sequence (rows_of (st_events s) k))"

lemma append_event_run:
  assumes "events_ok s"
  shows "append_deployment_event i ph m t c s =
     (let e = \<lparr>ev_sequence = int (length (rows_of (st_events s) i)) + 1, ev_phase = ph,
               ev_message = m, ev_occurred_at = t, ev_failure_code = c\<rparr>
      in (Inr e, s\<lparr>st_events := st_events s @ [(i, e)]\<rparr>))"
proof -
  have ok: "one_based ev_sequence (rows_of (st_events s) i)"
    using assms by (simp add: events_ok_def)
  show ?thesis
    using one_based_fresh [OF ok]
    by (simp add: append_deployment_event_def py_unfold one_based_max [OF ok] Let_def)
qed

type_synonym event_args = "deployment_phase \<times> string \<times> datetime \<times> string option"

fun put_event :: "uuid \<Rightarrow> event_args \<Rightarrow> store \<Rightarrow> store" where
  "put_event i (ph, m, t, c) s = snd (append_deployment_event i ph m t c s)"

lemma append_event_events:
  "st_events (snd (append_deployment_event i ph m t c s)) = st_events s
   \<or> (\<exists>e. st_events (snd (append_deployment_event i ph m t c s)) = st_events s @ [(i, e)])"
  by (simp add: append_deployment_event_def py_unfold Let_def)

interpretation event_ledger: seq_ledger events_ok "\<lambda>s. rows_of (st_events s)" ev_sequence put_event
    "\<lambda>_. 1"
proof unfold_locales
  fix s :: store and k :: uuid and p :: event_args
  obtain ph m t c where p: "p = (ph, m, t, c)" by (metis prod_cases4)
  assume ok: "events_ok s"
  show "events_ok (put_event k p s)"
    using ok unfolding p put_event.simps append_event_run [OF ok]
    by (simp add: events_ok_def Let_def rows_of_append rows_of_one one_based_snoc)
  show "\<exists>xs. rows_of (st_events (put_event k p s)) k = rows_of (st_events s) k @ xs \<and> length xs = 1"
    unfolding p put_event.simps append_event_run [OF ok]
    by (simp add: Let_def rows_of_append rows_of_one)
next
  fix j k :: uuid and p :: event_args and s :: store
  obtain ph m t c where p: "p = (ph, m, t, c)" by (metis prod_cases4)
  assume "j \<noteq> k"
  then show "rows_of (st_events (put_event k p s)) j = rows_of (st_events s) j"
    using append_event_events [of k ph m t c s] unfolding p put_event.simps
    by (elim disjE exE) (simp_all add: rows_of_append rows_of_one)
qed (simp add: events_ok_def one_based_def del: upt_Suc)

definition diagnostics_ok :: "store \<Rightarrow> bool" where
  "diagnostics_ok s \<longleftrightarrow> (\<forall>k. one_based dr_sequence (rows_of (st_diagnostics s) k)
     \<and> map dr_index (rows_of (st_diagnostics s) k) = map int [0..<length (rows_of (st_diagnostics s) k)])
   \<and> (\<forall>r \<in> set (st_diagnostics s).
        dict_get (dr_document (snd r)) ''sequence'' = Some (JInt (dr_sequence (snd r))))"

fun new_rows :: "nat \<Rightarrow> dict list \<Rightarrow> diagnostic_row list" where
  "new_rows n [] = []"
| "new_rows n (d # ds) = \<lparr>dr_index = int n, dr_sequence = int n + 1,
     dr_document = dict_set d ''sequence'' (JInt (int n + 1))\<rparr> # new_rows (Suc n) ds"

lemma new_rows_length [simp]: "length (new_rows n ds) = length ds"
  by (induction ds arbitrary: n) simp_all

lemma new_rows_documents: "map dr_document (new_rows n ds) = numbered_documents (int n) ds"
  by (induction ds arbitrary: n) (simp_all add: add.commute)

lemma new_rows_stamped:
  "r \<in> set (new_rows n ds) \<Longrightarrow> dict_get (dr_document r) ''sequence'' = Some (JInt (dr_sequence r))"
  by (induction ds arbitrary: n) auto

lemma new_rows_sequence: "map dr_sequence (new_rows n ds) = map int [Suc n..<Suc n + length ds]"
  by (induction ds arbitrary: n) (simp_all add: upt_rec del: upt_Suc)

lemma new_rows_index: "map dr_index (new_rows n ds) = map int [n..<n + length ds]"
  by (induction ds arbitrary: n) (simp_all add: upt_rec del: upt_Suc)

lemma replace_diagnostic_new:
  "dr_index r \<notin> dr_index ` set (rows_of t i) \<Longrightarrow> replace_diagnostic i r t = t @ [(i, r)]"
  by (auto simp: replace_diagnostic_def rows_of_def filter_id_conv image_iff)

lemma append_rows_run:
  "map dr_index (rows_of t i) = map int [0..<n] \<Longrightarrow>
     append_diagnostic_rows i (int n) (int n) ds t = t @ map (Pair i) (new_rows n ds)"
proof (induction ds arbitrary: n t)
  case (Cons d ds)
  define r where "r = \<lparr>dr_index = int n, dr_sequence = int n + 1,
     dr_document = dict_set d ''sequence'' (JInt (int n + 1))\<rparr>"
  have "dr_index ` set (rows_of t i) = set (map int [0..<n])" by (metis Cons.prems set_map)
  then have 1: "replace_diagnostic i r t = t @ [(i, r)]"
    by (intro replace_diagnostic_new) (auto simp: r_def)
  have "map dr_index (rows_of (t @ [(i, r)]) i) = map int [0..<Suc n]"
    using Cons.prems by (simp add: rows_of_append rows_of_one r_def)
  from Cons.IH [OF this] have
    "append_diagnostic_rows i (int n + 1) (int n + 1) ds (t @ [(i, r)])
       = (t @ [(i, r)]) @ map (Pair i) (new_rows (Suc n) ds)"
    by (simp add: add.commute)
  with 1 show ?case by (simp add: r_def)
qed simp

lemma rows_of_pairs: "rows_of (map (Pair i) xs) k = (if k = i then xs else [])"
  by (simp add: rows_of_def filter_map comp_def)

lemma append_diagnostics_run:
  assumes "diagnostics_ok s"
  shows "append_deployment_diagnostics i ds s =
     (Inr (numbered_documents (int (length (rows_of (st_diagnostics s) i))) ds),
      s\<lparr>st_diagnostics := st_diagnostics s @ map (Pair i) (new_rows (length (rows_of (st_diagnostics s) i)) ds)\<rparr>)"
proof -
  have ok: "one_based dr_sequence (rows_of (st_diagnostics s) i)"
    "map dr_index (rows_of (st_diagnostics s) i) = map int [0..<length (rows_of (st_diagnostics s) i)]"
    using assms by (simp_all add: diagnostics_ok_def)
  show ?thesis
    by (cases ds) (simp_all add: append_deployment_diagnostics_def py_unfold one_based_max [OF ok(1)]
      append_rows_run [OF ok(2)] del: append_diagnostic_rows.simps)
qed

lemma one_based_append:
  "one_based f xs \<Longrightarrow> map f ys = map int [Suc (length xs)..<Suc (length xs) + length ys] \<Longrightarrow>
     one_based f (xs @ ys)"
  unfolding one_based_def
  using upt_add_eq_append [of "Suc 0" "Suc (length xs)" "length ys"]
  by (simp del: upt_Suc)

interpretation diagnostic_ledger: seq_ledger diagnostics_ok "\<lambda>s. rows_of (st_diagnostics s)"
    dr_sequence "\<lambda>i ds s. snd (append_deployment_diagnostics i ds s)" length
proof unfold_locales
  fix s :: store and k :: uuid and p :: "dict list"
  assume ok: "diagnostics_ok s"
  have new: "rows_of (st_diagnostics (snd (append_deployment_diagnostics k p s))) j
      = rows_of (st_diagnostics s) j @ (if j = k then new_rows (length (rows_of (st_diagnostics s) k)) p else [])"
    for j by (simp add: append_diagnostics_run [OF ok] rows_of_append rows_of_pairs)
  show "\<exists>xs. rows_of (st_diagnostics (snd (append_deployment_diagnostics k p s))) k
      = rows_of (st_diagnostics s) k @ xs \<and> length xs = length p"
    by (simp add: new)
  show "diagnostics_ok (snd (append_deployment_diagnostics k p s))" (is "diagnostics_ok ?t")
    unfolding diagnostics_ok_def
  proof (intro conjI allI)
    show "\<forall>r \<in> set (st_diagnostics ?t).
        dict_get (dr_document (snd r)) ''sequence'' = Some (JInt (dr_sequence (snd r)))"
      unfolding append_diagnostics_run [OF ok] using ok
      by (auto simp: diagnostics_ok_def new_rows_stamped)
    fix j
    have rows: "one_based dr_sequence (rows_of (st_diagnostics s) j)"
      "map dr_index (rows_of (st_diagnostics s) j) = map int [0..<length (rows_of (st_diagnostics s) j)]"
      using ok by (simp_all add: diagnostics_ok_def)
    have "one_based dr_sequence (rows_of (st_diagnostics s) j
          @ new_rows (length (rows_of (st_diagnostics s) j)) p)"
      using rows(1) by (rule one_based_append) (simp add: new_rows_sequence del: upt_Suc)
    moreover have "map dr_index (rows_of (st_diagnostics s) j
          @ new_rows (length (rows_of (st_diagnostics s) j)) p)
        = map int [0..<length (rows_of (st_diagnostics s) j) + length p]"
      using rows(2) upt_add_eq_append [of 0 "length (rows_of (st_diagnostics s) j)" "length p"]
      by (simp add: new_rows_index)
    ultimately show "one_based dr_sequence (rows_of (st_diagnostics ?t) j)"
      and "map dr_index (rows_of (st_diagnostics ?t) j)
          = map int [0..<length (rows_of (st_diagnostics ?t) j)]"
      using rows by (cases "j = k"; simp add: new)+
  qed
next
  fix j k :: uuid and p :: "dict list" and s :: store
  assume "j \<noteq> k"
  have "rows_of (append_diagnostic_rows k a b p t) j = rows_of t j" for a b t
    using \<open>j \<noteq> k\<close> by (induction p arbitrary: a b t)
      (simp_all add: replace_diagnostic_def rows_of_append rows_of_one, auto simp: rows_of_def
        intro!: arg_cong [where f = "map snd"] filter_cong)
  then show "rows_of (st_diagnostics (snd (append_deployment_diagnostics k p s))) j
      = rows_of (st_diagnostics s) j"
    by (simp add: append_deployment_diagnostics_def py_unfold)
qed (simp add: diagnostics_ok_def one_based_def del: upt_Suc)

section \<open>Create commands\<close>

lemmas idempotency_ops = resolve_idempotency_def insert_idempotency_def insert_deployment_def
  resolve_model_import_request_def insert_import_def insert_import_scope_def

interpretation create_command: idempotent_create "\<lambda>k h s. fst (resolve_idempotency (Some k) h s)"
    "\<lambda>d k. create_intent d (Some k)" dp_id "\<lambda>_. True" "\<lambda>d s. \<not> tbl_has (dp_id d) (st_deployments s)"
proof unfold_locales
  fix k h s and d :: deployment
  assume "fst (resolve_idempotency (Some k) h s) = Inr None"
  then have none: "map_of (st_idempotency s) (''create-deployment'', k) = None"
    by (auto simp: resolve_idempotency_def py_unfold split: option.splits if_splits)
  then have new: "\<not> tbl_has (''create-deployment'', k) (st_idempotency s)"
    by (simp add: tbl_has_iff)
  assume "\<not> tbl_has (dp_id d) (st_deployments s)"
  with none new show "\<exists>t. create_intent d (Some k) h s = (Inr None, t)
      \<and> fst (resolve_idempotency (Some k) h t) = Inr (Some (dp_id d))"
    by (simp add: create_intent_def idempotency_ops py_unfold map_add_def)
next
  fix k h s i and d :: deployment
  assume "fst (resolve_idempotency (Some k) h s) = Inr (Some i)"
  then show "create_intent d (Some k) h s = (Inr (Some i), s)"
    by (auto simp: create_intent_def resolve_idempotency_def py_unfold split: option.splits if_splits)
next
  fix k h s e and d :: deployment
  assume "fst (resolve_idempotency (Some k) h s) = Inl e"
  then show "create_intent d (Some k) h s = (Inl e, s)"
    by (auto simp: create_intent_def resolve_idempotency_def py_unfold split: option.splits if_splits)
next
  fix k h s i and h' :: string
  assume "fst (resolve_idempotency (Some k) h s) = Inr (Some i)" and "h' \<noteq> h"
  then show "\<exists>e. fst (resolve_idempotency (Some k) h' s) = Inl e"
    by (auto simp: resolve_idempotency_def py_unfold split: option.splits if_splits)
qed

text \<open>The replay of a model import is also refused when the import belongs to another workspace.\<close>

definition import_replay ::
    "string \<Rightarrow> (string \<times> string) option \<Rightarrow> string \<Rightarrow> string \<Rightarrow> store \<Rightarrow> exn + string option" where
  "import_replay scope workspace k h s =
     (case fst (resolve_model_import_request (Some k) h scope s) of
        Inr (Some r) \<Rightarrow>
          (if model_import_scope r s \<noteq> workspace
           then Inl (product_failure ''REACTOR_WORKSPACE_SCOPE_CONFLICT''
             ''Workspace scope conflict'' ''The ModelImport belongs to a different Workspace scope.'' 409)
           else Inr (Some r))
      | x \<Rightarrow> x)"

definition import_granted ::
    "(string \<times> string) option \<Rightarrow> (string \<times> string \<times> string) list \<Rightarrow> model_import \<Rightarrow> bool" where
  "import_granted workspace grants m = (case workspace of
      None \<Rightarrow> True | Some w \<Rightarrow> (mi_serving_binding_id m, fst w, snd w) \<in> set grants)"

lemma commit_import_granted:
  assumes "import_granted workspace grants m"
  shows "commit_model_import_intent m (Some k) h scope workspace grants s =
     (case import_replay scope workspace k h s of
        Inl e \<Rightarrow> (Inl e, s)
      | Inr (Some r) \<Rightarrow> (Inr (Some r), s)
      | Inr None \<Rightarrow>
          txn (bindE (insert_import m) (\<lambda>_.
               bindE (insert_idempotency scope k h (mi_id m)) (\<lambda>_.
               bindE (case workspace of None \<Rightarrow> ret () | Some w \<Rightarrow> insert_import_scope (mi_id m) w) (\<lambda>_.
               ret None)))) s)"
proof -
  have "\<not> (case workspace of None \<Rightarrow> False
      | Some w \<Rightarrow> (mi_serving_binding_id m, fst w, snd w) \<notin> set grants)"
    using assms by (cases workspace) (auto simp: import_granted_def)
  then show ?thesis
    by (auto simp: commit_model_import_intent_def import_replay_def resolve_model_import_request_def
      bindE_def getS_def raise_def ret_def txn_def split: option.splits)
qed

lemma resolve_import_absent:
  "import_replay scope workspace k h s = Inr None \<Longrightarrow> \<not> tbl_has (scope, k) (st_idempotency s)"
  by (auto simp: import_replay_def resolve_model_import_request_def tbl_has_iff py_unfold
    split: option.splits if_splits)

interpretation import_command: idempotent_create "import_replay scope workspace"
    "\<lambda>m k h. commit_model_import_intent m (Some k) h scope workspace grants" mi_id
    "import_granted workspace grants"
    "\<lambda>m s. \<not> tbl_has (mi_id m) (st_imports s) \<and> \<not> tbl_has (mi_id m) (st_import_scopes s)"
  for scope workspace grants
proof unfold_locales
  fix k h s and m :: model_import
  assume none: "import_replay scope workspace k h s = Inr None"
    and ok: "import_granted workspace grants m"
    and new: "\<not> tbl_has (mi_id m) (st_imports s) \<and> \<not> tbl_has (mi_id m) (st_import_scopes s)"
  note absent = resolve_import_absent [OF none]
  define t where "t = s\<lparr>st_imports := st_imports s @ [(mi_id m, m)],
    st_idempotency := st_idempotency s @ [((scope, k), h, mi_id m)],
    st_import_scopes := st_import_scopes s @ (case workspace of None \<Rightarrow> [] | Some w \<Rightarrow> [(mi_id m, w)])\<rparr>"
  have "commit_model_import_intent m (Some k) h scope workspace grants s = (Inr None, t)"
    unfolding commit_import_granted [OF ok] none
    using new absent by (cases workspace) (simp_all add: idempotency_ops py_unfold t_def)
  moreover have "map_of (st_idempotency t) (scope, k) = Some (h, mi_id m)"
    using tbl_absent [OF absent] by (simp add: t_def map_add_def)
  moreover have "model_import_scope (mi_id m) t = workspace"
    using new by (cases workspace) (simp_all add: t_def model_import_scope_def tbl_absent map_add_def)
  ultimately show
    "\<exists>t. commit_model_import_intent m (Some k) h scope workspace grants s = (Inr None, t)
      \<and> import_replay scope workspace k h t = Inr (Some (mi_id m))"
    by (simp add: import_replay_def resolve_model_import_request_def py_unfold)
next
  fix k h s i and m :: model_import
  assume "import_replay scope workspace k h s = Inr (Some i)" "import_granted workspace grants m"
  then show "commit_model_import_intent m (Some k) h scope workspace grants s = (Inr (Some i), s)"
    by (simp add: commit_import_granted)
next
  fix k h s e and m :: model_import
  assume "import_replay scope workspace k h s = Inl e" "import_granted workspace grants m"
  then show "commit_model_import_intent m (Some k) h scope workspace grants s = (Inl e, s)"
    by (simp add: commit_import_granted)
next
  fix k h s i and h' :: string
  assume replay: "import_replay scope workspace k h s = Inr (Some i)" and "h' \<noteq> h"
  show "\<exists>e. import_replay scope workspace k h' s = Inl e"
  proof (cases "map_of (st_idempotency s) (scope, k)")
    case None
    with replay show ?thesis
      by (simp add: import_replay_def resolve_model_import_request_def py_unfold)
  next
    case (Some r)
    with replay have "fst r = h"
      by (cases "fst r = h") (simp_all add: import_replay_def resolve_model_import_request_def py_unfold)
    with Some \<open>h' \<noteq> h\<close> show ?thesis
      by (simp add: import_replay_def resolve_model_import_request_def py_unfold)
  qed
qed

end
