(* ===== verification/Store_Audit.thy ===== *)
theory Store_Audit
  imports Store_Facts
begin

text \<open>
  The invariant of the Product database and its audit order. \<open>store_ok\<close>: primary keys are unique and
  agree with the documents, a deployment has at most one endpoint row, the ledgers are numbered
  without gaps, and every idempotency row and import scope points at a stored resource.
  \<open>grows\<close>: events and diagnostics are only appended, an idempotency key and an import's workspace
  never change, no deployment, draft or import row disappears. \<open>audited m\<close> says that \<open>m\<close> keeps the
  invariant and only grows the database, whether it returns or raises.
\<close>

section \<open>The invariant and the order\<close>

definition endpoints_ok :: "(uuid \<times> uuid \<times> endpoint) list \<Rightarrow> bool" where
  "endpoints_ok t \<longleftrightarrow> distinct (map fst t) \<and> distinct (map (\<lambda>r. fst (snd r)) t)
     \<and> (\<forall>r \<in> set t. fst r = ep_id (snd (snd r)) \<and> fst (snd r) = ep_deployment_id (snd (snd r)))"

definition ref_ok :: "store \<Rightarrow> (string \<times> string) \<times> string \<times> uuid \<Rightarrow> bool" where
  "ref_ok s r \<longleftrightarrow>
     (fst (fst r) = ''create-deployment'' \<longrightarrow> snd (snd r) \<in> fst ` set (st_deployments s))
   \<and> (fst (fst r) = ''deployment-draft'' \<longrightarrow> snd (snd r) \<in> fst ` set (st_drafts s))
   \<and> (startswith (fst (fst r)) ''model-import'' \<longrightarrow> snd (snd r) \<in> fst ` set (st_imports s))"

definition store_ok :: "store \<Rightarrow> bool" where
  "store_ok s \<longleftrightarrow>
     table_ok dp_id (st_deployments s) \<and> table_ok dd_id (st_drafts s) \<and> table_ok mi_id (st_imports s)
   \<and> endpoints_ok (st_endpoints s)
   \<and> distinct (map fst (st_idempotency s)) \<and> distinct (map fst (st_import_scopes s))
   \<and> (\<forall>r \<in> set (st_idempotency s). ref_ok s r)
   \<and> fst ` set (st_import_scopes s) \<subseteq> fst ` set (st_imports s)
   \<and> events_ok s \<and> diagnostics_ok s"

definition grows :: "store \<Rightarrow> store \<Rightarrow> bool" where
  "grows s t \<longleftrightarrow>
     (\<forall>i. prefix (rows_of (st_events s) i) (rows_of (st_events t) i))
   \<and> (\<forall>i. prefix (rows_of (st_diagnostics s) i) (rows_of (st_diagnostics t) i))
   \<and> map_of (st_idempotency s) \<subseteq>\<^sub>m map_of (st_idempotency t)
   \<and> map_of (st_import_scopes s) \<subseteq>\<^sub>m map_of (st_import_scopes t)
   \<and> fst ` set (st_deployments s) \<subseteq> fst ` set (st_deployments t)
   \<and> fst ` set (st_drafts s) \<subseteq> fst ` set (st_drafts t)
   \<and> fst ` set (st_imports s) \<subseteq> fst ` set (st_imports t)
   \<and> fst ` set (st_evidence s) \<subseteq> fst ` set (st_evidence t)"

definition audit :: "store \<Rightarrow> store \<Rightarrow> bool" where
  "audit s t \<longleftrightarrow> (store_ok s \<longrightarrow> store_ok t \<and> grows s t)"

abbreviation audited :: "'a store_op \<Rightarrow> bool" where
  "audited m \<equiv> steps audit m"

lemma empty_store_ok: "store_ok empty_store"
  by (simp add: store_ok_def empty_store_def table_ok_def endpoints_ok_def events_ok_def
    diagnostics_ok_def rows_of_def one_based_def)

lemma grows_refl: "grows s s"
  by (simp add: grows_def)

lemma grows_trans: "grows s t \<Longrightarrow> grows t u \<Longrightarrow> grows s u"
  unfolding grows_def by (meson map_le_trans prefix_order.trans subset_trans)

interpretation audit: frame_rel audit
  by unfold_locales (auto simp: audit_def grows_refl intro: grows_trans)

lemma auditD: "audit s t \<Longrightarrow> store_ok s \<Longrightarrow> store_ok t \<and> grows s t"
  by (simp add: audit_def)

section \<open>One table at a time\<close>

lemma ref_ok_mono:
  "fst ` set (st_deployments s) \<subseteq> fst ` set (st_deployments t) \<Longrightarrow>
   fst ` set (st_drafts s) \<subseteq> fst ` set (st_drafts t) \<Longrightarrow>
   fst ` set (st_imports s) \<subseteq> fst ` set (st_imports t) \<Longrightarrow> ref_ok s r \<Longrightarrow> ref_ok t r"
  unfolding ref_ok_def by blast

lemma audit_deployments:
  assumes "table_ok dp_id (st_deployments s) \<Longrightarrow> table_ok dp_id t"
    and sub: "fst ` set (st_deployments s) \<subseteq> fst ` set t"
  shows "audit s (s\<lparr>st_deployments := t\<rparr>)"
proof -
  have "ref_ok s r \<Longrightarrow> ref_ok (s\<lparr>st_deployments := t\<rparr>) r" for r
    by (erule ref_ok_mono [rotated -1]) (simp_all add: sub)
  with assms show ?thesis
    by (simp add: audit_def store_ok_def grows_def events_ok_def diagnostics_ok_def)
qed

lemma audit_drafts:
  assumes "table_ok dd_id (st_drafts s) \<Longrightarrow> table_ok dd_id t"
    and sub: "fst ` set (st_drafts s) \<subseteq> fst ` set t"
  shows "audit s (s\<lparr>st_drafts := t\<rparr>)"
proof -
  have "ref_ok s r \<Longrightarrow> ref_ok (s\<lparr>st_drafts := t\<rparr>) r" for r
    by (erule ref_ok_mono [rotated -1]) (simp_all add: sub)
  with assms show ?thesis
    by (simp add: audit_def store_ok_def grows_def events_ok_def diagnostics_ok_def)
qed

lemma audit_imports:
  assumes "table_ok mi_id (st_imports s) \<Longrightarrow> table_ok mi_id t"
    and sub: "fst ` set (st_imports s) \<subseteq> fst ` set t"
  shows "audit s (s\<lparr>st_imports := t\<rparr>)"
proof -
  have "ref_ok s r \<Longrightarrow> ref_ok (s\<lparr>st_imports := t\<rparr>) r" for r
    by (erule ref_ok_mono [rotated -1]) (simp_all add: sub)
  with assms subset_trans [OF _ sub] show ?thesis
    by (simp add: audit_def store_ok_def grows_def events_ok_def diagnostics_ok_def)
qed

lemma audit_endpoints:
  assumes "endpoints_ok (st_endpoints s) \<Longrightarrow> endpoints_ok t"
  shows "audit s (s\<lparr>st_endpoints := t\<rparr>)"
  using assms
  by (simp add: audit_def store_ok_def grows_def events_ok_def diagnostics_ok_def ref_ok_def)

lemma audit_evidence: "audit s (s\<lparr>st_evidence := tbl_replace i x (st_evidence s)\<rparr>)"
  by (auto simp: audit_def store_ok_def grows_def events_ok_def diagnostics_ok_def ref_ok_def
    tbl_replace_def)

lemma audit_cursors: "audit s (s\<lparr>st_cursors := c\<rparr>)"
  by (simp add: audit_def store_ok_def grows_def events_ok_def diagnostics_ok_def ref_ok_def)

lemma map_le_snoc: "\<not> tbl_has k t \<Longrightarrow> map_of t \<subseteq>\<^sub>m map_of (t @ [(k, v)])"
  by (auto simp: map_le_def map_add_def)

lemma audit_idempotency:
  assumes "\<not> tbl_has k (st_idempotency s)" and "ref_ok s (k, v)"
  shows "audit s (s\<lparr>st_idempotency := st_idempotency s @ [(k, v)]\<rparr>)"
proof -
  have "ref_ok (s\<lparr>st_idempotency := u\<rparr>) r = ref_ok s r" for u r by (simp add: ref_ok_def)
  with assms show ?thesis
    by (simp add: audit_def store_ok_def grows_def events_ok_def diagnostics_ok_def map_le_snoc
      tbl_append_distinct del: map_of_append map_append distinct_append)
qed

lemma audit_import_scopes:
  assumes "\<not> tbl_has i (st_import_scopes s)" and "i \<in> fst ` set (st_imports s)"
  shows "audit s (s\<lparr>st_import_scopes := st_import_scopes s @ [(i, w)]\<rparr>)"
proof -
  have "ref_ok (s\<lparr>st_import_scopes := u\<rparr>) r = ref_ok s r" for u r by (simp add: ref_ok_def)
  with assms show ?thesis
    by (simp add: audit_def store_ok_def grows_def events_ok_def diagnostics_ok_def map_le_snoc
      tbl_append_distinct del: map_of_append map_append distinct_append)
qed

lemma audit_events:
  assumes "events_ok s \<Longrightarrow> events_ok (s\<lparr>st_events := t\<rparr>) \<and> (\<forall>i. prefix (rows_of (st_events s) i) (rows_of t i))"
  shows "audit s (s\<lparr>st_events := t\<rparr>)"
  using assms by (simp add: audit_def store_ok_def grows_def diagnostics_ok_def ref_ok_def)

lemma audit_diagnostics:
  assumes "diagnostics_ok s \<Longrightarrow> diagnostics_ok (s\<lparr>st_diagnostics := t\<rparr>)
      \<and> (\<forall>i. prefix (rows_of (st_diagnostics s) i) (rows_of t i))"
  shows "audit s (s\<lparr>st_diagnostics := t\<rparr>)"
  using assms by (simp add: audit_def store_ok_def grows_def events_ok_def ref_ok_def)

section \<open>Every operation\<close>

lemma keys_replace: "fst ` set t \<subseteq> fst ` set (tbl_replace k v t)"
  by (auto simp: tbl_replace_def)

lemma endpoints_ok_replace: "endpoints_ok t \<Longrightarrow> endpoints_ok (replace_endpoint e t)"
  by (auto simp: endpoints_ok_def replace_endpoint_def distinct_map_filter)

lemma audit_put_deployment: "audit s (s\<lparr>st_deployments := tbl_replace (dp_id d) d (st_deployments s)\<rparr>)"
  by (intro audit_deployments table_ok_replace keys_replace)

lemma save_deployment_audited [frame_rules]: "audited (save_deployment d)"
  unfolding save_deployment_def
  by (intro audit.steps_txn audit.steps_modS audit_put_deployment)

lemma save_pair_audited [frame_rules]: "audited (save_pair d e x)"
  unfolding save_pair_def
  by (intro audit.steps_txn audit.steps_bindE audit.steps_case_option audit.steps_ret
    audit.steps_modS audit_put_deployment audit_endpoints audit_evidence endpoints_ok_replace)

lemma save_draft_audited [frame_rules]: "audited (save_draft d)"
  unfolding save_draft_def
  by (intro audit.steps_txn audit.steps_modS audit_drafts table_ok_replace keys_replace)

lemma save_model_import_audited [frame_rules]: "audited (save_model_import m)"
  unfolding save_model_import_def
  by (intro audit.steps_txn audit.steps_modS audit_imports table_ok_replace keys_replace)

lemma set_cursor_audited [frame_rules]: "audited (set_runtime_diagnostics_cursor i c)"
  unfolding set_runtime_diagnostics_cursor_def
  by (intro audit.steps_txn audit.steps_modS audit_cursors)

lemma resolve_idempotency_audited [frame_rules]: "audited (resolve_idempotency k h)"
  unfolding resolve_idempotency_def by (intro frame_rules)

lemma resolve_import_audited [frame_rules]: "audited (resolve_model_import_request k h sc)"
  unfolding resolve_model_import_request_def by (intro frame_rules)

lemma get_draft_audited [frame_rules]: "audited (get_draft i)"
  unfolding get_draft_def by (intro frame_rules)

lemma append_event_audited [frame_rules]: "audited (append_deployment_event i ph m t c)"
proof (rule stepsI)
  fix s
  have "snd (append_deployment_event i ph m t c s)
      = s\<lparr>st_events := st_events (snd (append_deployment_event i ph m t c s))\<rparr>"
    by (simp add: append_deployment_event_def py_unfold Let_def)
  moreover have "audit s (s\<lparr>st_events := st_events (put_event i (ph, m, t, c) s)\<rparr>)"
    by (rule audit_events) (use event_ledger.inv_put [of s i "(ph, m, t, c)"]
      event_ledger.put_prefix [of s _ i "(ph, m, t, c)"] in \<open>simp add: events_ok_def\<close>)
  ultimately show "audit s (snd (append_deployment_event i ph m t c s))" by simp
qed

lemma append_diagnostics_audited [frame_rules]: "audited (append_deployment_diagnostics i ds)"
proof (rule stepsI)
  fix s
  have "snd (append_deployment_diagnostics i ds s)
      = s\<lparr>st_diagnostics := st_diagnostics (snd (append_deployment_diagnostics i ds s))\<rparr>"
    by (simp add: append_deployment_diagnostics_def py_unfold)
  moreover have "audit s (s\<lparr>st_diagnostics := st_diagnostics (snd (append_deployment_diagnostics i ds s))\<rparr>)"
    by (rule audit_diagnostics) (use diagnostic_ledger.inv_put [of s i ds]
      diagnostic_ledger.put_prefix [of s _ i ds] in \<open>simp add: diagnostics_ok_def\<close>)
  ultimately show "audit s (snd (append_deployment_diagnostics i ds s))" by simp
qed

text \<open>
  The create commands insert several rows in one transaction; what they leave is either the start
  state or the start state with the new rows, whose keys were free.
\<close>

lemma insert_idempotency_cases:
  "insert_idempotency sc k h i s = (Inl (integrity ''idempotency.scope, idempotency.key''), s)
   \<or> \<not> tbl_has (sc, k) (st_idempotency s)
     \<and> insert_idempotency sc k h i s
       = (Inr (), s\<lparr>st_idempotency := st_idempotency s @ [((sc, k), h, i)]\<rparr>)"
  by (simp add: insert_idempotency_def py_unfold)

lemma insert_idempotency_audit:
  "ref_ok s ((sc, k), h, i) \<Longrightarrow> audit s (snd (insert_idempotency sc k h i s))"
  using insert_idempotency_cases [of sc k h i s]
  by (auto simp del: map_of_append intro: audit.R_refl audit_idempotency)

lemma insert_deployment_cases:
  "insert_deployment d s = (Inl (integrity ''deployments.id''), s)
   \<or> \<not> tbl_has (dp_id d) (st_deployments s)
     \<and> insert_deployment d s = (Inr (), s\<lparr>st_deployments := st_deployments s @ [(dp_id d, d)]\<rparr>)"
  by (simp add: insert_deployment_def py_unfold)

lemma insert_deployment_audit:
  "audit s (snd (insert_deployment d s))
   \<and> (fst (insert_deployment d s) = Inr () \<longrightarrow>
        dp_id d \<in> fst ` set (st_deployments (snd (insert_deployment d s))))"
proof -
  have "\<not> tbl_has (dp_id d) (st_deployments s) \<Longrightarrow>
      audit s (s\<lparr>st_deployments := st_deployments s @ [(dp_id d, d)]\<rparr>)"
    by (rule audit_deployments) (auto simp: table_ok_snoc)
  with insert_deployment_cases [of d s] show ?thesis by (auto simp: audit.R_refl)
qed

lemma insert_import_cases:
  "insert_import m s = (Inl (integrity ''model_imports.id''), s)
   \<or> \<not> tbl_has (mi_id m) (st_imports s)
     \<and> insert_import m s = (Inr (), s\<lparr>st_imports := st_imports s @ [(mi_id m, m)]\<rparr>)"
  by (simp add: insert_import_def py_unfold)

lemma insert_scope_audit:
  "i \<in> fst ` set (st_imports s) \<Longrightarrow> audit s (snd (insert_import_scope i w s))"
  by (auto simp: insert_import_scope_def py_unfold intro: audit.R_refl audit_import_scopes)

text \<open>The end state of a sequence is related to the start if that of each part is.\<close>

lemma audit_bindE:
  assumes "audit s (snd (m s))"
    and "\<And>a t. m s = (Inr a, t) \<Longrightarrow> audit t (snd (f a t))"
  shows "audit s (snd (bindE m f s))"
  using assms by (cases "m s"; cases "fst (m s)") (auto simp: bindE_def intro: audit.R_trans)

lemma audit_txn: "audit s (snd (m s)) \<Longrightarrow> audit s (snd (txn m s))"
  by (auto simp: txn_def audit.R_refl split: sum.splits prod.splits)

lemma create_intent_audited [frame_rules]: "audited (create_intent d key h)"
proof (rule stepsI)
  fix s
  have insert: "audit t (snd (bindE (insert_deployment d) (\<lambda>_.
      bindE (case key of None \<Rightarrow> ret ()
             | Some k \<Rightarrow> insert_idempotency ''create-deployment'' k h (dp_id d)) (\<lambda>_. ret None)) t))"
    for t
  proof (rule audit_bindE)
    fix a u assume "insert_deployment d t = (Inr a, u)"
    with insert_deployment_audit [of t d] have "dp_id d \<in> fst ` set (st_deployments u)" by simp
    then have "ref_ok u ((''create-deployment'', k), h, dp_id d)" for k
      by (simp add: ref_ok_def startswith_def)
    then show "audit u (snd (bindE (case key of None \<Rightarrow> ret ()
        | Some k \<Rightarrow> insert_idempotency ''create-deployment'' k h (dp_id d)) (\<lambda>_. ret None) u))"
      by (intro audit_bindE)
        (auto simp: ret_def audit.R_refl intro: insert_idempotency_audit split: option.split)
  qed (use insert_deployment_audit in blast)
  show "audit s (snd (create_intent d key h s))"
    unfolding create_intent_def
    by (intro audit_txn audit_bindE) (use insert resolve_idempotency_audited in
      \<open>auto simp: steps_def ret_def audit.R_refl split: option.split\<close>)
qed

lemma insert_import_audit:
  "audit s (snd (insert_import m s))
   \<and> (fst (insert_import m s) = Inr () \<longrightarrow>
        mi_id m \<in> fst ` set (st_imports (snd (insert_import m s))))"
proof -
  have "\<not> tbl_has (mi_id m) (st_imports s) \<Longrightarrow>
      audit s (s\<lparr>st_imports := st_imports s @ [(mi_id m, m)]\<rparr>)"
    by (rule audit_imports) (auto simp: table_ok_snoc)
  with insert_import_cases [of m s] show ?thesis by (auto simp: audit.R_refl)
qed

lemma insert_idempotency_imports:
  "insert_idempotency sc k h i s = (r, t) \<Longrightarrow> st_imports t = st_imports s"
  by (auto simp: insert_idempotency_def py_unfold split: if_splits)

lemma import_ref_ok:
  "startswith sc ''model-import'' \<Longrightarrow> i \<in> fst ` set (st_imports s) \<Longrightarrow> ref_ok s ((sc, k), h, i)"
  by (auto simp: ref_ok_def startswith_def)

lemma insert_import_rows_audit:
  assumes "startswith scope ''model-import''"
  shows "audit s (snd (bindE (insert_import m) (\<lambda>_.
     bindE (case key of None \<Rightarrow> ret () | Some k \<Rightarrow> insert_idempotency scope k h (mi_id m)) (\<lambda>_.
     bindE (case workspace of None \<Rightarrow> ret () | Some w \<Rightarrow> insert_import_scope (mi_id m) w) (\<lambda>_.
     ret None))) s))"
proof (rule audit_bindE)
  fix a t assume "insert_import m s = (Inr a, t)"
  with insert_import_audit [of s m] have t: "mi_id m \<in> fst ` set (st_imports t)" by simp
  show "audit t (snd (bindE (case key of None \<Rightarrow> ret () | Some k \<Rightarrow> insert_idempotency scope k h (mi_id m)) (\<lambda>_.
     bindE (case workspace of None \<Rightarrow> ret () | Some w \<Rightarrow> insert_import_scope (mi_id m) w) (\<lambda>_.
     ret None)) t))"
  proof (rule audit_bindE)
    show "audit t (snd ((case key of None \<Rightarrow> ret ()
        | Some k \<Rightarrow> insert_idempotency scope k h (mi_id m)) t))"
      by (cases key) (simp_all add: ret_def audit.R_refl insert_idempotency_audit
        import_ref_ok [OF assms t])
  next
    fix b u
    assume "(case key of None \<Rightarrow> ret ()
        | Some k \<Rightarrow> insert_idempotency scope k h (mi_id m)) t = (Inr b, u)"
    then have "st_imports u = st_imports t"
      by (cases key) (auto simp: ret_def dest: insert_idempotency_imports)
    with t show "audit u (snd (bindE (case workspace of None \<Rightarrow> ret ()
        | Some w \<Rightarrow> insert_import_scope (mi_id m) w) (\<lambda>_. ret None) u))"
      by (intro audit_bindE; cases workspace)
        (simp_all add: ret_def audit.R_refl insert_scope_audit)
  qed
qed (use insert_import_audit in blast)

lemma commit_import_audited [frame_rules]:
  assumes "startswith scope ''model-import''"
  shows "audited (commit_model_import_intent m key h scope workspace grants)"
proof -
  define rows where "rows = bindE (insert_import m) (\<lambda>_.
     bindE (case key of None \<Rightarrow> ret () | Some k \<Rightarrow> insert_idempotency scope k h (mi_id m)) (\<lambda>_.
     bindE (case workspace of None \<Rightarrow> ret () | Some w \<Rightarrow> insert_import_scope (mi_id m) w) (\<lambda>_.
     (ret None :: string option store_op))))"
  have "audited rows"
    unfolding rows_def by (rule stepsI) (rule insert_import_rows_audit [OF assms])
  then show ?thesis
    unfolding commit_model_import_intent_def rows_def [symmetric] by (intro frame_rules)
qed

lemma create_draft_audited [frame_rules]: "audited (create_draft d key h)"
proof -
  define rows where "rows =
    bindE (getS (\<lambda>s. tbl_has (dd_id d) (st_drafts s))) (\<lambda>dup.
    bindE (if dup then raise (integrity ''deployment_drafts.id'')
           else modS (\<lambda>s. s\<lparr>st_drafts := st_drafts s @ [(dd_id d, d)]\<rparr>)) (\<lambda>_.
    bindE (insert_idempotency ''deployment-draft'' key h (dd_id d)) (\<lambda>_. ret d)))"
  have "audit s (snd (rows s))" for s
  proof (cases "tbl_has (dd_id d) (st_drafts s)")
    case True
    then show ?thesis by (simp add: rows_def py_unfold audit.R_refl)
  next
    case False
    define t where "t = s\<lparr>st_drafts := st_drafts s @ [(dd_id d, d)]\<rparr>"
    have "audit s t"
      unfolding t_def by (rule audit_drafts) (use False in \<open>auto simp: table_ok_snoc\<close>)
    moreover have "ref_ok t ((''deployment-draft'', key), h, dd_id d)"
      by (simp add: ref_ok_def t_def startswith_def)
    then have "audit t (snd (bindE (insert_idempotency ''deployment-draft'' key h (dd_id d)) (\<lambda>_. ret d) t))"
      by (intro audit_bindE insert_idempotency_audit) (simp_all add: ret_def audit.R_refl)
    moreover have "rows s = bindE (insert_idempotency ''deployment-draft'' key h (dd_id d)) (\<lambda>_. ret d) t"
      using False by (simp add: rows_def t_def bindE_def getS_def modS_def)
    ultimately show ?thesis using audit.R_trans by metis
  qed
  then have "audited rows" by (rule stepsI)
  then show ?thesis
    unfolding create_draft_def rows_def [symmetric] by (intro frame_rules)
qed

lemma remember_idempotency_audited:
  "i \<in> fst ` set (st_deployments s) \<Longrightarrow> audit s (snd (remember_idempotency key h i s))"
  unfolding remember_idempotency_def
  by (cases key) (simp_all add: ret_def audit.R_refl ref_ok_def startswith_def audit_txn
    insert_idempotency_audit)

end
