(* ===== verification/Samples.thy ===== *)
theory Samples
  imports Store
begin

text \<open>Concrete documents at which the hypotheses of the properties are evaluated.\<close>

definition sample_artifact :: artifact_ref where
  "sample_artifact = \<lparr>ar_uri = ''artifact://sha256/'' @ replicate 64 CHR ''a'',
     ar_digest = ''sha256:'' @ replicate 64 CHR ''a'', ar_size_bytes = 7, ar_kind = AK_model,
     ar_manifest_digest = None\<rparr>"

definition sample_sdk :: sdk where
  "sample_sdk = \<lparr>sdk_from_dict = (\<lambda>d. Inr (JObj d)), sdk_create = (\<lambda>d. Inr (JObj d)),
     sdk_artifact = (\<lambda>d. Inr sample_artifact)\<rparr>"

definition sample_deployment :: "uuid \<Rightarrow> deployment" where
  "sample_deployment i = \<lparr>dp_id = i, dp_name = ''chat'', dp_model_artifact = Some sample_artifact,
     dp_composition = FULL_MODEL, dp_model_version = None, dp_desired_state = DS_ACTIVE,
     dp_observed_state = OS_STARTING, dp_serving_binding_id = ''gpu-1'', dp_node_ref = None,
     dp_endpoint_id = None, dp_failure = None, dp_created_at = ''t0'', dp_updated_at = ''t0'',
     dp_resource_version = 1\<rparr>"

definition sample_endpoint :: "uuid \<Rightarrow> uuid \<Rightarrow> endpoint" where
  "sample_endpoint e i = \<lparr>ep_id = e, ep_deployment_id = i, ep_state = ES_READY, ep_url = ''http://n1:8000'',
     ep_model = None, ep_created_at = ''t0'', ep_updated_at = ''t0'', ep_resource_version = 1\<rparr>"

definition sample_source :: import_source where
  "sample_source = \<lparr>is_kind = LOCAL_PATH, is_repository = None, is_revision = None,
     is_path = Some ''/models/m''\<rparr>"

definition sample_import :: "uuid \<Rightarrow> model_import" where
  "sample_import i = \<lparr>mi_id = i, mi_name = ''m'', mi_serving_binding_id = ''gpu-1'',
     mi_source = sample_source, mi_credential_ref = None, mi_state = MI_VALIDATING,
     mi_model_artifact = None, mi_validation = None, mi_failure = None, mi_created_at = ''t0'',
     mi_updated_at = ''t0'', mi_resource_version = 1\<rparr>"

definition sample_line :: "string \<Rightarrow> dict" where
  "sample_line m = [(''level'', JStr ''info''), (''message'', JStr m)]"

end
