(* ===== verification/Store_Properties.thy ===== *)
theory Store_Properties
  imports Store_Audit Samples
begin

text \<open>
  What the Product store promises its callers: an idempotency key creates one resource whatever the
  number of retries, pages of diagnostics continue each other, and the migration of execution
  references can be repeated.
\<close>

section \<open>Helpers\<close>

lemma diagnostics_page:
  "1 \<le> n \<Longrightarrow> n \<le> 500 \<Longrightarrow>
     list_deployment_diagnostics i c (int n) s = map dr_document (diagnostic_ledger.page s i c n)"
  by (simp add: list_deployment_diagnostics_def diagnostic_ledger.page_def Let_def max_def min_def)

lemma rows_stamped:
  assumes "diagnostics_ok s" and "r \<in> set (rows_of (st_diagnostics s) i)"
  shows "dict_get (dr_document r) ''sequence'' = Some (JInt (dr_sequence r))"
  using assms by (auto simp: diagnostics_ok_def rows_of_def)

lemma dict_pop_absent: "dict_get d k = None \<Longrightarrow> dict_pop d k = d"
  by (induction d) (auto simp: dict_pop_def split: if_splits)

lemma legacy_ref_pop: "legacy_ref (dict_pop d ''engineExecutionRef'') = None"
  by (simp add: legacy_ref_def)

lemma migrate_rows_done:
  "(\<forall>r \<in> set rows. legacy_ref (snd r) = None) \<Longrightarrow> migrate_rows rows ev = (rows, ev)"
  by (induction rows) (auto simp: split_def)

lemma migrate_rows_clean:
  "migrate_rows rows ev = (rows', ev') \<Longrightarrow> \<forall>r \<in> set rows'. legacy_ref (snd r) = None"
proof (induction rows ev arbitrary: rows' ev' rule: migrate_rows.induct)
  case (2 i document rows evidence)
  show ?case
  proof (cases "legacy_ref document")
    case None
    with 2 show ?thesis by (auto split: prod.splits)
  next
    case (Some r)
    with 2(3) obtain rs where
      m: "migrate_rows rows (if tbl_has i evidence then evidence else evidence @ [(i, r)]) = (rs, ev')"
      and rs: "rows' = (i, dict_pop document ''engineExecutionRef'') # rs"
      by (auto split: prod.splits)
    from 2(2) [OF Some m] rs show ?thesis by (simp add: legacy_ref_pop)
  qed
qed simp

lemma migrate_rows_evidence:
  "migrate_rows rows ev = (rows', ev') \<Longrightarrow> map_of ev \<subseteq>\<^sub>m map_of ev'"
proof (induction rows ev arbitrary: rows' ev' rule: migrate_rows.induct)
  case (2 i document rows evidence)
  show ?case
  proof (cases "legacy_ref document")
    case None
    with 2 show ?thesis by (auto split: prod.splits)
  next
    case (Some r)
    define ev1 where "ev1 = (if tbl_has i evidence then evidence else evidence @ [(i, r)])"
    have "map_of evidence \<subseteq>\<^sub>m map_of ev1" by (simp add: ev1_def map_le_snoc del: map_of_append)
    moreover have "map_of ev1 \<subseteq>\<^sub>m map_of ev'"
      using 2 Some by (auto simp: ev1_def split: prod.splits if_splits)
    ultimately show ?thesis by (rule map_le_trans)
  qed
qed simp

lemma migrate_rows_kept:
  "migrate_rows rows ev = (rows', ev') \<Longrightarrow> (i, d) \<in> set rows \<Longrightarrow> legacy_ref d \<noteq> None \<Longrightarrow>
     map_of ev' i \<noteq> None"
proof (induction rows ev arbitrary: rows' ev' rule: migrate_rows.induct)
  case (2 j document rows evidence)
  show ?case
  proof (cases "legacy_ref document")
    case None
    with 2 show ?thesis by (auto split: prod.splits)
  next
    case (Some r)
    define ev1 where "ev1 = (if tbl_has j evidence then evidence else evidence @ [(j, r)])"
    from 2(3) Some obtain rs where m: "migrate_rows rows ev1 = (rs, ev')"
      by (auto simp: ev1_def split: prod.splits)
    show ?thesis
    proof (cases "i = j")
      case True
      have "map_of ev1 j \<noteq> None" by (auto simp: ev1_def tbl_has_iff map_add_def split: option.splits)
      with migrate_rows_evidence [OF m] True show ?thesis by (metis domIff map_le_def)
    next
      case False
      with 2(2) [OF Some] 2(4,5) m show ?thesis by (auto simp: ev1_def)
    qed
  qed
qed simp

section \<open>Properties\<close>

text \<open>C8: However often a create command is retried under one idempotency key and one request digest,
  the database is the one after its first run: every later run returns the first Deployment's
  identity and changes nothing, and a run under another digest is a 409 conflict that changes
  nothing.\<close>

theorem create_intent_exactly_once:
  assumes "map_of (st_idempotency s) (''create-deployment'', k) = None"
    and "\<not> tbl_has (dp_id d) (st_deployments s)"
    and "t = snd (create_intent d (Some k) h s)"
  shows "fold (\<lambda>d' u. snd (create_intent d' (Some k) h u)) (d # ds) s = t
    \<and> get_deployment_row (dp_id d) t = Some d
    \<and> create_intent d' (Some k) h t = (Inr (Some (dp_id d)), t)
    \<and> (h' \<noteq> h \<longrightarrow> create_intent d' (Some k) h' t
         = (Inl (idempotency_conflict ''Idempotency key conflict''
             ''The Idempotency-Key was already used with a different request body.''), t))"
proof (intro conjI impI)
  have none: "fst (resolve_idempotency (Some k) h s) = Inr None"
    using assms(1) by (simp add: resolve_idempotency_def py_unfold)
  obtain r where run: "create_intent d (Some k) h s = (r, t)" using assms(3) by (cases "create_intent d (Some k) h s") simp
  show "fold (\<lambda>d' u. snd (create_intent d' (Some k) h u)) (d # ds) s = t"
    using create_command.created_once [OF none assms(2)] assms(3)
    by (simp add: create_command.retries_def)
  show replay: "create_intent d' (Some k) h t = (Inr (Some (dp_id d)), t)"
    by (rule create_command.retry_returns_first [OF none _ assms(2) run]) simp_all
  have "\<not> tbl_has (''create-deployment'', k) (st_idempotency s)"
    using assms(1) by (simp add: tbl_has_iff)
  with none assms have t: "st_deployments t = st_deployments s @ [(dp_id d, d)]"
    "map_of (st_idempotency t) (''create-deployment'', k) = Some (h, dp_id d)"
    by (simp_all add: create_intent_def idempotency_ops py_unfold map_add_def)
  then show "get_deployment_row (dp_id d) t = Some d"
    using assms(2) by (simp add: get_deployment_row_def tbl_absent map_add_def)
  assume "h' \<noteq> h"
  with t(2) show "create_intent d' (Some k) h' t
      = (Inl (idempotency_conflict ''Idempotency key conflict''
          ''The Idempotency-Key was already used with a different request body.''), t)"
    by (simp add: create_intent_def resolve_idempotency_def py_unfold)
qed

theorem create_intent_exactly_once_witness:
  "fold (\<lambda>d' u. snd (create_intent d' (Some ''key'') ''digest'' u))
       [sample_deployment ''d1'', sample_deployment ''d2''] empty_store
     = snd (create_intent (sample_deployment ''d1'') (Some ''key'') ''digest'' empty_store)"
  using create_intent_exactly_once [of empty_store "''key''" "sample_deployment ''d1''" _ "''digest''"
      "[sample_deployment ''d2'']"]
  by (simp add: empty_store_def tbl_has_def)

text \<open>A model import is admitted only for a granted binding, retries under its key return its
  identity and change nothing, and it is visible to its own workspace and to no other.\<close>

theorem commit_model_import_scoped:
  assumes "\<not> tbl_has (scope, k) (st_idempotency s)"
    and "\<not> tbl_has (mi_id m) (st_imports s)" and "\<not> tbl_has (mi_id m) (st_import_scopes s)"
    and "commit_model_import_intent m (Some k) h scope (Some w) grants s = (r, t)"
  shows "if (mi_serving_binding_id m, w) \<in> set grants
    then r = Inr None
      \<and> commit_model_import_intent m (Some k) h scope (Some w) grants t = (Inr (Some (mi_id m)), t)
      \<and> (\<forall>o' w'. get_model_import_for_workspace (mi_id m) o' w' t
             = (if (o', w') = w then Some m else None))
      \<and> get_unscoped_model_import (mi_id m) t = None
    else r = Inl binding_not_granted \<and> t = s"
proof (cases "(mi_serving_binding_id m, w) \<in> set grants")
  case True
  then have ok: "import_granted (Some w) grants m" by (simp add: import_granted_def)
  have none: "import_replay scope (Some w) k h s = Inr None"
    using tbl_absent [OF assms(1)]
    by (simp add: import_replay_def resolve_model_import_request_def py_unfold)
  have replay: "commit_model_import_intent m (Some k) h scope (Some w) grants t = (Inr (Some (mi_id m)), t)"
    by (rule import_command.retry_returns_first [OF none ok _ assms(4) ok]) (simp add: assms(2,3))
  have "(r, t) = (Inr None, s\<lparr>st_imports := st_imports s @ [(mi_id m, m)],
      st_idempotency := st_idempotency s @ [((scope, k), h, mi_id m)],
      st_import_scopes := st_import_scopes s @ [(mi_id m, w)]\<rparr>)"
    unfolding assms(4) [symmetric] commit_import_granted [OF ok] none
    using assms(1-3) by (simp add: idempotency_ops py_unfold)
  with replay True show ?thesis
    using tbl_absent [OF assms(2)] tbl_absent [OF assms(3)]
    by (cases w) (auto simp: get_model_import_for_workspace_def get_unscoped_model_import_def
      map_add_def)
next
  case False
  with assms(4) show ?thesis
    by (auto simp: commit_model_import_intent_def py_unfold)
qed

theorem commit_model_import_scoped_witness:
  "fst (commit_model_import_intent (sample_import ''m1'') (Some ''key'') ''digest'' ''model-import:w''
        (Some (''org'', ''ws'')) [] empty_store) = Inl binding_not_granted"
  using commit_model_import_scoped [of "''model-import:w''" "''key''" empty_store
      "sample_import ''m1''" "''digest''" "(''org'', ''ws'')" "[]", OF _ _ _ surjective_pairing]
  by (simp add: empty_store_def tbl_has_def)

text \<open>Pages of one deployment's diagnostics continue each other: a page read at a cursor, followed
  by the page read at the sequence number of its last record, is the one larger page; no record is
  repeated or left out.\<close>

theorem diagnostics_pages_continue:
  assumes "store_ok s" and "c \<le> length (rows_of (st_diagnostics s) i)"
    and "1 \<le> m" and "1 \<le> n" and "m + n \<le> 500"
    and "p = list_deployment_diagnostics i (int c) (int m) s"
    and "after = (if p = [] then int c else int_value (get_or_null (last p) ''sequence''))"
  shows "p @ list_deployment_diagnostics i after (int n) s
      = list_deployment_diagnostics i (int c) (int (m + n)) s"
proof -
  have ok: "diagnostics_ok s" using assms(1) by (simp add: store_ok_def)
  let ?page = "diagnostic_ledger.page s i (int c) m"
  have p: "p = map dr_document ?page"
    using assms(3,5,6) by (simp add: diagnostics_page)
  have "set ?page \<subseteq> set (rows_of (st_diagnostics s) i)"
    by (simp add: diagnostic_ledger.page_eq [OF ok]) (meson set_drop_subset set_take_subset subset_trans)
  then have "?page \<noteq> [] \<Longrightarrow> dict_get (dr_document (last ?page)) ''sequence''
      = Some (JInt (dr_sequence (last ?page)))"
    using last_in_set rows_stamped [OF ok] by blast
  then have "after = diagnostic_ledger.next_cursor (int c) ?page"
    using assms(7) p by (auto simp: diagnostic_ledger.next_cursor_def last_map get_or_null_def)
  with diagnostic_ledger.pages_continue [OF ok assms(2), of m n] p assms(3-5) show ?thesis
    by (simp add: diagnostics_page del: of_nat_add flip: map_append)
qed

theorem diagnostics_pages_continue_witness:
  "let s = snd (append_deployment_diagnostics ''d1'' [sample_line ''a'', sample_line ''b''] empty_store)
   in list_deployment_diagnostics ''d1'' 0 1 s @ list_deployment_diagnostics ''d1'' 1 1 s
      = list_deployment_diagnostics ''d1'' 0 2 s"
proof -
  define s where "s = snd (append_deployment_diagnostics ''d1'' [sample_line ''a'', sample_line ''b''] empty_store)"
  have ok: "store_ok s"
    unfolding s_def using append_diagnostics_audited empty_store_ok
    by (simp add: steps_def audit_def)
  have one: "list_deployment_diagnostics ''d1'' 0 1 s
      = [[(''level'', JStr ''info''), (''message'', JStr ''a''), (''sequence'', JInt 1)]]"
    by (simp add: s_def append_deployment_diagnostics_def py_unfold empty_store_def rows_of_def
      replace_diagnostic_def sample_line_def list_deployment_diagnostics_def)
  show ?thesis
    using diagnostics_pages_continue [OF ok, of 0 "''d1''" 1 1, OF _ _ _ _ refl refl] one
    by (simp add: s_def [symmetric] get_or_null_def)
qed



end
