(* ===== verification/Engine.thy ===== *)
theory Engine
  imports Domain
begin

text \<open>
  The serving port (\<open>engine.py\<close>) and the activity source (\<open>runtime_activity.py\<close>) as the service sees
  them. A configured binding is not part of the repository: it is a record of functions over an
  external state \<open>'e\<close>, each of which raises or returns and may change that state. Optional methods,
  which the service looks up with \<open>getattr\<close>, are options; \<open>en_takes_version\<close> is the outcome of the
  signature inspection for a method name.
\<close>

section \<open>The port\<close>

record 'e engine =
  en_import_model :: "import_request \<Rightarrow> 'e \<Rightarrow> import_result res \<times> 'e"
  en_prepare :: "uuid \<Rightarrow> 'e \<Rightarrow> engine_handle option res \<times> 'e"
  en_start :: "uuid \<Rightarrow> artifact_ref \<Rightarrow> node_ref option \<Rightarrow> dict option \<Rightarrow> 'e \<Rightarrow> engine_handle res \<times> 'e"
  en_inspect :: "string \<Rightarrow> string \<Rightarrow> uuid \<Rightarrow> string \<Rightarrow> dict option \<Rightarrow> 'e \<Rightarrow> engine_observation res \<times> 'e"
  en_stop :: "string \<Rightarrow> string \<Rightarrow> uuid \<Rightarrow> string \<Rightarrow> dict option \<Rightarrow> 'e \<Rightarrow> engine_observation res \<times> 'e"
  en_verify_served_model :: "(uuid \<Rightarrow> string \<Rightarrow> string \<Rightarrow> string option \<Rightarrow> 'e \<Rightarrow> unit res \<times> 'e) option"
  en_diagnostics :: "(string \<Rightarrow> int \<Rightarrow> int \<Rightarrow> 'e \<Rightarrow> dict option res \<times> 'e) option"
  en_takes_version :: "string \<Rightarrow> bool"

definition SERVING_BINDING_REQUIRED :: exn where
  "SERVING_BINDING_REQUIRED = EngineFailure (serving_engine_failure
     ''SERVING_BINDING_REQUIRED: configure an external execution.engine.v1 binding'')"

definition unconfigured_import_model :: "import_request \<Rightarrow> 'e \<Rightarrow> import_result res \<times> 'e" where
  "unconfigured_import_model command e = (Inl SERVING_BINDING_REQUIRED, e)"

definition unconfigured_prepare :: "uuid \<Rightarrow> 'e \<Rightarrow> engine_handle option res \<times> 'e" where
  "unconfigured_prepare deployment_id e = (Inr None, e)"

definition unconfigured_start ::
    "uuid \<Rightarrow> artifact_ref \<Rightarrow> node_ref option \<Rightarrow> dict option \<Rightarrow> 'e \<Rightarrow> engine_handle res \<times> 'e" where
  "unconfigured_start deployment_id model node mv e = (Inl SERVING_BINDING_REQUIRED, e)"

definition unconfigured_inspect ::
    "string \<Rightarrow> string \<Rightarrow> uuid \<Rightarrow> string \<Rightarrow> dict option \<Rightarrow> 'e \<Rightarrow> engine_observation res \<times> 'e" where
  "unconfigured_inspect x u i g mv e =
     (Inr \<lparr>eo_ready = False, eo_detail = ''SERVING_BINDING_REQUIRED''\<rparr>, e)"

definition unconfigured_stop ::
    "string \<Rightarrow> string \<Rightarrow> uuid \<Rightarrow> string \<Rightarrow> dict option \<Rightarrow> 'e \<Rightarrow> engine_observation res \<times> 'e" where
  "unconfigured_stop x u i g mv e = (Inl (EngineFailure (serving_engine_failure
     ''SERVING_BINDING_REQUIRED: restore the original binding to release resources'')), e)"

definition unconfigured_diagnostics :: "string \<Rightarrow> int \<Rightarrow> int \<Rightarrow> 'e \<Rightarrow> dict option res \<times> 'e" where
  "unconfigured_diagnostics x after_sequence limit e = (Inr None, e)"

definition UnconfiguredServingExecutionPort :: "'e engine" where
  "UnconfiguredServingExecutionPort =
     \<lparr>en_import_model = unconfigured_import_model, en_prepare = unconfigured_prepare,
      en_start = unconfigured_start, en_inspect = unconfigured_inspect,
      en_stop = unconfigured_stop, en_verify_served_model = None,
      en_diagnostics = Some unconfigured_diagnostics, en_takes_version = (\<lambda>_. True)\<rparr>"

section \<open>The activity source\<close>

text \<open>
  The lifecycle object of the maintenance SDK runs the persist callback once between a first and a
  second exchange with its broker; either exchange may raise.
\<close>

datatype activity_call = Admit string | Transition string | Complete

record 'e activity =
  ac_before :: "activity_call \<Rightarrow> string \<Rightarrow> 'e \<Rightarrow> unit res \<times> 'e"
  ac_after :: "activity_call \<Rightarrow> string \<Rightarrow> 'e \<Rightarrow> unit res \<times> 'e"

text \<open>
  \<open>start_activity_source\<close>: the environment and the two file probes decide whether activity is
  managed; \<open>sdk_installed\<close> is whether the SDK imports and \<open>sdk_start\<close> its client construction and
  start.
\<close>

definition ACTIVITY_VARIABLES :: "string list" where
  "ACTIVITY_VARIABLES = [''CYRENE_RUNTIME_ACTIVITY_SOURCE_ID'',
     ''CYRENE_RUNTIME_ACTIVITY_SOURCE_TOKEN_FILE'', ''CYRENE_RUNTIME_ACTIVITY_CATALOG_GENERATION'',
     ''CYRENE_RUNTIME_MAINTENANCE_SOCKET'']"

definition env_get :: "(string \<times> string) list \<Rightarrow> string \<Rightarrow> string \<Rightarrow> string" where
  "env_get environ k dflt = (case map_of environ k of None \<Rightarrow> dflt | Some v \<Rightarrow> v)"

definition activity_error :: "string \<Rightarrow> exn" where
  "activity_error t = PyException ''RuntimeActivityConfigurationError'' t None"

definition start_activity_source ::
    "(string \<times> string) list \<Rightarrow> (string \<Rightarrow> bool) \<Rightarrow> (string \<Rightarrow> bool) \<Rightarrow> bool
     \<Rightarrow> (string \<Rightarrow> string \<Rightarrow> nat \<Rightarrow> string \<Rightarrow> 'a res) \<Rightarrow> string \<Rightarrow> 'a option res" where
  "start_activity_source environ is_file path_exists sdk_installed sdk_start expected_source_id =
     (let token_path = env_get environ ''CYRENE_RUNTIME_ACTIVITY_SOURCE_TOKEN_FILE''
            ''/run/secrets/cyrene-runtime-activity-token'';
          socket_path = env_get environ ''CYRENE_RUNTIME_MAINTENANCE_SOCKET''
            ''/run/cyrene/runtime-maintenance.sock'';
          managed = (\<exists>name \<in> set ACTIVITY_VARIABLES. map_of environ name \<noteq> None)
            \<or> is_file token_path \<or> path_exists socket_path;
          configured = env_get environ ''CYRENE_RUNTIME_ACTIVITY_SOURCE_ID'' expected_source_id;
          generation = strip (env_get environ ''CYRENE_RUNTIME_ACTIVITY_CATALOG_GENERATION'' [])
      in if \<not> managed then Inr None
         else if configured \<noteq> expected_source_id
         then Inl (activity_error (''activity source ID must be '' @ repr_str expected_source_id))
         else if generation = [] \<or> \<not> (\<forall>c \<in> set generation. is_digit c)
         then Inl (activity_error
           ''CYRENE_RUNTIME_ACTIVITY_CATALOG_GENERATION must be a non-negative integer'')
         else if \<not> sdk_installed
         then Inl (activity_error
           ''managed activity requires the installed cyrene_runtime_maintenance SDK'')
         else resB (sdk_start expected_source_id token_path (read_nat generation) socket_path)
                (\<lambda>lifecycle. Inr (Some lifecycle)))"

text \<open>A managed installation never runs untracked: it gets an activity source or refuses to start.\<close>

lemma start_activity_source_managed:
  "map_of environ ''CYRENE_RUNTIME_MAINTENANCE_SOCKET'' \<noteq> None \<Longrightarrow>
     start_activity_source environ isf pex inst st src \<noteq> Inr None"
  by (auto simp: start_activity_source_def Let_def ACTIVITY_VARIABLES_def resB_def split: sum.splits)

end
