(* ===== verification/Service.thy ===== *)
theory Service
  imports Store Engine
begin

text \<open>
  The Product service (\<open>service.py\<close>): model imports, the deployment lifecycle (create, launch,
  reconcile, stop, restart), events and diagnostics. The world is the database, the external state
  behind the engines and the activity broker, and how many clock readings and UUIDs were drawn.
\<close>

section \<open>World and environment\<close>

record 'e world =
  w_store :: store
  w_ext :: 'e
  w_clock :: nat
  w_uuids :: nat

record 'e env =
  rx_engine :: "'e engine"
  rx_engines :: "(string \<times> 'e engine) list option"
  rx_workspace_grants :: "(string \<times> string \<times> string) list"
  rx_activity :: "'e activity option"
  rx_now :: "nat \<Rightarrow> datetime"
  rx_uuid :: "nat \<Rightarrow> uuid"
  rx_sha256 :: "string \<Rightarrow> string"
  rx_dump_request :: "deployment_request \<Rightarrow> string"
  rx_dump_import :: "import_request \<Rightarrow> string"
  rx_sdk :: sdk

type_synonym ('e, 'a) svc = "('e world, exn, 'a) py"

definition db :: "'a store_op \<Rightarrow> ('e, 'a) svc" where
  "db m = zoom w_store (\<lambda>s w. w\<lparr>w_store := s\<rparr>) m"

definition db_get :: "(store \<Rightarrow> 'a) \<Rightarrow> ('e, 'a) svc" where
  "db_get f = getS (\<lambda>w. f (w_store w))"

definition ext :: "('e \<Rightarrow> 'a res \<times> 'e) \<Rightarrow> ('e, 'a) svc" where
  "ext f = zoom w_ext (\<lambda>e w. w\<lparr>w_ext := e\<rparr>) f"

definition utc_now :: "'e env \<Rightarrow> ('e, datetime) svc" where
  "utc_now env = bindE (getS (\<lambda>w. rx_now env (w_clock w))) (\<lambda>t.
     bindE (modS (\<lambda>w. w\<lparr>w_clock := Suc (w_clock w)\<rparr>)) (\<lambda>_. ret t))"

definition uuid4 :: "'e env \<Rightarrow> ('e, uuid) svc" where
  "uuid4 env = bindE (getS (\<lambda>w. rx_uuid env (w_uuids w))) (\<lambda>i.
     bindE (modS (\<lambda>w. w\<lparr>w_uuids := Suc (w_uuids w)\<rparr>)) (\<lambda>_. ret i))"

text \<open>A persist callback, run directly or by the activity source.\<close>

definition with_activity :: "'e env \<Rightarrow> activity_call \<Rightarrow> string \<Rightarrow> ('e, 'a) svc \<Rightarrow> ('e, 'a) svc" where
  "with_activity env call task persist =
     (case rx_activity env of
        None \<Rightarrow> persist
      | Some a \<Rightarrow>
          bindE (ext (ac_before a call task)) (\<lambda>_.
          bindE persist (\<lambda>r.
          bindE (ext (ac_after a call task)) (\<lambda>_. ret r))))"

text \<open>\<open>except ServingEngineFailure as exc\<close>: the failure as a value; other exceptions propagate.\<close>

definition try_engine :: "('e, 'a) svc \<Rightarrow> ('e, engine_failure + 'a) svc" where
  "try_engine m = catchE (bindE m (\<lambda>a. ret (Inr a))) (\<lambda>x.
     case x of EngineFailure f \<Rightarrow> ret (Inl f) | _ \<Rightarrow> raise x)"

section \<open>Pure helpers\<close>

definition request_hash :: "'e env \<Rightarrow> deployment_request \<Rightarrow> string" where
  "request_hash env command = rx_sha256 env (rx_dump_request env command)"

definition model_import_idempotency_scope ::
    "(string \<Rightarrow> string) \<Rightarrow> (string \<times> string) option \<Rightarrow> string" where
  "model_import_idempotency_scope sha256 scope =
     (case scope of
        None \<Rightarrow> ''model-import''
      | Some (organization_id, workspace_id) \<Rightarrow>
          ''model-import:workspace:''
            @ sha256 (dumps_compact False (JArr [JStr organization_id, JStr workspace_id])))"

definition serving_artifact :: "deployment \<Rightarrow> artifact_ref res" where
  "serving_artifact d =
     (case dp_model_artifact d of
        None \<Rightarrow> Inl (product_failure ''REACTOR_MODEL_VERSION_INVALID''
          ''Model artifact projection missing''
          ''A deployment must retain the full model or composed base artifact projection.'' 422)
      | Some a \<Rightarrow> Inr a)"

definition serving_identity :: "deployment \<Rightarrow> string res" where
  "serving_identity d =
     (case (dp_composition d, dp_model_version d) of
        (BASE_PLUS_LORA, Some mv) \<Rightarrow> version_id mv
      | _ \<Rightarrow> resB (serving_artifact d) (\<lambda>a. Inr (ar_digest a)))"

definition runtime_model_version :: "deployment \<Rightarrow> dict option" where
  "runtime_model_version d = (if dp_composition d = BASE_PLUS_LORA then dp_model_version d else None)"

definition require_model_version_keyword :: "'e engine \<Rightarrow> string \<Rightarrow> unit res" where
  "require_model_version_keyword engine operation =
     (if en_takes_version engine operation then Inr ()
      else Inl (EngineFailure (serving_engine_failure
        (''COMPOSED_MODEL_BACKEND_UNSUPPORTED: engine '' @ operation @ '' must accept model_version''))))"

definition engine_for :: "'e env \<Rightarrow> string \<Rightarrow> 'e engine res" where
  "engine_for env binding_id =
     (case rx_engines env of
        None \<Rightarrow> Inr (rx_engine env)
      | Some engines \<Rightarrow>
          (case map_of engines binding_id of
             None \<Rightarrow> Inl (product_failure ''REACTOR_BINDING_PERMISSION_DENIED''
               ''Serving binding unavailable''
               ''Select a configured serving binding available to this workspace.'' 403)
           | Some engine \<Rightarrow> Inr engine))"

section \<open>Lookups that raise\<close>

definition require_deployment :: "uuid \<Rightarrow> ('e, deployment) svc" where
  "require_deployment i =
     bindE (db_get (get_deployment_row i)) (\<lambda>row.
       case row of
         None \<Rightarrow> raise (product_failure ''REACTOR_DEPLOYMENT_NOT_FOUND'' ''Deployment not found''
                   ''No Deployment exists with the requested id.'' 404)
       | Some d \<Rightarrow> ret d)"

definition require_endpoint :: "uuid \<Rightarrow> ('e, endpoint) svc" where
  "require_endpoint i =
     bindE (db_get (get_endpoint_row i)) (\<lambda>row.
       case row of
         None \<Rightarrow> raise (product_failure ''REACTOR_ENDPOINT_NOT_FOUND'' ''Endpoint not found''
                   ''No Endpoint exists with the requested id.'' 404)
       | Some e \<Rightarrow> ret e)"

definition require_endpoint_opt :: "uuid option \<Rightarrow> ('e, endpoint option) svc" where
  "require_endpoint_opt i =
     (case i of
        None \<Rightarrow> ret None
      | Some j \<Rightarrow> bindE (require_endpoint j) (\<lambda>e. ret (Some e)))"

definition model_import_not_found :: exn where
  "model_import_not_found = product_failure ''REACTOR_MODEL_IMPORT_NOT_FOUND''
     ''Model import not found'' ''No ModelImport exists with the requested id.'' 404"

definition require_model_import :: "uuid \<Rightarrow> ('e, model_import) svc" where
  "require_model_import i =
     bindE (db_get (get_unscoped_model_import i)) (\<lambda>row.
       case row of None \<Rightarrow> raise model_import_not_found | Some m \<Rightarrow> ret m)"

definition require_model_import_for_scope ::
    "uuid \<Rightarrow> (string \<times> string) option \<Rightarrow> ('e, model_import) svc" where
  "require_model_import_for_scope i scope =
     (case scope of
        None \<Rightarrow> require_model_import i
      | Some (organization_id, workspace_id) \<Rightarrow>
          bindE (db_get (get_model_import_for_workspace i organization_id workspace_id)) (\<lambda>row.
            case row of None \<Rightarrow> raise model_import_not_found | Some m \<Rightarrow> ret m))"

section \<open>Events and Product diagnostics\<close>

definition append_event ::
    "'e env \<Rightarrow> uuid \<Rightarrow> deployment_phase \<Rightarrow> string \<Rightarrow> string option \<Rightarrow> ('e, deployment_event) svc" where
  "append_event env i phase message failure_code =
     bindE (utc_now env) (\<lambda>t. db (append_deployment_event i phase message t failure_code))"

definition record_deployment_diagnostic ::
    "'e env \<Rightarrow> uuid \<Rightarrow> string \<Rightarrow> string \<Rightarrow> string option \<Rightarrow> ('e, unit) svc" where
  "record_deployment_diagnostic env i message level diagnostic_code =
     bindE (utc_now env) (\<lambda>t.
     bindE (db (append_deployment_diagnostics i
       [[(''timestamp'', JStr t), (''level'', JStr level), (''source'', JStr ''product''),
         (''stream'', JStr ''combined''), (''code'', json_opt_str diagnostic_code),
         (''message'', JStr message), (''resourceId'', JStr i)]])) (\<lambda>_. ret ()))"

section \<open>Model imports\<close>

definition trust_remote_code_forbidden :: exn where
  "trust_remote_code_forbidden = product_failure ''REACTOR_TRUST_REMOTE_CODE_FORBIDDEN''
     ''Remote code is not admitted''
     (''trust_remote_code must remain disabled; this RC only imports ''
       @ ''self-contained config, tokenizer, and weight files.'') 422"

definition pending_import :: "import_request \<Rightarrow> uuid \<Rightarrow> datetime \<Rightarrow> model_import" where
  "pending_import command i now =
     \<lparr>mi_id = i, mi_name = iq_name command, mi_serving_binding_id = iq_serving_binding_id command,
      mi_source = iq_source command, mi_credential_ref = iq_credential_ref command,
      mi_state = MI_VALIDATING, mi_model_artifact = None, mi_validation = None, mi_failure = None,
      mi_created_at = now, mi_updated_at = now, mi_resource_version = 1\<rparr>"

definition import_failure :: "uuid \<Rightarrow> engine_failure \<Rightarrow> product_error" where
  "import_failure i f =
     \<lparr>pe_code = ''REACTOR_MODEL_IMPORT_FAILED'', pe_title = ''Model import failed'',
      pe_detail = ef_detail f, pe_status = ef_status f, pe_retryable = ef_retryable f,
      pe_resource_ref = Some (''/api/v1/model-imports/'' @ i)\<rparr>"

definition failure_doc :: "product_error \<Rightarrow> product_failure_doc" where
  "failure_doc e = \<lparr>pf_code = pe_code e, pf_message = pe_detail e, pf_retryable = pe_retryable e\<rparr>"

text \<open>The part of \<open>create_model_import\<close> after the intent is stored: import, then persist the outcome.\<close>

definition run_model_import ::
    "'e env \<Rightarrow> 'e engine \<Rightarrow> import_request \<Rightarrow> model_import \<Rightarrow> ('e, model_import) svc" where
  "run_model_import env engine command pending =
     (let task = ''model-import:'' @ mi_id pending
      in bindE (try_engine (ext (en_import_model engine command))) (\<lambda>outcome.
        case outcome of
          Inl f \<Rightarrow>
            bindE (utc_now env) (\<lambda>t.
            let err = import_failure (mi_id pending) f;
                failed = pending\<lparr>mi_state := MI_FAILED, mi_failure := Some (failure_doc err),
                                 mi_updated_at := t, mi_resource_version := 2\<rparr>
            in bindE (with_activity env Complete task (db (save_model_import failed))) (\<lambda>_.
               raise (ProductError err)))
        | Inr result \<Rightarrow>
            bindE (utc_now env) (\<lambda>t.
            let ready = pending\<lparr>mi_state := MI_READY,
                                mi_model_artifact := Some (ir_model_artifact result),
                                mi_validation := Some (ir_validation result), mi_failure := None,
                                mi_updated_at := t, mi_resource_version := 2\<rparr>
            in bindE (with_activity env Complete task (db (save_model_import ready))) (\<lambda>_.
               ret ready))))"

definition create_model_import ::
    "'e env \<Rightarrow> import_request \<Rightarrow> string option \<Rightarrow> (string \<times> string) option \<Rightarrow> ('e, model_import) svc" where
  "create_model_import env command key workspace_scope =
     (if iq_trust_remote_code command then raise trust_remote_code_forbidden
      else if (case workspace_scope of None \<Rightarrow> False
               | Some w \<Rightarrow> (iq_serving_binding_id command, fst w, snd w) \<notin> set (rx_workspace_grants env))
      then raise binding_not_granted
      else
        let digest = rx_sha256 env (rx_dump_import env command);
            scope = model_import_idempotency_scope (rx_sha256 env) workspace_scope
        in bindE (db (resolve_model_import_request key digest scope)) (\<lambda>replay_id.
          case replay_id of
            Some r \<Rightarrow> require_model_import_for_scope r workspace_scope
          | None \<Rightarrow>
              bindE (liftE (engine_for env (iq_serving_binding_id command))) (\<lambda>engine.
              bindE (utc_now env) (\<lambda>now.
              bindE (uuid4 env) (\<lambda>i.
              let pending = pending_import command i now;
                  task = ''model-import:'' @ i
              in bindE (with_activity env (Admit ''ACCEPTED'') task
                   (db (commit_model_import_intent pending key digest scope workspace_scope
                          (rx_workspace_grants env)))) (\<lambda>replay.
                 case replay of
                   Some r \<Rightarrow>
                     bindE (with_activity env Complete task (ret ())) (\<lambda>_.
                     require_model_import_for_scope r workspace_scope)
                 | None \<Rightarrow>
                     bindE (with_activity env (Transition ''RUNNING'') task (ret ())) (\<lambda>_.
                     run_model_import env engine command pending)))))))"

definition get_model_import :: "uuid \<Rightarrow> ('e, model_import) svc" where
  "get_model_import i = require_model_import i"

definition list_model_imports :: "('e, model_import list) svc" where
  "list_model_imports = db_get list_model_imports_rows"

definition list_model_imports_for_workspace :: "string \<times> string \<Rightarrow> ('e, model_import list) svc" where
  "list_model_imports_for_workspace scope =
     db_get (list_model_imports_for_workspace_rows (fst scope) (snd scope))"

section \<open>Launching a deployment\<close>

definition fail_composed_identity ::
    "'e engine \<Rightarrow> deployment \<Rightarrow> dict \<Rightarrow> engine_handle \<Rightarrow> ('e, unit) svc" where
  "fail_composed_identity engine d mv handle =
     bindE (liftE (version_id mv)) (\<lambda>expected_id.
     bindE (try_engine
       (bindE (liftE (require_model_version_keyword engine ''stop'')) (\<lambda>_.
        ext (en_stop engine (eh_execution_ref handle) (eh_endpoint_url handle) (dp_id d)
               expected_id (Some mv))))) (\<lambda>cleanup.
     let detail = ''MODEL_VERSION_IDENTITY_MISMATCH: engine did not load '' @ expected_id
     in raise (EngineFailure
          \<lparr>ef_detail = (case cleanup of Inl f \<Rightarrow> detail @ ''; cleanup failed: '' @ ef_detail f
                        | Inr _ \<Rightarrow> detail),
           ef_execution_ref = Some (eh_execution_ref handle),
           ef_endpoint_url = Some (eh_endpoint_url handle), ef_status = 409,
           ef_retryable = (case cleanup of Inl f \<Rightarrow> ef_retryable f | Inr _ \<Rightarrow> False)\<rparr>)))"

definition verify_started_model_identity ::
    "'e engine \<Rightarrow> uuid \<Rightarrow> engine_handle \<Rightarrow> ('e, unit) svc" where
  "verify_started_model_identity engine i handle =
     (case en_verify_served_model engine of
        None \<Rightarrow> ret ()
      | Some verifier \<Rightarrow>
          ext (verifier i (eh_execution_ref handle) (eh_endpoint_url handle) (eh_model handle)))"

definition cleanup_started_execution ::
    "'e engine \<Rightarrow> deployment \<Rightarrow> engine_handle \<Rightarrow> string \<Rightarrow> dict option \<Rightarrow> ('e, string option) svc" where
  "cleanup_started_execution engine d handle model_digest mv =
     bindE (try_engine
       (bindE (liftE (if mv \<noteq> None then require_model_version_keyword engine ''stop'' else Inr ())) (\<lambda>_.
        ext (en_stop engine (eh_execution_ref handle) (eh_endpoint_url handle) (dp_id d)
               model_digest mv)))) (\<lambda>r.
     ret (case r of Inl f \<Rightarrow> Some (ef_detail f) | Inr _ \<Rightarrow> None))"

text \<open>\<open>id=deployment.endpoint_id or uuid4()\<close>\<close>

definition endpoint_id_or_new :: "'e env \<Rightarrow> deployment \<Rightarrow> ('e, uuid) svc" where
  "endpoint_id_or_new env d = (case dp_endpoint_id d of Some i \<Rightarrow> ret i | None \<Rightarrow> uuid4 env)"

text \<open>An Endpoint document: its creation time and version continue those of the previous one.\<close>

definition next_endpoint ::
    "uuid \<Rightarrow> uuid \<Rightarrow> endpoint_state \<Rightarrow> string \<Rightarrow> string option \<Rightarrow> datetime \<Rightarrow> endpoint option \<Rightarrow> endpoint" where
  "next_endpoint i d state url model now previous =
     \<lparr>ep_id = i, ep_deployment_id = d, ep_state = state, ep_url = url, ep_model = model,
      ep_created_at = (case previous of None \<Rightarrow> now | Some p \<Rightarrow> ep_created_at p),
      ep_updated_at = now,
      ep_resource_version = (case previous of None \<Rightarrow> 1 | Some p \<Rightarrow> ep_resource_version p + 1)\<rparr>"

definition launch_prepare :: "'e env \<Rightarrow> deployment \<Rightarrow> ('e, deployment) svc" where
  "launch_prepare env d =
     bindE (liftE (engine_for env (dp_serving_binding_id d))) (\<lambda>engine.
     bindE (ext (en_prepare engine (dp_id d))) (\<lambda>prepared.
     case prepared of
       None \<Rightarrow> ret d
     | Some p \<Rightarrow>
         bindE (utc_now env) (\<lambda>now.
         bindE (require_endpoint_opt (dp_endpoint_id d)) (\<lambda>previous.
         bindE (endpoint_id_or_new env d) (\<lambda>i.
         let pending = next_endpoint i (dp_id d) ES_PROVISIONING (eh_endpoint_url p) (eh_model p) now
                         previous;
             d' = d\<lparr>dp_endpoint_id := Some i\<rparr>
         in bindE (db (save_pair d' pending (Some (eh_execution_ref p)))) (\<lambda>_. ret d'))))))"

definition start_failure :: "uuid \<Rightarrow> engine_failure \<Rightarrow> product_error" where
  "start_failure i f =
     \<lparr>pe_code = ''REACTOR_SERVING_START_FAILED'', pe_title = ''Serving startup failed'',
      pe_detail = ef_detail f, pe_status = ef_status f, pe_retryable = ef_retryable f,
      pe_resource_ref = Some (''/api/v1/deployments/'' @ i)\<rparr>"

definition failed_deployment :: "deployment \<Rightarrow> product_error \<Rightarrow> datetime \<Rightarrow> deployment" where
  "failed_deployment d err t =
     d\<lparr>dp_observed_state := OS_FAILED, dp_failure := Some (failure_doc err), dp_updated_at := t,
       dp_resource_version := dp_resource_version d + 1\<rparr>"

definition persist_failure ::
    "'e env \<Rightarrow> deployment \<Rightarrow> deployment \<Rightarrow> engine_failure \<Rightarrow> ('e, unit) svc" where
  "persist_failure env d failed f =
     (case (ef_execution_ref f, ef_endpoint_url f) of
        (Some x, Some u) \<Rightarrow>
          bindE (utc_now env) (\<lambda>now.
          bindE (require_endpoint_opt (dp_endpoint_id d)) (\<lambda>previous.
          bindE (endpoint_id_or_new env d) (\<lambda>i.
          let e = next_endpoint i (dp_id d) ES_UNHEALTHY u
                    (case previous of None \<Rightarrow> None | Some p \<Rightarrow> ep_model p) now previous
          in db (save_pair (failed\<lparr>dp_endpoint_id := Some i\<rparr>) e (Some x)))))
      | _ \<Rightarrow> db (save_deployment failed))"

text \<open>The \<open>except ServingEngineFailure\<close> block, after the cleanup has been tried.\<close>

definition launch_failed :: "'e env \<Rightarrow> deployment \<Rightarrow> engine_failure \<Rightarrow> ('e, deployment) svc" where
  "launch_failed env d f =
     (let err = start_failure (dp_id d) f
      in bindE (utc_now env) (\<lambda>t.
         bindE (with_activity env Complete (''deployment:'' @ dp_id d)
                  (persist_failure env d (failed_deployment d err t) f)) (\<lambda>_.
         bindE (append_event env (dp_id d) PH_FAILED (ef_detail f) (Some (pe_code err))) (\<lambda>_.
         bindE (record_deployment_diagnostic env (dp_id d)
                  (''Serving startup failed: '' @ ef_detail f) ''error'' (Some (pe_code err))) (\<lambda>_.
         raise (ProductError err))))))"

text \<open>The cleanup of a started execution whose probe or verification failed.\<close>

definition failure_after_cleanup :: "engine_failure \<Rightarrow> string option \<Rightarrow> engine_failure" where
  "failure_after_cleanup f cleanup_detail =
     (case cleanup_detail of
        None \<Rightarrow> f
      | Some c \<Rightarrow> f\<lparr>ef_detail := ef_detail f @ ''; cleanup failed: '' @ c, ef_retryable := True\<rparr>)"

definition launch_cleanup ::
    "'e engine \<Rightarrow> deployment \<Rightarrow> engine_handle \<Rightarrow> artifact_ref \<Rightarrow> dict option \<Rightarrow> engine_failure
     \<Rightarrow> ('e, engine_failure) svc" where
  "launch_cleanup engine d handle model mv f =
     bindE (liftE (case mv of None \<Rightarrow> Inr (ar_digest model) | Some v \<Rightarrow> version_id v)) (\<lambda>digest.
     bindE (cleanup_started_execution engine d handle digest mv) (\<lambda>c.
     ret (failure_after_cleanup f c)))"

definition launch_start ::
    "'e engine \<Rightarrow> deployment \<Rightarrow> artifact_ref \<Rightarrow> dict option \<Rightarrow> ('e, engine_handle) svc" where
  "launch_start engine d model mv =
     (case mv of
        None \<Rightarrow> ext (en_start engine (dp_id d) model (dp_node_ref d) None)
      | Some v \<Rightarrow>
          bindE (liftE (require_model_version_keyword engine ''start'')) (\<lambda>_.
          ext (en_start engine (dp_id d) model (dp_node_ref d) (Some v))))"

text \<open>A composed start must echo the id of the version document.\<close>

definition launch_identity ::
    "'e engine \<Rightarrow> deployment \<Rightarrow> dict option \<Rightarrow> engine_handle \<Rightarrow> ('e, unit) svc" where
  "launch_identity engine d mv handle =
     (case mv of
        None \<Rightarrow> ret ()
      | Some v \<Rightarrow>
          bindE (liftE (version_key v)) (\<lambda>key.
          if json_opt_str (eh_model_version_id handle) \<noteq> key
          then fail_composed_identity engine d v handle
          else ret ()))"

definition launch_probe :: "'e env \<Rightarrow> 'e engine \<Rightarrow> deployment \<Rightarrow> engine_handle \<Rightarrow> ('e, unit) svc" where
  "launch_probe env engine d handle =
     bindE (append_event env (dp_id d) PH_PROBING ''Waiting for inference readiness probe'' None) (\<lambda>_.
     verify_started_model_identity engine (dp_id d) handle)"

definition ready_deployment :: "deployment \<Rightarrow> uuid \<Rightarrow> datetime \<Rightarrow> deployment" where
  "ready_deployment d i t =
     d\<lparr>dp_observed_state := OS_READY, dp_endpoint_id := Some i, dp_updated_at := t,
       dp_failure := None, dp_resource_version := dp_resource_version d + 1\<rparr>"

definition launch_ready :: "'e env \<Rightarrow> deployment \<Rightarrow> engine_handle \<Rightarrow> ('e, deployment) svc" where
  "launch_ready env d handle =
     bindE (utc_now env) (\<lambda>t.
     bindE (require_endpoint_opt (dp_endpoint_id d)) (\<lambda>previous.
     bindE (endpoint_id_or_new env d) (\<lambda>i.
     let e = next_endpoint i (dp_id d) ES_READY (eh_endpoint_url handle) (eh_model handle) t previous;
         ready = ready_deployment d i t
     in bindE (with_activity env Complete (''deployment:'' @ dp_id d)
                (db (save_pair ready e (Some (eh_execution_ref handle))))) (\<lambda>_.
        bindE (append_event env (dp_id d) PH_READY
                 (''Model identity verified: '' @ show_opt (eh_model handle)) None) (\<lambda>_.
        bindE (record_deployment_diagnostic env (dp_id d)
                 (''Deployment ready: '' @ show_opt (eh_model handle)) ''info''
                 (Some ''REACTOR.DEPLOYMENT.READY'')) (\<lambda>_.
        ret ready))))))"

text \<open>
  The \<open>try\<close> block in three stretches, by what its handler finds set: nothing started yet, a start
  whose cleanup was already handled, and a started execution that must be released.
\<close>

definition launch_attempt :: "'e env \<Rightarrow> deployment \<Rightarrow> ('e, deployment) svc" where
  "launch_attempt env d =
     bindE (liftE (serving_artifact d)) (\<lambda>model.
     bindE (liftE (engine_for env (dp_serving_binding_id d))) (\<lambda>engine.
     let mv = runtime_model_version d
     in bindE (try_engine (launch_start engine d model mv)) (\<lambda>started.
       case started of
         Inl f \<Rightarrow> launch_failed env d f
       | Inr handle \<Rightarrow>
           bindE (try_engine (launch_identity engine d mv handle)) (\<lambda>identified.
           case identified of
             Inl f \<Rightarrow> launch_failed env d f
           | Inr _ \<Rightarrow>
               bindE (try_engine (launch_probe env engine d handle)) (\<lambda>probed.
               case probed of
                 Inl f \<Rightarrow> bindE (launch_cleanup engine d handle model mv f) (launch_failed env d)
               | Inr _ \<Rightarrow> launch_ready env d handle)))))"

definition launch :: "'e env \<Rightarrow> deployment \<Rightarrow> ('e, deployment) svc" where
  "launch env d =
     bindE (append_event env (dp_id d) PH_LOADING
              (''Serving process starting on '' @ dp_serving_binding_id d) None) (\<lambda>_.
     bindE (launch_prepare env d) (launch_attempt env))"

section \<open>Reading and reconciling\<close>

text \<open>
  \<open>get_deployment\<close> observes the engine outside the command lock and commits under it, if the stored
  version is still the observed one. The two halves are separate definitions, as commands of other
  threads may run between them.
\<close>

datatype observation = Settled deployment | Changed int deployment endpoint

definition inspect_engine ::
    "'e engine \<Rightarrow> deployment \<Rightarrow> string \<Rightarrow> endpoint \<Rightarrow> artifact_ref \<Rightarrow> ('e, engine_observation) svc" where
  "inspect_engine engine d execution_ref e model =
     (case runtime_model_version d of
        None \<Rightarrow> ext (en_inspect engine execution_ref (ep_url e) (dp_id d) (ar_digest model) None)
      | Some v \<Rightarrow>
          bindE (liftE (require_model_version_keyword engine ''inspect'')) (\<lambda>_.
          bindE (liftE (serving_identity d)) (\<lambda>identity.
          ext (en_inspect engine execution_ref (ep_url e) (dp_id d) identity (Some v)))))"

definition reconciled_deployment :: "deployment \<Rightarrow> engine_observation \<Rightarrow> datetime \<Rightarrow> deployment" where
  "reconciled_deployment d ob now =
     d\<lparr>dp_observed_state := (if eo_ready ob then OS_READY else OS_DEGRADED),
       dp_failure := (if eo_ready ob then None
          else Some \<lparr>pf_code = ''REACTOR_EXECUTION_UNAVAILABLE'', pf_message = eo_detail ob,
                     pf_retryable = True\<rparr>),
       dp_updated_at := now, dp_resource_version := dp_resource_version d + 1\<rparr>"

definition reconciled_endpoint :: "endpoint \<Rightarrow> engine_observation \<Rightarrow> datetime \<Rightarrow> endpoint" where
  "reconciled_endpoint e ob now =
     e\<lparr>ep_state := (if eo_ready ob then ES_READY else ES_UNHEALTHY), ep_updated_at := now,
       ep_resource_version := ep_resource_version e + 1\<rparr>"

definition observe_deployment :: "'e env \<Rightarrow> uuid \<Rightarrow> ('e, observation) svc" where
  "observe_deployment env i =
     bindE (require_deployment i) (\<lambda>d.
     case dp_endpoint_id d of
       None \<Rightarrow> ret (Settled d)
     | Some j \<Rightarrow>
         if dp_observed_state d \<notin> {OS_READY, OS_DEGRADED} then ret (Settled d)
         else
           bindE (require_endpoint j) (\<lambda>e.
           bindE (db_get (get_execution_ref (dp_id d))) (\<lambda>evidence.
           case evidence of
             None \<Rightarrow> ret (Settled d)
           | Some execution_ref \<Rightarrow>
               bindE (liftE (serving_artifact d)) (\<lambda>model.
               bindE (liftE (engine_for env (dp_serving_binding_id d))) (\<lambda>engine.
               bindE (inspect_engine engine d execution_ref e model) (\<lambda>ob.
               if (if eo_ready ob then OS_READY else OS_DEGRADED) \<noteq> dp_observed_state d
                  \<or> (if eo_ready ob then ES_READY else ES_UNHEALTHY) \<noteq> ep_state e
               then bindE (utc_now env) (\<lambda>now.
                 ret (Changed (dp_resource_version d) (reconciled_deployment d ob now)
                        (reconciled_endpoint e ob now)))
               else ret (Settled d)))))))"

definition commit_observation :: "observation \<Rightarrow> ('e, deployment) svc" where
  "commit_observation ob =
     (case ob of
        Settled d \<Rightarrow> ret d
      | Changed version d e \<Rightarrow>
          bindE (require_deployment (dp_id d)) (\<lambda>current.
          if dp_resource_version current \<noteq> version then ret current
          else bindE (db (save_pair d e None)) (\<lambda>_. ret d)))"

definition get_deployment :: "'e env \<Rightarrow> uuid \<Rightarrow> ('e, deployment) svc" where
  "get_deployment env i = bindE (observe_deployment env i) commit_observation"

definition get_endpoint :: "'e env \<Rightarrow> uuid \<Rightarrow> ('e, endpoint) svc" where
  "get_endpoint env i =
     bindE (require_endpoint i) (\<lambda>e.
     bindE (get_deployment env (ep_deployment_id e)) (\<lambda>_.
     require_endpoint i))"

section \<open>Creating a deployment\<close>

definition new_deployment :: "deployment_request \<Rightarrow> uuid \<Rightarrow> datetime \<Rightarrow> deployment" where
  "new_deployment command i now =
     \<lparr>dp_id = i, dp_name = cq_name command, dp_model_artifact = cq_model_artifact command,
      dp_composition = cq_composition command, dp_model_version = cq_model_version command,
      dp_desired_state = DS_ACTIVE, dp_observed_state = OS_STARTING,
      dp_serving_binding_id = cq_serving_binding_id command, dp_node_ref = cq_node_ref command,
      dp_endpoint_id = None, dp_failure = None, dp_created_at = now, dp_updated_at = now,
      dp_resource_version = 1\<rparr>"

definition create_deployment ::
    "'e env \<Rightarrow> deployment_request \<Rightarrow> string option \<Rightarrow> ('e, deployment) svc" where
  "create_deployment env command key =
     (let digest = request_hash env command
      in bindE (db (resolve_idempotency key digest)) (\<lambda>replay_id.
        case replay_id of
          Some r \<Rightarrow> get_deployment env r
        | None \<Rightarrow>
            bindE (utc_now env) (\<lambda>now.
            bindE (uuid4 env) (\<lambda>i.
            bindE (liftE (validate_deployment (rx_sdk env) (new_deployment command i now))) (\<lambda>d.
            bindE (liftE (engine_for env (dp_serving_binding_id d))) (\<lambda>_.
            let task = ''deployment:'' @ dp_id d
            in bindE (with_activity env (Admit ''ACCEPTED'') task (db (create_intent d key digest))) (\<lambda>replay.
               case replay of
                 Some r \<Rightarrow>
                   bindE (with_activity env Complete task (ret ())) (\<lambda>_. get_deployment env r)
               | None \<Rightarrow>
                   bindE (append_event env (dp_id d) PH_QUEUED ''Deployment queued'' None) (\<lambda>_.
                   with_activity env (Transition ''DISPATCHING'') task (launch env d)))))))))"

section \<open>Stopping and restarting\<close>

definition stopping_deployment :: "deployment \<Rightarrow> datetime \<Rightarrow> deployment" where
  "stopping_deployment d now =
     d\<lparr>dp_desired_state := DS_STOPPED, dp_observed_state := OS_STOPPING, dp_updated_at := now,
       dp_resource_version := dp_resource_version d + 1\<rparr>"

definition stopped_deployment :: "deployment \<Rightarrow> datetime \<Rightarrow> deployment" where
  "stopped_deployment d now =
     d\<lparr>dp_observed_state := OS_STOPPED, dp_updated_at := now,
       dp_resource_version := dp_resource_version d + 1\<rparr>"

definition retired_endpoint :: "endpoint \<Rightarrow> datetime \<Rightarrow> endpoint" where
  "retired_endpoint e now =
     e\<lparr>ep_state := ES_RETIRED, ep_updated_at := now, ep_resource_version := ep_resource_version e + 1\<rparr>"

definition stop_failed :: "uuid \<Rightarrow> engine_failure \<Rightarrow> exn" where
  "stop_failed i f = ProductError
     \<lparr>pe_code = ''REACTOR_SERVING_STOP_FAILED'', pe_title = ''Serving stop failed'',
      pe_detail = ef_detail f, pe_status = 409, pe_retryable = True,
      pe_resource_ref = Some (''/api/v1/deployments/'' @ i)\<rparr>"

definition stop_engine :: "'e env \<Rightarrow> deployment \<Rightarrow> string \<Rightarrow> endpoint \<Rightarrow> ('e, unit) svc" where
  "stop_engine env d execution_ref e =
     bindE (try_engine
       (bindE (liftE (serving_artifact d)) (\<lambda>model.
        bindE (liftE (engine_for env (dp_serving_binding_id d))) (\<lambda>engine.
        case runtime_model_version d of
          None \<Rightarrow> ext (en_stop engine execution_ref (ep_url e) (dp_id d) (ar_digest model) None)
        | Some v \<Rightarrow>
            bindE (liftE (require_model_version_keyword engine ''stop'')) (\<lambda>_.
            bindE (liftE (serving_identity d)) (\<lambda>identity.
            ext (en_stop engine execution_ref (ep_url e) (dp_id d) identity (Some v)))))))) (\<lambda>r.
     case r of Inl f \<Rightarrow> raise (stop_failed (dp_id d) f) | Inr _ \<Rightarrow> ret ())"

definition stop_activity :: "deployment \<Rightarrow> activity_call" where
  "stop_activity d = (if dp_observed_state d \<in> {OS_STARTING, OS_STOPPING}
     then Transition ''CANCELING'' else Admit ''CANCELING'')"

definition persist_stopped :: "deployment \<Rightarrow> endpoint option \<Rightarrow> datetime \<Rightarrow> ('e, unit) svc" where
  "persist_stopped stopped e stopped_at =
     (case e of
        None \<Rightarrow> db (save_deployment stopped)
      | Some e \<Rightarrow> db (save_pair stopped (retired_endpoint e stopped_at) None))"

definition stop_deployment :: "'e env \<Rightarrow> uuid \<Rightarrow> ('e, deployment) svc" where
  "stop_deployment env i =
     bindE (require_deployment i) (\<lambda>d.
     if dp_observed_state d = OS_STOPPED then ret d
     else
       bindE (utc_now env) (\<lambda>now.
       let stopping = stopping_deployment d now;
           task = ''deployment:'' @ dp_id d
       in bindE (with_activity env (stop_activity d) task (db (save_deployment stopping))) (\<lambda>_.
          bindE (append_event env (dp_id d) PH_STOPPING ''Stopping deployment'' None) (\<lambda>_.
          bindE (require_endpoint_opt (dp_endpoint_id d)) (\<lambda>e.
          bindE (db_get (get_execution_ref (dp_id d))) (\<lambda>evidence.
          bindE (case (evidence, e) of
                   (Some x, Some e') \<Rightarrow> stop_engine env d x e' | _ \<Rightarrow> ret ()) (\<lambda>_.
          bindE (utc_now env) (\<lambda>stopped_at.
          let stopped = stopped_deployment stopping stopped_at
          in bindE (with_activity env Complete task (persist_stopped stopped e stopped_at)) (\<lambda>_.
             bindE (append_event env (dp_id d) PH_RELEASED
                      ''Deployment stopped and resources released'' None) (\<lambda>_.
             bindE (record_deployment_diagnostic env (dp_id d)
                      ''Deployment stopped and resources released'' ''info''
                      (Some ''REACTOR.DEPLOYMENT.RELEASED'')) (\<lambda>_.
             ret stopped)))))))))))"

definition starting_deployment :: "deployment \<Rightarrow> node_ref \<Rightarrow> datetime \<Rightarrow> deployment" where
  "starting_deployment d node now =
     d\<lparr>dp_node_ref := Some node, dp_desired_state := DS_ACTIVE, dp_observed_state := OS_STARTING,
       dp_failure := None, dp_updated_at := now, dp_resource_version := dp_resource_version d + 1\<rparr>"

definition restart_deployment :: "'e env \<Rightarrow> uuid \<Rightarrow> node_ref \<Rightarrow> int \<Rightarrow> ('e, deployment) svc" where
  "restart_deployment env i node version =
     bindE (require_deployment i) (\<lambda>d0.
     if dp_resource_version d0 \<noteq> version
     then raise (product_failure ''REACTOR_VERSION_CONFLICT'' ''Deployment changed''
            ''Refresh the Deployment before restarting.'' 409)
     else
       bindE (if dp_observed_state d0 \<noteq> OS_STOPPED then stop_deployment env i else ret d0) (\<lambda>d.
       bindE (utc_now env) (\<lambda>now.
       let starting = starting_deployment d node now;
           task = ''deployment:'' @ dp_id starting
       in bindE (with_activity env (Admit ''ACCEPTED'') task (db (save_deployment starting))) (\<lambda>_.
          bindE (append_event env (dp_id d) PH_QUEUED ''Deployment restart queued'' None) (\<lambda>_.
          with_activity env (Transition ''DISPATCHING'') task (launch env starting))))))"

section \<open>Events and diagnostics\<close>

definition deployment_events :: "uuid \<Rightarrow> ('e, uuid \<times> deployment_event list) svc" where
  "deployment_events i =
     bindE (require_deployment i) (\<lambda>_.
     bindE (db_get (list_deployment_events i)) (\<lambda>events. ret (i, events)))"

definition get_or :: "dict \<Rightarrow> string \<Rightarrow> json \<Rightarrow> json" where
  "get_or d k dflt = (case dict_get d k of None \<Rightarrow> dflt | Some v \<Rightarrow> v)"

text \<open>The document stored for one runtime record.\<close>

definition runtime_document :: "uuid \<Rightarrow> dict \<Rightarrow> dict" where
  "runtime_document i record =
     [(''timestamp'', JStr (py_str (get_or record ''timestamp'' (JStr [])))),
      (''level'', JStr (py_str (get_or record ''level'' (JStr ''info'')))),
      (''source'', JStr ''runtime''),
      (''stream'', JStr (py_str (get_or record ''stream'' (JStr ''combined'')))),
      (''code'', get_or_null record ''code''),
      (''message'', JStr (take 8192 (py_str (get_or record ''message'' (JStr []))))),
      (''requestId'', get_or_null record ''requestId''),
      (''operationId'', get_or_null record ''operationId''),
      (''resourceId'', JStr i),
      (''truncated'', JBool (truthy (get_or record ''truncated'' (JBool False))))]"

text \<open>Iterating over \<open>page.get("items", [])\<close> and keeping the dictionaries.\<close>

fun dict_items :: "json \<Rightarrow> dict list res" where
  "dict_items (JArr vs) = Inr (concat (map (\<lambda>v. case v of JObj d \<Rightarrow> [d] | _ \<Rightarrow> []) vs))"
| "dict_items (JObj d) = Inr []"
| "dict_items (JStr s) = Inr []"
| "dict_items v = Inl (TypeError ''object is not iterable'')"

definition degraded_document :: "uuid \<Rightarrow> datetime \<Rightarrow> dict" where
  "degraded_document i t =
     [(''timestamp'', JStr t), (''level'', JStr ''warn''), (''source'', JStr ''runtime''),
      (''stream'', JStr ''combined''), (''code'', JStr ''REACTOR.DIAGNOSTICS.DEGRADED''),
      (''message'', JStr ''The serving runtime could not keep all of its output.''),
      (''resourceId'', JStr i)]"

definition page_degraded :: "dict \<Rightarrow> bool" where
  "page_degraded page \<longleftrightarrow> get_or_null page ''diagnosticsDegraded'' = JBool True"

definition store_runtime_page :: "'e env \<Rightarrow> uuid \<Rightarrow> dict \<Rightarrow> ('e, bool) svc" where
  "store_runtime_page env i page =
     bindE (liftE (dict_items (get_or page ''items'' (JArr [])))) (\<lambda>records.
     bindE (if page_degraded page
            then bindE (utc_now env) (\<lambda>t. ret [degraded_document i t]) else ret []) (\<lambda>warning.
     let documents = map (runtime_document i) records @ warning
     in bindE (if documents \<noteq> []
               then bindE (db (append_deployment_diagnostics i documents)) (\<lambda>_. ret ())
               else ret ()) (\<lambda>_.
        bindE (if is_instance_int (get_or_null page ''nextSequence'')
               then db (set_runtime_diagnostics_cursor i
                      (int_value (get_or_null page ''nextSequence'')))
               else ret ()) (\<lambda>_.
        ret (page_degraded page)))))"

definition harvest_runtime_diagnostics :: "'e env \<Rightarrow> deployment \<Rightarrow> ('e, bool) svc" where
  "harvest_runtime_diagnostics env d =
     bindE (db_get (get_execution_ref (dp_id d))) (\<lambda>evidence.
     case evidence of
       None \<Rightarrow> ret False
     | Some execution_ref \<Rightarrow>
         bindE (liftE (engine_for env (dp_serving_binding_id d))) (\<lambda>engine.
         case en_diagnostics engine of
           None \<Rightarrow> ret True
         | Some reader \<Rightarrow>
             bindE (db_get (runtime_diagnostics_cursor (dp_id d))) (\<lambda>cursor.
             bindE (ext (reader execution_ref cursor 500)) (\<lambda>page.
             case page of
               None \<Rightarrow> ret True
             | Some p \<Rightarrow> store_runtime_page env (dp_id d) p))))"

definition DIAGNOSTICS_PAGE_MAX_BYTES :: nat where
  "DIAGNOSTICS_PAGE_MAX_BYTES = 1024 * 1024"

definition page_size :: "diagnostic_record list \<Rightarrow> nat" where
  "page_size items =
     length (dumps_compact True (JArr (map (\<lambda>r. JObj (dump_diagnostic r)) items)))"

function bound_diagnostics :: "diagnostic_record list \<Rightarrow> diagnostic_record list" where
  "bound_diagnostics kept =
     (if kept \<noteq> [] \<and> DIAGNOSTICS_PAGE_MAX_BYTES < page_size kept
      then bound_diagnostics (butlast kept) else kept)"
  by pat_completeness auto

termination bound_diagnostics
  by (relation "measure length") auto

declare bound_diagnostics.simps [simp del]

fun validate_all :: "dict list \<Rightarrow> diagnostic_record list res" where
  "validate_all [] = Inr []"
| "validate_all (d # ds) =
     resB (validate_diagnostic d) (\<lambda>r. resB (validate_all ds) (\<lambda>rs. Inr (r # rs)))"

record diagnostics_page =
  pg_resource_id :: uuid
  pg_items :: "diagnostic_record list"
  pg_next_sequence :: int
  pg_terminal :: bool
  pg_degraded :: bool

definition deployment_diagnostics ::
    "'e env \<Rightarrow> uuid \<Rightarrow> int \<Rightarrow> int \<Rightarrow> ('e, diagnostics_page) svc" where
  "deployment_diagnostics env i after_sequence limit =
     (if after_sequence < 0
      then raise (product_failure ''REACTOR_DIAGNOSTICS_SEQUENCE_INVALID''
             ''Invalid diagnostics cursor'' ''afterSequence must be non-negative.'' 422)
      else
        bindE (require_deployment i) (\<lambda>d.
        bindE (harvest_runtime_diagnostics env d) (\<lambda>degraded.
        bindE (db_get (list_deployment_diagnostics i after_sequence limit)) (\<lambda>records.
        bindE (liftE (validate_all records)) (\<lambda>all_items.
        let items = bound_diagnostics all_items
        in bindE (db_get (deployment_diagnostics_degraded i)) (\<lambda>stored_degraded.
           ret \<lparr>pg_resource_id = i, pg_items = items,
                pg_next_sequence = (if items = [] then after_sequence
                                    else dg_sequence (last items)),
                pg_terminal = (dp_observed_state d \<in> {OS_STOPPED, OS_FAILED}),
                pg_degraded = (degraded \<or> stored_degraded)\<rparr>))))))"

end
