(* ===== verification/WP.thy ===== *)
theory WP
  imports Prelude
begin

text \<open>
  A weakest-precondition reading of the computations: \<open>wp m Q E s\<close> says that \<open>m\<close> run from \<open>s\<close> either
  returns with \<open>Q\<close> or raises with \<open>E\<close>. The equations of \<open>wp_simps\<close> evaluate it along the code.
\<close>

named_theorems wp_simps "weakest preconditions of the combinators"

definition wp :: "('s, 'e, 'a) py \<Rightarrow> ('a \<Rightarrow> 's \<Rightarrow> bool) \<Rightarrow> ('e \<Rightarrow> 's \<Rightarrow> bool) \<Rightarrow> 's \<Rightarrow> bool" where
  "wp m Q E s = (case m s of (Inl e, t) \<Rightarrow> E e t | (Inr a, t) \<Rightarrow> Q a t)"

lemma wp_bindE [wp_simps]: "wp (bindE m f) Q E s = wp m (\<lambda>a. wp (f a) Q E) E s"
  by (auto simp: wp_def bindE_def split: sum.splits prod.splits)

lemma wp_ret [wp_simps]: "wp (ret a) Q E s = Q a s"
  by (simp add: wp_def ret_def)

lemma wp_raise [wp_simps]: "wp (raise e) Q E s = E e s"
  by (simp add: wp_def raise_def)

lemma wp_getS [wp_simps]: "wp (getS f) Q E s = Q (f s) s"
  by (simp add: wp_def getS_def)

lemma wp_modS [wp_simps]: "wp (modS f) Q E s = Q () (f s)"
  by (simp add: wp_def modS_def)

lemma wp_liftE [wp_simps]: "wp (liftE r) Q E s = (case r of Inl e \<Rightarrow> E e s | Inr a \<Rightarrow> Q a s)"
  by (auto simp: wp_def liftE_def split: sum.splits)

lemma wp_catchE [wp_simps]: "wp (catchE m h) Q E s = wp m Q (\<lambda>e. wp (h e) Q E) s"
  by (auto simp: wp_def catchE_def split: sum.splits prod.splits)

lemma wp_txn_modS [wp_simps]: "wp (txn (modS f)) Q E s = Q () (f s)"
  by (simp add: wp_def txn_def modS_def)

lemma wp_conj_mono:
  assumes "wp m Q E s" and "\<And>a t. Q a t \<Longrightarrow> Q' a t" and "\<And>e t. E e t \<Longrightarrow> E' e t"
  shows "wp m Q' E' s"
  using assms by (auto simp: wp_def split: sum.splits prod.splits)

lemma wp_Inr: "wp m Q E s \<Longrightarrow> m s = (Inr a, t) \<Longrightarrow> Q a t"
  by (simp add: wp_def)

lemma wp_Inl: "wp m Q E s \<Longrightarrow> m s = (Inl e, t) \<Longrightarrow> E e t"
  by (simp add: wp_def)

end
