(* ===== verification/Service_WP.thy ===== *)
theory Service_WP
  imports Service Store_Facts WP
begin

text \<open>
  Weakest preconditions of the service's primitives: one rule each, and for those whose outcome
  depends on an engine or the activity broker a rule that covers every outcome.
\<close>

section \<open>The service primitives\<close>

lemma wp_db [wp_simps]:
  "wp (db m) Q E w = wp m (\<lambda>a s. Q a (w\<lparr>w_store := s\<rparr>)) (\<lambda>e s. E e (w\<lparr>w_store := s\<rparr>)) (w_store w)"
  by (auto simp: wp_def db_def zoom_def split: sum.splits prod.splits)

lemma wp_db_get [wp_simps]: "wp (db_get f) Q E w = Q (f (w_store w)) w"
  by (simp add: db_get_def wp_simps)

lemma wp_utc_now [wp_simps]:
  "wp (utc_now env) Q E w = Q (rx_now env (w_clock w)) (w\<lparr>w_clock := Suc (w_clock w)\<rparr>)"
  by (simp add: utc_now_def wp_simps)

lemma wp_uuid4 [wp_simps]:
  "wp (uuid4 env) Q E w = Q (rx_uuid env (w_uuids w)) (w\<lparr>w_uuids := Suc (w_uuids w)\<rparr>)"
  by (simp add: uuid4_def wp_simps)

lemma wp_try_engine [wp_simps]:
  "wp (try_engine m) Q E w
     = wp m (\<lambda>a. Q (Inr a)) (\<lambda>x w. case x of EngineFailure f \<Rightarrow> Q (Inl f) w | _ \<Rightarrow> E x w) w"
  by (auto simp: try_engine_def wp_def catchE_def bindE_def ret_def raise_def
    split: sum.splits prod.splits exn.splits)

lemma wp_ext:
  "(\<And>a e. Q a (w\<lparr>w_ext := e\<rparr>)) \<Longrightarrow> (\<And>x e. E x (w\<lparr>w_ext := e\<rparr>)) \<Longrightarrow> wp (ext f) Q E w"
  by (auto simp: wp_def ext_def zoom_def split: sum.splits prod.splits)

lemma wp_require_deployment [wp_simps]:
  "wp (require_deployment i) Q E w =
     (case get_deployment_row i (w_store w) of
        None \<Rightarrow> E (product_failure ''REACTOR_DEPLOYMENT_NOT_FOUND'' ''Deployment not found''
                   ''No Deployment exists with the requested id.'' 404) w
      | Some d \<Rightarrow> Q d w)"
  by (simp add: require_deployment_def wp_simps split: option.split)

definition endpoint_not_found :: exn where
  "endpoint_not_found = product_failure ''REACTOR_ENDPOINT_NOT_FOUND'' ''Endpoint not found''
     ''No Endpoint exists with the requested id.'' 404"

lemma wp_require_endpoint [wp_simps]:
  "wp (require_endpoint i) Q E w =
     (case get_endpoint_row i (w_store w) of None \<Rightarrow> E endpoint_not_found w | Some e \<Rightarrow> Q e w)"
  by (simp add: require_endpoint_def endpoint_not_found_def wp_simps split: option.split)

lemma wp_require_endpoint_opt:
  assumes "\<And>p. (case p of None \<Rightarrow> j = None | Some e \<Rightarrow> j \<noteq> None
       \<and> get_endpoint_row (the j) (w_store w) = Some e) \<Longrightarrow> Q p w"
    and "E endpoint_not_found w"
  shows "wp (require_endpoint_opt j) Q E w"
  using assms(1) [of None] assms(1) [of "Some e" for e] assms(2)
  by (auto simp: require_endpoint_opt_def wp_simps split: option.splits)

lemma max_or_zero_ge: "x \<in> set xs \<Longrightarrow> x \<le> max_or_zero xs"
proof -
  have mono: "a \<le> foldl max a ys \<and> (\<forall>y \<in> set ys. y \<le> foldl max a ys)" for a :: int and ys
  proof (induction ys arbitrary: a)
    case (Cons y ys)
    from Cons [of "max a y"] show ?case by (auto intro: order_trans)
  qed simp
  assume "x \<in> set xs"
  then show ?thesis using mono by (cases xs) auto
qed

text \<open>An event append never collides, since its number exceeds every number in use.\<close>

lemma append_deployment_event_succeeds:
  obtains e where "append_deployment_event i ph m t c s
    = (Inr e, s\<lparr>st_events := st_events s @ [(i, e)]\<rparr>)" "ev_phase e = ph" "ev_message e = m"
    "ev_failure_code e = c"
proof -
  have "max_or_zero (map ev_sequence (rows_of (st_events s) i)) + 1
      \<notin> set (map ev_sequence (rows_of (st_events s) i))"
    using max_or_zero_ge by fastforce
  then show thesis
    by (intro that) (auto simp: append_deployment_event_def py_unfold Let_def)
qed

lemma wp_append_event:
  assumes "\<And>e. ev_phase e = ph \<Longrightarrow> ev_message e = m \<Longrightarrow> ev_failure_code e = c \<Longrightarrow>
     Q e (w\<lparr>w_clock := Suc (w_clock w),
            w_store := (w_store w)\<lparr>st_events := st_events (w_store w) @ [(i, e)]\<rparr>\<rparr>)"
  shows "wp (append_event env i ph m c) Q E w"
proof -
  obtain e where "append_deployment_event i ph m (rx_now env (w_clock w)) c (w_store w)
      = (Inr e, (w_store w)\<lparr>st_events := st_events (w_store w) @ [(i, e)]\<rparr>)"
    and "ev_phase e = ph" "ev_message e = m" "ev_failure_code e = c"
    by (rule append_deployment_event_succeeds)
  with assms show ?thesis by (simp add: append_event_def wp_simps) (simp add: wp_def)
qed

lemma wp_record_diagnostic:
  assumes "\<And>t. Q () (w\<lparr>w_clock := Suc (w_clock w), w_store := (w_store w)\<lparr>st_diagnostics := t\<rparr>\<rparr>)"
  shows "wp (record_deployment_diagnostic env i m l c) Q E w"
  using assms
  by (simp add: record_deployment_diagnostic_def wp_simps)
    (simp add: append_deployment_diagnostics_def wp_def py_unfold)

lemma wp_save_deployment [wp_simps]:
  "wp (save_deployment d) Q E s
     = Q () (s\<lparr>st_deployments := tbl_replace (dp_id d) d (st_deployments s)\<rparr>)"
  by (simp add: save_deployment_def wp_simps)

lemma wp_save_pair [wp_simps]:
  "wp (save_pair d e x) Q E s
     = Q () (s\<lparr>st_deployments := tbl_replace (dp_id d) d (st_deployments s),
              st_endpoints := replace_endpoint e (st_endpoints s),
              st_evidence := (case x of None \<Rightarrow> st_evidence s
                | Some v \<Rightarrow> tbl_replace (dp_id d) v (st_evidence s))\<rparr>)"
  by (cases x) (simp_all add: save_pair_def wp_def py_unfold)

text \<open>Without an activity source a persist callback runs directly.\<close>

lemma with_activity_none: "rx_activity env = None \<Longrightarrow> with_activity env c t m = m"
  by (simp add: with_activity_def)

lemma get_row_simps [simp]:
  "get_deployment_row i (s\<lparr>st_events := a\<rparr>) = get_deployment_row i s"
  "get_deployment_row i (s\<lparr>st_diagnostics := b\<rparr>) = get_deployment_row i s"
  "get_endpoint_row j (s\<lparr>st_events := a\<rparr>) = get_endpoint_row j s"
  "get_endpoint_row j (s\<lparr>st_diagnostics := b\<rparr>) = get_endpoint_row j s"
  "get_endpoint_row j (s\<lparr>st_deployments := d\<rparr>) = get_endpoint_row j s"
  "get_execution_ref i (s\<lparr>st_events := a\<rparr>) = get_execution_ref i s"
  "get_execution_ref i (s\<lparr>st_diagnostics := b\<rparr>) = get_execution_ref i s"
  "get_execution_ref i (s\<lparr>st_deployments := d\<rparr>) = get_execution_ref i s"
  by (simp_all add: get_deployment_row_def get_endpoint_row_def get_execution_ref_def)

lemma replace_endpoint_get: "map_of (replace_endpoint e t) (ep_id e) = Some (ep_deployment_id e, e)"
  by (auto simp: replace_endpoint_def map_add_def map_of_eq_None_iff split: option.splits
      dest: map_of_SomeD)

end
