(* ===== verification/Service_Lifecycle.thy ===== *)
theory Service_Lifecycle
  imports Service_WP Samples
begin

text \<open>
  Outcomes of the lifecycle commands of a standalone service (no activity source), for an arbitrary
  engine: what a launch leaves when it returns and when it raises, what a stop leaves, and that a
  reconciliation never overwrites a newer document.
\<close>

section \<open>Launch\<close>

definition stored :: "deployment \<Rightarrow> 'e world \<Rightarrow> bool" where
  "stored d w \<longleftrightarrow> get_deployment_row (dp_id d) (w_store w) = Some d"

text \<open>The database after a launch of \<open>d\<close> that returned \<open>r\<close>.\<close>

definition launched :: "deployment \<Rightarrow> deployment \<Rightarrow> store \<Rightarrow> bool" where
  "launched d r s \<longleftrightarrow>
     dp_id r = dp_id d \<and> dp_observed_state r = OS_READY \<and> dp_failure r = None
   \<and> dp_resource_version r = dp_resource_version d + 1
   \<and> dp_desired_state r = dp_desired_state d \<and> dp_node_ref r = dp_node_ref d
   \<and> get_deployment_row (dp_id d) s = Some r
   \<and> (\<exists>e. dp_endpoint_id r = Some (ep_id e) \<and> get_endpoint_row (ep_id e) s = Some e
        \<and> ep_deployment_id e = dp_id d \<and> ep_state e = ES_READY)
   \<and> get_execution_ref (dp_id d) s \<noteq> None"

text \<open>
  The database after a launch of \<open>d\<close> that raised \<open>x\<close>: either the failure is recorded, with the
  failed engine's evidence if it gave any, or the document is the started one.
\<close>

definition failure_stored :: "deployment \<Rightarrow> engine_failure \<Rightarrow> store \<Rightarrow> bool" where
  "failure_stored d f s \<longleftrightarrow> (\<exists>r. get_deployment_row (dp_id d) s = Some r
     \<and> dp_observed_state r = OS_FAILED
     \<and> dp_failure r = Some (failure_doc (start_failure (dp_id d) f))
     \<and> dp_resource_version r = dp_resource_version d + 1
     \<and> (ef_execution_ref f \<noteq> None \<longrightarrow> ef_endpoint_url f \<noteq> None \<longrightarrow>
          get_execution_ref (dp_id d) s = ef_execution_ref f))"

definition launch_raised :: "deployment \<Rightarrow> exn \<Rightarrow> store \<Rightarrow> bool" where
  "launch_raised d x s \<longleftrightarrow>
     (\<exists>f. x = ProductError (start_failure (dp_id d) f) \<and> failure_stored d f s)
   \<or> (\<exists>j. get_deployment_row (dp_id d) s = Some (d\<lparr>dp_endpoint_id := j\<rparr>))"

lemma stored_simps [simp]:
  "stored d (w\<lparr>w_ext := e\<rparr>) = stored d w"
  "stored d (w\<lparr>w_clock := n\<rparr>) = stored d w"
  "stored d (w\<lparr>w_uuids := n\<rparr>) = stored d w"
  "stored d (w\<lparr>w_store := (w_store w)\<lparr>st_events := a\<rparr>\<rparr>) = stored d w"
  by (simp_all add: stored_def)

lemma stored_raised: "stored d w \<Longrightarrow> launch_raised d x (w_store w)"
proof -
  assume "stored d w"
  moreover have "d = d\<lparr>dp_endpoint_id := dp_endpoint_id d\<rparr>" by simp
  ultimately show ?thesis unfolding stored_def launch_raised_def by metis
qed

lemma failure_raised: "failure_stored d f s \<Longrightarrow> launch_raised d (ProductError (start_failure (dp_id d) f)) s"
  by (auto simp: launch_raised_def)

lemma failure_stored_simps [simp]:
  "failure_stored d f (s\<lparr>st_events := a\<rparr>) = failure_stored d f s"
  "failure_stored d f (s\<lparr>st_diagnostics := b\<rparr>) = failure_stored d f s"
  by (simp_all add: failure_stored_def)

lemma wp_endpoint_id:
  "(\<And>i v. w_store v = w_store w \<Longrightarrow> Q i v) \<Longrightarrow> wp (endpoint_id_or_new env d) Q E w"
  by (cases "dp_endpoint_id d") (simp_all add: endpoint_id_or_new_def wp_simps)

lemma wp_persist_failure:
  assumes "stored d w" and failed: "failed = failed_deployment d (start_failure (dp_id d) f) t"
    and Q: "\<And>v. failure_stored d f (w_store v) \<Longrightarrow> Q () v"
    and E: "\<And>v. stored d v \<Longrightarrow> E endpoint_not_found v"
  shows "wp (persist_failure env d failed f) Q E w"
proof (cases "ef_execution_ref f = None \<or> ef_endpoint_url f = None")
  case True
  then have run: "persist_failure env d failed f = db (save_deployment failed)"
    by (auto simp: persist_failure_def split: option.splits)
  show ?thesis
    unfolding run wp_db wp_save_deployment
    by (rule Q) (use True in \<open>auto simp: failure_stored_def failed failed_deployment_def
      get_deployment_row_def\<close>)
next
  case False
  then obtain x u where xu: "ef_execution_ref f = Some x" "ef_endpoint_url f = Some u" by force
  have "failure_stored d f
     (s\<lparr>st_deployments := tbl_replace (dp_id d) (failed\<lparr>dp_endpoint_id := Some i\<rparr>) (st_deployments s),
        st_endpoints := b, st_evidence := tbl_replace (dp_id d) x (st_evidence s)\<rparr>)" for s b i
    using xu by (simp add: failure_stored_def failed failed_deployment_def get_deployment_row_def
      get_execution_ref_def)
  moreover have "dp_id failed = dp_id d" by (simp add: failed failed_deployment_def)
  ultimately show ?thesis
    using assms(1)
    by (cases "dp_endpoint_id d") (auto simp: persist_failure_def xu wp_simps endpoint_id_or_new_def
      intro!: wp_require_endpoint_opt Q E)
qed

lemma wp_launch_failed:
  assumes "stored d w" and none: "rx_activity env = None"
    and E: "\<And>x v. launch_raised d x (w_store v) \<Longrightarrow> E x v"
  shows "wp (launch_failed env d f) Q E w"
proof -
  have rest: "wp (bindE (append_event env (dp_id d) PH_FAILED (ef_detail f) c) (\<lambda>_.
      bindE (record_deployment_diagnostic env (dp_id d) m l c) (\<lambda>_.
      raise (ProductError (start_failure (dp_id d) f))))) Q E v"
    if "failure_stored d f (w_store v)" for v c m l
    using that unfolding wp_bindE
    by (intro wp_append_event wp_record_diagnostic) (simp add: wp_raise failure_raised E)
  show ?thesis
    unfolding launch_failed_def Let_def with_activity_none [OF none] wp_bindE wp_utc_now
    by (rule wp_persist_failure [OF _ refl])
      (use assms(1) in \<open>auto intro!: E stored_raised rest [unfolded wp_bindE]\<close>)
qed

lemma wp_launch_ready:
  assumes "stored d w" and none: "rx_activity env = None"
    and Q: "\<And>r v. launched d r (w_store v) \<Longrightarrow> Q r v"
    and E: "\<And>x v. launch_raised d x (w_store v) \<Longrightarrow> E x v"
  shows "wp (launch_ready env d h) Q E w"
proof -
  have rest: "wp (bindE (append_event env (dp_id d) PH_READY m None) (\<lambda>_.
      bindE (record_deployment_diagnostic env (dp_id d) m' l c) (\<lambda>_. ret r))) Q E v"
    if "launched d r (w_store v)" for r v m m' l c
    using that unfolding wp_bindE
    by (intro wp_append_event wp_record_diagnostic) (auto simp: wp_ret launched_def intro!: Q)
  have save: "launched d (ready_deployment d i t)
     (s\<lparr>st_deployments := tbl_replace (dp_id d) (ready_deployment d i t) (st_deployments s),
        st_endpoints := replace_endpoint (next_endpoint i (dp_id d) ES_READY u m n p) b,
        st_evidence := tbl_replace (dp_id d) x (st_evidence s)\<rparr>)" for s b i t u m n p x
    using replace_endpoint_get [of "next_endpoint i (dp_id d) ES_READY u m n p" b]
    by (auto simp: launched_def ready_deployment_def get_deployment_row_def get_endpoint_row_def
      get_execution_ref_def next_endpoint_def
      intro!: exI [of _ "next_endpoint i (dp_id d) ES_READY u m n p"])
  show ?thesis
    unfolding launch_ready_def Let_def with_activity_none [OF none] wp_bindE wp_utc_now wp_db
      wp_save_pair
    by (intro wp_require_endpoint_opt wp_endpoint_id rest [unfolded wp_bindE])
      (use assms(1) save in \<open>auto simp: ready_deployment_def intro!: E stored_raised\<close>)
qed

text \<open>The parts of a launch that only talk to the engine and append events keep every document.\<close>

definition same_rows :: "'e world \<Rightarrow> 'e world \<Rightarrow> bool" where
  "same_rows v w \<longleftrightarrow> st_deployments (w_store w) = st_deployments (w_store v)
     \<and> st_endpoints (w_store w) = st_endpoints (w_store v)
     \<and> st_evidence (w_store w) = st_evidence (w_store v)"

interpretation same_rows: frame_rel same_rows
  by unfold_locales (auto simp: same_rows_def)

lemma same_rows_stored: "same_rows v w \<Longrightarrow> stored d v \<Longrightarrow> stored d w"
  by (simp add: same_rows_def stored_def get_deployment_row_def)

lemma wp_steps:
  "steps R m \<Longrightarrow> (\<And>a t. R s t \<Longrightarrow> Q a t) \<Longrightarrow> (\<And>e t. R s t \<Longrightarrow> E e t) \<Longrightarrow> wp m Q E s"
  using stepsD [of R m s] by (auto simp: wp_def split: sum.splits prod.splits)

lemma ext_same_rows [frame_rules]: "steps same_rows (ext f)"
  by (simp add: ext_def steps_def zoom_def same_rows_def split: prod.splits)

lemma append_event_same_rows [frame_rules]: "steps same_rows (append_event env i ph m c)"
proof (rule stepsI)
  fix w
  have "wp (append_event env i ph m c) (\<lambda>_. same_rows w) (\<lambda>_. same_rows w) w"
    by (rule wp_append_event) (simp add: same_rows_def)
  then show "same_rows w (snd (append_event env i ph m c w))"
    by (simp add: wp_def split_def split: sum.splits)
qed

lemma try_engine_same_rows [frame_rules]: "steps same_rows m \<Longrightarrow> steps same_rows (try_engine m)"
proof -
  have "steps same_rows (case x of EngineFailure f \<Rightarrow> ret (Inl f) | _ \<Rightarrow> raise x)" for x
    by (cases x) (simp_all add: same_rows.steps_raise same_rows.steps_ret)
  then show "steps same_rows m \<Longrightarrow> steps same_rows (try_engine m)"
    unfolding try_engine_def by (intro frame_rules)
qed

lemma launch_engine_same_rows:
  "steps same_rows (launch_start engine d model mv)"
  "steps same_rows (launch_identity engine d mv h)"
  "steps same_rows (launch_probe env engine d h)"
  "steps same_rows (launch_cleanup engine d h model mv f)"
  unfolding launch_start_def launch_identity_def launch_probe_def launch_cleanup_def
    fail_composed_identity_def verify_started_model_identity_def cleanup_started_execution_def
    Let_def
  by (intro frame_rules)+

lemma wp_stored:
  assumes "steps same_rows m" and "stored d w"
    and "\<And>a v. stored d v \<Longrightarrow> Q a v" and "\<And>e v. stored d v \<Longrightarrow> E e v"
  shows "wp m Q E w"
  using assms(1) by (rule wp_steps) (use assms same_rows_stored in blast)+

lemma wp_launch_attempt:
  assumes st: "stored d w" and none: "rx_activity env = None"
    and Q: "\<And>r v. launched d r (w_store v) \<Longrightarrow> Q r v"
    and E: "\<And>x v. launch_raised d x (w_store v) \<Longrightarrow> E x v"
  shows "wp (launch_attempt env d) Q E w"
proof -
  note [simp] = none
  have keep: "stored d v \<Longrightarrow> E x v" for x v by (rule E) (rule stored_raised)
  have failed: "stored d v \<Longrightarrow> wp (launch_failed env d f) Q E v" for f v
    by (rule wp_launch_failed [OF _ none E])
  have ready: "stored d v \<Longrightarrow> wp (launch_ready env d h) Q E v" for h v
    by (rule wp_launch_ready [OF _ none Q E])
  have probe: "stored d v \<Longrightarrow>
      wp (bindE (try_engine (launch_probe env engine d h)) (\<lambda>probed. case probed of
           Inl f \<Rightarrow> bindE (launch_cleanup engine d h model mv f) (launch_failed env d)
         | Inr _ \<Rightarrow> launch_ready env d h)) Q E v" for v engine h model mv
    unfolding wp_bindE
    by (rule wp_stored [OF try_engine_same_rows [OF launch_engine_same_rows(3)]])
      (auto simp: wp_bindE ready keep split: sum.split
        intro!: wp_stored [OF launch_engine_same_rows(4)] failed)
  have identity: "stored d v \<Longrightarrow>
      wp (bindE (try_engine (launch_identity engine d mv h)) (\<lambda>identified. case identified of
           Inl f \<Rightarrow> launch_failed env d f
         | Inr _ \<Rightarrow> bindE (try_engine (launch_probe env engine d h)) (\<lambda>probed. case probed of
             Inl f \<Rightarrow> bindE (launch_cleanup engine d h model mv f) (launch_failed env d)
           | Inr _ \<Rightarrow> launch_ready env d h))) Q E v" for v engine h model mv
    unfolding wp_bindE [of "try_engine (launch_identity engine d mv h)"]
    by (rule wp_stored [OF try_engine_same_rows [OF launch_engine_same_rows(2)]])
      (auto simp: keep split: sum.split intro: failed probe)
  have start: "stored d v \<Longrightarrow>
      wp (bindE (try_engine (launch_start engine d model mv)) (\<lambda>started. case started of
           Inl f \<Rightarrow> launch_failed env d f
         | Inr h \<Rightarrow> bindE (try_engine (launch_identity engine d mv h)) (\<lambda>identified. case identified of
             Inl f \<Rightarrow> launch_failed env d f
           | Inr _ \<Rightarrow> bindE (try_engine (launch_probe env engine d h)) (\<lambda>probed. case probed of
               Inl f \<Rightarrow> bindE (launch_cleanup engine d h model mv f) (launch_failed env d)
             | Inr _ \<Rightarrow> launch_ready env d h)))) Q E v" for v engine model mv
    unfolding wp_bindE [of "try_engine (launch_start engine d model mv)"]
    by (rule wp_stored [OF try_engine_same_rows [OF launch_engine_same_rows(1)]])
      (auto simp: keep split: sum.split intro: failed identity)
  show ?thesis
    unfolding launch_attempt_def Let_def wp_bindE [of "liftE r" for r] wp_liftE
    using st by (auto simp: keep start split: sum.split)
qed

lemma wp_launch_prepare:
  assumes st: "stored d w"
    and Q: "\<And>j v. stored (d\<lparr>dp_endpoint_id := j\<rparr>) v \<Longrightarrow> Q (d\<lparr>dp_endpoint_id := j\<rparr>) v"
    and E: "\<And>x v. stored d v \<Longrightarrow> E x v"
  shows "wp (launch_prepare env d) Q E w"
proof -
  have same: "d = d\<lparr>dp_endpoint_id := dp_endpoint_id d\<rparr>" by simp
  have keep: "stored d v \<Longrightarrow> Q d v" for v
    using Q [of "dp_endpoint_id d"] same by simp
  have save: "wp (bindE (db (save_pair (d\<lparr>dp_endpoint_id := Some i\<rparr>) e x))
      (\<lambda>_. ret (d\<lparr>dp_endpoint_id := Some i\<rparr>))) Q E v" for i e x v
    unfolding wp_bindE wp_db wp_save_pair wp_ret
    by (rule Q) (simp add: stored_def get_deployment_row_def)
  show ?thesis
    unfolding launch_prepare_def Let_def wp_bindE wp_liftE
    using st by (auto simp: E split: sum.split intro!: wp_stored [OF ext_same_rows])
      (auto simp: wp_simps [unfolded wp_db] keep E split: option.split
        intro!: wp_require_endpoint_opt wp_endpoint_id save [unfolded wp_bindE])
qed

lemma launched_endpoint_id: "launched (d\<lparr>dp_endpoint_id := j\<rparr>) r s = launched d r s"
  by (simp add: launched_def)

lemma launch_raised_endpoint_id: "launch_raised (d\<lparr>dp_endpoint_id := j\<rparr>) x s = launch_raised d x s"
  by (auto simp: launch_raised_def failure_stored_def)

lemma wp_launch:
  fixes env :: "'e env"
  assumes st: "stored d w" and none: "rx_activity env = None"
  shows "wp (launch env d) (\<lambda>r v. launched d r (w_store v)) (\<lambda>x v. launch_raised d x (w_store v)) w"
  unfolding launch_def wp_bindE
proof (rule wp_stored [OF append_event_same_rows st])
  fix a and v :: "'e world" assume "stored d v"
  then show "wp (launch_prepare env d) (\<lambda>d'. wp (launch_attempt env d')
      (\<lambda>r v. launched d r (w_store v)) (\<lambda>x v. launch_raised d x (w_store v)))
      (\<lambda>x v. launch_raised d x (w_store v)) v"
  proof (rule wp_launch_prepare)
    fix j and u :: "'e world" assume "stored (d\<lparr>dp_endpoint_id := j\<rparr>) u"
    then show "wp (launch_attempt env (d\<lparr>dp_endpoint_id := j\<rparr>))
        (\<lambda>r v. launched d r (w_store v)) (\<lambda>x v. launch_raised d x (w_store v)) u"
      by (rule wp_launch_attempt [OF _ none])
        (simp_all add: launched_endpoint_id launch_raised_endpoint_id)
  qed (rule stored_raised)
qed (rule stored_raised)

section \<open>Stop\<close>

text \<open>A stop of \<open>d\<close> under way: the STOPPING document is stored, endpoints and evidence are as before.\<close>

definition stop_pending :: "deployment \<Rightarrow> store \<Rightarrow> store \<Rightarrow> bool" where
  "stop_pending d s t \<longleftrightarrow>
     (\<exists>now. get_deployment_row (dp_id d) t = Some (stopping_deployment d now))
   \<and> st_endpoints t = st_endpoints s \<and> st_evidence t = st_evidence s"

definition stop_done :: "deployment \<Rightarrow> deployment \<Rightarrow> store \<Rightarrow> store \<Rightarrow> bool" where
  "stop_done d r s t \<longleftrightarrow>
     get_deployment_row (dp_id d) t = Some r
   \<and> dp_id r = dp_id d \<and> dp_desired_state r = DS_STOPPED \<and> dp_observed_state r = OS_STOPPED
   \<and> dp_resource_version r = dp_resource_version d + 2 \<and> dp_endpoint_id r = dp_endpoint_id d
   \<and> dp_model_artifact r = dp_model_artifact d
   \<and> st_evidence t = st_evidence s
   \<and> (\<forall>i e. dp_endpoint_id d = Some i \<longrightarrow> get_endpoint_row i s = Some e \<longrightarrow> ep_id e = i \<longrightarrow>
        (\<exists>now. get_endpoint_row i t = Some (retired_endpoint e now)))"

lemma stop_pending_same_rows:
  "stop_pending d s (w_store v) \<Longrightarrow> same_rows v w \<Longrightarrow> stop_pending d s (w_store w)"
  by (auto simp: stop_pending_def same_rows_def get_deployment_row_def)

lemma stop_engine_same_rows [frame_rules]: "steps same_rows (stop_engine env d x e)"
  unfolding stop_engine_def by (intro frame_rules)

lemma stop_done_simps [simp]:
  "stop_done d r s (t\<lparr>st_events := a\<rparr>) = stop_done d r s t"
  "stop_done d r s (t\<lparr>st_diagnostics := b\<rparr>) = stop_done d r s t"
  by (simp_all add: stop_done_def)

lemma wp_persist_stopped:
  assumes p: "stop_pending d s (w_store w)"
    and e: "case e of None \<Rightarrow> dp_endpoint_id d = None
      | Some x \<Rightarrow> dp_endpoint_id d \<noteq> None \<and> get_endpoint_row (the (dp_endpoint_id d)) (w_store w) = Some x"
    and Q: "\<And>v. stop_done d (stopped_deployment (stopping_deployment d n) t) s (w_store v) \<Longrightarrow> Q () v"
  shows "wp (persist_stopped (stopped_deployment (stopping_deployment d n) t) e t) Q E w"
proof -
  have ends: "get_endpoint_row i (w_store w) = get_endpoint_row i s" for i
    using p by (simp add: stop_pending_def get_endpoint_row_def)
  have new: "map_of (replace_endpoint (retired_endpoint x t) b) (ep_id x)
      = Some (ep_deployment_id x, retired_endpoint x t)" for x b
    using replace_endpoint_get [of "retired_endpoint x t" b] by (simp add: retired_endpoint_def)
  show ?thesis
    by (cases e; use p e ends in \<open>auto simp: persist_stopped_def wp_simps stop_pending_def
        stopped_deployment_def stopping_deployment_def intro!: Q\<close>)
      (auto simp: stop_done_def stopped_deployment_def stopping_deployment_def get_deployment_row_def
        new get_endpoint_row_def)
qed

lemma wp_stop_deployment:
  fixes env :: "'e env"
  assumes st: "stored d w" and live: "dp_observed_state d \<noteq> OS_STOPPED" and none: "rx_activity env = None"
  shows "wp (stop_deployment env (dp_id d))
    (\<lambda>r v. stop_done d r (w_store w) (w_store v)) (\<lambda>x v. stop_pending d (w_store w) (w_store v)) w"
proof -
  let ?Q = "\<lambda>r v. stop_done d r (w_store w) (w_store v)"
  let ?E = "\<lambda>x v. stop_pending d (w_store w) (w_store v)"
  have finish: "wp (bindE (append_event env (dp_id d) PH_RELEASED m None) (\<lambda>_.
      bindE (record_deployment_diagnostic env (dp_id d) m l c) (\<lambda>_. ret r))) ?Q ?E v"
    if "stop_done d r (w_store w) (w_store v)" for r m l c and v :: "'e world"
    using that unfolding wp_bindE
    by (intro wp_append_event wp_record_diagnostic) (simp add: wp_ret)
  have release: "wp (bindE (case (evidence, e) of (Some x, Some e') \<Rightarrow> stop_engine env d x e' | _ \<Rightarrow> ret ()) (\<lambda>_.
      bindE (utc_now env) (\<lambda>t.
      bindE (persist_stopped (stopped_deployment (stopping_deployment d n) t) e t) (\<lambda>_.
      bindE (append_event env (dp_id d) PH_RELEASED m None) (\<lambda>_.
      bindE (record_deployment_diagnostic env (dp_id d) m l c) (\<lambda>_.
      ret (stopped_deployment (stopping_deployment d n) t))))))) ?Q ?E v"
    if v: "stop_pending d (w_store w) (w_store v)"
      and e: "case e of None \<Rightarrow> dp_endpoint_id d = None
        | Some x \<Rightarrow> dp_endpoint_id d \<noteq> None \<and> get_endpoint_row (the (dp_endpoint_id d)) (w_store w) = Some x"
    for evidence e n m l c and v :: "'e world"
  proof -
    have quiet: "steps same_rows (case (evidence, e) of
        (Some x, Some e') \<Rightarrow> stop_engine env d x e' | _ \<Rightarrow> ret ())"
      by (cases evidence; cases e) (auto intro!: frame_rules)
    show ?thesis
      unfolding wp_bindE [of "case (evidence, e) of
        (Some x, Some e') \<Rightarrow> stop_engine env d x e' | _ \<Rightarrow> ret ()"]
    proof (rule wp_steps [OF quiet])
      fix u :: "'e world" assume "same_rows v u"
      with v have u: "stop_pending d (w_store w) (w_store u)" by (rule stop_pending_same_rows)
      moreover have "get_endpoint_row i (w_store u) = get_endpoint_row i (w_store w)" for i
        using u by (simp add: stop_pending_def get_endpoint_row_def)
      ultimately show "wp (bindE (utc_now env) (\<lambda>t.
          bindE (persist_stopped (stopped_deployment (stopping_deployment d n) t) e t) (\<lambda>_.
          bindE (append_event env (dp_id d) PH_RELEASED m None) (\<lambda>_.
          bindE (record_deployment_diagnostic env (dp_id d) m l c) (\<lambda>_.
          ret (stopped_deployment (stopping_deployment d n) t)))))) ?Q ?E u"
        unfolding wp_bindE [of "utc_now env"] wp_utc_now
          wp_bindE [of "persist_stopped a e' b" for a e' b]
        by (intro wp_persist_stopped finish) (use e in \<open>auto split: option.splits\<close>)
    qed (rule stop_pending_same_rows [OF v])
  qed
  have tail: "wp (bindE (require_endpoint_opt (dp_endpoint_id d)) (\<lambda>e.
      bindE (db_get (get_execution_ref (dp_id d))) (\<lambda>evidence.
      bindE (case (evidence, e) of (Some x, Some e') \<Rightarrow> stop_engine env d x e' | _ \<Rightarrow> ret ()) (\<lambda>_.
      bindE (utc_now env) (\<lambda>t.
      bindE (persist_stopped (stopped_deployment (stopping_deployment d n) t) e t) (\<lambda>_.
      bindE (append_event env (dp_id d) PH_RELEASED m None) (\<lambda>_.
      bindE (record_deployment_diagnostic env (dp_id d) m l c) (\<lambda>_.
      ret (stopped_deployment (stopping_deployment d n) t))))))))) ?Q ?E v"
    if v: "stop_pending d (w_store w) (w_store v)" for n m l c and v :: "'e world"
    unfolding wp_bindE [of "require_endpoint_opt j" for j]
  proof (rule wp_require_endpoint_opt)
    have rows: "get_endpoint_row i (w_store v) = get_endpoint_row i (w_store w)" for i
      using v by (simp add: stop_pending_def get_endpoint_row_def)
    fix e assume "case e of None \<Rightarrow> dp_endpoint_id d = None | Some x \<Rightarrow> dp_endpoint_id d \<noteq> None
        \<and> get_endpoint_row (the (dp_endpoint_id d)) (w_store v) = Some x"
    then show "wp (bindE (db_get (get_execution_ref (dp_id d))) (\<lambda>evidence.
      bindE (case (evidence, e) of (Some x, Some e') \<Rightarrow> stop_engine env d x e' | _ \<Rightarrow> ret ()) (\<lambda>_.
      bindE (utc_now env) (\<lambda>t.
      bindE (persist_stopped (stopped_deployment (stopping_deployment d n) t) e t) (\<lambda>_.
      bindE (append_event env (dp_id d) PH_RELEASED m None) (\<lambda>_.
      bindE (record_deployment_diagnostic env (dp_id d) m l c) (\<lambda>_.
      ret (stopped_deployment (stopping_deployment d n) t)))))))) ?Q ?E v"
      unfolding rows wp_bindE [of "db_get f" for f] wp_db_get by (rule release [OF v])
  qed (rule v)
  have start: "stop_pending d (w_store w) ((w_store w)\<lparr>st_deployments :=
      tbl_replace (dp_id d) (stopping_deployment d n) (st_deployments (w_store w)), st_events := a\<rparr>)"
    for n a by (auto simp: stop_pending_def get_deployment_row_def)
  have id: "dp_id (stopping_deployment d n) = dp_id d" for n by (simp add: stopping_deployment_def)
  show ?thesis
    using st live unfolding stop_deployment_def Let_def with_activity_none [OF none] wp_bindE [of "require_deployment i" for i]
      wp_require_deployment stored_def
    unfolding wp_bindE [of "utc_now env"] wp_utc_now wp_bindE [of "db m" for m]
      wp_db wp_save_deployment id wp_bindE [of "append_event env i ph m c" for i ph m c]
    by (simp add: wp_bindE [of "utc_now env"] wp_utc_now wp_bindE [of "db m" for m] wp_db
      wp_save_deployment id wp_bindE [of "append_event env i ph m c" for i ph m c])
      (intro wp_append_event tail [unfolded prod.case], simp add: start)
qed

section \<open>Restart and reconciliation\<close>

lemma wp_restart_deployment:
  fixes env :: "'e env"
  assumes st: "stored d w" and none: "rx_activity env = None"
    and version: "dp_resource_version d = version"
  shows "wp (restart_deployment env (dp_id d) node version)
    (\<lambda>r v. \<exists>c now. dp_resource_version d \<le> dp_resource_version c
        \<and> dp_id c = dp_id d \<and> launched (starting_deployment c node now) r (w_store v))
    (\<lambda>x v. \<exists>c. get_deployment_row (dp_id d) (w_store v) = Some c
        \<and> dp_resource_version d < dp_resource_version c
        \<and> dp_observed_state c \<in> {OS_STOPPING, OS_STARTING, OS_FAILED}) w"
    (is "wp _ ?Q ?E w")
proof -
  have go: "wp (bindE (utc_now env) (\<lambda>now.
      bindE (db (save_deployment (starting_deployment c node now))) (\<lambda>_.
      bindE (append_event env (dp_id c) PH_QUEUED m None) (\<lambda>_.
      launch env (starting_deployment c node now))))) ?Q ?E v"
    if c: "dp_id c = dp_id d" "dp_resource_version d \<le> dp_resource_version c" for c m and v :: "'e world"
  proof -
    have st': "stored (starting_deployment c node now) u \<Longrightarrow>
        wp (launch env (starting_deployment c node now)) ?Q ?E u" for now and u :: "'e world"
    proof (rule wp_conj_mono [OF wp_launch [OF _ none]])
      fix x and y :: "'e world"
      assume "launch_raised (starting_deployment c node now) x (w_store y)"
      then show "?E x y" using c
        by (auto simp: launch_raised_def failure_stored_def starting_deployment_def)
    qed (use c in blast)+
    have saved: "stored (starting_deployment c node now) (u\<lparr>w_store := (w_store u')\<lparr>st_deployments :=
        tbl_replace (dp_id d) (starting_deployment c node now) b, st_events := a\<rparr>\<rparr>)"
      for now a b and u u' :: "'e world"
      using c by (simp add: stored_def starting_deployment_def get_deployment_row_def)
    have id: "dp_id (starting_deployment c node now) = dp_id d" for now
      using c by (simp add: starting_deployment_def)
    show ?thesis
      unfolding wp_bindE wp_utc_now wp_db wp_save_deployment id
      by (intro wp_append_event st') (use saved in simp)
  qed
  have stop: "wp (stop_deployment env (dp_id d)) (\<lambda>c. wp (bindE (utc_now env) (\<lambda>now.
      bindE (db (save_deployment (starting_deployment c node now))) (\<lambda>_.
      bindE (append_event env (dp_id c) PH_QUEUED m None) (\<lambda>_.
      launch env (starting_deployment c node now))))) ?Q ?E) ?E w"
    if "dp_observed_state d \<noteq> OS_STOPPED" for m
  proof (rule wp_conj_mono [OF wp_stop_deployment [OF st that none]])
    fix c and v :: "'e world" assume "stop_done d c (w_store w) (w_store v)"
    then have "dp_id c = dp_id d" "dp_resource_version d \<le> dp_resource_version c"
      by (simp_all add: stop_done_def)
    then show "wp (bindE (utc_now env) (\<lambda>now.
      bindE (db (save_deployment (starting_deployment c node now))) (\<lambda>_.
      bindE (append_event env (dp_id c) PH_QUEUED m None) (\<lambda>_.
      launch env (starting_deployment c node now))))) ?Q ?E v" by (rule go)
  qed (auto simp: stop_pending_def stopping_deployment_def)
  have row: "get_deployment_row (dp_id d) (w_store w) = Some d" using st by (simp add: stored_def)
  show ?thesis
    unfolding restart_deployment_def Let_def with_activity_none [OF none]
      wp_bindE [of "require_deployment i" for i] wp_require_deployment row
    using version stop go [of d]
    by (simp add: wp_bindE [of "if a then b else c'" for a b c'] wp_ret)
qed

lemma wp_observe_deployment:
  fixes env :: "'e env"
  assumes st: "stored c w"
  shows "wp (observe_deployment env (dp_id c))
    (\<lambda>ob v. same_rows w v \<and> (case ob of Settled d \<Rightarrow> d = c | Changed n d e \<Rightarrow>
        n = dp_resource_version c \<and> dp_id d = dp_id c \<and> dp_observed_state c \<in> {OS_READY, OS_DEGRADED}))
    (\<lambda>x v. same_rows w v) w"
proof -
  have quiet: "steps same_rows (inspect_engine engine d x e model)" for engine :: "'e engine" and d x e model
    unfolding inspect_engine_def by (intro frame_rules)
  have row: "get_deployment_row (dp_id c) (w_store w) = Some c" using st by (simp add: stored_def)
  show ?thesis
    unfolding observe_deployment_def wp_bindE wp_require_deployment row
    by (auto simp: wp_simps same_rows.R_refl split: option.split sum.split
      intro!: wp_steps [OF quiet]) (auto simp: same_rows_def reconciled_deployment_def)
qed

section \<open>Model identity\<close>

text \<open>A computation that never returns normally.\<close>

definition always_raises :: "('e, 'a) svc \<Rightarrow> bool" where
  "always_raises m \<longleftrightarrow> (\<forall>w. wp m (\<lambda>_ _. False) (\<lambda>_ _. True) w)"

lemma wp_top: "wp m (\<lambda>_ _. True) (\<lambda>_ _. True) w"
  by (simp add: wp_def split: sum.splits prod.splits)

lemma always_raises_raise: "always_raises (raise e)"
  by (simp add: always_raises_def wp_raise)

lemma always_raisesD: "always_raises m \<Longrightarrow> wp m (\<lambda>_ _. False) (\<lambda>_ _. True) w"
  by (simp add: always_raises_def)

lemma always_raises_bindE:
  assumes "\<And>a. always_raises (f a)"
  shows "always_raises (bindE m f)"
  unfolding always_raises_def wp_bindE
proof
  fix w
  show "wp m (\<lambda>a. wp (f a) (\<lambda>_ _. False) (\<lambda>_ _. True)) (\<lambda>_ _. True) w"
    by (rule wp_conj_mono [OF wp_top]) (simp_all add: always_raisesD [OF assms])
qed

lemma launch_failed_raises: "always_raises (launch_failed env d f)"
  unfolding launch_failed_def Let_def by (intro always_raises_bindE always_raises_raise)

lemma fail_composed_raises: "always_raises (fail_composed_identity engine d v h)"
  unfolding fail_composed_identity_def Let_def by (intro always_raises_bindE always_raises_raise)

text \<open>The engine echoes another id than the version document's for every start it grants.\<close>

definition never_echoes :: "'e engine \<Rightarrow> dict \<Rightarrow> bool" where
  "never_echoes engine v \<longleftrightarrow> (\<forall>i a n e. case en_start engine i a n (Some v) e of
     (Inr h, _) \<Rightarrow> version_key v \<noteq> Inr (json_opt_str (eh_model_version_id h)) | _ \<Rightarrow> True)"

lemma launch_identity_raises:
  "version_key v \<noteq> Inr (json_opt_str (eh_model_version_id h)) \<Longrightarrow>
     always_raises (launch_identity engine d (Some v) h)"
  by (cases "version_key v")
    (auto simp: launch_identity_def always_raises_def wp_bindE wp_liftE
      intro: always_raisesD [OF fail_composed_raises])

lemma wp_launch_start_echo:
  "never_echoes engine v \<Longrightarrow> wp (launch_start engine d a (Some v))
     (\<lambda>h _. version_key v \<noteq> Inr (json_opt_str (eh_model_version_id h))) (\<lambda>_ _. True) w"
  unfolding never_echoes_def launch_start_def
  by (auto simp: wp_simps [unfolded wp_db] split: sum.split) (auto simp: wp_def ext_def zoom_def
    split: sum.splits prod.splits, metis (mono_tags, lifting) case_prod_conv sum.case(2))

lemma wp_launch_prepare_fields:
  "wp (launch_prepare env d) (\<lambda>d' _. \<exists>j. d' = d\<lparr>dp_endpoint_id := j\<rparr>) (\<lambda>_ _. True) w"
proof -
  have same: "\<exists>j. d = d\<lparr>dp_endpoint_id := j\<rparr>" by (rule exI [of _ "dp_endpoint_id d"]) simp
  have new: "\<exists>j. d\<lparr>dp_endpoint_id := Some i\<rparr> = d\<lparr>dp_endpoint_id := j\<rparr>" for i by blast
  show ?thesis
    unfolding launch_prepare_def Let_def wp_bindE
    by (auto simp: wp_simps same new split: sum.split option.split
      intro!: wp_ext wp_require_endpoint_opt wp_endpoint_id)
qed

lemma mismatched_attempt_raises:
  assumes comp: "dp_composition d = BASE_PLUS_LORA" "dp_model_version d = Some v"
    and engine: "engine_for env (dp_serving_binding_id d) = Inr engine" "never_echoes engine v"
  shows "wp (launch_attempt env d) (\<lambda>_ _. False) (\<lambda>_ _. True) w"
proof -
  have mv: "runtime_model_version d = Some v" using comp by (simp add: runtime_model_version_def)
  have raised: "wp (launch_failed env d f) (\<lambda>_ _. False) (\<lambda>_ _. True) u" for f u
    by (rule always_raisesD [OF launch_failed_raises])
  have identity: "wp (bindE (try_engine (launch_identity engine d (Some v) h)) (\<lambda>identified.
      case identified of Inl f \<Rightarrow> launch_failed env d f | Inr _ \<Rightarrow> m)) (\<lambda>_ _. False) (\<lambda>_ _. True) u"
    if "version_key v \<noteq> Inr (json_opt_str (eh_model_version_id h))" for h m u
    unfolding wp_bindE wp_try_engine
    using launch_identity_raises [OF that]
    by (auto simp: always_raises_def raised split: exn.split intro: wp_conj_mono)
  show ?thesis
    unfolding launch_attempt_def Let_def mv engine(1) wp_bindE [of "liftE r" for r] wp_liftE
      wp_bindE [of "try_engine (launch_start a b c e)" for a b c e] wp_try_engine
    by (auto split: sum.split exn.split simp: raised identity
      intro!: wp_conj_mono [OF wp_launch_start_echo [OF engine(2)]])
qed

end
