(* ===== verification/Service_Frame.thy ===== *)
theory Service_Frame
  imports Service
begin

text \<open>
  What a relation between databases must be kept by, so that every service operation keeps it: the store's
  writers. The proofs follow the syntax of the operations with the rules of \<open>frame_rel\<close>; they are done once,
  for any relation, engine, activity source, clock and UUID supply, and whether the operation returns or
  raises. The writers of model imports are not among them: \<open>create_model_import_kept\<close> asks for them.
\<close>

definition on_store :: "(store \<Rightarrow> store \<Rightarrow> bool) \<Rightarrow> 'e world \<Rightarrow> 'e world \<Rightarrow> bool" where
  "on_store R v w \<longleftrightarrow> R (w_store v) (w_store w)"

abbreviation failed_import :: "model_import \<Rightarrow> engine_failure \<Rightarrow> datetime \<Rightarrow> model_import" where
  "failed_import p f t \<equiv> p\<lparr>mi_state := MI_FAILED, mi_failure := Some (failure_doc (import_failure (mi_id p) f)),
     mi_updated_at := t, mi_resource_version := 2\<rparr>"

abbreviation ready_import :: "model_import \<Rightarrow> import_result \<Rightarrow> datetime \<Rightarrow> model_import" where
  "ready_import p r t \<equiv> p\<lparr>mi_state := MI_READY, mi_model_artifact := Some (ir_model_artifact r),
     mi_validation := Some (ir_validation r), mi_failure := None, mi_updated_at := t, mi_resource_version := 2\<rparr>"

locale store_frame = frame_rel R for R :: "store \<Rightarrow> store \<Rightarrow> bool" +
  assumes keeps_save_deployment: "steps R (save_deployment d)"
    and keeps_save_pair: "steps R (save_pair d e x)"
    and keeps_create_intent: "steps R (create_intent d k h)"
    and keeps_save_draft: "steps R (save_draft dr)"
    and keeps_create_draft: "steps R (create_draft dr key h)"
    and keeps_append_event: "steps R (append_deployment_event i ph msg t c)"
    and keeps_append_diagnostics: "steps R (append_deployment_diagnostics i ds)"
    and keeps_set_cursor: "steps R (set_runtime_diagnostics_cursor i n)"
begin

lemmas writers [frame_rules] = keeps_save_deployment keeps_save_pair keeps_create_intent keeps_save_draft
  keeps_create_draft keeps_append_event keeps_append_diagnostics keeps_set_cursor

end

sublocale store_frame \<subseteq> world: frame_rel "on_store R"
  by unfold_locales (auto simp: on_store_def R_refl intro: R_trans)

context store_frame begin

abbreviation svc_kept :: "('e, 'a) svc \<Rightarrow> bool" where
  "svc_kept m \<equiv> steps (on_store R) m"

lemma readers_kept [frame_rules]:
  "steps R (resolve_idempotency k h)" "steps R (resolve_model_import_request k h sc)" "steps R (get_draft i)"
  unfolding resolve_idempotency_def resolve_model_import_request_def get_draft_def by (intro frame_rules)+

lemma db_kept [frame_rules]: "steps R m \<Longrightarrow> svc_kept (db m)"
  unfolding db_def by (erule steps_zoom) (simp add: on_store_def)

lemma db_get_kept [frame_rules]: "svc_kept (db_get f)"
  unfolding db_get_def by (rule world.steps_getS)

lemma ext_kept [frame_rules]: "svc_kept (ext f)"
  by (simp add: ext_def steps_def zoom_def on_store_def R_refl split: prod.splits)

lemma utc_now_kept [frame_rules]: "svc_kept (utc_now env)"
  by (simp add: utc_now_def steps_def py_unfold on_store_def R_refl)

lemma uuid4_kept [frame_rules]: "svc_kept (uuid4 env)"
  by (simp add: uuid4_def steps_def py_unfold on_store_def R_refl)

lemma steps_case_exn_engine:
  "(\<And>f. svc_kept (g f)) \<Longrightarrow>
     svc_kept (case x of EngineFailure f \<Rightarrow> g f | _ \<Rightarrow> raise x)"
  by (cases x) (simp_all add: world.steps_raise)

lemma try_engine_kept [frame_rules]: "svc_kept m \<Longrightarrow> svc_kept (try_engine m)"
  unfolding try_engine_def by (intro frame_rules steps_case_exn_engine)

lemma with_activity_kept [frame_rules]: "svc_kept m \<Longrightarrow> svc_kept (with_activity env c t m)"
  unfolding with_activity_def by (intro frame_rules)

lemma lookups_kept [frame_rules]:
  "svc_kept (require_deployment i)" "svc_kept (require_endpoint i)"
  "svc_kept (require_endpoint_opt j)" "svc_kept (require_model_import i)"
  unfolding require_deployment_def require_endpoint_def require_endpoint_opt_def
    require_model_import_def
  by (intro frame_rules)+

lemma require_for_scope_kept [frame_rules]: "svc_kept (require_model_import_for_scope i sc)"
  by (cases sc) (auto simp: require_model_import_for_scope_def intro!: frame_rules)

lemma append_svc_event_kept [frame_rules]: "svc_kept (append_event env i ph m c)"
  unfolding append_event_def by (intro frame_rules)

lemma record_diagnostic_kept [frame_rules]:
  "svc_kept (record_deployment_diagnostic env i m l c)"
  unfolding record_deployment_diagnostic_def by (intro frame_rules)

section \<open>Model imports\<close>

text \<open>What a computation's result tells the rest.\<close>

lemma bind_result:
  assumes "svc_kept m" and "\<And>a v w. m v = (Inr a, w) \<Longrightarrow> svc_kept (f a)"
  shows "svc_kept (bindE m f)"
proof (rule stepsI)
  fix v
  obtain r w where run: "m v = (r, w)" by fastforce
  have vw: "on_store R v w" by (rule stepsD [OF assms(1) run])
  show "on_store R v (snd (bindE m f v))"
  proof (cases r)
    case (Inr a)
    with assms(2) run have "on_store R w (snd (f a w))" by (simp add: steps_def)
    with vw run Inr show ?thesis by (auto simp: bindE_def intro: world.R_trans)
  qed (use run vw in \<open>simp add: bindE_def\<close>)
qed

lemma bind_engine_result:
  assumes "\<And>f. svc_kept (k (Inl f))" and "\<And>r e e'. g e = (Inr r, e') \<Longrightarrow> svc_kept (k (Inr r))"
  shows "svc_kept (bindE (try_engine (ext g)) k)"
proof (rule bind_result)
  fix r v w assume run: "try_engine (ext g) v = (Inr r, w)"
  show "svc_kept (k r)"
  proof (cases r)
    case (Inr x)
    with run have "\<exists>e e'. g e = (Inr x, e')"
      by (auto simp: try_engine_def ext_def py_unfold split: prod.splits sum.splits exn.splits)
    with Inr assms(2) show ?thesis by auto
  qed (simp add: assms(1))
qed (intro frame_rules)

lemma bind_checked: "(\<And>a. x = Inr a \<Longrightarrow> svc_kept (f a)) \<Longrightarrow> svc_kept (bindE (liftE x) f)"
  by (rule bind_result [OF world.steps_liftE]) (auto simp: liftE_def)

lemma bind_uuid: "(\<And>n. svc_kept (f (rx_uuid env n))) \<Longrightarrow> svc_kept (bindE (uuid4 env) f)"
  by (rule bind_result [OF uuid4_kept]) (auto simp: uuid4_def py_unfold)

lemma run_model_import_kept:
  assumes "\<And>f t. steps R (save_model_import (failed_import p f t))"
    and "\<And>r t e e'. en_import_model engine c e = (Inr r, e') \<Longrightarrow> steps R (save_model_import (ready_import p r t))"
  shows "svc_kept (run_model_import env engine c p)"
  unfolding run_model_import_def Let_def
  by (rule bind_engine_result; simp only: sum.case; intro frame_rules assms)

text \<open>Every document a request may store is one of \<open>pending_import\<close>, \<open>failed_import\<close> and \<open>ready_import\<close>.\<close>

lemma create_model_import_kept:
  fixes env :: "'e env"
  assumes commit: "\<And>n now e k h. engine_for env (iq_serving_binding_id c) = Inr e \<Longrightarrow>
      steps R (commit_model_import_intent (pending_import c (rx_uuid env n) now) k h
        (model_import_idempotency_scope (rx_sha256 env) sc) sc (rx_workspace_grants env))"
    and failed: "\<And>n now e f t. engine_for env (iq_serving_binding_id c) = Inr e \<Longrightarrow>
      steps R (save_model_import (failed_import (pending_import c (rx_uuid env n) now) f t))"
    and ready: "\<And>n now e r t x x'. engine_for env (iq_serving_binding_id c) = Inr e \<Longrightarrow>
      en_import_model e c x = (Inr r, x') \<Longrightarrow>
      steps R (save_model_import (ready_import (pending_import c (rx_uuid env n) now) r t))"
  shows "svc_kept (create_model_import env c k sc)"
proof -
  have fresh: "svc_kept (bindE (liftE (engine_for env (iq_serving_binding_id c))) (\<lambda>engine.
      bindE (utc_now env) (\<lambda>now. bindE (uuid4 env) (\<lambda>i. g engine now i))))"
    if "\<And>engine now n. engine_for env (iq_serving_binding_id c) = Inr engine \<Longrightarrow> svc_kept (g engine now (rx_uuid env n))"
    for g :: "'e engine \<Rightarrow> datetime \<Rightarrow> uuid \<Rightarrow> ('e, model_import) svc"
    by (rule bind_checked, rule world.steps_bindE [OF utc_now_kept], rule bind_uuid, erule that)
  show ?thesis unfolding create_model_import_def Let_def
    by (intro world.steps_if world.steps_raise world.steps_bindE [OF db_kept [OF readers_kept(2)]]
        world.steps_case_option require_for_scope_kept fresh world.steps_bindE [OF with_activity_kept]
        db_kept with_activity_kept world.steps_ret run_model_import_kept)
      (rule commit failed ready; assumption)+
qed

section \<open>Deployments\<close>

lemma fail_composed_kept [frame_rules]: "svc_kept (fail_composed_identity engine d mv h)"
  unfolding fail_composed_identity_def by (intro frame_rules)

lemma verify_started_kept [frame_rules]: "svc_kept (verify_started_model_identity engine i h)"
  unfolding verify_started_model_identity_def by (intro frame_rules)

lemma cleanup_started_kept [frame_rules]: "svc_kept (cleanup_started_execution engine d h g mv)"
  unfolding cleanup_started_execution_def by (intro frame_rules)

lemma endpoint_id_or_new_kept [frame_rules]: "svc_kept (endpoint_id_or_new env d)"
  unfolding endpoint_id_or_new_def by (intro frame_rules)

lemma launch_prepare_kept [frame_rules]: "svc_kept (launch_prepare env d)"
  unfolding launch_prepare_def by (intro frame_rules)

lemma persist_failure_kept [frame_rules]: "svc_kept (persist_failure env d f x)"
  unfolding persist_failure_def
  by (cases "ef_execution_ref x"; cases "ef_endpoint_url x") (auto intro!: frame_rules)

lemma launch_parts_kept [frame_rules]:
  "svc_kept (launch_failed env d f)"
  "svc_kept (launch_cleanup engine d h model mv f)"
  "svc_kept (launch_start engine d model mv)"
  "svc_kept (launch_identity engine d mv h)"
  "svc_kept (launch_probe env engine d h)"
  "svc_kept (launch_ready env d h)"
  unfolding launch_failed_def launch_cleanup_def launch_start_def launch_identity_def
    launch_probe_def launch_ready_def
  by (intro frame_rules)+

lemma launch_kept [frame_rules]: "svc_kept (launch env d)"
  unfolding launch_def launch_attempt_def by (intro frame_rules)

lemma inspect_engine_kept [frame_rules]: "svc_kept (inspect_engine engine d x e model)"
  unfolding inspect_engine_def by (intro frame_rules)

lemma observe_kept [frame_rules]: "svc_kept (observe_deployment env i)"
  unfolding observe_deployment_def by (intro frame_rules)

lemma commit_kept [frame_rules]: "svc_kept (commit_observation ob)"
  by (cases ob) (auto simp: commit_observation_def intro!: frame_rules)

lemma get_deployment_kept [frame_rules]: "svc_kept (get_deployment env i)"
  unfolding get_deployment_def by (intro frame_rules)

lemma get_endpoint_kept [frame_rules]: "svc_kept (get_endpoint env i)"
  unfolding get_endpoint_def by (intro frame_rules)

lemma create_deployment_kept [frame_rules]: "svc_kept (create_deployment env c k)"
  unfolding create_deployment_def by (intro frame_rules)

lemma stop_engine_kept [frame_rules]: "svc_kept (stop_engine env d x e)"
  unfolding stop_engine_def by (intro frame_rules)

lemma persist_stopped_kept [frame_rules]: "svc_kept (persist_stopped d e t)"
  unfolding persist_stopped_def by (intro frame_rules)

lemma stop_deployment_kept [frame_rules]: "svc_kept (stop_deployment env i)"
proof -
  have "svc_kept (case (evidence, e) of (Some x, Some e') \<Rightarrow> stop_engine env d x e' | _ \<Rightarrow> ret ())"
    for evidence e d by (cases evidence; cases e) (auto intro!: frame_rules)
  then show ?thesis unfolding stop_deployment_def by (intro frame_rules)
qed

lemma restart_deployment_kept [frame_rules]: "svc_kept (restart_deployment env i n v)"
  unfolding restart_deployment_def by (intro frame_rules)

section \<open>Diagnostics\<close>

lemma store_runtime_page_kept [frame_rules]: "svc_kept (store_runtime_page env i p)"
  unfolding store_runtime_page_def by (intro frame_rules)

lemma harvest_kept [frame_rules]: "svc_kept (harvest_runtime_diagnostics env d)"
  unfolding harvest_runtime_diagnostics_def by (intro frame_rules)

lemma deployment_diagnostics_kept [frame_rules]: "svc_kept (deployment_diagnostics env i a l)"
  unfolding deployment_diagnostics_def by (intro frame_rules)

lemma deployment_events_kept [frame_rules]: "svc_kept (deployment_events i)"
  unfolding deployment_events_def by (intro frame_rules)

end

end
