(* ===== verification/Service_Audit.thy ===== *)
theory Service_Audit
  imports Service_Frame Store_Audit
begin

text \<open>
  Every service operation keeps the store invariant and only grows the audit data: the audit order is kept
  by the store's writers, so \<open>store_frame\<close> gives it for every operation of the service.
\<close>

abbreviation waudit :: "'e world \<Rightarrow> 'e world \<Rightarrow> bool" where
  "waudit \<equiv> on_store audit"

lemmas waudit_def = on_store_def [of audit]

interpretation waudit: frame_rel waudit
  by unfold_locales (auto simp: waudit_def audit.R_refl intro: audit.R_trans)

interpretation audited: store_frame audit
  by unfold_locales (intro frame_rules)+

lemma scope_prefix: "startswith (model_import_idempotency_scope sha sc) ''model-import''"
  by (cases sc) (auto simp: model_import_idempotency_scope_def startswith_def)

lemma create_model_import_audited [frame_rules]: "steps waudit (create_model_import env c k sc)"
  by (intro audited.create_model_import_kept commit_import_audited scope_prefix save_model_import_audited)

lemmas observe_audited = audited.observe_kept
lemmas launch_audited = audited.launch_kept
lemmas append_svc_event_audited = audited.append_svc_event_kept
lemmas get_deployment_audited = audited.get_deployment_kept
lemmas create_deployment_audited = audited.create_deployment_kept
lemmas harvest_audited = audited.harvest_kept

end
