(* ===== verification/Service_History.thy ===== *)
theory Service_History
  imports Service_Audit Samples
begin

text \<open>
  Histories of service calls. A call may return or raise; the next one starts from the world it
  left. What every history guarantees is stated about the calls themselves, for an arbitrary
  environment.
\<close>

datatype service_call =
    CreateDeployment deployment_request "string option"
  | CreateModelImport import_request "string option" "(string \<times> string) option"
  | GetModelImport uuid
  | GetDeployment uuid
  | GetEndpoint uuid
  | StopDeployment uuid
  | RestartDeployment uuid node_ref int
  | DeploymentEvents uuid
  | DeploymentDiagnostics uuid int int
  | CreateDraft deployment_draft string string
  | SaveDraft deployment_draft

fun run_call :: "'e env \<Rightarrow> service_call \<Rightarrow> 'e world \<Rightarrow> 'e world" where
  "run_call env (CreateDeployment c k) w = snd (create_deployment env c k w)"
| "run_call env (CreateModelImport c k sc) w = snd (create_model_import env c k sc w)"
| "run_call env (GetModelImport i) w = snd (get_model_import i w)"
| "run_call env (GetDeployment i) w = snd (get_deployment env i w)"
| "run_call env (GetEndpoint i) w = snd (get_endpoint env i w)"
| "run_call env (StopDeployment i) w = snd (stop_deployment env i w)"
| "run_call env (RestartDeployment i n v) w = snd (restart_deployment env i n v w)"
| "run_call env (DeploymentEvents i) w = snd (deployment_events i w)"
| "run_call env (DeploymentDiagnostics i a l) w = snd (deployment_diagnostics env i a l w)"
| "run_call env (CreateDraft d k h) w = snd (db (create_draft d k h) w)"
| "run_call env (SaveDraft d) w = snd (db (save_draft d) w)"

definition run_calls :: "'e env \<Rightarrow> service_call list \<Rightarrow> 'e world \<Rightarrow> 'e world" where
  "run_calls env cs w = fold (run_call env) cs w"

definition start_world :: "'e \<Rightarrow> 'e world" where
  "start_world e = \<lparr>w_store = empty_store, w_ext = e, w_clock = 0, w_uuids = 0\<rparr>"

lemma run_call_audit: "waudit w (run_call env c w)"
  by (cases c) (simp_all add: get_model_import_def, (rule steps_snd, intro frame_rules)+)

lemma run_calls_audit: "waudit w (run_calls env cs w)"
  unfolding run_calls_def
  by (induction cs arbitrary: w) (auto intro: waudit.R_refl waudit.R_trans run_call_audit)

text \<open>C1: Whatever calls the service has served since the empty database, returning or raising, and
  whatever its engines did, the database is consistent: unique keys that agree with their documents,
  at most one endpoint row per Deployment, event and diagnostics sequences 1, 2, 3, ... without
  gaps, and every idempotency key and import scope pointing at a stored resource. From any earlier
  point of the history, events and diagnostics were only appended and no idempotency key or import
  scope changed its answer.\<close>

theorem service_history_consistent:
  "store_ok (w_store (run_calls env cs (start_world e)))
   \<and> grows (w_store (run_calls env cs (start_world e)))
           (w_store (run_calls env (cs @ cs') (start_world e)))"
proof -
  have start: "store_ok (w_store (start_world e))" by (simp add: start_world_def empty_store_ok)
  let ?w = "run_calls env cs (start_world e)"
  have 1: "store_ok (w_store ?w)"
    using run_calls_audit [of "start_world e" env cs] start by (simp add: waudit_def audit_def)
  have "run_calls env (cs @ cs') (start_world e) = run_calls env cs' ?w" by (simp add: run_calls_def)
  with 1 run_calls_audit [of ?w env cs'] show ?thesis by (simp add: waudit_def audit_def)
qed

end
