(* ===== verification/Service_Properties.thy ===== *)
theory Service_Properties
  imports Service_Lifecycle Service_History Store_Properties
begin

text \<open>
  Properties of the Product service: the outcome of each lifecycle command, isolation of workspaces,
  and pages of diagnostics, for arbitrary engines, with witnesses on a small environment.
\<close>

section \<open>A small environment\<close>

definition sample_env :: "'e engine \<Rightarrow> 'e env" where
  "sample_env engine = \<lparr>rx_engine = engine, rx_engines = None,
     rx_workspace_grants = [(''gpu-1'', ''org'', ''ws'')], rx_activity = None,
     rx_now = (\<lambda>n. ''t'' @ show_nat n), rx_uuid = (\<lambda>n. ''u'' @ show_nat n), rx_sha256 = (\<lambda>s. s),
     rx_dump_request = cq_name, rx_dump_import = iq_name, rx_sdk = sample_sdk\<rparr>"

definition sample_world :: "uuid \<Rightarrow> unit world" where
  "sample_world i = \<lparr>w_store = empty_store\<lparr>st_deployments := [(i, sample_deployment i)]\<rparr>,
     w_ext = (), w_clock = 0, w_uuids = 0\<rparr>"

lemma sample_activity [simp]: "rx_activity (sample_env engine) = None"
  by (simp add: sample_env_def)

lemma sample_stored [simp]: "stored (sample_deployment i) (sample_world i)"
  by (simp add: stored_def sample_world_def get_deployment_row_def sample_deployment_def)

text \<open>
  An engine that records the executions it runs: \<open>loaded\<close> is the version id its handle echoes,
  \<open>served\<close> whether the served model passes verification, \<open>stops\<close> whether a stop succeeds.
\<close>

definition refused :: "string \<Rightarrow> exn" where
  "refused t = EngineFailure (serving_engine_failure t)"

definition sample_handle :: "string option \<Rightarrow> engine_handle" where
  "sample_handle loaded = \<lparr>eh_execution_ref = ''exec-1'', eh_endpoint_url = ''http://n1:8000'',
     eh_model = Some ''chat'', eh_model_version_id = loaded\<rparr>"

definition sample_engine :: "string option \<Rightarrow> bool \<Rightarrow> bool \<Rightarrow> dict option \<Rightarrow> string list engine" where
  "sample_engine loaded served stops page =
     \<lparr>en_import_model = (\<lambda>c e. (Inl (refused ''import''), e)),
      en_prepare = (\<lambda>i e. (Inr None, e)),
      en_start = (\<lambda>i a n mv e. (Inr (sample_handle loaded), ''exec-1'' # e)),
      en_inspect = (\<lambda>x u i g mv e. (Inr \<lparr>eo_ready = False, eo_detail = ''lost''\<rparr>, e)),
      en_stop = (\<lambda>x u i g mv e. if stops then (Inr \<lparr>eo_ready = False, eo_detail = ''stopped''\<rparr>, removeAll x e)
                 else (Inl (refused ''busy''), e)),
      en_verify_served_model = Some (\<lambda>i x u m e. (if served then Inr () else Inl (refused ''wrong model''), e)),
      en_diagnostics = Some (\<lambda>x a l e. (Inr page, e)),
      en_takes_version = (\<lambda>_. True)\<rparr>"

definition ready_sample :: deployment where
  "ready_sample = (sample_deployment ''d1'')\<lparr>dp_observed_state := OS_READY, dp_endpoint_id := Some ''e1''\<rparr>"

definition ready_world :: "string list world" where
  "ready_world = \<lparr>w_store = empty_store\<lparr>st_deployments := [(''d1'', ready_sample)],
     st_endpoints := [(''e1'', ''d1'', sample_endpoint ''e1'' ''d1'')],
     st_evidence := [(''d1'', ''exec-1'')]\<rparr>, w_ext = [''exec-1''], w_clock = 0, w_uuids = 0\<rparr>"

section \<open>Lifecycle\<close>








fun is_changed :: "observation \<Rightarrow> bool" where
  "is_changed (Changed n d e) = True"
| "is_changed (Settled d) = False"


text \<open>C7: A composed Deployment whose engine never echoes the id of the requested version document is
  never published: every launch of it raises, whatever else the engine does.\<close>

theorem mismatched_model_never_ready:
  assumes "dp_composition d = BASE_PLUS_LORA" and "dp_model_version d = Some v"
    and "engine_for env (dp_serving_binding_id d) = Inr engine"
    and "never_echoes engine v"
  shows "\<exists>x. fst (launch env d w) = Inl x"
proof -
  have attempt: "wp (launch_attempt env (d\<lparr>dp_endpoint_id := j\<rparr>)) (\<lambda>_ _. False) (\<lambda>_ _. True) u" for j u
    using assms by (intro mismatched_attempt_raises) simp_all
  have "wp (bindE (launch_prepare env d) (launch_attempt env)) (\<lambda>_ _. False) (\<lambda>_ _. True) u" for u
    unfolding wp_bindE
    by (rule wp_conj_mono [OF wp_launch_prepare_fields]) (auto simp: attempt)
  then have "wp (launch env d) (\<lambda>_ _. False) (\<lambda>_ _. True) w"
    unfolding launch_def wp_bindE [of "append_event a b c e f" for a b c e f]
    by (intro wp_append_event)
  then show ?thesis by (auto simp: wp_def split: sum.splits prod.splits)
qed

definition composed_sample :: deployment where
  "composed_sample = (sample_deployment ''d1'')\<lparr>dp_composition := BASE_PLUS_LORA,
     dp_model_version := Some [(''id'', JStr ''mv-1'')]\<rparr>"

theorem mismatched_model_never_ready_witness:
  "\<exists>x. fst (launch (sample_env (sample_engine (Some ''mv-2'') True True None)) composed_sample
     ready_world) = Inl x"
  by (rule mismatched_model_never_ready [of _ "[(''id'', JStr ''mv-1'')]" _
      "sample_engine (Some ''mv-2'') True True None"])
    (simp_all add: composed_sample_def sample_env_def engine_for_def never_echoes_def
      sample_engine_def sample_handle_def version_key_def json_opt_str_def)

section \<open>Workspaces\<close>

text \<open>C9: An import stored under one workspace stays invisible to every other scope, the unscoped one
  included, after any further calls of the service: a read under another scope is a 404 that changes
  nothing.\<close>

theorem import_isolation_forever:
  assumes "store_ok (w_store w)" and "model_import_scope i (w_store w) = Some sc"
    and "scope \<noteq> Some sc"
  shows "require_model_import_for_scope i scope (run_calls env cs w)
      = (Inl model_import_not_found, run_calls env cs w)"
proof -
  have "map_of (st_import_scopes (w_store w)) \<subseteq>\<^sub>m map_of (st_import_scopes (w_store (run_calls env cs w)))"
    using run_calls_audit [of w env cs] assms(1) by (simp add: waudit_def audit_def grows_def)
  then have "map_of (st_import_scopes (w_store (run_calls env cs w))) i = Some sc"
    using assms(2) unfolding model_import_scope_def by (metis domI map_le_def)
  with assms(3) show ?thesis
    by (cases scope) (auto simp: require_model_import_for_scope_def require_model_import_def db_get_def
      get_unscoped_model_import_def get_model_import_for_workspace_def py_unfold)
qed

definition scoped_world :: "unit world" where
  "scoped_world = (sample_world ''d1'')\<lparr>w_store := empty_store\<lparr>st_imports := [(''m1'', sample_import ''m1'')],
     st_import_scopes := [(''m1'', ''org'', ''ws'')]\<rparr>\<rparr>"

theorem import_isolation_forever_witness:
  "fst (require_model_import_for_scope ''m1'' (Some (''org'', ''other''))
     (run_calls (sample_env UnconfiguredServingExecutionPort) [GetModelImport ''m1''] scoped_world))
   = Inl model_import_not_found"
  using import_isolation_forever [of scoped_world "''m1''" "(''org'', ''ws'')" "Some (''org'', ''other'')"
      "sample_env UnconfiguredServingExecutionPort" "[GetModelImport ''m1'']"]
  by (simp add: scoped_world_def store_ok_def empty_store_def table_ok_def endpoints_ok_def
    events_ok_def diagnostics_ok_def rows_of_def one_based_def model_import_scope_def sample_import_def)

text \<open>The idempotency scopes of two workspaces, and of a workspace and the unscoped caller, differ
  unless the scopes are the same, as long as the hash tells their two canonical texts apart.\<close>

theorem idempotency_scope_separates:
  assumes "\<And>s t. sha256 (dumps_compact False (JArr [JStr (fst s), JStr (snd s)]))
      = sha256 (dumps_compact False (JArr [JStr (fst t), JStr (snd t)])) \<Longrightarrow>
      a = Some s \<Longrightarrow> b = Some t \<Longrightarrow>
      dumps_compact False (JArr [JStr (fst s), JStr (snd s)])
      = dumps_compact False (JArr [JStr (fst t), JStr (snd t)])"
  shows "model_import_idempotency_scope sha256 a = model_import_idempotency_scope sha256 b \<longleftrightarrow> a = b"
proof
  assume eq: "model_import_idempotency_scope sha256 a = model_import_idempotency_scope sha256 b"
  show "a = b"
  proof (cases a; cases b)
    fix s t assume st: "a = Some s" "b = Some t"
    with eq have "sha256 (dumps_compact False (JArr [JStr (fst s), JStr (snd s)]))
        = sha256 (dumps_compact False (JArr [JStr (fst t), JStr (snd t)]))"
      by (cases s; cases t) (simp add: model_import_idempotency_scope_def)
    from assms [OF this st] have "fst s = fst t \<and> snd s = snd t" by (simp only: dumps_pair_inject)
    with st show "a = b" by (simp add: prod_eq_iff)
  qed (use eq in \<open>auto simp: model_import_idempotency_scope_def\<close>)
qed simp

theorem idempotency_scope_separates_witness:
  "model_import_idempotency_scope id (Some (''a'', ''b''))
     \<noteq> model_import_idempotency_scope id (Some (''a,b'', []))"
  using idempotency_scope_separates [of id "Some (''a'', ''b'')" "Some (''a,b'', [])"] by simp

section \<open>Model imports\<close>

definition import_visible :: "model_import \<Rightarrow> (string \<times> string) option \<Rightarrow> store \<Rightarrow> bool" where
  "import_visible m scope s \<longleftrightarrow>
     (\<exists>k. map_of (st_imports s) k = Some m \<and> map_of (st_import_scopes s) k = scope)"

lemma import_visibleI:
  "map_of (st_imports s) k = Some m \<Longrightarrow> map_of (st_import_scopes s) k = scope \<Longrightarrow> import_visible m scope s"
  by (auto simp: import_visible_def)

lemma wp_require_for_scope:
  assumes "\<And>m. import_visible m scope (w_store w) \<Longrightarrow> Q m w" and "\<And>x. E x w"
  shows "wp (require_model_import_for_scope r scope) Q E w"
  using assms
  by (cases scope) (auto simp: require_model_import_for_scope_def require_model_import_def wp_simps
    get_unscoped_model_import_def get_model_import_for_workspace_def
    split: option.split if_splits intro!: assms(1) import_visibleI)

lemma insert_import_scopes: "insert_import m s = (Inr a, t) \<Longrightarrow>
    st_import_scopes t = st_import_scopes s \<and> \<not> tbl_has (mi_id m) (st_imports s)"
  by (auto simp: insert_import_def py_unfold split: if_splits)

lemma insert_idempotency_scopes: "insert_idempotency sc k h i s = (Inr a, t) \<Longrightarrow>
    st_import_scopes t = st_import_scopes s"
  by (auto simp: insert_idempotency_def py_unfold split: if_splits)

lemma insert_scope_scopes: "insert_import_scope i w s = (Inr a, t) \<Longrightarrow>
    map_of (st_import_scopes t) i = Some w"
  by (auto simp: insert_import_scope_def py_unfold map_add_def tbl_absent split: if_splits)

lemma commit_import_new:
  assumes "store_ok s"
    and "commit_model_import_intent m key h scope workspace grants s = (Inr None, t)"
  shows "map_of (st_import_scopes t) (mi_id m) = workspace"
proof -
  from assms(2) obtain u v x y where 1: "insert_import m s = (Inr x, u)"
    and 2: "(case key of None \<Rightarrow> ret () | Some k \<Rightarrow> insert_idempotency scope k h (mi_id m)) u = (Inr y, v)"
    and 3: "(case workspace of None \<Rightarrow> ret () | Some w \<Rightarrow> insert_import_scope (mi_id m) w) v = (Inr (), t)"
    unfolding commit_model_import_intent_def resolve_model_import_request_def
    by (cases key) (auto simp: bindE_def txn_def raise_def ret_def getS_def
      split: if_splits option.splits sum.splits prod.splits)
  have "st_import_scopes v = st_import_scopes u"
    using 2 insert_idempotency_scopes by (cases key) (auto simp: ret_def)
  with insert_import_scopes [OF 1] have v: "st_import_scopes v = st_import_scopes s"
    and "mi_id m \<notin> fst ` set (st_imports s)" by (auto simp: tbl_has_def)
  then have "mi_id m \<notin> fst ` set (st_import_scopes s)"
    using assms(1) by (auto simp: store_ok_def)
  with 3 v insert_scope_scopes show ?thesis
    by (cases workspace) (auto simp: ret_def map_of_eq_None_iff)
qed

lemma wp_db_run:
  "(\<And>a t. m (w_store w) = (Inr a, t) \<Longrightarrow> Q a (w\<lparr>w_store := t\<rparr>)) \<Longrightarrow>
   (\<And>e t. m (w_store w) = (Inl e, t) \<Longrightarrow> E e (w\<lparr>w_store := t\<rparr>)) \<Longrightarrow> wp (db m) Q E w"
  by (auto simp: wp_db) (auto simp: wp_def split: sum.splits prod.splits)

lemma wp_run_model_import:
  assumes none: "rx_activity env = None"
    and p: "map_of (st_import_scopes (w_store w)) (mi_id pending) = scope"
  shows "wp (run_model_import env engine command pending)
    (\<lambda>m v. import_visible m scope (w_store v) \<and> mi_state m = MI_READY
        \<and> mi_model_artifact m \<noteq> None \<and> mi_validation m \<noteq> None) (\<lambda>_ _. True) w"
  unfolding run_model_import_def Let_def with_activity_none [OF none] wp_bindE wp_try_engine
  using p by (intro wp_ext)
    (auto simp: wp_simps save_model_import_def split: exn.split intro!: import_visibleI)

lemma resolve_import_state: "resolve_model_import_request k h sc s = (r, t) \<Longrightarrow> t = s"
  by (auto simp: resolve_model_import_request_def py_unfold split: option.splits if_splits)

lemma wp_create_model_import:
  assumes none: "rx_activity env = None" and ok: "store_ok (w_store w)"
  shows "wp (create_model_import env command key scope)
    (\<lambda>m v. import_visible m scope (w_store v) \<and> \<not> iq_trust_remote_code command
       \<and> (\<forall>o' w'. scope = Some (o', w') \<longrightarrow>
            (iq_serving_binding_id command, o', w') \<in> set (rx_workspace_grants env)))
    (\<lambda>_ _. True) w"
proof (cases "iq_trust_remote_code command \<or> (case scope of None \<Rightarrow> False
    | Some s \<Rightarrow> (iq_serving_binding_id command, fst s, snd s) \<notin> set (rx_workspace_grants env))")
  case True
  then show ?thesis by (auto simp: create_model_import_def wp_raise)
next
  case False
  let ?visible = "\<lambda>m v. import_visible m scope (w_store v)"
  have run: "wp (run_model_import env engine command (pending_import command i now)) ?visible (\<lambda>_ _. True)
      (v\<lparr>w_store := t\<rparr>)"
    if "store_ok (w_store v)" "commit_model_import_intent (pending_import command i now) key h sc scope g (w_store v)
      = (Inr None, t)" for engine i now h sc g t v
    by (rule wp_conj_mono [OF wp_run_model_import [OF none, where scope = scope]])
      (use commit_import_new [OF that] in auto)
  have "wp (create_model_import env command key scope) ?visible (\<lambda>_ _. True) w"
    using False ok unfolding create_model_import_def Let_def with_activity_none [OF none]
    by (auto simp: wp_bindE wp_utc_now wp_uuid4 wp_liftE wp_ret dest!: resolve_import_state
      split: option.split sum.split
      intro!: wp_db_run wp_require_for_scope run)
  then show ?thesis
    by (rule wp_conj_mono) (use False in \<open>auto split: option.splits\<close>)
qed

text \<open>A ModelImport that \<open>create_model_import\<close> returns, new or replayed, is stored under exactly the
  caller's scope (no workspace for an unscoped caller), was requested without remote code, and for a
  workspace caller on a binding granted to it; a request that asks for remote code or an ungranted
  binding is refused and changes nothing.\<close>

theorem created_import_in_scope:
  assumes "rx_activity env = None" and "store_ok (w_store w)"
    and "create_model_import env command key scope w = (r, w')"
  shows "case r of
      Inr m \<Rightarrow> get_model_import_row (mi_id m) (w_store w') = Some m
        \<and> model_import_scope (mi_id m) (w_store w') = scope
        \<and> \<not> iq_trust_remote_code command
        \<and> (\<forall>o' ws. scope = Some (o', ws) \<longrightarrow>
             (iq_serving_binding_id command, o', ws) \<in> set (rx_workspace_grants env))
    | Inl x \<Rightarrow> (iq_trust_remote_code command \<longrightarrow> x = trust_remote_code_forbidden \<and> w' = w)
        \<and> (\<forall>o' ws. scope = Some (o', ws) \<longrightarrow> \<not> iq_trust_remote_code command \<longrightarrow>
             (iq_serving_binding_id command, o', ws) \<notin> set (rx_workspace_grants env) \<longrightarrow>
             x = binding_not_granted \<and> w' = w)"
proof (cases r)
  case (Inl x)
  with assms(3) show ?thesis by (auto simp: create_model_import_def raise_def split: if_splits)
next
  case (Inr m)
  note run = assms(3) [unfolded Inr]
  from wp_Inr [OF wp_create_model_import [OF assms(1,2)] run]
  obtain k where k: "map_of (st_imports (w_store w')) k = Some m"
      "map_of (st_import_scopes (w_store w')) k = scope"
    and rest: "\<not> iq_trust_remote_code command"
      "\<forall>o' ws. scope = Some (o', ws) \<longrightarrow>
         (iq_serving_binding_id command, o', ws) \<in> set (rx_workspace_grants env)"
    by (auto simp: import_visible_def)
  have "waudit w w'" using stepsD [OF create_model_import_audited run] .
  then have "table_ok mi_id (st_imports (w_store w'))"
    using assms(2) by (simp add: waudit_def audit_def store_ok_def)
  then have "mi_id m = k" using k(1) get_listed by fastforce
  with k rest Inr show ?thesis by (simp add: get_model_import_row_def model_import_scope_def)
qed

definition sample_command :: "bool \<Rightarrow> import_request" where
  "sample_command trust = \<lparr>iq_name = ''m'', iq_serving_binding_id = ''gpu-1'', iq_source = sample_source,
     iq_credential_ref = None, iq_trust_remote_code = trust\<rparr>"

theorem created_import_in_scope_witness:
  "fst (create_model_import (sample_env UnconfiguredServingExecutionPort) (sample_command True) None None
     (start_world ())) = Inl trust_remote_code_forbidden"
proof -
  let ?m = "create_model_import (sample_env UnconfiguredServingExecutionPort) (sample_command True) None None
     (start_world ())"
  have "fst ?m = Inl (case fst ?m of Inl x \<Rightarrow> x | Inr _ \<Rightarrow> ValueError [])"
    by (simp add: create_model_import_def sample_command_def raise_def)
  then show ?thesis
    using created_import_in_scope [of "sample_env UnconfiguredServingExecutionPort" "start_world ()"
      "sample_command True" None None, OF _ _ surjective_pairing]
    by (simp add: sample_command_def start_world_def empty_store_ok split: sum.splits)
qed

section \<open>Pages of diagnostics\<close>

lemma bound_diagnostics_take: "\<exists>k \<le> length xs. bound_diagnostics xs = take k xs"
proof (induction xs rule: bound_diagnostics.induct)
  case (1 kept)
  show ?case
  proof (cases "kept \<noteq> [] \<and> DIAGNOSTICS_PAGE_MAX_BYTES < page_size kept")
    case True
    with 1 obtain k where "k \<le> length (butlast kept)" "bound_diagnostics (butlast kept) = take k (butlast kept)"
      by blast
    with True show ?thesis
      by (intro exI [of _ k]) (simp add: bound_diagnostics.simps [of kept] butlast_conv_take)
  next
    case False
    then have "bound_diagnostics kept = kept" by (subst bound_diagnostics.simps) auto
    then show ?thesis by (intro exI [of _ "length kept"]) simp
  qed
qed

lemma bound_diagnostics_size:
  "bound_diagnostics xs \<noteq> [] \<Longrightarrow> page_size (bound_diagnostics xs) \<le> DIAGNOSTICS_PAGE_MAX_BYTES"
proof (induction xs rule: bound_diagnostics.induct)
  case (1 kept)
  show ?case
  proof (cases "kept \<noteq> [] \<and> DIAGNOSTICS_PAGE_MAX_BYTES < page_size kept")
    case True
    with 1 show ?thesis by (simp add: bound_diagnostics.simps [of kept])
  next
    case False
    with 1(2) show ?thesis by (simp add: bound_diagnostics.simps [of kept] split: if_splits)
  qed
qed

lemma validate_all_Inr: "validate_all ds = Inr rs \<longleftrightarrow> list_all2 (\<lambda>d r. validate_diagnostic d = Inr r) ds rs"
  by (induction ds arbitrary: rs) (auto simp: resB_Inr_iff list_all2_Cons1)

lemma validate_sequence:
  "validate_diagnostic d = Inr r \<Longrightarrow> dict_get d ''sequence'' = Some (JInt (dg_sequence r))"
  by (auto simp: validate_diagnostic_def resB_Inr_iff field_sequence_def split: if_splits option.splits json.splits)

lemma diagnostics_page_limit:
  "0 \<le> after \<Longrightarrow> list_deployment_diagnostics i after limit s
     = map dr_document (diagnostic_ledger.page s i (int (nat after)) (nat (max 1 (min limit 500))))"
  by (simp add: list_deployment_diagnostics_def diagnostic_ledger.page_def Let_def)

lemma page_sequences:
  assumes ok: "diagnostics_ok s" and after: "0 \<le> after"
    and valid: "validate_all (list_deployment_diagnostics i after limit s) = Inr rs"
  shows "length rs \<le> 500
    \<and> map dg_sequence rs = map (\<lambda>k. after + 1 + int k) [0..<length rs]"
proof -
  define rows where "rows = rows_of (st_diagnostics s) i"
  define page where "page = take (nat (max 1 (min limit 500))) (drop (nat after) rows)"
  have list: "list_deployment_diagnostics i after limit s = map dr_document page"
    unfolding diagnostics_page_limit [OF after] diagnostic_ledger.page_eq [OF ok] page_def rows_def ..
  from valid have all: "list_all2 (\<lambda>d r. validate_diagnostic d = Inr r) (map dr_document page) rs"
    by (simp add: list validate_all_Inr)
  then have len: "length rs = length page" by (auto dest: list_all2_lengthD)
  have "dg_sequence (rs ! k) = after + 1 + int k" if k: "k < length rs" for k
  proof -
    have "validate_diagnostic (dr_document (page ! k)) = Inr (rs ! k)"
      using list_all2_nthD2 [OF all k] k len by simp
    then have "dict_get (dr_document (page ! k)) ''sequence'' = Some (JInt (dg_sequence (rs ! k)))"
      by (rule validate_sequence)
    moreover have lt: "nat after + k < length rows" using k len
      by (simp add: page_def less_diff_conv add.commute)
    then have pos: "page ! k = rows ! (nat after + k)" using k len by (simp add: page_def)
    with lt have "page ! k \<in> set rows" by simp
    then have "dict_get (dr_document (page ! k)) ''sequence'' = Some (JInt (dr_sequence (page ! k)))"
      using rows_stamped [OF ok] by (simp add: rows_def)
    moreover have "dr_sequence (rows ! (nat after + k)) = int (nat after + k) + 1"
      using lt unfolding rows_def by (rule diagnostic_ledger.seqno_nth [OF ok])
    ultimately show ?thesis using pos after by simp
  qed
  then have "map dg_sequence rs = map (\<lambda>k. after + 1 + int k) [0..<length rs]"
    by (intro nth_equalityI) simp_all
  moreover have "length page \<le> 500" by (simp add: page_def)
  ultimately show ?thesis by (simp add: len)
qed

text \<open>C10: A page of diagnostics starts at the record after the cursor and has no gap: its records carry
  the sequence numbers after + 1, after + 2, ...; it holds at most 500 records and, when it is not
  empty, at most 1 MiB of JSON; and its next cursor is the number of its last record.\<close>

theorem diagnostics_page_gapless:
  assumes "store_ok (w_store w)" and "deployment_diagnostics env i after limit w = (Inr p, w')"
  shows "map dg_sequence (pg_items p) = map (\<lambda>k. after + 1 + int k) [0..<length (pg_items p)]
    \<and> pg_next_sequence p = after + int (length (pg_items p))
    \<and> length (pg_items p) \<le> 500
    \<and> (pg_items p \<noteq> [] \<longrightarrow> page_size (pg_items p) \<le> DIAGNOSTICS_PAGE_MAX_BYTES)"
proof -
  from assms(2) obtain d v deg u rs where after: "0 \<le> after"
    and "require_deployment i w = (Inr d, v)"
    and h: "harvest_runtime_diagnostics env d v = (Inr deg, u)"
    and rs: "validate_all (list_deployment_diagnostics i after limit (w_store u)) = Inr rs"
    and items: "pg_items p = bound_diagnostics rs"
    and "next": "pg_next_sequence p = (if pg_items p = [] then after else dg_sequence (last (pg_items p)))"
    unfolding deployment_diagnostics_def db_get_def
    by (auto simp: bindE_def getS_def liftE_def raise_def ret_def Let_def
      split: if_splits sum.splits prod.splits)
  then have "v = w" by (auto simp: require_deployment_def db_get_def py_unfold split: option.splits)
  with stepsD [OF harvest_audited h] assms(1) have "diagnostics_ok (w_store u)"
    by (simp add: waudit_def audit_def store_ok_def)
  note page = page_sequences [OF this after rs]
  obtain k where k: "k \<le> length rs" "pg_items p = take k rs"
    using bound_diagnostics_take items by metis
  have sq: "map dg_sequence (pg_items p) = map (\<lambda>k. after + 1 + int k) [0..<length (pg_items p)]"
    using arg_cong [OF conjunct2 [OF page], of "take k"] k by (simp add: take_map)
  have "pg_items p \<noteq> [] \<Longrightarrow> dg_sequence (last (pg_items p)) = after + int (length (pg_items p))"
  proof -
    assume "pg_items p \<noteq> []"
    then have "dg_sequence (last (pg_items p)) = map dg_sequence (pg_items p) ! (length (pg_items p) - 1)"
      by (simp add: last_conv_nth)
    also have "\<dots> = after + int (length (pg_items p))"
      unfolding sq using \<open>pg_items p \<noteq> []\<close> by (simp add: of_nat_diff Suc_le_eq)
    finally show ?thesis .
  qed
  with sq "next" page k bound_diagnostics_size [of rs] items show ?thesis by auto
qed

theorem diagnostics_page_gapless_witness:
  "case fst (deployment_diagnostics (sample_env UnconfiguredServingExecutionPort) ''d1'' 0 200
     (sample_world ''d1'')) of Inr p \<Rightarrow> pg_next_sequence p = int (length (pg_items p)) | Inl _ \<Rightarrow> False"
proof -
  let ?m = "deployment_diagnostics (sample_env UnconfiguredServingExecutionPort) ''d1'' 0 200 (sample_world ''d1'')"
  have "case fst ?m of Inl x \<Rightarrow> False | Inr _ \<Rightarrow> True" by code_simp
  then obtain p where p: "fst ?m = Inr p" by (auto split: sum.splits)
  have "store_ok (w_store (sample_world ''d1''))"
    by (simp add: sample_world_def store_ok_def empty_store_def table_ok_def endpoints_ok_def
      events_ok_def diagnostics_ok_def rows_of_def one_based_def sample_deployment_def)
  with p show ?thesis
    using diagnostics_page_gapless [of "sample_world ''d1''" "sample_env UnconfiguredServingExecutionPort"
      "''d1''" 0 200 p "snd ?m"] by (simp add: prod_eq_iff)
qed

section \<open>Where the code falls short\<close>

text \<open>A stored diagnostics record whose level, stream or message the record model refuses makes every
  later page that covers it fail: the reader raises and returns nothing, after any number of calls.
  Runtime records are stored with whatever level and stream text the runtime reported.\<close>

theorem invalid_record_blocks_pages:
  assumes "store_ok (w_store w)" and "n < length (rows_of (st_diagnostics (w_store w)) i)"
    and "validate_diagnostic (dr_document (rows_of (st_diagnostics (w_store w)) i ! n)) = Inl e"
    and "c \<le> n" and "n < c + m" and "1 \<le> m" and "m \<le> 500"
  shows "\<exists>x. fst (deployment_diagnostics env i (int c) (int m) (run_calls env cs w)) = Inl x"
proof (rule ccontr)
  let ?w = "run_calls env cs w"
  assume "\<not> ?thesis"
  then obtain p where "fst (deployment_diagnostics env i (int c) (int m) ?w) = Inr p"
    by (cases "fst (deployment_diagnostics env i (int c) (int m) ?w)") auto
  then obtain w' where run: "deployment_diagnostics env i (int c) (int m) ?w = (Inr p, w')"
    by (cases "deployment_diagnostics env i (int c) (int m) ?w") auto
  then obtain d v deg u rs where "require_deployment i ?w = (Inr d, v)"
    and h: "harvest_runtime_diagnostics env d v = (Inr deg, u)"
    and rs: "validate_all (list_deployment_diagnostics i (int c) (int m) (w_store u)) = Inr rs"
    unfolding deployment_diagnostics_def db_get_def
    by (auto simp: bindE_def getS_def liftE_def raise_def ret_def Let_def
      split: if_splits sum.splits prod.splits)
  then have "v = ?w" by (auto simp: require_deployment_def db_get_def py_unfold split: option.splits)
  with stepsD [OF harvest_audited h] run_calls_audit [of w env cs]
  have "waudit w u" by (blast intro: waudit.R_trans)
  then have ok: "diagnostics_ok (w_store u)"
    and pre: "prefix (rows_of (st_diagnostics (w_store w)) i) (rows_of (st_diagnostics (w_store u)) i)"
    using assms(1) by (auto simp: waudit_def audit_def store_ok_def grows_def)
  then obtain zs where zs: "rows_of (st_diagnostics (w_store u)) i = rows_of (st_diagnostics (w_store w)) i @ zs"
    by (auto elim: prefixE)
  define rows where "rows = take m (drop c (rows_of (st_diagnostics (w_store u)) i))"
  have "list_deployment_diagnostics i (int c) (int m) (w_store u) = map dr_document rows"
    using diagnostics_page [OF assms(6,7)] diagnostic_ledger.page_eq [OF ok] by (simp add: rows_def)
  with rs have all: "list_all2 (\<lambda>d r. validate_diagnostic d = Inr r) (map dr_document rows) rs"
    by (simp add: validate_all_Inr)
  have lt: "n - c < length rows" using assms(2,4,5) by (simp add: rows_def zs less_diff_conv2)
  have "n - c < length (rows_of (st_diagnostics (w_store w)) i) - c" and "n - c < m"
    using assms(2,4,5) by (simp_all add: diff_less_mono less_diff_conv2)
  then have "rows ! (n - c) = rows_of (st_diagnostics (w_store w)) i ! n"
    using assms(2,4,5) by (simp add: rows_def zs nth_append)
  with list_all2_nthD [OF all, of "n - c"] lt assms(3) show False by simp
qed

definition warned_world :: "unit world" where
  "warned_world = (sample_world ''d1'')\<lparr>w_store := snd (append_deployment_diagnostics ''d1''
     [runtime_document ''d1'' [(''level'', JStr ''warning''), (''message'', JStr ''slow'')]]
     (w_store (sample_world ''d1'')))\<rparr>"

theorem invalid_record_blocks_pages_witness:
  "\<exists>x. fst (deployment_diagnostics (sample_env UnconfiguredServingExecutionPort) ''d1'' 0 200
     (run_calls (sample_env UnconfiguredServingExecutionPort) [StopDeployment ''d1''] warned_world)) = Inl x"
proof -
  have "store_ok (w_store (sample_world ''d1''))"
    by (simp add: sample_world_def store_ok_def empty_store_def table_ok_def endpoints_ok_def
      events_ok_def diagnostics_ok_def rows_of_def one_based_def sample_deployment_def)
  then have ok: "store_ok (w_store warned_world)"
    using append_diagnostics_audited by (simp add: warned_world_def steps_def audit_def)
  have len: "length (rows_of (st_diagnostics (w_store warned_world)) ''d1'') = 1"
    and bad: "case validate_diagnostic (dr_document (rows_of (st_diagnostics (w_store warned_world)) ''d1'' ! 0)) of
      Inl x \<Rightarrow> True | Inr _ \<Rightarrow> False"
    by code_simp+
  from bad obtain e where
    "validate_diagnostic (dr_document (rows_of (st_diagnostics (w_store warned_world)) ''d1'' ! 0)) = Inl e"
    by (auto split: sum.splits)
  from invalid_record_blocks_pages [OF ok _ this, of 0 200] len show ?thesis by simp
qed


end
