(* ===== verification/Url.thy ===== *)
theory Url
  imports Text
begin

text \<open>
  \<open>urllib.parse.urlsplit\<close> and the properties of its result that the Product reads (scheme, netloc,
  path, query, fragment, username, password, hostname, port), with the bracket checks that make it
  raise \<open>ValueError\<close>. \<open>None\<close> as a result stands for the \<open>ValueError\<close>.
\<close>

section \<open>Cutting strings\<close>

text \<open>\<open>s.partition(c)\<close>: before, whether \<open>c\<close> was found, after.\<close>

fun partition_at :: "char \<Rightarrow> string \<Rightarrow> string \<times> bool \<times> string" where
  "partition_at c [] = ([], False, [])"
| "partition_at c (x # xs) =
     (if x = c then ([], True, xs)
      else case partition_at c xs of (a, f, b) \<Rightarrow> (x # a, f, b))"

definition rpartition_at :: "char \<Rightarrow> string \<Rightarrow> string \<times> bool \<times> string" where
  "rpartition_at c s = (case partition_at c (rev s) of
     (a, True, b) \<Rightarrow> (rev b, True, rev a) | _ \<Rightarrow> ([], False, s))"

lemma partition_at_parts: "partition_at c s = (a, f, b) \<Longrightarrow>
    c \<notin> set a \<and> (if f then s = a @ c # b else s = a \<and> b = [])"
  by (induction s arbitrary: a f b) (auto split: if_splits prod.splits)

lemma partition_at_absent: "c \<notin> set s \<Longrightarrow> partition_at c s = (s, False, [])"
  by (induction s) auto

lemma partition_at_found: "c \<notin> set a \<Longrightarrow> partition_at c (a @ c # b) = (a, True, b)"
  by (induction a) auto

text \<open>Up to the first character of \<open>cs\<close>, and the rest from that character on.\<close>

definition cut_before :: "string \<Rightarrow> string \<Rightarrow> string \<times> string" where
  "cut_before cs s = (takeWhile (\<lambda>c. c \<notin> set cs) s, dropWhile (\<lambda>c. c \<notin> set cs) s)"

section \<open>IPv6 text\<close>

definition is_hextet :: "string \<Rightarrow> bool" where
  "is_hextet s \<longleftrightarrow> s \<noteq> [] \<and> length s \<le> 4
     \<and> (\<forall>c \<in> set s. is_digit c \<or> (65 \<le> code c \<and> code c \<le> 70) \<or> (97 \<le> code c \<and> code c \<le> 102))"

definition is_octet :: "string \<Rightarrow> bool" where
  "is_octet s \<longleftrightarrow> s \<noteq> [] \<and> length s \<le> 3 \<and> (\<forall>c \<in> set s. is_digit c)
     \<and> (s = ''0'' \<or> hd s \<noteq> CHR ''0'') \<and> read_nat s \<le> 255"

definition is_ipv4 :: "string \<Rightarrow> bool" where
  "is_ipv4 s \<longleftrightarrow> (let ps = split_on CHR ''.'' s in length ps = 4 \<and> list_all is_octet ps)"

text \<open>The groups of \<open>IPv6Address._ip_int_from_string\<close>: \<open>skips\<close> are the inner empty groups.\<close>

definition is_ipv6_body :: "string \<Rightarrow> bool" where
  "is_ipv6_body s =
     (let raw = split_on CHR '':'' s;
          v4 = CHR ''.'' \<in> set (last raw);
          parts = (if v4 then butlast raw @ [''0'', ''0''] else raw);
          skips = filter (\<lambda>k. parts ! k = []) [1..<length parts - 1]
      in 3 \<le> length raw \<and> (v4 \<longrightarrow> is_ipv4 (last raw)) \<and> length parts \<le> 9
       \<and> (case skips of
            [] \<Rightarrow> length parts = 8 \<and> list_all is_hextet parts
          | [k] \<Rightarrow>
              (let hi = (if hd parts = [] then k - 1 else k);
                   lo = (if last parts = [] then length parts - k - 2 else length parts - k - 1)
               in (hd parts = [] \<longrightarrow> hi = 0) \<and> (last parts = [] \<longrightarrow> lo = 0) \<and> hi + lo < 8
                \<and> list_all is_hextet (filter (\<lambda>p. p \<noteq> []) parts))
          | _ \<Rightarrow> False))"

definition is_ipv6 :: "string \<Rightarrow> bool" where
  "is_ipv6 s = (case partition_at CHR ''%'' s of
     (addr, found, zone) \<Rightarrow> is_ipv6_body addr \<and> (found \<longrightarrow> zone \<noteq> [] \<and> CHR ''%'' \<notin> set zone))"

definition bracketed_host_ok :: "string \<Rightarrow> bool" where
  "bracketed_host_ok h =
     (if startswith h ''v''
      then (case partition_at CHR ''.'' (drop 1 h) of (v, found, r) \<Rightarrow>
             found \<and> r \<noteq> [] \<and> CHR 0x0A \<notin> set r \<and> v \<noteq> []
             \<and> (\<forall>c \<in> set v. is_digit c \<or> (65 \<le> code c \<and> code c \<le> 70) \<or> (97 \<le> code c \<and> code c \<le> 102)))
      else is_ipv6 h)"

section \<open>\<open>urlsplit\<close>\<close>

record split_url =
  su_scheme :: string
  su_netloc :: string
  su_path :: string
  su_query :: string
  su_fragment :: string

definition netloc_ok :: "string \<Rightarrow> bool" where
  "netloc_ok n =
     (if CHR ''['' \<in> set n \<longleftrightarrow> CHR '']'' \<in> set n then
        (if CHR ''['' \<in> set n then
           (let hostinfo = snd (snd (rpartition_at CHR ''@'' n)) in
            case partition_at CHR ''['' hostinfo of
              (before, True, bracketed) \<Rightarrow>
                (case partition_at CHR '']'' bracketed of (h, f, port) \<Rightarrow>
                   before = [] \<and> (port = [] \<or> startswith port '':'') \<and> bracketed_host_ok h)
            | (before, False, _) \<Rightarrow>
                bracketed_host_ok (fst (partition_at CHR '':'' hostinfo)))
         else True)
      else False)"

definition scheme_char :: "char \<Rightarrow> bool" where
  "scheme_char c \<longleftrightarrow> is_digit c \<or> is_upper c \<or> is_lower c \<or> c \<in> set ''+-.''"

definition url_clean :: "string \<Rightarrow> string" where
  "url_clean url = filter (\<lambda>c. code c \<notin> {9, 10, 13}) (dropWhile (\<lambda>c. code c \<le> 32) url)"

definition split_scheme :: "string \<Rightarrow> string \<times> string" where
  "split_scheme url = (case partition_at CHR '':'' url of
     (s, found, rest) \<Rightarrow>
       if found \<and> s \<noteq> [] \<and> code (hd s) < 128 \<and> (is_upper (hd s) \<or> is_lower (hd s)) \<and> list_all scheme_char s
       then (lower s, rest) else ([], url))"

definition urlsplit :: "string \<Rightarrow> split_url option" where
  "urlsplit raw =
     (let (scheme, url) = split_scheme (url_clean raw);
          (netloc, rest) = (if startswith url ''//'' then cut_before ''/?#'' (drop 2 url) else ([], url));
          (body, _, fragment) = partition_at CHR ''#'' rest;
          (path, _, query) = partition_at CHR ''?'' body
      in if netloc_ok netloc
         then Some \<lparr>su_scheme = scheme, su_netloc = netloc, su_path = path, su_query = query,
                    su_fragment = fragment\<rparr>
         else None)"

text \<open>\<open>username\<close> and \<open>password\<close>, \<open>None\<close> when absent.\<close>

definition url_userinfo :: "split_url \<Rightarrow> string option \<times> string option" where
  "url_userinfo u = (case rpartition_at CHR ''@'' (su_netloc u) of
     (info, True, _) \<Rightarrow> (case partition_at CHR '':'' info of
        (name, True, p) \<Rightarrow> (Some name, Some p) | (name, False, _) \<Rightarrow> (Some name, None))
   | (_, False, _) \<Rightarrow> (None, None))"

definition url_hostinfo :: "split_url \<Rightarrow> string \<times> string" where
  "url_hostinfo u =
     (let hostinfo = snd (snd (rpartition_at CHR ''@'' (su_netloc u))) in
      case partition_at CHR ''['' hostinfo of
        (_, True, bracketed) \<Rightarrow>
          (case partition_at CHR '']'' bracketed of (h, _, p) \<Rightarrow>
             (h, snd (snd (partition_at CHR '':'' p))))
      | (_, False, _) \<Rightarrow>
          (case partition_at CHR '':'' hostinfo of (h, _, p) \<Rightarrow> (h, p)))"

text \<open>\<open>hostname\<close> is lower-cased up to a zone; an empty one is \<open>None\<close>.\<close>

definition url_hostname :: "split_url \<Rightarrow> string option" where
  "url_hostname u =
     (let h = fst (url_hostinfo u) in
      if h = [] then None
      else case partition_at CHR ''%'' h of (a, f, z) \<Rightarrow>
             Some (lower a @ (if f then CHR ''%'' # z else [])))"

text \<open>\<open>port\<close>: \<open>Inl\<close> for its \<open>ValueError\<close>, \<open>None\<close> when there is none.\<close>

definition url_port :: "split_url \<Rightarrow> unit + nat option" where
  "url_port u =
     (let p = snd (url_hostinfo u) in
      if p = [] then Inr None
      else if \<not> list_all is_digit p then Inl ()
      else if 65535 < read_nat p then Inl ()
      else Inr (Some (read_nat p)))"

end
