(* ===== verification/Remote_Engine.thy ===== *)
theory Remote_Engine
  imports Engine Url
begin

text \<open>
  The remote serving port (\<open>remote_engine.py\<close>): an HTTP client of one configured binding. The
  network is a parameter, a function from a request to a reply over an external state; \<open>httpx\<close>'s
  errors are one reply. Pydantic's validation of artifacts and import evidence is a parameter of the
  model too.
\<close>

section \<open>HTTP and JSON access\<close>

record http_request =
  hq_method :: string
  hq_url :: string
  hq_payload :: "json option"
  hq_bearer :: string
  hq_timeout :: int

text \<open>\<open>Reply status body\<close>: \<open>None\<close> is a body that is not JSON.\<close>

datatype http_reply = TransportError | Reply int "json option"

type_synonym 'e http = "http_request \<Rightarrow> 'e \<Rightarrow> http_reply \<times> 'e"
type_synonym ('e, 'a) rpc = "('e, exn, 'a) py"

record binding =
  rb_binding_id :: string
  rb_control_url :: string
  rb_token :: string

record 'e remote =
  rk_binding :: binding
  rk_http :: "'e http"
  rk_sdk :: sdk
  rk_validation :: "json \<Rightarrow> import_validation res"

definition HTTP_ERROR :: exn where
  "HTTP_ERROR = PyException ''httpx.HTTPError'' [] None"

definition http_call :: "'e remote \<Rightarrow> http_request \<Rightarrow> ('e, int \<times> json option) rpc" where
  "http_call k q = (\<lambda>e. case rk_http k q e of
     (TransportError, e') \<Rightarrow> (Inl HTTP_ERROR, e') | (Reply s b, e') \<Rightarrow> (Inr (s, b), e'))"

definition response_json :: "json option \<Rightarrow> json res" where
  "response_json b = (case b of None \<Rightarrow> Inl (ValueError ''json'') | Some j \<Rightarrow> Inr j)"

definition raise_for_status :: "int \<Rightarrow> unit res" where
  "raise_for_status s = (if 200 \<le> s \<and> s < 300 then Inr () else Inl HTTP_ERROR)"

fun j_item :: "json \<Rightarrow> string \<Rightarrow> json res" where
  "j_item (JObj d) k = (case dict_get d k of None \<Rightarrow> Inl (KeyError k) | Some v \<Rightarrow> Inr v)"
| "j_item _ k = Inl (TypeError ''indices must be integers'')"

fun j_get :: "json \<Rightarrow> string \<Rightarrow> json res" where
  "j_get (JObj d) k = Inr (get_or_null d k)"
| "j_get _ k = Inl (PyException ''AttributeError'' ''no attribute get'' None)"

fun j_first :: "json \<Rightarrow> json res" where
  "j_first (JArr (v # vs)) = Inr v"
| "j_first (JArr []) = Inl (PyException ''IndexError'' ''list index out of range'' None)"
| "j_first (JStr (c # s)) = Inr (JStr [c])"
| "j_first (JObj d) = Inl (KeyError ''0'')"
| "j_first _ = Inl (TypeError ''not subscriptable'')"

fun j_string :: "json \<Rightarrow> string res" where
  "j_string (JStr s) = Inr s"
| "j_string _ = Inl (ValueError ''string_type'')"

fun j_opt_string :: "json \<Rightarrow> string option res" where
  "j_opt_string JNull = Inr None"
| "j_opt_string (JStr s) = Inr (Some s)"
| "j_opt_string _ = Inl (ValueError ''string_type'')"

definition artifact_of_json :: "sdk \<Rightarrow> json \<Rightarrow> artifact_ref res" where
  "artifact_of_json k j = (case j of JObj d \<Rightarrow> sdk_artifact k d | _ \<Rightarrow> Inl (ValueError ''model_type''))"

fun kind_value :: "artifact_kind \<Rightarrow> string" where
  "kind_value AK_generic = ''generic''" | "kind_value AK_model = ''model''"
| "kind_value AK_dataset = ''dataset''" | "kind_value AK_checkpoint = ''checkpoint''"
| "kind_value AK_training_spec = ''training_spec''" | "kind_value AK_metrics = ''metrics''"
| "kind_value AK_merged = ''merged''" | "kind_value AK_quantized = ''quantized''"
| "kind_value AK_report = ''report''"

definition dump_artifact :: "artifact_ref \<Rightarrow> json" where
  "dump_artifact a = JObj ([(''uri'', JStr (ar_uri a)), (''digest'', JStr (ar_digest a)),
     (''size_bytes'', JInt (ar_size_bytes a)), (''kind'', JStr (kind_value (ar_kind a)))]
     @ (case ar_manifest_digest a of None \<Rightarrow> [] | Some d \<Rightarrow> [(''manifest_digest'', JStr d)]))"

definition dump_node :: "node_ref \<Rightarrow> json" where
  "dump_node n = JObj [(''nodeId'', JStr (nr_node_id n)), (''nodeEpoch'', JInt (nr_node_epoch n))]"

definition opt_field :: "string \<Rightarrow> string option \<Rightarrow> dict" where
  "opt_field k x = (case x of None \<Rightarrow> [] | Some v \<Rightarrow> [(k, JStr v)])"

definition dump_source :: "import_source \<Rightarrow> json" where
  "dump_source s = JObj ((''kind'', JStr (case is_kind s of HUGGING_FACE \<Rightarrow> ''HUGGING_FACE''
      | LOCAL_PATH \<Rightarrow> ''LOCAL_PATH'')) # opt_field ''repository'' (is_repository s)
      @ opt_field ''revision'' (is_revision s) @ opt_field ''path'' (is_path s))"

section \<open>Construction\<close>

text \<open>An owner-protected credential file: what \<open>open\<close> with \<open>O_NOFOLLOW\<close> and \<open>fstat\<close> report.\<close>

record credential_file =
  cf_openable :: bool
  cf_regular :: bool
  cf_permissions :: nat
  cf_owner :: nat
  cf_text :: "string option"

definition SERVING_CREDENTIAL_INVALID :: exn where
  "SERVING_CREDENTIAL_INVALID = ValueError ''SERVING_CREDENTIAL_INVALID''"

definition read_owner_protected_credential :: "bool \<Rightarrow> nat \<Rightarrow> credential_file \<Rightarrow> string res" where
  "read_owner_protected_credential no_follow euid f =
     (if \<not> no_follow \<or> \<not> cf_openable f then Inl SERVING_CREDENTIAL_INVALID
      else if \<not> cf_regular f \<or> cf_permissions f \<notin> {256, 384} \<or> cf_owner f \<notin> {euid, 0}
      then Inl SERVING_CREDENTIAL_INVALID
      else case cf_text f of
        None \<Rightarrow> Inl SERVING_CREDENTIAL_INVALID
      | Some t \<Rightarrow> (if length (strip t) < 32 then Inl SERVING_CREDENTIAL_INVALID else Inr (strip t)))"

text \<open>Octal 0o077 selects the low six permission bits.\<close>

definition read_credential :: "credential_file \<Rightarrow> string res" where
  "read_credential f =
     (case (if cf_openable f then cf_text f else None) of
        None \<Rightarrow> Inl (PyException ''OSError'' [] None)
      | Some t \<Rightarrow> (if length (strip t) < 32 \<or> cf_permissions f mod 64 \<noteq> 0
                   then Inl SERVING_CREDENTIAL_INVALID else Inr (strip t)))"

definition truthy_opt :: "string option \<Rightarrow> bool" where
  "truthy_opt x \<longleftrightarrow> x \<noteq> None \<and> x \<noteq> Some []"

definition loopback_host :: "string option \<Rightarrow> bool" where
  "loopback_host h \<longleftrightarrow> h \<in> {Some ''127.0.0.1'', Some ''localhost'', Some ''::1''}"

definition check_control_url :: "string \<Rightarrow> unit res" where
  "check_control_url url =
     (case urlsplit url of
        None \<Rightarrow> Inl (ValueError ''Invalid IPv6 URL'')
      | Some u \<Rightarrow>
          (if truthy_opt (fst (url_userinfo u)) \<or> truthy_opt (snd (url_userinfo u))
              \<or> su_query u \<noteq> [] \<or> su_fragment u \<noteq> []
           then Inl (ValueError ''SERVING_URL_INVALID'')
           else if su_scheme u \<noteq> ''https'' \<and> \<not> (su_scheme u = ''http'' \<and> loopback_host (url_hostname u))
           then Inl (ValueError
             ''SERVING_TLS_REQUIRED: remote bindings require HTTPS or a local SSH tunnel'')
           else Inr ()))"

definition open_binding :: "string \<Rightarrow> string \<Rightarrow> bool \<Rightarrow> bool \<Rightarrow> nat \<Rightarrow> credential_file \<Rightarrow> binding res" where
  "open_binding binding_id control_url owner_protected no_follow euid f =
     resB (if owner_protected then read_owner_protected_credential no_follow euid f
           else read_credential f) (\<lambda>token.
     resB (check_control_url control_url) (\<lambda>_.
     Inr \<lparr>rb_binding_id = binding_id, rb_control_url = control_url, rb_token = token\<rparr>))"

section \<open>Requests to the binding\<close>

definition base_url :: "'e remote \<Rightarrow> string" where
  "base_url k = rstrip_char CHR ''/'' (rb_control_url (rk_binding k))"

definition binding_unreachable :: engine_failure where
  "binding_unreachable = (serving_engine_failure
     ''SERVING_BINDING_UNREACHABLE: refresh the node and retry'')\<lparr>ef_status := 503, ef_retryable := True\<rparr>"

fun is_http_value_type_error :: "exn \<Rightarrow> bool" where
  "is_http_value_type_error (ValueError _) = True"
| "is_http_value_type_error (TypeError _) = True"
| "is_http_value_type_error x = (x = HTTP_ERROR)"

definition request_failure :: "int \<Rightarrow> dict \<Rightarrow> engine_failure" where
  "request_failure status body =
     (let c = (if status \<in> {401, 403} then ''SERVING_BINDING_PERMISSION_DENIED''
               else py_str (case dict_get body ''code'' of None \<Rightarrow> JStr ''SERVING_REQUEST_FAILED'' | Some v \<Rightarrow> v));
          d = py_str (case dict_get body ''detail'' of None \<Rightarrow> JStr ''Refresh the binding and retry'' | Some v \<Rightarrow> v)
      in (serving_engine_failure (c @ '': '' @ d))
           \<lparr>ef_status := (if status \<in> {401, 403} then 403 else status),
            ef_retryable := (case dict_get body ''retryable'' of None \<Rightarrow> 500 \<le> status | Some v \<Rightarrow> truthy v)\<rparr>)"

definition remote_request :: "'e remote \<Rightarrow> string \<Rightarrow> string \<Rightarrow> json option \<Rightarrow> ('e, dict) rpc" where
  "remote_request k meth path payload =
     catchE
       (bindE (http_call k \<lparr>hq_method = meth, hq_url = base_url k @ path, hq_payload = payload,
                 hq_bearer = rb_token (rk_binding k),
                 hq_timeout = (if meth = ''POST'' \<and> \<not> endswith path ''/stop'' then 1900 else 45)\<rparr>) (\<lambda>r.
        bindE (liftE (response_json (snd r))) (\<lambda>body.
        case body of
          JObj d \<Rightarrow>
            (if 400 \<le> fst r \<and> fst r < 600 then raise (EngineFailure (request_failure (fst r) d)) else ret d)
        | _ \<Rightarrow> raise (ValueError ''SERVING_RESPONSE_INCOMPATIBLE''))))
       (\<lambda>x. if is_http_value_type_error x then raise (EngineFailure binding_unreachable) else raise x)"

section \<open>Identity readback\<close>

definition validate_model_version_readback ::
    "'e remote \<Rightarrow> dict \<Rightarrow> dict \<Rightarrow> artifact_ref \<Rightarrow> dict res" where
  "validate_model_version_readback k result expected model =
     (case get_or_null result ''modelVersion'' of
        JObj returned \<Rightarrow>
          resB (canonical_model_version (rk_sdk k) returned) (\<lambda>canonical.
          resB (canonical_model_version (rk_sdk k) expected) (\<lambda>expected_canonical.
          resB (version_key canonical) (\<lambda>i.
          resB (version_key expected_canonical) (\<lambda>j.
          if i \<noteq> j then Inl (ValueError ''MODEL_VERSION_IDENTITY_MISMATCH'')
          else resB (model_version_artifact (rk_sdk k) expected_canonical) (\<lambda>a.
          if a \<noteq> model then Inl (ValueError ''MODEL_VERSION_BASE_PROJECTION_MISMATCH'')
          else resB (model_version_artifact (rk_sdk k) canonical) (\<lambda>b.
          if b \<noteq> model then Inl (ValueError ''MODEL_VERSION_BASE_PROJECTION_MISMATCH'')
          else resB (artifact_of_json (rk_sdk k) (get_or_null result ''modelArtifact'')) (\<lambda>c.
          if c \<noteq> model then Inl (ValueError ''MODEL_ARTIFACT_IDENTITY_MISMATCH'')
          else Inr canonical)))))))
      | _ \<Rightarrow> Inl (ValueError ''MODEL_VERSION_READBACK_MISSING''))"

definition canonical_expected_model_version :: "'e remote \<Rightarrow> dict \<Rightarrow> artifact_ref \<Rightarrow> dict res" where
  "canonical_expected_model_version k value model =
     resB (canonical_model_version (rk_sdk k) value) (\<lambda>canonical.
     resB (model_version_artifact (rk_sdk k) canonical) (\<lambda>a.
     if a \<noteq> model then Inl (ValueError ''MODEL_VERSION_BASE_PROJECTION_MISMATCH'')
     else Inr canonical))"

section \<open>The port's operations\<close>

fun is_value_or_type_error :: "exn \<Rightarrow> bool" where
  "is_value_or_type_error (ValueError _) = True"
| "is_value_or_type_error (TypeError _) = True"
| "is_value_or_type_error _ = False"

definition map_error :: "(exn \<Rightarrow> bool) \<Rightarrow> exn \<Rightarrow> 'a res \<Rightarrow> 'a res" where
  "map_error p x r = (case r of Inl e \<Rightarrow> Inl (if p e then x else e) | Inr a \<Rightarrow> Inr a)"

definition failure_at :: "string \<Rightarrow> string option \<Rightarrow> string option \<Rightarrow> int \<Rightarrow> bool \<Rightarrow> exn" where
  "failure_at detail x u status retryable = EngineFailure
     \<lparr>ef_detail = detail, ef_execution_ref = x, ef_endpoint_url = u, ef_status = status,
      ef_retryable = retryable\<rparr>"

definition serving_url :: "'e remote \<Rightarrow> uuid \<Rightarrow> string" where
  "serving_url k i = base_url k @ ''/serving/'' @ i @ ''/v1''"

definition remote_import_model :: "'e remote \<Rightarrow> import_request \<Rightarrow> ('e, import_result) rpc" where
  "remote_import_model k command =
     bindE (remote_request k ''POST'' ''/imports'' (Some (JObj
       ([(''name'', JStr (iq_name command)), (''source'', dump_source (iq_source command)),
         (''trustRemoteCode'', JBool False)] @ opt_field ''credentialRef'' (iq_credential_ref command))))) (\<lambda>result.
     liftE (map_error is_value_key_type_error
       (failure_at ''SERVING_RESPONSE_INCOMPATIBLE: the binding returned invalid import evidence'' None None 409 False)
       (resB (j_item (JObj result) ''modelArtifact'') (\<lambda>a.
        resB (artifact_of_json (rk_sdk k) a) (\<lambda>artifact.
        resB (j_item (JObj result) ''validation'') (\<lambda>v.
        resB (rk_validation k v) (\<lambda>validation.
        Inr \<lparr>ir_model_artifact = artifact, ir_validation = validation\<rparr>)))))))"

definition remote_prepare :: "'e remote \<Rightarrow> uuid \<Rightarrow> ('e, engine_handle option) rpc" where
  "remote_prepare k i = ret (Some
     \<lparr>eh_execution_ref = i, eh_endpoint_url = serving_url k i, eh_model = Some (''reactor-'' @ i),
      eh_model_version_id = None\<rparr>)"

definition same_origin :: "'e remote \<Rightarrow> string \<Rightarrow> bool res" where
  "same_origin k url =
     (case (urlsplit url, urlsplit (rb_control_url (rk_binding k))) of
        (Some e, Some b) \<Rightarrow> Inr (su_scheme e = su_scheme b \<and> su_netloc e = su_netloc b)
      | _ \<Rightarrow> Inl (ValueError ''Invalid IPv6 URL''))"

definition chat_request :: "'e remote \<Rightarrow> string \<Rightarrow> json \<Rightarrow> http_request" where
  "chat_request k url model =
     \<lparr>hq_method = ''POST'', hq_url = url @ ''/chat/completions'',
      hq_payload = Some (JObj [(''model'', model),
        (''messages'', JArr [JObj [(''role'', JStr ''user''), (''content'', JStr ''Reply with one word: ready'')]]),
        (''max_tokens'', JInt 8), (''temperature'', JInt 0)]),
      hq_bearer = rb_token (rk_binding k), hq_timeout = 30\<rparr>"

definition chat_ready :: "json \<Rightarrow> json \<Rightarrow> bool res" where
  "chat_ready model body =
     resB (j_get body ''model'') (\<lambda>m.
     if m \<noteq> model then Inr False
     else resB (j_item body ''choices'') (\<lambda>cs. resB (j_first cs) (\<lambda>c.
          resB (j_item c ''message'') (\<lambda>msg. resB (j_get msg ''content'') (\<lambda>t. Inr (truthy t))))))"

definition observation_of :: "bool \<Rightarrow> json \<Rightarrow> engine_observation res" where
  "observation_of ready detail = resB (j_string detail) (\<lambda>d. Inr \<lparr>eo_ready = ready, eo_detail = d\<rparr>)"

definition identity_matches :: "'e remote \<Rightarrow> dict \<Rightarrow> string \<Rightarrow> dict option \<Rightarrow> bool res" where
  "identity_matches k result model_digest mv =
     (case mv of
        Some v \<Rightarrow>
          resB (j_item (JObj result) ''modelArtifact'') (\<lambda>a.
          resB (artifact_of_json (rk_sdk k) a) (\<lambda>returned.
          resB (canonical_model_version (rk_sdk k) v) (\<lambda>expected.
          resB (model_version_artifact (rk_sdk k) expected) (\<lambda>expected_artifact.
          if expected_artifact \<noteq> returned then Inl (ValueError ''MODEL_VERSION_BASE_PROJECTION_MISMATCH'')
          else resB (validate_model_version_readback k result expected expected_artifact) (\<lambda>_.
               resB (version_key expected) (\<lambda>i. Inr (i = JStr model_digest)))))))
      | None \<Rightarrow>
          resB (j_item (JObj result) ''modelArtifact'') (\<lambda>a.
          resB (j_item a ''digest'') (\<lambda>g. Inr (g = JStr model_digest))))"

text \<open>The \<open>try\<close> body of \<open>inspect\<close> and its handler, which covers every exception the body can raise.\<close>

definition remote_inspect_body ::
    "'e remote \<Rightarrow> string \<Rightarrow> uuid \<Rightarrow> string \<Rightarrow> dict option \<Rightarrow> ('e, engine_observation) rpc" where
  "remote_inspect_body k endpoint_url i model_digest mv =
     bindE (remote_request k ''GET'' (''/executions/'' @ i) None) (\<lambda>result.
     bindE (liftE (identity_matches k result model_digest mv)) (\<lambda>matches.
     bindE (liftE (if get_or_null result ''ready'' \<noteq> JBool True \<or> \<not> matches then Inr True
                   else resB (j_item (JObj result) ''endpointUrl'') (\<lambda>u. Inr (u \<noteq> JStr endpoint_url)))) (\<lambda>bad.
     if bad then bindE (liftE (j_item (JObj result) ''detail'')) (\<lambda>d. liftE (observation_of False d))
     else bindE (liftE (same_origin k endpoint_url)) (\<lambda>admitted.
       if \<not> admitted then ret \<lparr>eo_ready = False, eo_detail = ''INFERENCE_ORIGIN_NOT_ADMITTED''\<rparr>
       else bindE (liftE (j_item (JObj result) ''servedModel'')) (\<lambda>served.
            bindE (http_call k (chat_request k endpoint_url served)) (\<lambda>answer.
            bindE (liftE (raise_for_status (fst answer))) (\<lambda>_.
            bindE (liftE (response_json (snd answer))) (\<lambda>body.
            bindE (liftE (chat_ready served body)) (\<lambda>ready.
            ret \<lparr>eo_ready = ready, eo_detail = (if ready then ''CONTROL_AND_INFERENCE_VERIFIED''
                   else ''MODEL_INFERENCE_EMPTY'')\<rparr>)))))))))"

definition CONTROL_OR_INFERENCE_UNREACHABLE :: engine_observation where
  "CONTROL_OR_INFERENCE_UNREACHABLE =
     \<lparr>eo_ready = False, eo_detail = ''CONTROL_OR_INFERENCE_UNREACHABLE''\<rparr>"

fun inspect_catches :: "exn \<Rightarrow> bool" where
  "inspect_catches (EngineFailure _) = True"
| "inspect_catches (KeyError _) = True"
| "inspect_catches (ValueError _) = True"
| "inspect_catches (TypeError _) = True"
| "inspect_catches (PyException n _ _) = (n \<in> {''httpx.HTTPError'', ''IndexError'', ''AttributeError''})"
| "inspect_catches _ = False"

definition remote_inspect ::
    "'e remote \<Rightarrow> string \<Rightarrow> string \<Rightarrow> uuid \<Rightarrow> string \<Rightarrow> dict option \<Rightarrow> ('e, engine_observation) rpc" where
  "remote_inspect k execution_ref endpoint_url i model_digest mv =
     (if execution_ref \<noteq> i
      then ret \<lparr>eo_ready = False, eo_detail = ''EXECUTION_IDENTITY_MISMATCH''\<rparr>
      else catchE (remote_inspect_body k endpoint_url i model_digest mv)
             (\<lambda>x. if inspect_catches x then ret CONTROL_OR_INFERENCE_UNREACHABLE else raise x))"

text \<open>A value or type error while the readback is checked, and the handle it yields.\<close>

definition start_handle ::
    "'e remote \<Rightarrow> uuid \<Rightarrow> dict \<Rightarrow> artifact_ref \<Rightarrow> dict option \<Rightarrow> engine_handle res" where
  "start_handle k i result model expected =
     map_error is_value_key_type_error
       (failure_at ''SERVING_RESPONSE_INCOMPATIBLE: restore the binding before retrying''
          (Some i) (Some (serving_url k i)) 409 False)
       (resB (case expected of
                None \<Rightarrow> Inr None
              | Some v \<Rightarrow> resB (validate_model_version_readback k result v model) (\<lambda>c.
                           resB (version_key c) (\<lambda>j. Inr (Some j)))) (\<lambda>version.
        resB (j_item (JObj result) ''endpointUrl'') (\<lambda>u.
        resB (j_item (JObj result) ''servedModel'') (\<lambda>m.
        resB (j_string u) (\<lambda>url.
        resB (j_opt_string m) (\<lambda>served.
        resB (case version of None \<Rightarrow> Inr None | Some j \<Rightarrow> j_opt_string j) (\<lambda>version_id.
        if served \<noteq> Some (''reactor-'' @ i)
        then Inl (failure_at ''MODEL_IDENTITY_MISMATCH: the binding returned an unexpected served model''
                    (Some i) (Some url) 409 False)
        else Inr \<lparr>eh_execution_ref = i, eh_endpoint_url = url, eh_model = served,
                   eh_model_version_id = version_id\<rparr>)))))))"

definition with_start_evidence :: "'e remote \<Rightarrow> uuid \<Rightarrow> exn \<Rightarrow> exn" where
  "with_start_evidence k i x =
     (case x of
        EngineFailure f \<Rightarrow> failure_at (ef_detail f) (Some i) (Some (serving_url k i)) (ef_status f) (ef_retryable f)
      | _ \<Rightarrow> x)"

definition remote_start ::
    "'e remote \<Rightarrow> uuid \<Rightarrow> artifact_ref \<Rightarrow> node_ref option \<Rightarrow> dict option \<Rightarrow> ('e, engine_handle) rpc" where
  "remote_start k i model node mv =
     (case node of
        None \<Rightarrow> raise (EngineFailure (serving_engine_failure
                  ''NODE_CONFIRMATION_REQUIRED: select a node from the binding''))
      | Some n \<Rightarrow>
          bindE (liftE (map_error is_value_or_type_error
                   (EngineFailure (serving_engine_failure
                      ''MODEL_VERSION_INVALID: composed model does not match its base artifact''))
                   (case mv of None \<Rightarrow> Inr None
                    | Some v \<Rightarrow> resB (canonical_expected_model_version k v model) (\<lambda>c. Inr (Some c))))) (\<lambda>expected.
          bindE (catchE (remote_request k ''POST'' (''/executions/'' @ i)
                   (Some (JObj ([(''modelArtifact'', dump_artifact model), (''nodeRef'', dump_node n)]
                     @ (case expected of None \<Rightarrow> [] | Some v \<Rightarrow> [(''modelVersion'', JObj v)])))))
                   (\<lambda>x. raise (with_start_evidence k i x))) (\<lambda>result.
          if get_or_null result ''ready'' \<noteq> JBool True
          then raise (failure_at (''MODEL_NOT_READY: '' @ py_str (case dict_get result ''detail'' of
                   None \<Rightarrow> JStr ''incompatible host response'' | Some d \<Rightarrow> d))
                 (Some i) (Some (serving_url k i)) 503 True)
          else bindE (liftE (start_handle k i result model expected)) (\<lambda>handle.
               bindE (liftE (case expected of None \<Rightarrow> Inr (ar_digest model) | Some v \<Rightarrow> version_id v)) (\<lambda>digest.
               bindE (remote_inspect k (eh_execution_ref handle) (eh_endpoint_url handle) i digest expected) (\<lambda>ob.
               if \<not> eo_ready ob
               then raise (failure_at ''INFERENCE_DATA_PATH_UNREACHABLE: stop or repair binding reachability''
                      (Some (eh_execution_ref handle)) (Some (eh_endpoint_url handle)) 503 True)
               else ret handle))))))"

definition models_request :: "'e remote \<Rightarrow> string \<Rightarrow> http_request" where
  "models_request k url =
     \<lparr>hq_method = ''GET'', hq_url = rstrip_char CHR ''/'' url @ ''/models'', hq_payload = None,
      hq_bearer = rb_token (rk_binding k), hq_timeout = 30\<rparr>"

definition advertises :: "json \<Rightarrow> string \<Rightarrow> bool" where
  "advertises body model \<longleftrightarrow>
     (case body of
        JObj d \<Rightarrow> (case get_or_null d ''data'' of
            JArr items \<Rightarrow> (\<exists>item \<in> set items. case item of JObj m \<Rightarrow> get_or_null m ''id'' = JStr model | _ \<Rightarrow> False)
          | _ \<Rightarrow> False)
      | _ \<Rightarrow> False)"

definition remote_verify_served_model ::
    "'e remote \<Rightarrow> uuid \<Rightarrow> string \<Rightarrow> string \<Rightarrow> string option \<Rightarrow> ('e, unit) rpc" where
  "remote_verify_served_model k i execution_ref endpoint_url served =
     (let model = ''reactor-'' @ i;
          refuse = (\<lambda>detail status retryable.
            failure_at detail (Some execution_ref) (Some endpoint_url) status retryable)
      in if execution_ref \<noteq> i \<or> served \<noteq> Some model
         then raise (refuse ''MODEL_IDENTITY_MISMATCH: the serving handle does not match the deployment'' 409 False)
         else bindE (liftE (same_origin k endpoint_url)) (\<lambda>admitted.
           if \<not> admitted
           then raise (refuse ''INFERENCE_ORIGIN_NOT_ADMITTED: the serving endpoint is outside its binding'' 409 False)
           else bindE (catchE
                  (bindE (http_call k (models_request k endpoint_url)) (\<lambda>r.
                   bindE (liftE (raise_for_status (fst r))) (\<lambda>_.
                   liftE (response_json (snd r)))))
                  (\<lambda>x. if x = HTTP_ERROR
                       then raise (refuse ''INFERENCE_DATA_PATH_UNREACHABLE: serving model readback is unavailable'' 503 True)
                       else if is_value_or_type_error x
                       then raise (refuse ''SERVING_RESPONSE_INCOMPATIBLE: serving model readback is not valid JSON'' 409 False)
                       else raise x)) (\<lambda>body.
                if advertises body model then ret ()
                else raise (refuse
                  ''MODEL_IDENTITY_MISMATCH: /v1/models did not advertise the intended served model'' 409 False))))"

definition remote_diagnostics :: "'e remote \<Rightarrow> string \<Rightarrow> int \<Rightarrow> int \<Rightarrow> ('e, dict option) rpc" where
  "remote_diagnostics k execution_ref after_sequence limit =
     catchE
       (bindE (remote_request k ''GET'' (''/executions/'' @ execution_ref @ ''/diagnostics?afterSequence=''
                 @ show_int after_sequence @ ''&limit='' @ show_int limit) None) (\<lambda>page.
        ret (case get_or_null page ''items'' of JArr _ \<Rightarrow> Some page | _ \<Rightarrow> None)))
       (\<lambda>x. case x of EngineFailure _ \<Rightarrow> ret None | ValueError _ \<Rightarrow> ret None | _ \<Rightarrow> raise x)"

definition remote_stop ::
    "'e remote \<Rightarrow> string \<Rightarrow> string \<Rightarrow> uuid \<Rightarrow> string \<Rightarrow> dict option \<Rightarrow> ('e, engine_observation) rpc" where
  "remote_stop k execution_ref endpoint_url i model_digest mv =
     (if execution_ref \<noteq> i
      then raise (EngineFailure (serving_engine_failure ''EXECUTION_IDENTITY_MISMATCH''))
      else bindE (case mv of
          None \<Rightarrow> ret ()
        | Some v \<Rightarrow>
            bindE (liftE (resB (model_version_artifact (rk_sdk k) v) (canonical_expected_model_version k v))) (\<lambda>expected.
            bindE (remote_request k ''GET'' (''/executions/'' @ i) None) (\<lambda>current.
            bindE (liftE (resB (model_version_artifact (rk_sdk k) expected)
                     (validate_model_version_readback k current expected))) (\<lambda>c.
            bindE (liftE (version_key c)) (\<lambda>key.
            if key \<noteq> JStr model_digest
            then raise (EngineFailure (serving_engine_failure ''MODEL_VERSION_IDENTITY_MISMATCH''))
            else ret ()))))) (\<lambda>_.
        bindE (remote_request k ''POST'' (''/executions/'' @ i @ ''/stop'') None) (\<lambda>result.
        if get_or_null result ''released'' \<noteq> JBool True
        then raise (EngineFailure (serving_engine_failure ''KERNEL_CLEANUP_INCOMPLETE''))
        else ret \<lparr>eo_ready = False, eo_detail = ''KERNEL_RESOURCES_RELEASED''\<rparr>)))"

definition RemoteServingExecutionPort :: "'e remote \<Rightarrow> 'e engine" where
  "RemoteServingExecutionPort k =
     \<lparr>en_import_model = remote_import_model k, en_prepare = remote_prepare k,
      en_start = remote_start k, en_inspect = remote_inspect k, en_stop = remote_stop k,
      en_verify_served_model = Some (remote_verify_served_model k),
      en_diagnostics = Some (remote_diagnostics k), en_takes_version = (\<lambda>_. True)\<rparr>"

end
