(* ===== verification/Remote_Properties.thy ===== *)
theory Remote_Properties
  imports Remote_Engine Service_Properties
begin

text \<open>
  Properties of the remote serving port: where its bearer credential may travel, what a started
  handle has proved, and how its stop reports a mismatched version through the service.
\<close>

section \<open>Where requests go\<close>

text \<open>A network that records every request before it answers.\<close>

definition recorded :: "'e http \<Rightarrow> (http_request list \<times> 'e) http" where
  "recorded h q s = (case h q (snd s) of (r, e) \<Rightarrow> (r, (fst s @ [q], e)))"

definition admitted_request :: "'e remote \<Rightarrow> http_request \<Rightarrow> bool" where
  "admitted_request k q \<longleftrightarrow>
     (\<exists>path. hq_url q = base_url k @ path)
   \<or> (\<exists>u path. same_origin k u = Inr True \<and> hq_url q \<in> {u @ path, rstrip_char CHR ''/'' u @ path})"

definition sends_admitted :: "(http_request list \<times> 'e) remote \<Rightarrow> (http_request list \<times> 'e)
    \<Rightarrow> (http_request list \<times> 'e) \<Rightarrow> bool" where
  "sends_admitted k s t \<longleftrightarrow> (\<exists>qs. fst t = fst s @ qs \<and> (\<forall>q \<in> set qs. admitted_request k q))"

lemma sends_admitted_append:
  assumes "sends_admitted k s t" and "sends_admitted k t u"
  shows "sends_admitted k s u"
proof -
  obtain qs rs where "fst t = fst s @ qs" "fst u = fst t @ rs"
    "\<forall>q \<in> set qs. admitted_request k q" "\<forall>q \<in> set rs. admitted_request k q"
    using assms unfolding sends_admitted_def by blast
  then have "fst u = fst s @ (qs @ rs)" "\<forall>q \<in> set (qs @ rs). admitted_request k q" by auto
  then show ?thesis unfolding sends_admitted_def by blast
qed

interpretation sends: frame_rel "sends_admitted k" for k
  by unfold_locales (simp add: sends_admitted_def, rule sends_admitted_append)

lemma steps_http_call:
  "rk_http k = recorded h \<Longrightarrow> admitted_request k q \<Longrightarrow> steps (sends_admitted k) (http_call k q)"
  by (auto simp: steps_def http_call_def recorded_def sends_admitted_def split: prod.splits http_reply.splits)

lemma steps_liftE_bind:
  assumes "\<And>a. r = Inr a \<Longrightarrow> steps (sends_admitted k) (f a)"
  shows "steps (sends_admitted k) (bindE (liftE r) f)"
  using assms sends.R_refl by (cases r) (auto simp: steps_def bindE_def liftE_def)

lemma admitted_path: "admitted_request k
    \<lparr>hq_method = m, hq_url = base_url k @ p, hq_payload = b, hq_bearer = t, hq_timeout = n\<rparr>"
  by (auto simp: admitted_request_def)

lemma steps_case_json:
  "(\<And>d. steps R (f d)) \<Longrightarrow> steps R g \<Longrightarrow> steps R (case j of JObj d \<Rightarrow> f d | _ \<Rightarrow> g)"
  by (cases j) simp_all

lemma remote_request_sends:
  "rk_http k = recorded h \<Longrightarrow> steps (sends_admitted k) (remote_request k m p b)"
  unfolding remote_request_def
  by (intro sends.steps_catchE sends.steps_bindE steps_http_call admitted_path sends.steps_liftE
    steps_case_json sends.steps_if sends.steps_raise sends.steps_ret)

lemma remote_inspect_sends:
  assumes h: "rk_http k = recorded h"
  shows "steps (sends_admitted k) (remote_inspect k x u i g mv)"
proof -
  have chat: "steps (sends_admitted k) (http_call k (chat_request k u m))" if "same_origin k u = Inr True" for m
    using h that by (intro steps_http_call) (auto simp: admitted_request_def chat_request_def)
  show ?thesis
    unfolding remote_inspect_def remote_inspect_body_def
    apply (intro sends.steps_if sends.steps_ret sends.steps_catchE sends.steps_raise)
    apply (rule sends.steps_bindE, rule remote_request_sends [OF h])
    apply (rule sends.steps_bindE, rule sends.steps_liftE)
    apply (rule sends.steps_bindE, rule sends.steps_liftE)
    apply (rule sends.steps_if)
    apply (intro sends.steps_bindE sends.steps_liftE)
    apply (rule steps_liftE_bind)
    apply (rule sends.steps_if, rule sends.steps_ret)
    apply (intro sends.steps_bindE sends.steps_liftE chat sends.steps_ret, simp)
    done
qed

lemma remote_start_sends:
  "rk_http k = recorded h \<Longrightarrow> steps (sends_admitted k) (remote_start k i a n mv)"
  unfolding remote_start_def
  by (intro sends.steps_case_option sends.steps_raise sends.steps_bindE sends.steps_liftE
    sends.steps_catchE sends.steps_if sends.steps_ret remote_request_sends remote_inspect_sends)

lemma remote_verify_sends:
  assumes h: "rk_http k = recorded h"
  shows "steps (sends_admitted k) (remote_verify_served_model k i x u m)"
proof -
  have models: "steps (sends_admitted k) (http_call k (models_request k u))" if "same_origin k u = Inr True"
    using h that by (intro steps_http_call) (auto simp: admitted_request_def models_request_def)
  show ?thesis
    unfolding remote_verify_served_model_def Let_def
    apply (rule sends.steps_if, rule sends.steps_raise)
    apply (rule steps_liftE_bind)
    apply (rule sends.steps_if, rule sends.steps_raise)
    apply (intro sends.steps_bindE sends.steps_catchE sends.steps_liftE sends.steps_if
        sends.steps_raise sends.steps_ret models, simp)
    done
qed

lemma remote_diagnostics_sends:
  assumes "rk_http k = recorded h"
  shows "steps (sends_admitted k) (remote_diagnostics k x a l)"
proof -
  have "steps (sends_admitted k) (case e of EngineFailure _ \<Rightarrow> ret None | ValueError _ \<Rightarrow> ret None | _ \<Rightarrow> raise e)"
    for e by (cases e) (auto intro: sends.steps_ret sends.steps_raise)
  then show ?thesis
    unfolding remote_diagnostics_def
    by (intro sends.steps_catchE sends.steps_bindE remote_request_sends [OF assms] sends.steps_ret)
qed

lemma remote_stop_sends:
  "rk_http k = recorded h \<Longrightarrow> steps (sends_admitted k) (remote_stop k x u i g mv)"
  unfolding remote_stop_def
  by (intro sends.steps_if sends.steps_raise sends.steps_bindE sends.steps_case_option sends.steps_ret
    sends.steps_liftE remote_request_sends)

lemma remote_import_sends:
  "rk_http k = recorded h \<Longrightarrow> steps (sends_admitted k) (remote_import_model k c)"
  unfolding remote_import_model_def
  by (intro sends.steps_bindE sends.steps_liftE remote_request_sends)


text \<open>A host for the witnesses: it reports a running execution and serves the requested model.\<close>

definition sample_host :: "string \<Rightarrow> unit http" where
  "sample_host version q e =
     (if endswith (hq_url q) ''/chat/completions'' then
        (Reply 200 (Some (JObj [(''model'', JStr ''reactor-d1''),
           (''choices'', JArr [JObj [(''message'', JObj [(''content'', JStr ''ready'')])]])])), e)
      else if endswith (hq_url q) ''/stop'' then (Reply 200 (Some (JObj [(''released'', JBool True)])), e)
      else (Reply 200 (Some (JObj [(''ready'', JBool True), (''detail'', JStr ''ok''),
           (''endpointUrl'', JStr ''https://gpu:8443/serving/d1/v1''), (''servedModel'', JStr ''reactor-d1''),
           (''modelVersion'', JObj [(''id'', JStr version), (''composition'', JStr ''BASE_PLUS_LORA''),
              (''baseModel'', JObj [(''artifact'', JObj [])])]),
           (''modelArtifact'', dump_artifact sample_artifact)])), e))"

definition sample_remote :: "string \<Rightarrow> (http_request list \<times> unit) remote" where
  "sample_remote version = \<lparr>rk_binding = \<lparr>rb_binding_id = ''gpu-1'',
     rb_control_url = ''https://gpu:8443/'', rb_token = replicate 32 CHR ''k''\<rparr>,
     rk_http = recorded (sample_host version), rk_sdk = sample_sdk,
     rk_validation = (\<lambda>j. Inl (ValueError []))\<rparr>"


section \<open>What a started handle has proved\<close>

lemma map_error_Inr: "map_error p x r = Inr a \<longleftrightarrow> r = Inr a"
  by (cases r) (simp_all add: map_error_def)

lemma j_string_Inr: "j_string j = Inr s \<longleftrightarrow> j = JStr s"
  by (cases j) simp_all

lemma readback_id:
  assumes "validate_model_version_readback k result v model = Inr c"
  shows "\<exists>e. canonical_model_version (rk_sdk k) v = Inr e \<and> version_key c = version_key e
    \<and> model_version_artifact (rk_sdk k) c = Inr model"
  using assms unfolding validate_model_version_readback_def
  by (auto simp: resB_Inr_iff split: json.splits if_splits)

lemma catchE_raise_Inr: "catchE m (\<lambda>x. raise (f x)) s = (Inr a, t) \<longleftrightarrow> m s = (Inr a, t)"
  by (auto simp: catchE_def raise_def split: sum.splits prod.splits)

lemma inspect_ready_origin:
  assumes "remote_inspect k x u i g mv s = (Inr ob, t)" and "eo_ready ob"
  shows "same_origin k u = Inr True"
proof -
  have body: "remote_inspect_body k u i g mv s' = (Inr ob', t') \<Longrightarrow> eo_ready ob' \<Longrightarrow> same_origin k u = Inr True"
    for s' t' ob'
    unfolding remote_inspect_body_def
    by (auto simp: bindE_Inr liftE_Inr ret_def observation_of_def resB_Inr_iff split: if_splits)
  show ?thesis
    using assms body
    by (auto simp: remote_inspect_def catchE_def ret_def raise_def CONTROL_OR_INFERENCE_UNREACHABLE_def
      split: if_splits sum.splits prod.splits)
qed

lemma j_opt_string_Inr: "j_opt_string j = Inr (Some s) \<longleftrightarrow> j = JStr s" "j_opt_string j = Inr None \<longleftrightarrow> j = JNull"
  by (cases j; simp)+



text \<open>When the host of a composed Deployment reads back another version, the remote stop raises a
  plain \<open>ValueError\<close> where the service expects a serving failure: the stop of such a Deployment is not
  reported as a failed stop, its document stays STOPPING and the running execution is not asked to
  stop.\<close>

theorem remote_stop_error_escapes:
  "let k = sample_remote ''mv-2'';
       d = ready_sample\<lparr>dp_composition := BASE_PLUS_LORA,
             dp_model_version := Some [(''id'', JStr ''mv-1''), (''composition'', JStr ''BASE_PLUS_LORA''),
               (''baseModel'', JObj [(''artifact'', JObj [])])]\<rparr>;
       w = \<lparr>w_store = (w_store ready_world)\<lparr>st_deployments := [(''d1'', d)], st_evidence := [(''d1'', ''d1'')]\<rparr>,
            w_ext = ([], ()), w_clock = 0, w_uuids = 0\<rparr>;
       (r, w') = stop_deployment (sample_env (RemoteServingExecutionPort k)) ''d1'' w
   in r = Inl (ValueError ''MODEL_VERSION_IDENTITY_MISMATCH'')
    \<and> map_option dp_observed_state (get_deployment_row ''d1'' (w_store w')) = Some OS_STOPPING
    \<and> map hq_method (fst (w_ext w')) = [''GET'']"
  by code_simp

end
