(* ===== verification/Package_Runtime.thy ===== *)
theory Package_Runtime
  imports Domain Url
begin

text \<open>
  The owner of one package runtime binding (\<open>package_runtime_owner.py\<close>) and its table in the Product
  store (\<open>store.py\<close>): durable intent before any mutation, outcome and receipt in one transaction,
  reconciliation after an unknown outcome. The runtime SDK is a parameter: a tree of the callbacks it
  makes and of how it ends.
\<close>

section \<open>The operations table\<close>

datatype op_phase = INTENT | UNKNOWN | RECEIPT_PENDING | COMPLETED

record owner_row =
  ow_request_id :: string
  ow_binding_id :: string
  ow_package_id :: string
  ow_installation_id :: string
  ow_operation :: string
  ow_phase :: op_phase
  ow_runtime_status :: "dict option"
  ow_receipt :: "dict option"
  ow_updated_at :: datetime

text \<open>\<open>ob_now\<close> is the clock, read once per write; rows are in \<open>rowid\<close> order.\<close>

record owner_db =
  ob_rows :: "owner_row list"
  ob_clock :: nat
  ob_now :: "nat \<Rightarrow> datetime"

type_synonym 'a owner_op = "(owner_db, exn, 'a) py"

definition now_of :: "owner_db \<Rightarrow> datetime" where
  "now_of s = ob_now s (ob_clock s)"

definition pending_phase :: "op_phase \<Rightarrow> bool" where
  "pending_phase p \<longleftrightarrow> p \<in> {INTENT, UNKNOWN, RECEIPT_PENDING}"

definition package_runtime_operation :: "string \<Rightarrow> owner_db \<Rightarrow> owner_row option" where
  "package_runtime_operation i s = find (\<lambda>r. ow_request_id r = i) (ob_rows s)"

definition pending_package_runtime_operation :: "string \<Rightarrow> owner_db \<Rightarrow> owner_row option" where
  "pending_package_runtime_operation b s =
     (case find (\<lambda>r. ow_binding_id r = b \<and> pending_phase (ow_phase r)) (ob_rows s) of
        None \<Rightarrow> None | Some r \<Rightarrow> package_runtime_operation (ow_request_id r) s)"

text \<open>\<open>ORDER BY updated_at DESC, rowid DESC LIMIT 1\<close>\<close>

definition latest_package_runtime_operation :: "string \<Rightarrow> owner_db \<Rightarrow> owner_row option" where
  "latest_package_runtime_operation b s =
     (case filter (\<lambda>r. ow_binding_id r = b) (ob_rows s) of
        [] \<Rightarrow> None
      | rs \<Rightarrow> package_runtime_operation (ow_request_id (last (sort_key ow_updated_at rs))) s)"

definition row_scope :: "owner_row \<Rightarrow> string \<times> string \<times> string \<times> string" where
  "row_scope r = (ow_binding_id r, ow_package_id r, ow_installation_id r, ow_operation r)"

definition create_package_runtime_intent ::
    "string \<Rightarrow> string \<Rightarrow> string \<Rightarrow> string \<Rightarrow> owner_row owner_op" where
  "create_package_runtime_intent i b p n = txn (\<lambda>s.
     case package_runtime_operation i s of
       Some r \<Rightarrow>
         (if row_scope r \<noteq> (b, p, n, ''activate'')
          then (Inl (ValueError ''PACKAGE_RUNTIME_REQUEST_SCOPE_CONFLICT''), s) else (Inr r, s))
     | None \<Rightarrow>
         (if pending_package_runtime_operation b s \<noteq> None
          then (Inl (ValueError ''PACKAGE_RUNTIME_BINDING_OPERATION_PENDING''), s)
          else let r = \<lparr>ow_request_id = i, ow_binding_id = b, ow_package_id = p, ow_installation_id = n,
                 ow_operation = ''activate'', ow_phase = INTENT, ow_runtime_status = None,
                 ow_receipt = None, ow_updated_at = now_of s\<rparr>
               in (Inr r, s\<lparr>ob_rows := ob_rows s @ [r], ob_clock := Suc (ob_clock s)\<rparr>)))"

text \<open>\<open>UPDATE ... WHERE\<close>: the changed rows and how many there are.\<close>

definition update_rows :: "(owner_row \<Rightarrow> bool) \<Rightarrow> (owner_row \<Rightarrow> owner_row) \<Rightarrow> owner_db \<Rightarrow> owner_db" where
  "update_rows p f s = s\<lparr>ob_rows := map (\<lambda>r. if p r then (f r)\<lparr>ow_updated_at := now_of s\<rparr> else r) (ob_rows s),
     ob_clock := Suc (ob_clock s)\<rparr>"

definition rowcount :: "(owner_row \<Rightarrow> bool) \<Rightarrow> owner_db \<Rightarrow> nat" where
  "rowcount p s = length (filter p (ob_rows s))"

definition mark_package_runtime_unknown :: "string \<Rightarrow> unit owner_op" where
  "mark_package_runtime_unknown i = txn (modS (update_rows
     (\<lambda>r. ow_request_id r = i \<and> ow_phase r = INTENT \<and> ow_receipt r = None)
     (\<lambda>r. r\<lparr>ow_phase := UNKNOWN\<rparr>)))"

definition persist_package_runtime_receipt :: "string \<Rightarrow> dict \<Rightarrow> unit owner_op" where
  "persist_package_runtime_receipt i receipt =
     (let p = (\<lambda>r. ow_request_id r = i \<and> ow_phase r \<in> {INTENT, UNKNOWN} \<and> ow_receipt r = None)
      in txn (bindE (getS (rowcount p)) (\<lambda>n.
         bindE (modS (update_rows p (\<lambda>r. r\<lparr>ow_phase := RECEIPT_PENDING, ow_receipt := Some receipt\<rparr>))) (\<lambda>_.
         if n \<noteq> 1 then raise (ValueError ''PACKAGE_RUNTIME_INTENT_NOT_PENDING'') else ret ()))))"

definition commit_package_runtime_outcome :: "string \<Rightarrow> dict \<Rightarrow> dict \<Rightarrow> unit owner_op" where
  "commit_package_runtime_outcome i status receipt = txn
     (bindE (getS (package_runtime_operation i)) (\<lambda>row.
      if (case row of None \<Rightarrow> True | Some r \<Rightarrow> \<not> pending_phase (ow_phase r))
      then raise (ValueError ''PACKAGE_RUNTIME_INTENT_NOT_PENDING'')
      else modS (update_rows (\<lambda>r. ow_request_id r = i)
             (\<lambda>r. r\<lparr>ow_phase := RECEIPT_PENDING, ow_runtime_status := Some status, ow_receipt := Some receipt\<rparr>))))"

definition complete_package_runtime_operation :: "string \<Rightarrow> unit owner_op" where
  "complete_package_runtime_operation i =
     (let p = (\<lambda>r. ow_request_id r = i \<and> ow_phase r = RECEIPT_PENDING \<and> ow_receipt r \<noteq> None)
      in txn (bindE (getS (rowcount p)) (\<lambda>n.
         bindE (modS (update_rows p (\<lambda>r. r\<lparr>ow_phase := COMPLETED\<rparr>))) (\<lambda>_.
         if n \<noteq> 1 then raise (ValueError ''PACKAGE_RUNTIME_RECEIPT_NOT_PERSISTED'') else ret ()))))"

section \<open>References and codes\<close>

definition PACKAGE_ID :: string where "PACKAGE_ID = ''cyrene.serving.vllm-runtime''"
definition SOURCE_ID :: string where "SOURCE_ID = ''cyrene-reactor''"

definition connection_ref_invalid :: "string \<Rightarrow> exn" where
  "connection_ref_invalid d = BindingFailure ''PACKAGE_RUNTIME_CONNECTION_REF_INVALID'' d"

definition control_url_from_connection_ref :: "string \<Rightarrow> string res" where
  "control_url_from_connection_ref ref =
     (case urlsplit ref of
        None \<Rightarrow> Inl (connection_ref_invalid ''the receipt has an invalid HTTP reference'')
      | Some u \<Rightarrow>
          (case url_port u of
             Inl _ \<Rightarrow> Inl (connection_ref_invalid ''the receipt has an invalid HTTP reference'')
           | Inr port \<Rightarrow>
               (case port of
                  None \<Rightarrow> Inl (connection_ref_invalid ''the receipt is not a canonical loopback ref'')
                | Some n \<Rightarrow>
                    (if su_scheme u \<noteq> ''cyrene-http-v1'' \<or> url_hostname u \<noteq> Some ''127.0.0.1''
                        \<or> \<not> (1 \<le> n \<and> n \<le> 65535) \<or> fst (url_userinfo u) \<noteq> None \<or> snd (url_userinfo u) \<noteq> None
                        \<or> su_path u \<noteq> [] \<or> su_query u \<noteq> [] \<or> su_fragment u \<noteq> []
                        \<or> ref \<noteq> ''cyrene-http-v1://127.0.0.1:'' @ show_nat n
                     then Inl (connection_ref_invalid ''the receipt is not a canonical loopback ref'')
                     else Inr (''http://127.0.0.1:'' @ show_nat n)))))"

definition is_safe_request_id :: "string \<Rightarrow> bool" where
  "is_safe_request_id v \<longleftrightarrow> 1 \<le> length v \<and> length v \<le> 128 \<and> (\<forall>c \<in> set v. is_alnum c \<or> c \<in> set ''-_.:'')"

definition safe_code :: "string \<Rightarrow> string" where
  "safe_code t = (if t \<noteq> [] \<and> length t \<le> 96 \<and> (\<forall>c \<in> set t. is_upper c \<or> is_digit c \<or> c = CHR ''_'')
     then t else ''PACKAGE_RUNTIME_OPERATION_FAILED'')"

text \<open>\<open>getattr(exc, "code", default)\<close>\<close>

fun exn_code :: "exn \<Rightarrow> string \<Rightarrow> string" where
  "exn_code (ProductError e) dflt = pe_code e"
| "exn_code (OwnerFailure c s) dflt = c"
| "exn_code (BindingFailure c d) dflt = c"
| "exn_code (PyException n t (Some c)) dflt = c"
| "exn_code _ dflt = dflt"

definition receipt_to_private_document :: "json \<Rightarrow> dict res" where
  "receipt_to_private_document receipt =
     (case receipt of
        JObj d \<Rightarrow> (case get_or_null d ''scope'' of JObj _ \<Rightarrow> Inr d
                 | _ \<Rightarrow> Inl (OwnerFailure ''PACKAGE_RUNTIME_RECEIPT_INVALID'' 502))
      | _ \<Rightarrow> Inl (OwnerFailure ''PACKAGE_RUNTIME_RECEIPT_INVALID'' 502))"

definition receipt_fields_ok :: "dict \<Rightarrow> bool" where
  "receipt_fields_ok d \<longleftrightarrow>
     (case get_or_null d ''operation_token'' of JStr t \<Rightarrow> t \<noteq> [] | _ \<Rightarrow> False)
   \<and> is_bool (get_or_null d ''already_in_flight'') \<and> get_or_null d ''already_completed'' = JBool False
   \<and> (case get_or_null d ''catalog_generation'' of JInt n \<Rightarrow> 0 < n | _ \<Rightarrow> False)
   \<and> (case get_or_null d ''gate_generation'' of JInt n \<Rightarrow> 0 < n | _ \<Rightarrow> False)
   \<and> get_or_null d ''protocol_version'' = JStr ''cyrene.runtime-maintenance.binding-operations.v1''"

definition pending_receipt_document ::
    "json option \<Rightarrow> string \<Rightarrow> string \<Rightarrow> string \<Rightarrow> dict option" where
  "pending_receipt_document pending request_id binding_id installation_id =
     (case pending of
        None \<Rightarrow> None
      | Some receipt \<Rightarrow>
          (case receipt_to_private_document receipt of
             Inl _ \<Rightarrow> None
           | Inr d \<Rightarrow>
               (case get_or_null d ''scope'' of
                  JObj scope \<Rightarrow>
                    (if get_or_null d ''request_id'' = JStr request_id
                        \<and> get_or_null d ''source_id'' = JStr SOURCE_ID
                        \<and> get_or_null scope ''binding_id'' = JStr binding_id
                        \<and> get_or_null scope ''package_id'' = JStr PACKAGE_ID
                        \<and> get_or_null scope ''installation_id'' = JStr installation_id
                        \<and> get_or_null scope ''operation'' = JStr ''activate''
                        \<and> receipt_fields_ok d
                     then Some d else None)
                | _ \<Rightarrow> None)))"

end
