(* ===== verification/Package_Owner.thy ===== *)
theory Package_Owner
  imports Package_Runtime
begin

text \<open>
  \<open>PackageRuntimeOwner\<close> (\<open>package_runtime_owner.py\<close>). The runtime SDK is a parameter: the tree of the
  callbacks it makes during one call, each continued by what the callback did (\<open>None\<close>, or the
  exception it raised), ending in a return or a raise. \<open>activate\<close> holds the owner's lock, \<open>status\<close>
  and \<open>reconcile\<close> do not: \<open>Meanwhile\<close> is such a call of another thread while the SDK runs.
\<close>

section \<open>The SDK as a tree of callbacks\<close>

type_synonym op_scope = "string \<times> string \<times> string \<times> string"

text \<open>\<open>RCommit status installation receipt\<close> is one call of the \<open>reconcile\<close> callback.\<close>

datatype reconcile_run =
    RFinish
  | RFail exn
  | RCommit json json json "exn option \<Rightarrow> reconcile_run"
  | RMeanwhile other_call reconcile_run
and other_call = OtherStatus | OtherReconcile "dict \<Rightarrow> reconcile_run" string

text \<open>\<open>Fail e p\<close> raises \<open>e\<close>, whose \<open>pending_binding_operation\<close> attribute is \<open>p\<close>.\<close>

datatype activation_run =
    Finish
  | Fail exn "json option"
  | PersistIntent string op_scope "exn option \<Rightarrow> activation_run"
  | Persist json json "exn option \<Rightarrow> activation_run"
  | Meanwhile other_call activation_run

record owner =
  po_binding_id :: string
  po_receipt_ok :: "dict \<Rightarrow> bool"

definition binding_id_ok :: "string \<Rightarrow> bool" where
  "binding_id_ok b \<longleftrightarrow> 2 \<le> length b \<and> length b \<le> 128
     \<and> (is_digit (hd b) \<or> is_upper (hd b) \<or> is_lower (hd b))
     \<and> (\<forall>c \<in> set (tl b). is_lower c \<or> is_digit c \<or> c \<in> set ''_.-'')"

text \<open>\<open>PackageRuntimeOwner.__init__\<close>; \<open>source\<close> is the client's \<open>source_id\<close>.\<close>

definition open_owner :: "string \<Rightarrow> string option \<Rightarrow> (dict \<Rightarrow> bool) \<Rightarrow> owner res" where
  "open_owner b source receipt_ok =
     (if \<not> binding_id_ok b then Inl (OwnerFailure ''PACKAGE_RUNTIME_BINDING_NOT_CONFIGURED'' 503)
      else if source \<noteq> Some SOURCE_ID then Inl (OwnerFailure ''PACKAGE_RUNTIME_SOURCE_MISMATCH'' 503)
      else Inr \<lparr>po_binding_id = b, po_receipt_ok = receipt_ok\<rparr>)"

text \<open>\<open>package_runtime_owner_from_environment\<close>; \<open>client\<close> is what \<open>_runtime_client_from_environment\<close> does.\<close>

definition package_runtime_owner_from_environment ::
    "(string \<Rightarrow> string option) \<Rightarrow> (string option \<times> (dict \<Rightarrow> bool)) res \<Rightarrow> owner option res" where
  "package_runtime_owner_from_environment environ client =
     (let get = (\<lambda>k. strip (case environ k of None \<Rightarrow> [] | Some v \<Rightarrow> v));
          b = get ''REACTOR_PACKAGE_RUNTIME_BINDING_ID''
      in if b = [] then Inr None
         else if get ''CYRENE_RUNTIME_ACTIVITY_SOURCE_ID'' \<noteq> SOURCE_ID
         then Inl (OwnerFailure ''PACKAGE_RUNTIME_SOURCE_MISMATCH'' 503)
         else resB client (\<lambda>(source, receipt_ok).
              resB (open_owner b source receipt_ok) (\<lambda>o'. Inr (Some o'))))"

section \<open>Checks and projections\<close>

definition owner_raise :: "string \<Rightarrow> int \<Rightarrow> 'a owner_op" where
  "owner_raise c status = raise (OwnerFailure c status)"

definition validate_actual :: "owner \<Rightarrow> dict \<Rightarrow> string \<Rightarrow> unit res" where
  "validate_actual o' status installation_id =
     (case get_or_null status ''connection_ref'' of
        JStr ref \<Rightarrow>
          (if get_or_null status ''binding_id'' \<noteq> JStr (po_binding_id o')
              \<or> get_or_null status ''installation_id'' \<noteq> JStr installation_id
              \<or> get_or_null status ''state'' \<noteq> JStr ''RUNNING'' \<or> ref = []
           then Inl (OwnerFailure ''PACKAGE_RUNTIME_ACTUAL_STATE_MISMATCH'' 409)
           else case control_url_from_connection_ref ref of
                  Inl _ \<Rightarrow> Inl (OwnerFailure ''PACKAGE_RUNTIME_CONNECTION_REF_INVALID'' 409)
                | Inr _ \<Rightarrow> Inr ())
      | _ \<Rightarrow> Inl (OwnerFailure ''PACKAGE_RUNTIME_ACTUAL_STATE_MISMATCH'' 409))"

definition expected_scope :: "owner \<Rightarrow> string \<Rightarrow> op_scope" where
  "expected_scope o' installation_id = (po_binding_id o', PACKAGE_ID, installation_id, ''activate'')"

definition check_scope :: "owner \<Rightarrow> owner_row \<Rightarrow> string \<Rightarrow> unit res" where
  "check_scope o' r installation_id =
     (if row_scope r \<noteq> expected_scope o' installation_id
      then Inl (OwnerFailure ''PACKAGE_RUNTIME_REQUEST_SCOPE_CONFLICT'' 409) else Inr ())"

fun phase_value :: "op_phase \<Rightarrow> string" where
  "phase_value INTENT = ''INTENT''" | "phase_value UNKNOWN = ''UNKNOWN''"
| "phase_value RECEIPT_PENDING = ''RECEIPT_PENDING''" | "phase_value COMPLETED = ''COMPLETED''"

definition public_state :: "owner \<Rightarrow> owner_row \<Rightarrow> dict" where
  "public_state o' r =
     [(''bindingId'', JStr (po_binding_id o')), (''requestId'', JStr (ow_request_id r)),
      (''installationId'', JStr (ow_installation_id r)), (''phase'', JStr (phase_value (ow_phase r))),
      (''blocked'', JBool (ow_phase r \<noteq> COMPLETED)),
      (''runtimeState'', case ow_runtime_status r of None \<Rightarrow> JNull | Some d \<Rightarrow> get_or_null d ''state'')]"

definition status :: "owner \<Rightarrow> dict owner_op" where
  "status o' =
     bindE (getS (pending_package_runtime_operation (po_binding_id o'))) (\<lambda>pending.
     case pending of
       Some p \<Rightarrow>
         bindE (if ow_phase p = INTENT \<and> ow_receipt p \<in> {None, Some []}
                then bindE (mark_package_runtime_unknown (ow_request_id p)) (\<lambda>_.
                     getS (package_runtime_operation (ow_request_id p)))
                else ret (Some p)) (\<lambda>current.
         case current of
           None \<Rightarrow> ret [(''bindingId'', JStr (po_binding_id o')), (''phase'', JStr ''UNKNOWN'')]
         | Some r \<Rightarrow> ret (public_state o' r))
     | None \<Rightarrow>
         bindE (getS (latest_package_runtime_operation (po_binding_id o'))) (\<lambda>latest.
         case latest of
           None \<Rightarrow> ret [(''bindingId'', JStr (po_binding_id o')), (''phase'', JStr ''NOT_CONFIGURED'')]
         | Some r \<Rightarrow> ret (public_state o' r)))"
text \<open>\<open>_receipt_from_private_document\<close>: the SDK's constructors are the parameter \<open>po_receipt_ok\<close>.\<close>

definition receipt_from_private_document :: "owner \<Rightarrow> dict \<Rightarrow> dict res" where
  "receipt_from_private_document o' d =
     (if (\<forall>k \<in> set [''request_id'', ''source_id'', ''protocol_version'', ''catalog_generation'',
            ''operation_token'', ''gate_generation'', ''already_in_flight'', ''already_completed''].
            dict_get d k \<noteq> None)
         \<and> (case get_or_null d ''scope'' of JObj _ \<Rightarrow> True | _ \<Rightarrow> False) \<and> po_receipt_ok o' d
      then Inr d else Inl (OwnerFailure ''PACKAGE_RUNTIME_RECEIPT_INVALID'' 503))"

text \<open>\<open>try ... except Exception as exc\<close> where the handler may see more than the exception's value.\<close>

definition try_except :: "('s, 'e, 'a) py \<Rightarrow> ('e \<Rightarrow> ('s, 'f, 'a) py) \<Rightarrow> ('s, 'f, 'a) py" where
  "try_except m h = (\<lambda>s. case m s of (Inl e, t) \<Rightarrow> h e t | (Inr a, t) \<Rightarrow> (Inr a, t))"

definition no_attribute :: "('s, exn, 'a) py \<Rightarrow> ('s, exn \<times> json option, 'a) py" where
  "no_attribute m = try_except m (\<lambda>e. raise (e, None))"

definition ignore :: "('s, 'e, 'a) py \<Rightarrow> ('s, 'f, unit) py" where
  "ignore m = (\<lambda>s. (Inr (), snd (m s)))"

text \<open>A callback returns to the SDK, which goes on by its outcome.\<close>

definition callback :: "('s, exn, unit) py \<Rightarrow> (exn option \<Rightarrow> ('s, 'f, 'a) py) \<Rightarrow> ('s, 'f, 'a) py" where
  "callback m k = (\<lambda>s. case m s of (Inl e, t) \<Rightarrow> k (Some e) t | (Inr _, t) \<Rightarrow> k None t)"

section \<open>\<open>reconcile\<close>\<close>

definition attribute_error :: exn where
  "attribute_error = PyException ''AttributeError'' ''no attribute get'' None"

definition json_scope :: "json \<Rightarrow> op_scope option" where
  "json_scope j = (case j of
     JObj d \<Rightarrow> (case (get_or_null d ''binding_id'', get_or_null d ''package_id'',
                     get_or_null d ''installation_id'', get_or_null d ''operation'') of
                 (JStr b, JStr p, JStr n, JStr x) \<Rightarrow> Some (b, p, n, x) | _ \<Rightarrow> None)
   | _ \<Rightarrow> None)"

definition as_mapping :: "json \<Rightarrow> dict res" where
  "as_mapping j = (case j of JObj d \<Rightarrow> Inr d | _ \<Rightarrow> Inl attribute_error)"

definition receipt_field :: "json \<Rightarrow> string \<Rightarrow> json" where
  "receipt_field j k = (case j of JObj d \<Rightarrow> get_or_null d k | _ \<Rightarrow> JNull)"

definition check_reconciled ::
    "owner \<Rightarrow> owner_row \<Rightarrow> string \<Rightarrow> json \<Rightarrow> json \<Rightarrow> json \<Rightarrow> (dict \<times> dict) res" where
  "check_reconciled o' r request_id st inst receipt =
     (if receipt_field receipt ''request_id'' \<noteq> JStr request_id
         \<or> json_scope (receipt_field receipt ''scope'') \<noteq> Some (expected_scope o' (ow_installation_id r))
      then Inl (OwnerFailure ''PACKAGE_RUNTIME_RECEIPT_SCOPE_MISMATCH'' 409)
      else resB (as_mapping st) (\<lambda>sd.
           resB (validate_actual o' sd (ow_installation_id r)) (\<lambda>_.
           if (case ow_runtime_status r of None \<Rightarrow> False
               | Some prev \<Rightarrow> get_or_null sd ''connection_ref'' \<noteq> get_or_null prev ''connection_ref'')
           then Inl (OwnerFailure ''PACKAGE_RUNTIME_CONNECTION_REF_MISMATCH'' 409)
           else resB (as_mapping inst) (\<lambda>n.
                if get_or_null n ''installation_id'' \<noteq> JStr (ow_installation_id r)
                   \<or> get_or_null n ''package_id'' \<noteq> JStr PACKAGE_ID
                   \<or> get_or_null n ''state'' \<noteq> JStr ''INSTALLED''
                then Inl (OwnerFailure ''PACKAGE_RUNTIME_INSTALLATION_MISMATCH'' 409)
                else resB (receipt_to_private_document receipt) (\<lambda>doc. Inr (sd, doc))))))"

definition reconcile_callback ::
    "owner \<Rightarrow> owner_row \<Rightarrow> string \<Rightarrow> json \<Rightarrow> json \<Rightarrow> json \<Rightarrow> unit owner_op" where
  "reconcile_callback o' r request_id st inst receipt =
     bindE (liftE (check_reconciled o' r request_id st inst receipt)) (\<lambda>(sd, doc).
     commit_package_runtime_outcome request_id sd doc)"

text \<open>\<open>sdk r receipt\<close> is \<open>client.reconcile_binding_operation_and_persist(receipt, reconcile=...)\<close>.\<close>

definition reconcile_with ::
    "owner \<Rightarrow> (owner_row \<Rightarrow> dict \<Rightarrow> unit owner_op) \<Rightarrow> string \<Rightarrow> dict owner_op" where
  "reconcile_with o' sdk request_id =
     bindE (getS (package_runtime_operation request_id)) (\<lambda>record'.
     case record' of
       None \<Rightarrow> owner_raise ''PACKAGE_RUNTIME_REQUEST_NOT_FOUND'' 404
     | Some r \<Rightarrow>
         bindE (liftE (check_scope o' r (ow_installation_id r))) (\<lambda>_.
         case ow_receipt r of
           None \<Rightarrow> owner_raise ''PACKAGE_RUNTIME_OUTCOME_UNKNOWN'' 409
         | Some d \<Rightarrow>
             bindE (liftE (receipt_from_private_document o' d)) (\<lambda>receipt.
             bindE (try_except
                      (bindE (sdk r receipt) (\<lambda>_. complete_package_runtime_operation request_id))
                      (\<lambda>e. case e of
                         OwnerFailure c n \<Rightarrow> raise e
                       | _ \<Rightarrow> owner_raise (safe_code (exn_code e ''PACKAGE_RUNTIME_RECONCILIATION_FAILED'')) 409)) (\<lambda>_.
             status o'))))"

primrec run_reconcile :: "owner \<Rightarrow> owner_row \<Rightarrow> string \<Rightarrow> reconcile_run \<Rightarrow> unit owner_op"
  and run_other :: "owner \<Rightarrow> other_call \<Rightarrow> unit owner_op" where
  "run_reconcile o' r i RFinish = ret ()"
| "run_reconcile o' r i (RFail e) = raise e"
| "run_reconcile o' r i (RCommit st inst receipt k) =
     callback (reconcile_callback o' r i st inst receipt) (\<lambda>e. run_reconcile o' r i (k e))"
| "run_reconcile o' r i (RMeanwhile c k) = bindE (run_other o' c) (\<lambda>_. run_reconcile o' r i k)"
| "run_other o' OtherStatus = ignore (status o')"
| "run_other o' (OtherReconcile f i) = ignore (reconcile_with o' (\<lambda>r d. run_reconcile o' r i (f d)) i)"

definition reconcile :: "owner \<Rightarrow> (dict \<Rightarrow> reconcile_run) \<Rightarrow> string \<Rightarrow> dict owner_op" where
  "reconcile o' f i = reconcile_with o' (\<lambda>r d. run_reconcile o' r i (f d)) i"

section \<open>\<open>activate\<close>\<close>

definition persist_intent :: "owner \<Rightarrow> string \<Rightarrow> string \<Rightarrow> string \<Rightarrow> op_scope \<Rightarrow> unit owner_op" where
  "persist_intent o' request_id installation_id actual_request_id scope =
     (if actual_request_id \<noteq> request_id \<or> scope \<noteq> expected_scope o' installation_id
      then owner_raise ''PACKAGE_RUNTIME_REQUEST_SCOPE_CONFLICT'' 409
      else bindE (create_package_runtime_intent request_id (po_binding_id o') PACKAGE_ID installation_id)
             (\<lambda>_. ret ()))"

definition persist :: "owner \<Rightarrow> string \<Rightarrow> string \<Rightarrow> json \<Rightarrow> json \<Rightarrow> unit owner_op" where
  "persist o' request_id installation_id st receipt =
     (case st of
        JObj sd \<Rightarrow>
          bindE (liftE (validate_actual o' sd installation_id)) (\<lambda>_.
          bindE (liftE (receipt_to_private_document receipt)) (\<lambda>doc.
          commit_package_runtime_outcome request_id sd doc))
      | _ \<Rightarrow> owner_raise ''PACKAGE_RUNTIME_OUTCOME_INVALID'' 502)"

primrec run_activation ::
    "owner \<Rightarrow> string \<Rightarrow> string \<Rightarrow> activation_run \<Rightarrow> (owner_db, exn \<times> json option, unit) py" where
  "run_activation o' i n Finish = ret ()"
| "run_activation o' i n (Fail e p) = raise (e, p)"
| "run_activation o' i n (PersistIntent j scope k) =
     callback (persist_intent o' i n j scope) (\<lambda>e. run_activation o' i n (k e))"
| "run_activation o' i n (Persist st receipt k) =
     callback (persist o' i n st receipt) (\<lambda>e. run_activation o' i n (k e))"
| "run_activation o' i n (Meanwhile c k) =
     bindE (no_attribute (run_other o' c)) (\<lambda>_. run_activation o' i n k)"

text \<open>The handler of \<open>except Exception\<close> in \<open>_activate_locked\<close>.\<close>

definition activation_failed :: "owner \<Rightarrow> string \<Rightarrow> string \<Rightarrow> exn \<Rightarrow> json option \<Rightarrow> unit owner_op" where
  "activation_failed o' i n e pending =
     bindE (getS (package_runtime_operation i)) (\<lambda>current.
     bindE (if (case current of None \<Rightarrow> False | Some r \<Rightarrow> ow_phase r = INTENT)
            then (case pending_receipt_document pending i (po_binding_id o') n of
                    Some doc \<Rightarrow> bindE (persist_package_runtime_receipt i doc) (\<lambda>_. ret True)
                  | None \<Rightarrow> bindE (mark_package_runtime_unknown i) (\<lambda>_. ret False))
            else ret False) (\<lambda>persisted_receipt.
     owner_raise (safe_code (exn_code e ''PACKAGE_RUNTIME_ACTIVATION_FAILED''))
       (if persisted_receipt then 409 else 502)))"

definition activate_new :: "owner \<Rightarrow> activation_run \<Rightarrow> string \<Rightarrow> string \<Rightarrow> dict owner_op" where
  "activate_new o' sdk i n =
     bindE (try_except
              (bindE (run_activation o' i n sdk) (\<lambda>_. no_attribute (complete_package_runtime_operation i)))
              (\<lambda>(e, pending). case e of
                 OwnerFailure c st \<Rightarrow> raise e | _ \<Rightarrow> activation_failed o' i n e pending)) (\<lambda>_.
     status o')"

definition activate_existing :: "owner \<Rightarrow> owner_row \<Rightarrow> string \<Rightarrow> string \<Rightarrow> dict owner_op" where
  "activate_existing o' r i n =
     bindE (liftE (check_scope o' r n)) (\<lambda>_.
     if ow_phase r = COMPLETED then ret (public_state o' r)
     else if ow_receipt r \<notin> {None, Some []} then owner_raise ''PACKAGE_RUNTIME_RECONCILE_REQUIRED'' 409
     else bindE (if ow_phase r = INTENT then mark_package_runtime_unknown i else ret ()) (\<lambda>_.
          owner_raise ''PACKAGE_RUNTIME_OUTCOME_UNKNOWN'' 409))"

definition activate :: "owner \<Rightarrow> activation_run \<Rightarrow> string \<Rightarrow> string \<Rightarrow> dict owner_op" where
  "activate o' sdk i n =
     (if \<not> is_safe_request_id i then owner_raise ''PACKAGE_RUNTIME_REQUEST_ID_INVALID'' 422
      else if strip n = [] then owner_raise ''PACKAGE_RUNTIME_INSTALLATION_ID_REQUIRED'' 422
      else bindE (getS (package_runtime_operation i)) (\<lambda>existing.
           case existing of
             Some r \<Rightarrow> activate_existing o' r i n
           | None \<Rightarrow>
               bindE (getS (pending_package_runtime_operation (po_binding_id o'))) (\<lambda>pending.
               if pending \<noteq> None then owner_raise ''PACKAGE_RUNTIME_BINDING_OPERATION_PENDING'' 409
               else activate_new o' sdk i n)))"

section \<open>Histories of calls\<close>

datatype owner_call =
    Activate activation_run string string
  | Reconcile "dict \<Rightarrow> reconcile_run" string
  | Status

primrec owner_call_op :: "owner \<Rightarrow> owner_call \<Rightarrow> dict owner_op" where
  "owner_call_op o' (Activate sdk i n) = activate o' sdk i n"
| "owner_call_op o' (Reconcile f i) = reconcile o' f i"
| "owner_call_op o' Status = status o'"

definition run_owner :: "owner \<Rightarrow> owner_call list \<Rightarrow> owner_db \<Rightarrow> owner_db" where
  "run_owner o' = fold (\<lambda>c s. snd (owner_call_op o' c s))"

end
