(* ===== verification/Package_Admission.thy ===== *)
theory Package_Admission
  imports Package_Owner Remote_Engine WP
begin

text \<open>
  \<open>package_runtime_engine\<close> (\<open>package_runtime_owner.py\<close>): the read-only admission of a package runtime
  before a serving port is made for it. The SDK client, the credential files and the network are
  parameters over one external state.
\<close>

section \<open>The client and its documents\<close>

record 'e runtime_client =
  pc_source_id :: "string option"
  pc_catalog_generation :: "'e \<Rightarrow> int option"
  pc_authority :: "'e \<Rightarrow> (exn + json) \<times> 'e"
  pc_runtime_status :: "string \<Rightarrow> 'e \<Rightarrow> (exn + json) \<times> 'e"
  pc_get_installation :: "string \<Rightarrow> 'e \<Rightarrow> (exn + json) \<times> 'e"

definition binding_failure :: "string \<Rightarrow> string \<Rightarrow> exn" where
  "binding_failure c d = BindingFailure c d"

text \<open>The SDK module: absent, without a client factory, or with one that raises or returns.\<close>

datatype 'c sdk_module = NotInstalled | Incompatible | FromEnvironment "exn + 'c"

fun runtime_client_from_environment :: "'c sdk_module \<Rightarrow> 'c res" where
  "runtime_client_from_environment NotInstalled =
     Inl (binding_failure ''PACKAGE_RUNTIME_SDK_MISSING'' ''the PackageRuntime SDK is not installed'')"
| "runtime_client_from_environment Incompatible =
     Inl (binding_failure ''PACKAGE_RUNTIME_SDK_INCOMPATIBLE'' ''the installed SDK has no read-only PackageRuntime client'')"
| "runtime_client_from_environment (FromEnvironment (Inl _)) =
     Inl (binding_failure ''PACKAGE_RUNTIME_SOURCE_UNAVAILABLE'' ''Reactor source credentials are unavailable'')"
| "runtime_client_from_environment (FromEnvironment (Inr c)) = Inr c"

definition required_string :: "dict \<Rightarrow> string \<Rightarrow> string res" where
  "required_string d field =
     (case get_or_null d field of
        JStr v \<Rightarrow>
          (if v = [] \<or> 2048 < length v \<or> (\<exists>c \<in> set v. code c < 32 \<or> code c = 127)
           then Inl (binding_failure ''PACKAGE_RUNTIME_RECEIPT_INVALID'' (''the runtime response has invalid '' @ field))
           else Inr v)
      | _ \<Rightarrow> Inl (binding_failure ''PACKAGE_RUNTIME_RECEIPT_INVALID'' (''the runtime response has invalid '' @ field)))"

definition authority_fields_ok :: "dict \<Rightarrow> bool" where
  "authority_fields_ok d \<longleftrightarrow> get_or_null d ''authority'' = JStr ''platform_package_runtime''
     \<and> get_or_null d ''protocol_version'' = JStr ''cy-package-runtime.control.v1''"

definition authority_generation :: "int option \<Rightarrow> dict \<Rightarrow> int res" where
  "authority_generation sdk_generation d =
     (case (get_or_null d ''catalog_generation'', get_or_null d ''capabilities'') of
        (JInt g, JArr caps) \<Rightarrow>
          (if g \<le> 0 \<or> sdk_generation \<noteq> Some g \<or> caps = [] \<or> \<not> list_all is_str caps
           then Inl (binding_failure ''PACKAGE_RUNTIME_AUTHORITY_INVALID'' ''the source authority snapshot is incomplete'')
           else Inr g)
      | _ \<Rightarrow> Inl (binding_failure ''PACKAGE_RUNTIME_AUTHORITY_INVALID'' ''the source authority snapshot is incomplete''))"

definition current_authority_generation :: "'e runtime_client \<Rightarrow> ('e, exn, int) py" where
  "current_authority_generation c =
     bindE (try_except (pc_authority c) (\<lambda>_. raise (binding_failure ''PACKAGE_RUNTIME_AUTHORITY_UNAVAILABLE''
              ''the current source authority is unavailable''))) (\<lambda>authority.
     bindE (getS (pc_catalog_generation c)) (\<lambda>sdk_generation.
     case authority of
       JObj d \<Rightarrow>
         (if \<not> authority_fields_ok d
          then raise (binding_failure ''PACKAGE_RUNTIME_AUTHORITY_INVALID'' ''the daemon authority protocol is incompatible'')
          else liftE (authority_generation sdk_generation d))
     | _ \<Rightarrow> raise (binding_failure ''PACKAGE_RUNTIME_AUTHORITY_INVALID''
              ''the daemon authority protocol is incompatible'')))"

definition read_runtime_status :: "'e runtime_client \<Rightarrow> string \<Rightarrow> ('e, exn, dict) py" where
  "read_runtime_status c binding_id =
     bindE (try_except (pc_runtime_status c binding_id) (\<lambda>_. raise (binding_failure
              ''PACKAGE_RUNTIME_OWNER_READ_DENIED'' ''the source cannot read the configured binding''))) (\<lambda>result.
     case result of JObj d \<Rightarrow> ret d
     | _ \<Rightarrow> raise (binding_failure ''PACKAGE_RUNTIME_RECEIPT_INVALID'' ''the runtime status response is invalid''))"

definition read_installation :: "'e runtime_client \<Rightarrow> string \<Rightarrow> ('e, exn, dict) py" where
  "read_installation c installation_id =
     bindE (try_except (pc_get_installation c installation_id) (\<lambda>_. raise (binding_failure
              ''PACKAGE_RUNTIME_OWNER_READ_DENIED'' ''the source cannot read the runtime installation''))) (\<lambda>result.
     case result of JObj d \<Rightarrow> ret d
     | _ \<Rightarrow> raise (binding_failure ''PACKAGE_RUNTIME_INSTALLATION_INVALID'' ''the installation record is invalid''))"

definition positive_int :: "json \<Rightarrow> bool" where
  "positive_int j = (case j of JInt n \<Rightarrow> 0 < n | _ \<Rightarrow> False)"

definition validate_runtime_status :: "dict \<Rightarrow> string \<Rightarrow> string res" where
  "validate_runtime_status st binding_id =
     resB (required_string st ''installation_id'') (\<lambda>installation_id.
     if get_or_null st ''binding_id'' \<noteq> JStr binding_id \<or> get_or_null st ''state'' \<noteq> JStr ''RUNNING''
        \<or> \<not> binding_id_ok installation_id \<or> \<not> positive_int (get_or_null st ''generation'')
     then Inl (binding_failure ''PACKAGE_RUNTIME_NOT_RUNNING'' ''the configured package binding is not running'')
     else resB (required_string st ''connection_ref'') (\<lambda>_. Inr installation_id))"

definition package_version_ok :: "string \<Rightarrow> bool" where
  "package_version_ok v \<longleftrightarrow> 1 \<le> length v \<and> length v \<le> 128
     \<and> (\<forall>c \<in> set v. is_digit c \<or> is_upper c \<or> is_lower c \<or> c \<in> set ''.+-'')"

definition sha256_ok :: "string \<Rightarrow> bool" where
  "sha256_ok v \<longleftrightarrow> startswith v ''sha256:'' \<and> length v = 71 \<and> list_all is_hex (drop 7 v)"

definition digest_field :: "dict \<Rightarrow> string \<Rightarrow> string" where
  "digest_field d k = (case dict_get d k of None \<Rightarrow> [] | Some v \<Rightarrow> py_str v)"

definition installation_ok :: "dict \<Rightarrow> string \<Rightarrow> string \<Rightarrow> bool" where
  "installation_ok d installation_id package_version \<longleftrightarrow>
     get_or_null d ''record_version'' = JInt 1
   \<and> get_or_null d ''installation_id'' = JStr installation_id
   \<and> get_or_null d ''package_id'' = JStr PACKAGE_ID \<and> package_version_ok package_version
   \<and> get_or_null d ''state'' = JStr ''INSTALLED''
   \<and> (case get_or_null d ''capabilities'' of
        JArr caps \<Rightarrow> list_all is_str caps \<and> JStr ''execution.engine.v1'' \<in> set caps | _ \<Rightarrow> False)
   \<and> (case get_or_null d ''verification'' of
        JObj v \<Rightarrow> sha256_ok (digest_field v ''manifest_digest'') | _ \<Rightarrow> False)
   \<and> sha256_ok (digest_field d ''artifact_digest'') \<and> sha256_ok (digest_field d ''archive_digest'')"

definition validate_installation :: "dict \<Rightarrow> string \<Rightarrow> string res" where
  "validate_installation d installation_id =
     resB (required_string d ''package_version'') (\<lambda>v.
     if installation_ok d installation_id v then Inr v
     else Inl (binding_failure ''PACKAGE_RUNTIME_INSTALLATION_MISMATCH''
            ''the receipt does not reference a verified vLLM execution package''))"

definition expected_metadata :: "string \<Rightarrow> dict" where
  "expected_metadata v = [(''package_id'', JStr PACKAGE_ID), (''package_version'', JStr v),
     (''capability'', JStr ''execution.engine.v1''), (''interface_version'', JStr ''1''), (''transport'', JStr ''http'')]"

text \<open>Equality of dictionaries does not depend on the order of their keys.\<close>

definition same_dict :: "dict \<Rightarrow> dict \<Rightarrow> bool" where
  "same_dict d e \<longleftrightarrow> list_all (\<lambda>(k, v). dict_get d k = Some v) e \<and> list_all (\<lambda>(k, v). dict_get e k \<noteq> None) d"

definition validate_endpoint_metadata :: "dict \<Rightarrow> string \<Rightarrow> unit res" where
  "validate_endpoint_metadata d v = (if same_dict d (expected_metadata v) then Inr ()
     else Inl (binding_failure ''PACKAGE_RUNTIME_METADATA_MISMATCH'' ''the endpoint metadata does not match the verified package''))"

section \<open>Admission\<close>

text \<open>The process: \<open>O_NOFOLLOW\<close>, \<open>geteuid\<close>, the credential files and the network.\<close>

record 'e host =
  ho_no_follow :: bool
  ho_euid :: nat
  ho_file :: "string \<Rightarrow> credential_file"
  ho_http :: "'e http"
  ho_sdk :: sdk
  ho_validation :: "json \<Rightarrow> import_validation res"

definition serving_configuration :: "dict \<Rightarrow> string res" where
  "serving_configuration d =
     (case (map fst d, get_or_null d ''credential_file'') of
        ([_], JStr p) \<Rightarrow>
          (if startswith p ''/'' then Inr p
           else Inl (binding_failure ''PACKAGE_RUNTIME_CONFIGURATION_INVALID'' ''the owner credential configuration is invalid''))
      | _ \<Rightarrow> Inl (binding_failure ''PACKAGE_RUNTIME_CONFIGURATION_INVALID'' ''the owner credential configuration is invalid''))"

definition open_engine :: "'e host \<Rightarrow> string \<Rightarrow> string \<Rightarrow> string \<Rightarrow> 'e remote res" where
  "open_engine h binding_id control_url path =
     (case open_binding binding_id control_url True (ho_no_follow h) (ho_euid h) (ho_file h path) of
        Inl _ \<Rightarrow> Inl (binding_failure ''PACKAGE_RUNTIME_CREDENTIAL_INVALID'' ''the owner credential file is unavailable'')
      | Inr b \<Rightarrow> Inr \<lparr>rk_binding = b, rk_http = ho_http h, rk_sdk = ho_sdk h, rk_validation = ho_validation h\<rparr>)"

definition package_runtime_engine ::
    "'e host \<Rightarrow> 'e runtime_client res \<Rightarrow> string \<Rightarrow> dict \<Rightarrow> ('e, exn, 'e remote) py" where
  "package_runtime_engine h client binding_id configuration =
     (if \<not> binding_id_ok binding_id
      then raise (binding_failure ''PACKAGE_RUNTIME_BINDING_ID_INVALID'' ''the configured binding id is invalid'')
      else
       bindE (liftE (serving_configuration configuration)) (\<lambda>path.
       bindE (liftE client) (\<lambda>c.
       if pc_source_id c \<noteq> Some SOURCE_ID
       then raise (binding_failure ''PACKAGE_RUNTIME_SOURCE_MISMATCH''
              ''the runtime source is not the Reactor Product owner'')
       else
       bindE (current_authority_generation c) (\<lambda>generation.
       bindE (read_runtime_status c binding_id) (\<lambda>st.
       bindE (liftE (validate_runtime_status st binding_id)) (\<lambda>installation_id.
       bindE (read_installation c installation_id) (\<lambda>installation.
       bindE (liftE (validate_installation installation installation_id)) (\<lambda>version.
       bindE (liftE (resB (required_string st ''connection_ref'') control_url_from_connection_ref)) (\<lambda>control_url.
       bindE (liftE (open_engine h binding_id control_url path)) (\<lambda>engine.
       bindE (try_except (remote_request engine ''GET'' ''/metadata'' None) (\<lambda>_. raise (binding_failure
                ''PACKAGE_RUNTIME_METADATA_UNAVAILABLE'' ''the receipt endpoint could not provide metadata''))) (\<lambda>metadata.
       bindE (liftE (validate_endpoint_metadata metadata version)) (\<lambda>_.
       bindE (read_runtime_status c binding_id) (\<lambda>latest.
       bindE (liftE (validate_runtime_status latest binding_id)) (\<lambda>_.
       if get_or_null latest ''installation_id'' \<noteq> JStr installation_id
          \<or> get_or_null latest ''generation'' \<noteq> get_or_null st ''generation''
          \<or> get_or_null latest ''connection_ref'' \<noteq> get_or_null st ''connection_ref''
       then raise (binding_failure ''PACKAGE_RUNTIME_RECEIPT_CHANGED'' ''the runtime changed during owner admission'')
       else bindE (current_authority_generation c) (\<lambda>g.
            if g \<noteq> generation
            then raise (binding_failure ''PACKAGE_RUNTIME_AUTHORITY_CHANGED''
                   ''the current source authority changed during admission'')
            else ret engine)))))))))))))))"

end
