(* ===== verification/Package_Owner_Facts.thy ===== *)
theory Package_Owner_Facts
  imports Package_Owner WP
begin

text \<open>
  Facts about the package runtime owner: the order of the phases, what every operation keeps
  (\<open>owner_grows\<close>: rows are never deleted, keep their scope, only advance, and a completed row is
  never touched; \<open>owner_ok\<close>: the table's invariant), and the state a successful activation leaves.
\<close>

section \<open>The order of the phases\<close>

fun phase_rank :: "op_phase \<Rightarrow> nat" where
  "phase_rank INTENT = 0" | "phase_rank UNKNOWN = 1" | "phase_rank RECEIPT_PENDING = 2"
| "phase_rank COMPLETED = 3"

instantiation op_phase :: linorder
begin

definition less_eq_op_phase :: "op_phase \<Rightarrow> op_phase \<Rightarrow> bool" where
  "less_eq_op_phase p q \<longleftrightarrow> phase_rank p \<le> phase_rank q"

definition less_op_phase :: "op_phase \<Rightarrow> op_phase \<Rightarrow> bool" where
  "less_op_phase p q \<longleftrightarrow> phase_rank p < phase_rank q"

instance
proof
  fix p q :: op_phase
  show "p \<le> q \<Longrightarrow> q \<le> p \<Longrightarrow> p = q"
    by (cases p; cases q) (auto simp: less_eq_op_phase_def)
qed (auto simp: less_eq_op_phase_def less_op_phase_def)

end

lemma phase_order [simp]:
  "INTENT \<le> p" "p \<le> COMPLETED" "UNKNOWN \<le> RECEIPT_PENDING" "\<not> UNKNOWN \<le> INTENT"
  "\<not> RECEIPT_PENDING \<le> UNKNOWN" "\<not> RECEIPT_PENDING \<le> INTENT" "COMPLETED \<le> p \<longleftrightarrow> p = COMPLETED"
  "\<not> COMPLETED < p" "pending_phase p \<longleftrightarrow> p \<noteq> COMPLETED" "p \<le> INTENT \<longleftrightarrow> p = INTENT"
  "p \<le> RECEIPT_PENDING \<longleftrightarrow> p \<noteq> COMPLETED"
  by (cases p; simp add: less_eq_op_phase_def less_op_phase_def pending_phase_def)+

lemma phase_le_cases: "p \<le> UNKNOWN \<longleftrightarrow> p = INTENT \<or> p = UNKNOWN" "\<not> p \<le> UNKNOWN \<longleftrightarrow> p = RECEIPT_PENDING \<or> p = COMPLETED"
  by (cases p; simp add: less_eq_op_phase_def)+

section \<open>What every operation keeps\<close>

definition row_ok :: "owner_row \<Rightarrow> bool" where
  "row_ok r \<longleftrightarrow> (if ow_phase r \<le> UNKNOWN then ow_receipt r = None \<and> ow_runtime_status r = None
                else ow_receipt r \<noteq> None)"

definition row_le :: "owner_row \<Rightarrow> owner_row \<Rightarrow> bool" where
  "row_le r r' \<longleftrightarrow> ow_request_id r' = ow_request_id r \<and> row_scope r' = row_scope r
     \<and> ow_phase r \<le> ow_phase r' \<and> (ow_phase r = COMPLETED \<longrightarrow> r' = r)
     \<and> (ow_runtime_status r \<noteq> None \<longrightarrow> ow_runtime_status r' \<noteq> None) \<and> (row_ok r \<longrightarrow> row_ok r')"

definition in_flight :: "string \<Rightarrow> owner_row \<Rightarrow> bool" where
  "in_flight b r \<longleftrightarrow> ow_binding_id r = b \<and> ow_phase r \<noteq> COMPLETED"

definition owner_ok :: "owner_db \<Rightarrow> bool" where
  "owner_ok s \<longleftrightarrow> distinct (map ow_request_id (ob_rows s)) \<and> (\<forall>r \<in> set (ob_rows s). row_ok r)
     \<and> (\<forall>b. length (filter (in_flight b) (ob_rows s)) \<le> 1)"

definition owner_grows :: "owner_db \<Rightarrow> owner_db \<Rightarrow> bool" where
  "owner_grows s t \<longleftrightarrow>
     (owner_ok s \<longrightarrow> owner_ok t \<and> (\<exists>ys zs. ob_rows t = ys @ zs \<and> list_all2 row_le (ob_rows s) ys))"

lemma row_le_refl [simp]: "row_le r r"
  by (simp add: row_le_def)

lemma row_le_trans: "row_le r r' \<Longrightarrow> row_le r' r'' \<Longrightarrow> row_le r r''"
  by (auto simp: row_le_def)

lemma list_all2_row_le_refl [simp]: "list_all2 row_le xs xs"
  by (simp add: list_all2_refl)

interpretation owner: frame_rel owner_grows
proof
  show "owner_grows s s" for s
    unfolding owner_grows_def by (metis append_Nil2 list_all2_row_le_refl)
  fix s t u
  assume st: "owner_grows s t" and tu: "owner_grows t u"
  show "owner_grows s u"
    unfolding owner_grows_def
  proof
    assume "owner_ok s"
    with st tu obtain ys zs ys' zs' where ok: "owner_ok u"
      and t: "ob_rows t = ys @ zs" "list_all2 row_le (ob_rows s) ys"
      and u: "ob_rows u = ys' @ zs'" "list_all2 row_le (ob_rows t) ys'"
      unfolding owner_grows_def by blast
    from u(2) t(1) obtain as bs where "ys' = as @ bs" "list_all2 row_le ys as"
      by (auto simp: list_all2_append1)
    moreover from this t(2) have "list_all2 row_le (ob_rows s) as"
      by (blast intro: list_all2_trans [of row_le row_le row_le] row_le_trans)
    ultimately show "owner_ok u \<and> (\<exists>ys zs. ob_rows u = ys @ zs \<and> list_all2 row_le (ob_rows s) ys)"
      using u(1) ok by (metis append.assoc)
  qed
qed

lemma list_all2_ids: "list_all2 row_le xs ys \<Longrightarrow> map ow_request_id ys = map ow_request_id xs"
  by (induction rule: list_all2_induct) (auto simp: row_le_def)

lemma list_all2_row_ok: "list_all2 row_le xs ys \<Longrightarrow> \<forall>r \<in> set xs. row_ok r \<Longrightarrow> \<forall>r \<in> set ys. row_ok r"
  by (induction rule: list_all2_induct) (auto simp: row_le_def)

lemma list_all2_in_flight:
  "list_all2 row_le xs ys \<Longrightarrow> length (filter (in_flight b) ys) \<le> length (filter (in_flight b) xs)"
proof (induction rule: list_all2_induct)
  case (Cons x xs y ys)
  then have "in_flight b y \<Longrightarrow> in_flight b x"
    by (auto simp: row_le_def in_flight_def row_scope_def)
  with Cons show ?case by auto
qed simp

lemma owner_grows_pointwise:
  assumes "owner_ok s \<Longrightarrow> list_all2 row_le (ob_rows s) (ob_rows t)"
  shows "owner_grows s t"
  unfolding owner_grows_def
proof
  assume "owner_ok s"
  note assms = assms [OF this]
  have "owner_ok t" if "owner_ok s"
    using that assms list_all2_in_flight [OF assms] list_all2_ids [OF assms] list_all2_row_ok [OF assms]
    unfolding owner_ok_def by (metis le_trans)
  with assms \<open>owner_ok s\<close> show "owner_ok t \<and> (\<exists>ys zs. ob_rows t = ys @ zs \<and> list_all2 row_le (ob_rows s) ys)"
    by (metis append_Nil2)
qed

lemma update_rows_grows:
  assumes "\<And>r. owner_ok s \<Longrightarrow> r \<in> set (ob_rows s) \<Longrightarrow> p r \<Longrightarrow> row_le r ((f r)\<lparr>ow_updated_at := now_of s\<rparr>)"
  shows "owner_grows s (update_rows p f s)"
  by (rule owner_grows_pointwise) (auto simp: update_rows_def list_all2_conv_all_nth assms)

lemmas row_le_defs = row_le_def row_ok_def row_scope_def

lemma owner_grows_operation:
  assumes g: "owner_grows s t" and ok: "owner_ok s" and r: "package_runtime_operation i s = Some r"
  shows "\<exists>r'. package_runtime_operation i t = Some r' \<and> row_le r r'"
proof -
  obtain ys zs where t: "ob_rows t = ys @ zs" "list_all2 row_le (ob_rows s) ys"
    using g ok unfolding owner_grows_def by blast
  have "list_all2 row_le xs ys \<Longrightarrow> find (\<lambda>r. ow_request_id r = i) xs = Some r \<Longrightarrow>
      \<exists>r'. find (\<lambda>r. ow_request_id r = i) (ys @ zs) = Some r' \<and> row_le r r'" for xs ys
    by (induction rule: list_all2_induct) (auto simp: row_le_def split: if_splits)
  with t r show ?thesis unfolding package_runtime_operation_def by metis
qed
section \<open>The table operations\<close>

abbreviation owner_kept :: "(owner_db, 'e, 'a) py \<Rightarrow> bool" where
  "owner_kept m \<equiv> steps owner_grows m"

lemma operation_request_id: "package_runtime_operation i s = Some r \<Longrightarrow> ow_request_id r = i \<and> r \<in> set (ob_rows s)"
  by (auto simp: package_runtime_operation_def find_Some_iff)

lemma operation_None: "package_runtime_operation i s = None \<longleftrightarrow> i \<notin> set (map ow_request_id (ob_rows s))"
  by (auto simp: package_runtime_operation_def find_None_iff)

lemma distinct_find:
  "distinct (map ow_request_id rows) \<Longrightarrow> r \<in> set rows \<Longrightarrow> find (\<lambda>r'. ow_request_id r' = ow_request_id r) rows = Some r"
  by (induction rows) auto

lemma operation_iff: "owner_ok s \<Longrightarrow>
    package_runtime_operation i s = Some r \<longleftrightarrow> r \<in> set (ob_rows s) \<and> ow_request_id r = i"
  using operation_request_id [of i s r] distinct_find [of "ob_rows s" r]
  unfolding owner_ok_def package_runtime_operation_def by blast

lemma pending_operation_None:
  "pending_package_runtime_operation b s = None \<longleftrightarrow> (\<forall>r \<in> set (ob_rows s). \<not> in_flight b r)"
proof (cases "find (\<lambda>r. ow_binding_id r = b \<and> pending_phase (ow_phase r)) (ob_rows s)")
  case (Some r)
  then have "r \<in> set (ob_rows s)" "in_flight b r" by (auto simp: find_Some_iff in_flight_def)
  moreover from this have "package_runtime_operation (ow_request_id r) s \<noteq> None" by (auto simp: operation_None)
  ultimately show ?thesis using Some by (auto simp: pending_package_runtime_operation_def)
next
  case None
  then have "pending_package_runtime_operation b s = None"
    by (simp only: pending_package_runtime_operation_def option.case)
  with None show ?thesis by (simp add: find_None_iff in_flight_def)
qed

lemma pending_operation_Some:
  assumes ok: "owner_ok s" and p: "pending_package_runtime_operation b s = Some r"
  shows "r \<in> set (ob_rows s) \<and> in_flight b r"
proof -
  obtain q where q: "find (\<lambda>r. ow_binding_id r = b \<and> pending_phase (ow_phase r)) (ob_rows s) = Some q"
    "package_runtime_operation (ow_request_id q) s = Some r"
    using p by (auto simp: pending_package_runtime_operation_def split: option.splits)
  then have qs: "q \<in> set (ob_rows s)" "in_flight b q" by (auto simp: find_Some_iff in_flight_def)
  moreover have "package_runtime_operation (ow_request_id q) s = Some q" using qs(1) operation_iff [OF ok] by simp
  ultimately show ?thesis using q(2) by simp
qed

lemma append_row_grows:
  assumes i: "package_runtime_operation (ow_request_id r) s = None" and r: "row_ok r"
    and pnd: "pending_package_runtime_operation (ow_binding_id r) s = None"
  shows "owner_grows s (s\<lparr>ob_rows := ob_rows s @ [r], ob_clock := c\<rparr>)" (is "owner_grows s ?t")
proof -
  have "owner_ok ?t" if "owner_ok s"
    using that assms
    by (auto simp: owner_ok_def operation_None pending_operation_None in_flight_def filter_empty_conv)
  moreover have "ob_rows ?t = ob_rows s @ [r]" by simp
  ultimately show ?thesis unfolding owner_grows_def using list_all2_row_le_refl by blast
qed

lemma create_intent_kept [frame_rules]: "owner_kept (create_package_runtime_intent i b p n)"
  unfolding create_package_runtime_intent_def
  by (intro owner.steps_txn stepsI)
    (auto simp: owner.R_refl Let_def row_ok_def intro!: append_row_grows split: option.splits)

lemma mark_unknown_kept [frame_rules]: "owner_kept (mark_package_runtime_unknown i)"
  unfolding mark_package_runtime_unknown_def
  by (intro owner.steps_txn owner.steps_modS update_rows_grows) (auto simp: row_le_defs)

lemma persist_receipt_kept [frame_rules]: "owner_kept (persist_package_runtime_receipt i d)"
  unfolding persist_package_runtime_receipt_def Let_def
  by (intro frame_rules owner.steps_modS update_rows_grows) (auto simp: row_le_defs less_eq_op_phase_def)

lemma complete_kept [frame_rules]: "owner_kept (complete_package_runtime_operation i)"
  unfolding complete_package_runtime_operation_def Let_def
  by (intro frame_rules owner.steps_modS update_rows_grows) (auto simp: row_le_defs less_eq_op_phase_def)
lemma row_by_id: "owner_ok s \<Longrightarrow> package_runtime_operation i s = Some q \<Longrightarrow> r \<in> set (ob_rows s) \<Longrightarrow>
    ow_request_id r = i \<Longrightarrow> r = q"
  by (metis operation_iff option.inject)

lemma commit_outcome_kept [frame_rules]: "owner_kept (commit_package_runtime_outcome i st d)"
proof -
  have "owner_grows s (update_rows (\<lambda>r. ow_request_id r = i)
      (\<lambda>r. r\<lparr>ow_phase := RECEIPT_PENDING, ow_runtime_status := Some st, ow_receipt := Some d\<rparr>) s)"
    if "package_runtime_operation i s = Some q" "ow_phase q \<noteq> COMPLETED" for s q
  proof (rule update_rows_grows)
    fix r
    assume "owner_ok s" "r \<in> set (ob_rows s)" "ow_request_id r = i"
    with that have "r = q" by (intro row_by_id)
    with that(2) show "row_le r (r\<lparr>ow_phase := RECEIPT_PENDING, ow_runtime_status := Some st,
        ow_receipt := Some d, ow_updated_at := now_of s\<rparr>)"
      by (simp add: row_le_def row_ok_def row_scope_def)
  qed
  then show ?thesis
    unfolding commit_package_runtime_outcome_def
    by (intro owner.steps_txn stepsI) (auto simp: py_simps owner.R_refl raise_def modS_def split: option.splits)
qed
section \<open>The owner's calls\<close>

context frame_rel
begin

lemma steps_try_except [frame_rules]:
  "steps R m \<Longrightarrow> (\<And>e. steps R (h e)) \<Longrightarrow> steps R (try_except m h)"
  by (auto simp: steps_def try_except_def split: prod.splits sum.splits) (metis R_trans snd_conv)+

lemma steps_no_attribute [frame_rules]: "steps R m \<Longrightarrow> steps R (no_attribute m)"
  unfolding no_attribute_def by (intro frame_rules steps_try_except)

lemma steps_ignore [frame_rules]: "steps R m \<Longrightarrow> steps R (ignore m)"
  by (simp add: steps_def ignore_def)

lemma steps_callback [frame_rules]: "steps R m \<Longrightarrow> (\<And>e. steps R (k e)) \<Longrightarrow> steps R (callback m k)"
  by (auto simp: steps_def callback_def split: prod.splits sum.splits) (metis R_trans snd_conv)+

lemma steps_owner_failure: "steps R (h e) \<Longrightarrow> (\<And>c n. e = OwnerFailure c n \<Longrightarrow> steps R (g c n)) \<Longrightarrow>
    steps R (case e of OwnerFailure c n \<Rightarrow> g c n | _ \<Rightarrow> h e)"
  by (cases e) simp_all

end

lemma owner_raise_kept [frame_rules]: "owner_kept (owner_raise c n)"
  by (simp add: owner_raise_def owner.steps_raise)

lemma status_kept [frame_rules]: "owner_kept (status o')"
  unfolding status_def by (intro frame_rules)

lemma reconcile_callback_kept [frame_rules]: "owner_kept (reconcile_callback o' r i st inst d)"
proof -
  have "owner_kept (case x of (sd, doc) \<Rightarrow> commit_package_runtime_outcome i sd doc)" for x
    by (cases x) (simp add: commit_outcome_kept)
  then show ?thesis unfolding reconcile_callback_def by (intro frame_rules)
qed

lemma reconcile_with_kept [frame_rules]:
  "(\<And>r d. owner_kept (sdk r d)) \<Longrightarrow> owner_kept (reconcile_with o' sdk i)"
  unfolding reconcile_with_def by (intro frame_rules owner.steps_owner_failure) 

lemma run_reconcile_kept:
  "owner_kept (run_reconcile o' r i run)" "owner_kept (run_other o' c)"
  by (induction run and c arbitrary: r i) (auto intro!: frame_rules)

lemma reconcile_kept [frame_rules]: "owner_kept (reconcile o' f i)"
  unfolding reconcile_def by (intro frame_rules run_reconcile_kept)

lemma persist_intent_kept [frame_rules]: "owner_kept (persist_intent o' i n j sc)"
  unfolding persist_intent_def by (intro frame_rules)

lemma persist_kept [frame_rules]: "owner_kept (persist o' i n st d)"
  by (cases st) (auto simp: persist_def intro!: frame_rules)

lemma run_activation_kept: "owner_kept (run_activation o' i n run)"
  by (induction run) (auto intro!: frame_rules run_reconcile_kept)

lemma activation_failed_kept [frame_rules]: "owner_kept (activation_failed o' i n e p)"
  unfolding activation_failed_def by (intro frame_rules)

lemma activate_kept [frame_rules]: "owner_kept (activate o' run i n)"
proof -
  have "owner_kept (case x of (e, p) \<Rightarrow> (case e of OwnerFailure c st \<Rightarrow> raise e | _ \<Rightarrow> activation_failed o' i n e p))"
    for x by (cases x) (auto split: exn.splits intro!: frame_rules)
  then show ?thesis
    unfolding activate_def activate_existing_def activate_new_def by (intro frame_rules run_activation_kept)
qed

lemma owner_call_kept: "owner_kept (owner_call_op o' c)"
  by (cases c) (simp_all add: activate_kept reconcile_kept status_kept)

lemma run_owner_kept: "owner_grows s (run_owner o' cs s)"
proof (induction cs arbitrary: s)
  case (Cons c cs)
  have "owner_grows s (snd (owner_call_op o' c s))" using owner_call_kept by (rule steps_snd)
  moreover have "run_owner o' (c # cs) s = run_owner o' cs (snd (owner_call_op o' c s))"
    by (simp add: run_owner_def)
  ultimately show ?case using Cons owner.R_trans by metis
qed (simp add: run_owner_def owner.R_refl)
section \<open>Invariants of one row\<close>

text \<open>
  A predicate on the row of one request that every store update reachable from \<open>status\<close> and
  \<open>reconcile\<close> keeps holds throughout any of their calls, however they interleave. \<open>captured\<close> in
  \<open>good_commit\<close> is the row as \<open>reconcile\<close> read it before it called the SDK.
\<close>

locale row_invariant =
  fixes own :: owner and i :: string and good :: "owner_row \<Rightarrow> bool"
  assumes good_unknown: "good r \<Longrightarrow> ow_phase r = INTENT \<Longrightarrow> good (r\<lparr>ow_phase := UNKNOWN, ow_updated_at := u\<rparr>)"
    and good_complete: "good r \<Longrightarrow> ow_phase r = RECEIPT_PENDING \<Longrightarrow> ow_receipt r \<noteq> None \<Longrightarrow>
        good (r\<lparr>ow_phase := COMPLETED, ow_updated_at := u\<rparr>)"
    and good_commit: "good captured \<Longrightarrow> ow_receipt captured \<noteq> None \<Longrightarrow>
        check_reconciled own captured i st inst receipt = Inr (sd, doc) \<Longrightarrow> good r \<Longrightarrow> ow_phase r \<noteq> COMPLETED \<Longrightarrow>
        good (r\<lparr>ow_phase := RECEIPT_PENDING, ow_runtime_status := Some sd, ow_receipt := Some doc, ow_updated_at := u\<rparr>)"
begin

definition holds :: "owner_db \<Rightarrow> bool" where
  "holds s \<longleftrightarrow> owner_ok s \<and> (\<forall>r. package_runtime_operation i s = Some r \<longrightarrow> good r)"

definition keeps :: "owner_db \<Rightarrow> owner_db \<Rightarrow> bool" where
  "keeps s t \<longleftrightarrow> (holds s \<longrightarrow> holds t)"

lemma keeps_frame: "frame_rel keeps"
  unfolding keeps_def by (rule frame_rel_invariant)

lemmas keeps_rules = frame_rel.steps_ret [OF keeps_frame] frame_rel.steps_raise [OF keeps_frame]
  frame_rel.steps_getS [OF keeps_frame] frame_rel.steps_liftE [OF keeps_frame]
  frame_rel.steps_bindE [OF keeps_frame] frame_rel.steps_txn [OF keeps_frame]
  frame_rel.steps_if [OF keeps_frame] frame_rel.steps_case_option [OF keeps_frame]
  frame_rel.steps_try_except [OF keeps_frame] frame_rel.steps_no_attribute [OF keeps_frame]
  frame_rel.steps_ignore [OF keeps_frame] frame_rel.steps_callback [OF keeps_frame]

lemma update_keeps:
  assumes grows: "owner_grows s (update_rows p f s)"
    and step: "\<And>r. package_runtime_operation i s = Some r \<Longrightarrow> good r \<Longrightarrow> p r \<Longrightarrow> good ((f r)\<lparr>ow_updated_at := now_of s\<rparr>)"
    and same: "\<And>r. ow_request_id (f r) = ow_request_id r"
  shows "keeps s (update_rows p f s)"
  unfolding keeps_def holds_def
proof (intro impI conjI allI; elim conjE)
  assume ok: "owner_ok s" and good: "\<forall>r. package_runtime_operation i s = Some r \<longrightarrow> good r"
  then show ok': "owner_ok (update_rows p f s)" using grows by (simp add: owner_grows_def)
  fix r'
  assume "package_runtime_operation i (update_rows p f s) = Some r'"
  then have "r' \<in> set (ob_rows (update_rows p f s))" "ow_request_id r' = i"
    by (simp_all add: operation_iff [OF ok'])
  then obtain r where r: "r \<in> set (ob_rows s)" "ow_request_id r = i"
    "r' = (if p r then (f r)\<lparr>ow_updated_at := now_of s\<rparr> else r)"
    unfolding update_rows_def using same by fastforce
  moreover from r(1,2) have "package_runtime_operation i s = Some r" by (simp add: operation_iff [OF ok])
  ultimately show "good r'" using good step [of r] by (cases "p r") simp_all
qed

lemma owner_raise_keeps: "steps keeps (owner_raise c n)"
  unfolding owner_raise_def by (rule keeps_rules)

lemma mark_unknown_keeps: "steps keeps (mark_package_runtime_unknown j)"
  unfolding mark_package_runtime_unknown_def
  by (intro keeps_rules frame_rel.steps_modS [OF keeps_frame] update_keeps update_rows_grows)
    (auto simp: row_le_defs intro!: good_unknown)

lemma complete_keeps: "steps keeps (complete_package_runtime_operation j)"
  unfolding complete_package_runtime_operation_def Let_def
  by (intro keeps_rules frame_rel.steps_modS [OF keeps_frame] update_keeps update_rows_grows)
    (auto simp: row_le_defs less_eq_op_phase_def intro!: good_complete)

lemma commit_keeps:
  assumes "\<And>r u. j = i \<Longrightarrow> good r \<Longrightarrow> ow_phase r \<noteq> COMPLETED \<Longrightarrow>
     good (r\<lparr>ow_phase := RECEIPT_PENDING, ow_runtime_status := Some sd, ow_receipt := Some doc, ow_updated_at := u\<rparr>)"
  shows "steps keeps (commit_package_runtime_outcome j sd doc)"
proof (rule stepsI)
  fix s
  let ?m = "commit_package_runtime_outcome j sd doc"
  have grows: "owner_grows s (snd (?m s))" using commit_outcome_kept by (rule steps_snd)
  show "keeps s (snd (?m s))"
  proof (cases "\<exists>q. package_runtime_operation j s = Some q \<and> ow_phase q \<noteq> COMPLETED")
    case True
    then obtain q where q: "package_runtime_operation j s = Some q" "ow_phase q \<noteq> COMPLETED" by blast
    then have m: "snd (?m s) = update_rows (\<lambda>r. ow_request_id r = j)
        (\<lambda>r. r\<lparr>ow_phase := RECEIPT_PENDING, ow_runtime_status := Some sd, ow_receipt := Some doc\<rparr>) s"
      by (simp add: commit_package_runtime_outcome_def py_unfold)
    show ?thesis unfolding m
      by (rule update_keeps) (use grows m q assms operation_request_id in auto)
  next
    case False
    then have "snd (?m s) = s"
      by (auto simp: commit_package_runtime_outcome_def py_unfold split: option.splits)
    then show ?thesis by (simp add: keeps_def)
  qed
qed

lemma status_keeps: "steps keeps (status own)"
  unfolding status_def by (intro keeps_rules mark_unknown_keeps)

lemma callback_keeps:
  assumes "j = i \<Longrightarrow> good captured \<and> ow_receipt captured \<noteq> None"
  shows "steps keeps (reconcile_callback own captured j st inst receipt)"
proof (cases "check_reconciled own captured j st inst receipt")
  case (Inl e)
  then show ?thesis by (simp add: reconcile_callback_def steps_def py_simps keeps_def)
next
  case (Inr x)
  obtain sd doc where x: "x = (sd, doc)" by (cases x)
  have "steps keeps (commit_package_runtime_outcome j sd doc)"
    by (rule commit_keeps) (use Inr x assms good_commit in blast)
  with Inr x show ?thesis by (simp add: reconcile_callback_def steps_def py_simps)
qed

lemma reconcile_with_keeps:
  assumes "\<And>r d. (j = i \<Longrightarrow> good r \<and> ow_receipt r \<noteq> None) \<Longrightarrow> steps keeps (sdk r d)"
  shows "steps keeps (reconcile_with own sdk j)"
proof (rule stepsI)
  fix s
  show "keeps s (snd (reconcile_with own sdk j s))"
  proof (cases "holds s \<and> package_runtime_operation j s \<noteq> None")
    case False
    then show ?thesis by (auto simp: reconcile_with_def py_simps keeps_def owner_raise_def raise_def)
  next
    case True
    then obtain r where r: "package_runtime_operation j s = Some r" "j = i \<longrightarrow> good r" by (auto simp: holds_def)
    have sdk: "steps keeps (sdk r d)" if "ow_receipt r = Some d'" for d d' using assms r that by simp
    have fail: "steps keeps (case e of OwnerFailure c n \<Rightarrow> raise e | _ \<Rightarrow> owner_raise k m)" for e k m
      by (cases e) (simp_all add: owner_raise_keeps keeps_rules)
    have "steps keeps (bindE (liftE (check_scope own r (ow_installation_id r))) (\<lambda>_.
         case ow_receipt r of
           None \<Rightarrow> owner_raise ''PACKAGE_RUNTIME_OUTCOME_UNKNOWN'' 409
         | Some d \<Rightarrow>
             bindE (liftE (receipt_from_private_document own d)) (\<lambda>receipt.
             bindE (try_except
                      (bindE (sdk r receipt) (\<lambda>_. complete_package_runtime_operation j))
                      (\<lambda>e. case e of
                         OwnerFailure c n \<Rightarrow> raise e
                       | _ \<Rightarrow> owner_raise (safe_code (exn_code e ''PACKAGE_RUNTIME_RECONCILIATION_FAILED'')) 409)) (\<lambda>_.
             status own))))"
    proof (cases "ow_receipt r")
      case None
      then show ?thesis by (simp add: owner_raise_keeps keeps_rules)
    next
      case (Some d)
      show ?thesis unfolding Some option.case
        by (intro keeps_rules sdk [OF Some] complete_keeps status_keeps fail)
    qed
    then show ?thesis using r by (simp add: reconcile_with_def py_simps steps_def)
  qed
qed

lemma run_other_keeps:
  "\<And>r j. (j = i \<Longrightarrow> good r \<and> ow_receipt r \<noteq> None) \<Longrightarrow> steps keeps (run_reconcile own r j run)"
  "steps keeps (run_other own c)"
proof (induction run and c)
  case (RCommit st inst d k)
  then show ?case by (simp add: keeps_rules callback_keeps)
next
  case (OtherReconcile f j)
  then show ?case by (auto intro!: keeps_rules reconcile_with_keeps)
qed (simp_all add: keeps_rules status_keeps)

lemma reconcile_keeps: "steps keeps (reconcile own f j)"
  unfolding reconcile_def by (intro reconcile_with_keeps run_other_keeps) simp_all

end

end
