(* ===== verification/Package_Owner_Properties.thy ===== *)
theory Package_Owner_Properties
  imports Package_Owner_Facts "HOL-Library.Code_Target_Nat"
begin

text \<open>
  Properties of the package runtime owner: its table's invariant over every history of calls, one
  dispatch per request, what a returned activation or reconciliation has proved, the fail-closed
  unknown outcome, the canonical connection reference, and the race that loses a pending receipt.
\<close>

section \<open>Rows during an activation\<close>

definition activation_row :: "owner \<Rightarrow> string \<Rightarrow> owner_row \<Rightarrow> bool" where
  "activation_row o' n r \<longleftrightarrow> row_scope r = expected_scope o' n \<and>
     (ow_phase r \<le> UNKNOWN \<or> (\<exists>d. ow_runtime_status r = Some d \<and> validate_actual o' d n = Inr ()))"

lemma check_reconciled_ok:
  assumes "check_reconciled o' r i st inst rc = Inr (sd, doc)"
  shows "validate_actual o' sd (ow_installation_id r) = Inr ()"
    and "case ow_runtime_status r of None \<Rightarrow> True
         | Some prev \<Rightarrow> get_or_null sd ''connection_ref'' = get_or_null prev ''connection_ref''"
  using assms by (auto simp: check_reconciled_def resB_Inr_iff split: if_splits option.splits)

lemma expected_scope_installation: "row_scope r = expected_scope o' n \<Longrightarrow> ow_installation_id r = n"
  by (simp add: row_scope_def expected_scope_def)

interpretation act: row_invariant o' i "activation_row o' n" for o' i n
  by unfold_locales
    (auto simp: activation_row_def row_scope_def less_eq_op_phase_def
      dest!: check_reconciled_ok(1) dest: expected_scope_installation [unfolded row_scope_def])

lemma persist_intent_activation: "steps (act.keeps i o' n) (persist_intent o' i n j sc)"
proof (rule stepsI)
  fix s
  let ?t = "snd (persist_intent o' i n j sc s)"
  have grows: "owner_grows s ?t" using persist_intent_kept by (rule steps_snd)
  have "?t = s \<or> (package_runtime_operation i s = None \<and> (\<exists>r c. ?t = s\<lparr>ob_rows := ob_rows s @ [r], ob_clock := c\<rparr>
      \<and> ow_request_id r = i \<and> row_scope r = expected_scope o' n \<and> ow_phase r = INTENT))"
    by (auto simp: persist_intent_def create_package_runtime_intent_def owner_raise_def py_unfold Let_def
        row_scope_def expected_scope_def split: option.splits)
  then show "act.keeps i o' n s ?t"
  proof (elim disjE conjE exE)
    fix r c
    assume t: "?t = s\<lparr>ob_rows := ob_rows s @ [r], ob_clock := c\<rparr>" and r: "ow_request_id r = i"
      "row_scope r = expected_scope o' n" "ow_phase r = INTENT" and none: "package_runtime_operation i s = None"
    have "r' = r" if "package_runtime_operation i ?t = Some r'" for r'
      using operation_request_id [OF that] none unfolding t by (auto simp: operation_None)
    with grows r show ?thesis
      unfolding act.keeps_def act.holds_def owner_grows_def activation_row_def by (metis phase_order(1))
  qed (simp add: act.keeps_def)
qed

lemma persist_activation: "steps (act.keeps i o' n) (persist o' i n st d)"
proof (cases st)
  case (JObj sd)
  have "steps (act.keeps i o' n) (commit_package_runtime_outcome i sd doc)" if "validate_actual o' sd n = Inr ()" for doc
    by (rule act.commit_keeps) (use that in \<open>auto simp: activation_row_def row_scope_def\<close>)
  then show ?thesis
    by (cases "validate_actual o' sd n"; cases "receipt_to_private_document d")
      (auto simp: JObj persist_def steps_def py_simps act.keeps_def)
qed (simp_all add: persist_def act.owner_raise_keeps)

lemma run_activation_keeps: "steps (act.keeps i o' n) (run_activation o' i n run)"
proof (induction run)
  case (Meanwhile c k)
  then show ?case by (auto intro!: act.keeps_rules act.run_other_keeps(2))
qed (simp_all add: act.keeps_rules persist_intent_activation persist_activation)

lemma complete_done:
  assumes "complete_package_runtime_operation i s = (Inr (), t)" and "owner_ok s"
  obtains r where "package_runtime_operation i s = Some r" "ow_phase r = RECEIPT_PENDING" "ow_receipt r \<noteq> None"
    "package_runtime_operation i t = Some (r\<lparr>ow_phase := COMPLETED, ow_updated_at := now_of s\<rparr>)"
proof -
  let ?p = "\<lambda>r. ow_request_id r = i \<and> ow_phase r = RECEIPT_PENDING \<and> ow_receipt r \<noteq> None"
  have one: "rowcount ?p s = 1" and t: "t = update_rows ?p (\<lambda>r. r\<lparr>ow_phase := COMPLETED\<rparr>) s"
    using assms(1) by (auto simp: complete_package_runtime_operation_def py_unfold Let_def split: if_splits)
  from one obtain r where r: "r \<in> set (ob_rows s)" "?p r"
    unfolding rowcount_def by (metis (mono_tags, lifting) length_greater_0_conv filter_empty_conv zero_less_one)
  then have op: "package_runtime_operation i s = Some r" by (simp add: operation_iff [OF assms(2)])
  have "owner_grows s t" using stepsD [OF complete_kept assms(1)] .
  then have ok: "owner_ok t" using assms(2) by (simp add: owner_grows_def)
  have "r\<lparr>ow_phase := COMPLETED, ow_updated_at := now_of s\<rparr> \<in> set (ob_rows t)"
    unfolding t update_rows_def using r by (force intro: image_eqI [where x = r])
  then have "package_runtime_operation i t = Some (r\<lparr>ow_phase := COMPLETED, ow_updated_at := now_of s\<rparr>)"
    using r by (simp add: operation_iff [OF ok])
  with op r that show ?thesis by blast
qed

lemma completed_stays:
  assumes "steps owner_grows m" and "m s = (x, t)" and "owner_ok s"
    and "package_runtime_operation i s = Some r" and "ow_phase r = COMPLETED"
  shows "package_runtime_operation i t = Some r"
  using owner_grows_operation [OF stepsD [OF assms(1,2)] assms(3,4)] assms(5) by (auto simp: row_le_def)
section \<open>Canonical references\<close>

lemma url_clean_id: "(\<forall>c \<in> set s. 32 < code c) \<Longrightarrow> url_clean s = s"
  by (cases s) (auto simp: url_clean_def intro!: filter_True)

lemma digits_code: "c \<in> set (show_nat n) \<Longrightarrow> 48 \<le> code c \<and> code c \<le> 57"
  using show_nat_digits [of c n] by (simp add: is_digit_def)

lemma canonical_urlsplit:
  "urlsplit (''cyrene-http-v1://127.0.0.1:'' @ show_nat n)
     = Some \<lparr>su_scheme = ''cyrene-http-v1'', su_netloc = ''127.0.0.1:'' @ show_nat n, su_path = [],
             su_query = [], su_fragment = []\<rparr>"
proof -
  have not_in: "c \<notin> set (show_nat n)" if "\<not> (48 \<le> code c \<and> code c \<le> 57)" for c
    using that digits_code by blast
  have clean: "url_clean (''cyrene-http-v1://127.0.0.1:'' @ show_nat n) = ''cyrene-http-v1://127.0.0.1:'' @ show_nat n"
    by (rule url_clean_id) (auto simp: code_def dest: digits_code [unfolded code_def])
  have "partition_at CHR '':'' (''cyrene-http-v1'' @ CHR '':'' # (''//127.0.0.1:'' @ show_nat n))
      = (''cyrene-http-v1'', True, ''//127.0.0.1:'' @ show_nat n)"
    by (rule partition_at_found) simp
  then have scheme: "split_scheme (''cyrene-http-v1://127.0.0.1:'' @ show_nat n)
      = (''cyrene-http-v1'', ''//127.0.0.1:'' @ show_nat n)"
    by (simp add: split_scheme_def scheme_char_def is_digit_def is_upper_def is_lower_def code_def lower_def to_lower_def)
  have tw: "takeWhile (\<lambda>c. c \<notin> set ''/?#'') (show_nat n) = show_nat n"
    "dropWhile (\<lambda>c. c \<notin> set ''/?#'') (show_nat n) = []"
    using not_in [of "CHR ''/''"] not_in [of "CHR ''?''"] not_in [of "CHR ''#''"]
    by (auto simp: code_def takeWhile_eq_all_conv dropWhile_eq_Nil_conv)
  have cut: "cut_before ''/?#'' (''127.0.0.1:'' @ show_nat n) = (''127.0.0.1:'' @ show_nat n, [])"
    using tw by (simp add: cut_before_def)
  have net: "netloc_ok (''127.0.0.1:'' @ show_nat n)"
    using not_in [of "CHR ''[''"] not_in [of "CHR '']''"] by (simp add: netloc_ok_def code_def)
  show ?thesis
    unfolding urlsplit_def clean scheme Let_def using cut net by (simp add: startswith_def)
qed

lemma control_url_canonical_iff:
  "control_url_from_connection_ref ref = Inr u \<longleftrightarrow>
     (\<exists>n. 1 \<le> n \<and> n \<le> 65535 \<and> ref = ''cyrene-http-v1://127.0.0.1:'' @ show_nat n \<and> u = ''http://127.0.0.1:'' @ show_nat n)"
proof
  assume "control_url_from_connection_ref ref = Inr u"
  then show "\<exists>n. 1 \<le> n \<and> n \<le> 65535 \<and> ref = ''cyrene-http-v1://127.0.0.1:'' @ show_nat n \<and> u = ''http://127.0.0.1:'' @ show_nat n"
    by (auto simp: control_url_from_connection_ref_def split: option.splits sum.splits if_splits)
next
  assume "\<exists>n. 1 \<le> n \<and> n \<le> 65535 \<and> ref = ''cyrene-http-v1://127.0.0.1:'' @ show_nat n \<and> u = ''http://127.0.0.1:'' @ show_nat n"
  then obtain n where n: "1 \<le> n" "n \<le> 65535" and ref: "ref = ''cyrene-http-v1://127.0.0.1:'' @ show_nat n"
    and u: "u = ''http://127.0.0.1:'' @ show_nat n" by blast
  have not_in: "c \<notin> set (show_nat n)" if "\<not> (48 \<le> code c \<and> code c \<le> 57)" for c
    using that digits_code by blast
  have at: "partition_at CHR ''@'' (rev (''127.0.0.1:'' @ show_nat n)) = (rev (''127.0.0.1:'' @ show_nat n), False, [])"
    using not_in [of "CHR ''@''"] by (intro partition_at_absent) (simp add: code_def)
  then have rp: "rpartition_at CHR ''@'' (''127.0.0.1:'' @ show_nat n) = ([], False, ''127.0.0.1:'' @ show_nat n)"
    by (simp add: rpartition_at_def)
  have br: "partition_at CHR ''['' (''127.0.0.1:'' @ show_nat n) = (''127.0.0.1:'' @ show_nat n, False, [])"
    using not_in [of "CHR ''[''"] by (intro partition_at_absent) (simp add: code_def)
  have "partition_at CHR '':'' (''127.0.0.1'' @ CHR '':'' # show_nat n) = (''127.0.0.1'', True, show_nat n)"
    by (rule partition_at_found) simp
  then have co: "partition_at CHR '':'' (''127.0.0.1:'' @ show_nat n) = (''127.0.0.1'', True, show_nat n)" by simp
  let ?u = "\<lparr>su_scheme = ''cyrene-http-v1'', su_netloc = ''127.0.0.1:'' @ show_nat n, su_path = [],
             su_query = [], su_fragment = []\<rparr>"
  have info: "url_hostinfo ?u = (''127.0.0.1'', show_nat n)"
    unfolding url_hostinfo_def split_url.select_convs rp Let_def snd_conv br prod.case bool.case co by simp
  have "list_all is_digit (show_nat n)" by (auto simp: list_all_iff dest: show_nat_digits)
  then have port: "url_port ?u = Inr (Some n)"
    using n unfolding url_port_def info by simp
  have host: "url_hostname ?u = Some ''127.0.0.1''"
    unfolding url_hostname_def info by (simp add: lower_def to_lower_def is_upper_def code_def)
  have user: "url_userinfo ?u = (None, None)"
    unfolding url_userinfo_def split_url.select_convs rp by simp
  show "control_url_from_connection_ref ref = Inr u"
    unfolding control_url_from_connection_ref_def ref canonical_urlsplit using n port host user u by simp
qed
section \<open>Properties\<close>

definition empty_owner_db :: "(nat \<Rightarrow> datetime) \<Rightarrow> owner_db" where
  "empty_owner_db now = \<lparr>ob_rows = [], ob_clock = 0, ob_now = now\<rparr>"

lemma run_owner_append: "run_owner o' (cs @ ds) s = run_owner o' ds (run_owner o' cs s)"
  by (simp add: run_owner_def)

lemma empty_owner_ok: "owner_ok (empty_owner_db now)"
  by (simp add: owner_ok_def empty_owner_db_def)

text \<open>From the empty table, after any history of calls (any SDK behaviour, status and reconcile of
  other threads in the middle of an activation included): request ids are distinct, every binding has
  at most one operation in flight, a receipt is recorded exactly from \<open>RECEIPT_PENDING\<close> on; and any
  further calls keep every row with its request id and scope, only advance its phase (INTENT, UNKNOWN,
  \<open>RECEIPT_PENDING\<close>, COMPLETED) and never touch a completed row.\<close>

theorem owner_history_consistent:
  "owner_ok (run_owner o' cs (empty_owner_db now))
   \<and> (\<exists>ys zs. ob_rows (run_owner o' (cs @ ds) (empty_owner_db now)) = ys @ zs
        \<and> list_all2 row_le (ob_rows (run_owner o' cs (empty_owner_db now))) ys)"
proof -
  have "owner_ok (run_owner o' cs (empty_owner_db now))"
    using run_owner_kept [of "empty_owner_db now" o' cs] empty_owner_ok by (simp add: owner_grows_def)
  with run_owner_kept [of "run_owner o' cs (empty_owner_db now)" o' ds] show ?thesis
    by (simp add: owner_grows_def run_owner_append)
qed

text \<open>A table for the witnesses.\<close>

definition sample_row :: "op_phase \<Rightarrow> owner_row" where
  "sample_row p = \<lparr>ow_request_id = ''r1'', ow_binding_id = ''b1'', ow_package_id = PACKAGE_ID,
     ow_installation_id = ''inst'', ow_operation = ''activate'', ow_phase = p, ow_runtime_status = None,
     ow_receipt = None, ow_updated_at = ''t0''\<rparr>"

definition sample_db :: "op_phase \<Rightarrow> owner_db" where
  "sample_db p = \<lparr>ob_rows = [sample_row p], ob_clock = 1, ob_now = (\<lambda>n. ''t'' @ show_nat n)\<rparr>"

definition sample_owner :: owner where
  "sample_owner = \<lparr>po_binding_id = ''b1'', po_receipt_ok = (\<lambda>_. True)\<rparr>"

lemma sample_db_operation: "package_runtime_operation ''r1'' (sample_db p) = Some (sample_row p)"
  by (simp add: package_runtime_operation_def sample_db_def sample_row_def)

lemma sample_db_ok: "owner_ok (sample_db UNKNOWN)"
  by (simp add: owner_ok_def sample_db_def sample_row_def row_ok_def)

text \<open>C14: A request id that is already recorded never reaches the SDK again: the answer is read off its
  row (scope conflict, the completed state, reconcile required, or outcome unknown), whatever the SDK
  would do, and the only change is that an INTENT row becomes UNKNOWN.\<close>

theorem recorded_request_never_dispatched:
  assumes "package_runtime_operation i s = Some r" and "is_safe_request_id i" and "strip n \<noteq> []"
  shows "activate o' sdk i n s =
    (if row_scope r \<noteq> expected_scope o' n then (Inl (OwnerFailure ''PACKAGE_RUNTIME_REQUEST_SCOPE_CONFLICT'' 409), s)
     else if ow_phase r = COMPLETED then (Inr (public_state o' r), s)
     else if ow_receipt r \<notin> {None, Some []} then (Inl (OwnerFailure ''PACKAGE_RUNTIME_RECONCILE_REQUIRED'' 409), s)
     else (Inl (OwnerFailure ''PACKAGE_RUNTIME_OUTCOME_UNKNOWN'' 409),
           if ow_phase r = INTENT then snd (mark_package_runtime_unknown i s) else s))"
proof -
  have mark: "mark_package_runtime_unknown i s = (Inr (), snd (mark_package_runtime_unknown i s))"
    by (simp add: mark_package_runtime_unknown_def txn_def modS_def)
  have bind: "bindE (mark_package_runtime_unknown i) f s = f () (snd (mark_package_runtime_unknown i s))" for f
    unfolding bindE_def by (subst mark) simp
  show ?thesis
    using assms
    by (simp add: activate_def activate_existing_def py_simps check_scope_def owner_raise_def bind)
      (simp add: py_unfold)
qed

theorem recorded_request_never_dispatched_witness:
  "fst (activate sample_owner Finish ''r1'' ''inst'' (sample_db UNKNOWN))
     = Inl (OwnerFailure ''PACKAGE_RUNTIME_OUTCOME_UNKNOWN'' 409)"
proof -
  have "is_safe_request_id ''r1''" "strip ''inst'' \<noteq> []" by code_simp+
  from recorded_request_never_dispatched [OF sample_db_operation [of UNKNOWN] this, of sample_owner Finish]
  show ?thesis by (simp add: sample_row_def row_scope_def expected_scope_def sample_owner_def)
qed
lemma try_except_Inr: "try_except m h s = (Inr a, t) \<longleftrightarrow>
    m s = (Inr a, t) \<or> (\<exists>e u. m s = (Inl e, u) \<and> h e u = (Inr a, t))"
  by (auto simp: try_except_def split: sum.splits prod.splits)

lemma no_attribute_Inr: "no_attribute m s = (Inr a, t) \<longleftrightarrow> m s = (Inr a, t)"
  by (auto simp: no_attribute_def try_except_Inr raise_def)

lemma activate_new_returns:
  assumes run: "activate_new o' sdk i n s = (Inr doc, t)" and hs: "act.holds i o' n s"
  shows "\<exists>r. package_runtime_operation i t = Some r \<and> ow_phase r = COMPLETED \<and> ow_receipt r \<noteq> None
    \<and> activation_row o' n r"
proof -
  have fails: "fst (activation_failed o' i n e p u) \<noteq> Inr x" for e p u x
    by (auto simp: activation_failed_def owner_raise_def py_unfold split: sum.splits prod.splits option.splits if_splits)
  have handler: "(case x of (e, pending) \<Rightarrow> case e of OwnerFailure c st \<Rightarrow> raise e | _ \<Rightarrow> activation_failed o' i n e pending) u
      \<noteq> (Inr y, w)" for x u y w
    using fails by (cases x; cases "fst x") (auto simp: raise_def, (metis fst_conv)+)
  obtain u v where body: "run_activation o' i n sdk s = (Inr (), u)"
    "complete_package_runtime_operation i u = (Inr (), v)" "status o' v = (Inr doc, t)"
    using run handler unfolding activate_new_def bindE_Inr try_except_Inr no_attribute_Inr by force
  have "act.holds i o' n u"
    using stepsD [OF run_activation_keeps body(1)] hs by (simp add: act.keeps_def)
  then have ok: "owner_ok u" and good: "\<And>r. package_runtime_operation i u = Some r \<Longrightarrow> activation_row o' n r"
    by (simp_all add: act.holds_def)
  obtain r where r: "package_runtime_operation i u = Some r" "ow_phase r = RECEIPT_PENDING" "ow_receipt r \<noteq> None"
    "package_runtime_operation i v = Some (r\<lparr>ow_phase := COMPLETED, ow_updated_at := now_of u\<rparr>)"
    using complete_done [OF body(2) ok] .
  have "owner_ok v" using stepsD [OF complete_kept body(2)] ok by (simp add: owner_grows_def)
  then have "package_runtime_operation i t = Some (r\<lparr>ow_phase := COMPLETED, ow_updated_at := now_of u\<rparr>)"
    by (rule completed_stays [OF status_kept body(3)]) (simp_all add: r)
  with r good [OF r(1)] show ?thesis by (auto simp: activation_row_def row_scope_def)
qed

text \<open>C13: When an activation of a new request returns, its row is \<open>COMPLETED\<close> with exactly the requested
  scope and a recorded receipt, and the recorded runtime status is a RUNNING runtime of this binding
  and installation at a canonical loopback reference, whatever the SDK did and whichever other calls
  ran meanwhile.\<close>

theorem returned_activation_is_proved:
  assumes "owner_ok s" and "package_runtime_operation i s = None" and "activate o' sdk i n s = (Inr doc, t)"
  shows "\<exists>r d port. package_runtime_operation i t = Some r \<and> ow_phase r = COMPLETED
    \<and> row_scope r = (po_binding_id o', PACKAGE_ID, n, ''activate'') \<and> ow_receipt r \<noteq> None
    \<and> ow_runtime_status r = Some d \<and> dict_get d ''state'' = Some (JStr ''RUNNING'')
    \<and> dict_get d ''binding_id'' = Some (JStr (po_binding_id o')) \<and> dict_get d ''installation_id'' = Some (JStr n)
    \<and> dict_get d ''connection_ref'' = Some (JStr (''cyrene-http-v1://127.0.0.1:'' @ show_nat port))
    \<and> 1 \<le> port \<and> port \<le> 65535"
proof -
  have new: "activate_new o' sdk i n s = (Inr doc, t)"
    using assms by (auto simp: activate_def py_simps owner_raise_def raise_def split: if_splits)
  have "act.holds i o' n s" using assms by (simp add: act.holds_def)
  from activate_new_returns [OF new this] obtain r where r: "package_runtime_operation i t = Some r"
    "ow_phase r = COMPLETED" "ow_receipt r \<noteq> None" "activation_row o' n r" by blast
  then obtain d where d: "ow_runtime_status r = Some d" "validate_actual o' d n = Inr ()"
    by (auto simp: activation_row_def less_eq_op_phase_def)
  obtain ref where ref: "get_or_null d ''connection_ref'' = JStr ref" "get_or_null d ''binding_id'' = JStr (po_binding_id o')"
      "get_or_null d ''installation_id'' = JStr n" "get_or_null d ''state'' = JStr ''RUNNING''"
    and url: "\<exists>u. control_url_from_connection_ref ref = Inr u"
    using d(2) by (auto simp: validate_actual_def split: json.splits if_splits sum.splits)
  have some: "get_or_null d k = JStr x \<Longrightarrow> dict_get d k = Some (JStr x)" for k x
    by (auto simp: get_or_null_def split: option.splits)
  from url obtain port where "1 \<le> port" "port \<le> 65535" "ref = ''cyrene-http-v1://127.0.0.1:'' @ show_nat port"
    unfolding control_url_canonical_iff by blast
  with r d(1) ref show ?thesis
    by (intro exI [of _ r] exI [of _ d] exI [of _ port]) (auto simp: activation_row_def expected_scope_def some)
qed

text \<open>An SDK for the witnesses: intent, outcome with a receipt, return.\<close>

definition sample_scope :: "op_scope" where
  "sample_scope = (''b1'', PACKAGE_ID, ''inst'', ''activate'')"

definition sample_receipt :: json where
  "sample_receipt = JObj [(''request_id'', JStr ''r1''), (''source_id'', JStr SOURCE_ID),
     (''protocol_version'', JStr ''cyrene.runtime-maintenance.binding-operations.v1''),
     (''catalog_generation'', JInt 1), (''operation_token'', JStr ''tok''), (''gate_generation'', JInt 1),
     (''already_in_flight'', JBool False), (''already_completed'', JBool False),
     (''scope'', JObj [(''binding_id'', JStr ''b1''), (''package_id'', JStr PACKAGE_ID),
        (''installation_id'', JStr ''inst''), (''operation'', JStr ''activate'')])]"

definition sample_status :: json where
  "sample_status = JObj [(''binding_id'', JStr ''b1''), (''installation_id'', JStr ''inst''),
     (''state'', JStr ''RUNNING''), (''connection_ref'', JStr ''cyrene-http-v1://127.0.0.1:8000'')]"

definition activating_sdk :: activation_run where
  "activating_sdk = PersistIntent ''r1'' sample_scope (\<lambda>_. Persist sample_status sample_receipt (\<lambda>_. Finish))"

definition sample_empty :: owner_db where
  "sample_empty = empty_owner_db (\<lambda>n. ''t'' @ show_nat n)"

lemma sample_activation:
  "fst (activate sample_owner activating_sdk ''r1'' ''inst'' sample_empty)
     = Inr [(''bindingId'', JStr ''b1''), (''requestId'', JStr ''r1''), (''installationId'', JStr ''inst''),
         (''phase'', JStr ''COMPLETED''), (''blocked'', JBool False), (''runtimeState'', JStr ''RUNNING'')]"
  by code_simp

theorem returned_activation_is_proved_witness:
  "\<exists>r. package_runtime_operation ''r1'' (snd (activate sample_owner activating_sdk ''r1'' ''inst'' sample_empty)) = Some r
     \<and> ow_phase r = COMPLETED"
proof -
  have "owner_ok sample_empty" "package_runtime_operation ''r1'' sample_empty = None"
    by (simp_all add: sample_empty_def empty_owner_ok operation_None) (simp add: empty_owner_db_def)
  from returned_activation_is_proved [OF this, of sample_owner activating_sdk "''inst''"] sample_activation
  show ?thesis by (metis prod.collapse)
qed
section \<open>Unknown outcomes\<close>

definition stuck_row :: "owner_row \<Rightarrow> owner_row \<Rightarrow> bool" where
  "stuck_row r0 r \<longleftrightarrow> r = r0 \<and> ow_phase r0 = UNKNOWN \<and> ow_receipt r0 = None"

interpretation stuck: row_invariant o' i "stuck_row r0" for o' i r0
  by unfold_locales (auto simp: stuck_row_def)

definition stuck :: "owner \<Rightarrow> owner_row \<Rightarrow> owner_db \<Rightarrow> bool" where
  "stuck o' r0 s \<longleftrightarrow> owner_ok s \<and> package_runtime_operation (ow_request_id r0) s = Some r0
     \<and> ow_binding_id r0 = po_binding_id o' \<and> ow_phase r0 = UNKNOWN \<and> ow_receipt r0 = None"

lemma stuck_step:
  assumes s: "stuck o' r0 s" and kept: "steps owner_grows m"
    and row: "steps (stuck.keeps (ow_request_id r0) r0) m"
  shows "stuck o' r0 (snd (m s))"
proof -
  let ?i = "ow_request_id r0" and ?t = "snd (m s)"
  have hs: "stuck.holds ?i r0 s" using s by (simp add: stuck_def stuck.holds_def stuck_row_def)
  have "owner_grows s ?t" "stuck.keeps ?i r0 s ?t" using kept row by (simp_all add: steps_snd)
  with hs have ht: "stuck.holds ?i r0 ?t" and g: "owner_grows s ?t" by (simp_all add: stuck.keeps_def)
  from s have "owner_ok s" "package_runtime_operation ?i s = Some r0" by (simp_all add: stuck_def)
  with g obtain r where "package_runtime_operation ?i ?t = Some r" using owner_grows_operation by blast
  with ht s show ?thesis by (auto simp: stuck_def stuck.holds_def stuck_row_def)
qed

lemma stuck_pending: "stuck o' r0 s \<Longrightarrow> pending_package_runtime_operation (po_binding_id o') s \<noteq> None"
  using operation_request_id [of "ow_request_id r0" s r0] by (auto simp: stuck_def pending_operation_None in_flight_def)

text \<open>Under a stuck row every activation is answered without the SDK.\<close>

lemma stuck_activate: "stuck o' r0 s \<Longrightarrow> activate o' sdk i n s = activate o' sdk' i n s"
  using stuck_pending [of o' r0 s]
  by (auto simp: activate_def py_simps owner_raise_def split: option.splits)

lemma stuck_call:
  assumes "stuck o' r0 s"
  shows "stuck o' r0 (snd (owner_call_op o' c s))"
proof (cases c)
  case (Activate sdk i n)
  have "steps (stuck.keeps (ow_request_id r0) r0) (activate_existing o' r i n)" for r
    unfolding activate_existing_def
    by (intro stuck.keeps_rules stuck.owner_raise_keeps stuck.mark_unknown_keeps)
  then have "stuck o' r0 (snd (activate_existing o' r i n s))" for r
    by (rule stuck_step [OF assms, rotated]) (unfold activate_existing_def, intro frame_rules)
  then show ?thesis using assms stuck_pending [OF assms]
    by (auto simp: Activate activate_def py_simps owner_raise_def raise_def split: option.splits)
next
  case (Reconcile f i)
  then show ?thesis using stuck_step [OF assms reconcile_kept stuck.reconcile_keeps] by simp
next
  case Status
  then show ?thesis using stuck_step [OF assms status_kept stuck.status_keeps] by simp
qed

lemma stuck_run: "stuck o' r0 s \<Longrightarrow> stuck o' r0 (run_owner o' cs s)"
proof (induction cs arbitrary: s)
  case (Cons c cs)
  have "run_owner o' (c # cs) s = run_owner o' cs (snd (owner_call_op o' c s))" by (simp add: run_owner_def)
  with Cons show ?case by (simp add: stuck_call)
qed (simp add: run_owner_def)

text \<open>The owner fails closed: once an operation's outcome is UNKNOWN without a receipt, its row is
  unchanged by every later history of calls, and every later activation of any request is refused on
  the record, independently of what the SDK would do, and never returns.\<close>

theorem unknown_outcome_blocks_binding:
  assumes "owner_ok s" and "package_runtime_operation i s = Some r" and "ow_phase r = UNKNOWN"
    and "ow_receipt r = None" and "ow_binding_id r = po_binding_id o'"
    and "package_runtime_operation j s = None"
  shows "package_runtime_operation i (run_owner o' cs s) = Some r
    \<and> activate o' sdk i' n (run_owner o' cs s) = activate o' sdk' i' n (run_owner o' cs s)
    \<and> (\<exists>c st. activate o' sdk j n s = (Inl (OwnerFailure c st), s))"
proof -
  have i: "ow_request_id r = i" using assms(2) operation_request_id by blast
  then have stuck: "stuck o' r s" using assms by (simp add: stuck_def)
  then have "stuck o' r (run_owner o' cs s)" by (rule stuck_run)
  moreover from this have "package_runtime_operation i (run_owner o' cs s) = Some r" by (simp add: stuck_def i)
  moreover have "\<exists>c st. activate o' sdk j n s = (Inl (OwnerFailure c st), s)"
    using assms(6) stuck_pending [OF stuck]
    by (auto simp: activate_def py_simps owner_raise_def raise_def)
  ultimately show ?thesis using stuck_activate by blast
qed

theorem unknown_outcome_blocks_binding_witness:
  "\<exists>c st. activate sample_owner activating_sdk ''r2'' ''inst'' (sample_db UNKNOWN) = (Inl (OwnerFailure c st), sample_db UNKNOWN)"
proof -
  have "package_runtime_operation ''r2'' (sample_db UNKNOWN) = None"
    by (simp add: package_runtime_operation_def sample_db_def sample_row_def)
  from unknown_outcome_blocks_binding [OF sample_db_ok sample_db_operation _ _ _ this, of sample_owner]
  show ?thesis by (simp add: sample_row_def sample_owner_def)
qed

section \<open>Reconciliation\<close>

definition ref_row :: "json \<Rightarrow> owner_row \<Rightarrow> bool" where
  "ref_row v r \<longleftrightarrow> (\<exists>d. ow_runtime_status r = Some d \<and> get_or_null d ''connection_ref'' = v)"

interpretation refs: row_invariant o' i "ref_row v" for o' i v
  by unfold_locales (auto simp: ref_row_def dest!: check_reconciled_ok(2))

text \<open>When a reconciliation returns, its row is \<open>COMPLETED\<close> under its own scope with a receipt; if a runtime status
  was recorded before, the connection reference is still the recorded one, so a reconciled operation
  cannot be moved to another runtime.\<close>

theorem returned_reconciliation_keeps_reference:
  assumes ok: "owner_ok s" and op: "package_runtime_operation i s = Some r" and d: "ow_runtime_status r = Some d"
    and run: "reconcile o' f i s = (Inr doc, t)"
  shows "\<exists>r' d'. package_runtime_operation i t = Some r' \<and> ow_phase r' = COMPLETED \<and> ow_receipt r' \<noteq> None
    \<and> row_scope r' = expected_scope o' (ow_installation_id r) \<and> row_scope r = row_scope r'
    \<and> ow_runtime_status r' = Some d' \<and> get_or_null d' ''connection_ref'' = get_or_null d ''connection_ref''"
proof -
  let ?v = "get_or_null d ''connection_ref''"
  have sc: "row_scope r = expected_scope o' (ow_installation_id r)"
    using run op by (auto simp: reconcile_def reconcile_with_def py_simps check_scope_def split: if_splits)
  have noret: False if "(case e of OwnerFailure c n \<Rightarrow> raise e | _ \<Rightarrow> owner_raise k m) u = (Inr (), w)"
    for e k m and u w :: owner_db
    using that by (cases e) (auto simp: owner_raise_def raise_def)
  obtain receipt u v where body: "run_reconcile o' r i (f receipt) s = (Inr (), u)" "ow_receipt r \<noteq> None"
    "complete_package_runtime_operation i u = (Inr (), v)" "status o' v = (Inr doc, t)"
    using run op
    by (auto simp: reconcile_def reconcile_with_def bindE_getS bindE_Inr liftE_Inr try_except_Inr
        check_scope_def split: option.splits if_splits dest!: noret) (simp add: owner_raise_def raise_def)
  have good: "ref_row ?v r" using d by (simp add: ref_row_def)
  have grown: "owner_grows s u" using stepsD [OF run_reconcile_kept(1) body(1)] .
  have "refs.keeps i ?v s u"
    by (rule stepsD [OF refs.run_other_keeps(1) body(1)]) (simp add: good body(2))
  with ok op good have hu: "refs.holds i ?v u" by (simp add: refs.keeps_def refs.holds_def)
  then have uok: "owner_ok u" by (simp add: refs.holds_def)
  obtain q where q: "package_runtime_operation i u = Some q" "ow_receipt q \<noteq> None"
    "package_runtime_operation i v = Some (q\<lparr>ow_phase := COMPLETED, ow_updated_at := now_of u\<rparr>)"
    using complete_done [OF body(3) uok] by metis
  have "owner_ok v" using stepsD [OF complete_kept body(3)] uok by (simp add: owner_grows_def)
  then have final: "package_runtime_operation i t = Some (q\<lparr>ow_phase := COMPLETED, ow_updated_at := now_of u\<rparr>)"
    by (rule completed_stays [OF status_kept body(4)]) (simp_all add: q)
  have "row_scope q = row_scope r"
    using owner_grows_operation [OF grown ok op] q(1) by (auto simp: row_le_def)
  moreover have "ref_row ?v q" using hu q(1) by (simp add: refs.holds_def)
  ultimately show ?thesis using final q(2) sc by (auto simp: ref_row_def row_scope_def)
qed
text \<open>An outcome is committed, the SDK then fails; a later reconciliation completes it.\<close>

definition sample_failing_sdk :: activation_run where
  "sample_failing_sdk = PersistIntent ''r1'' sample_scope (\<lambda>_. Persist sample_status sample_receipt
     (\<lambda>_. Fail (PyException ''OSError'' [] None) None))"

definition sample_installation :: json where
  "sample_installation = JObj [(''installation_id'', JStr ''inst''), (''package_id'', JStr PACKAGE_ID),
     (''state'', JStr ''INSTALLED'')]"

definition sample_reconcile :: "dict \<Rightarrow> reconcile_run" where
  "sample_reconcile d = RCommit sample_status sample_installation (JObj d) (\<lambda>_. RFinish)"

definition receipt_pending_row :: owner_row where
  "receipt_pending_row = (sample_row RECEIPT_PENDING)\<lparr>
     ow_runtime_status := (case sample_status of JObj d \<Rightarrow> Some d | _ \<Rightarrow> None),
     ow_receipt := (case sample_receipt of JObj d \<Rightarrow> Some d | _ \<Rightarrow> None)\<rparr>"

definition receipt_pending_db :: owner_db where
  "receipt_pending_db = (sample_db RECEIPT_PENDING)\<lparr>ob_rows := [receipt_pending_row]\<rparr>"

lemma sample_reconciliation:
  "case fst (reconcile sample_owner sample_reconcile ''r1'' receipt_pending_db) of Inl _ \<Rightarrow> False | Inr _ \<Rightarrow> True"
  by code_simp

theorem returned_reconciliation_keeps_reference_witness:
  "\<exists>r d. package_runtime_operation ''r1'' (snd (reconcile sample_owner sample_reconcile ''r1'' receipt_pending_db)) = Some r
     \<and> ow_phase r = COMPLETED \<and> ow_runtime_status r = Some d
     \<and> get_or_null d ''connection_ref'' = JStr ''cyrene-http-v1://127.0.0.1:8000''"
proof -
  obtain doc t where run: "reconcile sample_owner sample_reconcile ''r1'' receipt_pending_db = (Inr doc, t)"
    using sample_reconciliation by (auto split: sum.splits) (metis prod.collapse)
  have op: "package_runtime_operation ''r1'' receipt_pending_db = Some receipt_pending_row"
    by (simp add: package_runtime_operation_def receipt_pending_db_def receipt_pending_row_def sample_row_def)
  have ok: "owner_ok receipt_pending_db"
    by (simp add: owner_ok_def receipt_pending_db_def receipt_pending_row_def sample_row_def row_ok_def
        sample_receipt_def)
  obtain d where d: "ow_runtime_status receipt_pending_row = Some d"
    "get_or_null d ''connection_ref'' = JStr ''cyrene-http-v1://127.0.0.1:8000''"
    by (simp add: receipt_pending_row_def sample_status_def get_or_null_def)
  from returned_reconciliation_keeps_reference [OF ok op d(1) run] d(2) run show ?thesis by auto
qed

section \<open>A pending receipt lost to a status poll\<close>

text \<open>The same SDK run, with and without another thread's \<open>status\<close> while the SDK waits.\<close>

definition pending_receipt_run :: "bool \<Rightarrow> activation_run" where
  "pending_receipt_run polled = PersistIntent ''r1'' sample_scope (\<lambda>_.
     let fail = Fail (PyException ''SdkError'' [] (Some ''PENDING'')) (Some sample_receipt)
     in if polled then Meanwhile OtherStatus fail else fail)"

definition row_phase_receipt :: "owner_db \<Rightarrow> (op_phase \<times> bool) option" where
  "row_phase_receipt s = map_option (\<lambda>r. (ow_phase r, ow_receipt r \<noteq> None)) (package_runtime_operation ''r1'' s)"

text \<open>The SDK's exact pending receipt is recorded when an activation fails with it, but if another
  thread polls \<open>status\<close> while the SDK runs, the poll turns INTENT into UNKNOWN, the failure handler then
  skips the receipt, and the request can neither be reconciled nor retried: its receipt is lost.\<close>

theorem polled_activation_loses_receipt:
  "row_phase_receipt (snd (activate sample_owner (pending_receipt_run False) ''r1'' ''inst'' sample_empty))
     = Some (RECEIPT_PENDING, True)
   \<and> row_phase_receipt (snd (activate sample_owner (pending_receipt_run True) ''r1'' ''inst'' sample_empty))
     = Some (UNKNOWN, False)
   \<and> fst (reconcile sample_owner sample_reconcile ''r1''
        (snd (activate sample_owner (pending_receipt_run True) ''r1'' ''inst'' sample_empty)))
     = Inl (OwnerFailure ''PACKAGE_RUNTIME_OUTCOME_UNKNOWN'' 409)"
  by code_simp

section \<open>References\<close>

text \<open>C15: The control URL is decoded exactly from the canonical references: decoding succeeds on
  \<open>cyrene-http-v1://127.0.0.1:<port>\<close> in decimal without leading zeros for the ports 1 to 65535, gives
  \<open>http://127.0.0.1:<port>\<close>, and refuses every other string.\<close>

theorem connection_ref_canonical:
  "control_url_from_connection_ref ref = Inr u \<longleftrightarrow>
     (\<exists>n. 1 \<le> n \<and> n \<le> 65535 \<and> ref = ''cyrene-http-v1://127.0.0.1:'' @ show_nat n
        \<and> u = ''http://127.0.0.1:'' @ show_nat n)"
  by (rule control_url_canonical_iff)

end
