(* ===== verification/Admission_Properties.thy ===== *)
theory Admission_Properties
  imports Package_Admission Package_Owner_Properties Samples
begin

text \<open>
  What an admitted package runtime engine has proved: a loopback control URL read from a RUNNING
  receipt of the configured binding that was still current after the metadata check, and a bearer
  credential from an owner-protected file.
\<close>

lemma read_runtime_status_Inr: "read_runtime_status c b e = (Inr d, e') \<Longrightarrow> pc_runtime_status c b e = (Inr (JObj d), e')"
proof -
  assume run: "read_runtime_status c b e = (Inr d, e')"
  then obtain j t where j: "pc_runtime_status c b e = (Inr j, t)"
    "(case j of JObj d \<Rightarrow> ret d | _ \<Rightarrow> raise (binding_failure ''PACKAGE_RUNTIME_RECEIPT_INVALID''
        ''the runtime status response is invalid'')) t = (Inr d, e')"
    unfolding read_runtime_status_def bindE_Inr try_except_Inr by (auto simp: raise_def [of "binding_failure ''PACKAGE_RUNTIME_OWNER_READ_DENIED'' d" for d])
  then show ?thesis by (cases j) (auto simp: ret_def raise_def)
qed

lemma validate_runtime_status_Inr:
  assumes "validate_runtime_status d b = Inr i"
  shows "get_or_null d ''state'' = JStr ''RUNNING''" "get_or_null d ''binding_id'' = JStr b"
    "get_or_null d ''installation_id'' = JStr i"
  using assms by (auto simp: validate_runtime_status_def resB_Inr_iff required_string_def split: if_splits json.splits)

lemma open_engine_Inr:
  assumes "open_engine h b u p = Inr k"
  shows "rb_binding_id (rk_binding k) = b \<and> rb_control_url (rk_binding k) = u \<and> ho_no_follow h
    \<and> cf_regular (ho_file h p) \<and> cf_permissions (ho_file h p) \<in> {256, 384} \<and> cf_owner (ho_file h p) \<in> {ho_euid h, 0}
    \<and> 32 \<le> length (rb_token (rk_binding k))"
  using assms
  by (auto simp: open_engine_def open_binding_def read_owner_protected_credential_def resB_Inr_iff
      split: sum.splits if_splits option.splits)


text \<open>A host, a client and a configuration for the witness.\<close>

definition sample_client :: "unit runtime_client" where
  "sample_client = \<lparr>pc_source_id = Some SOURCE_ID, pc_catalog_generation = (\<lambda>_. Some 7),
     pc_authority = (\<lambda>e. (Inr (JObj [(''authority'', JStr ''platform_package_runtime''),
        (''protocol_version'', JStr ''cy-package-runtime.control.v1''), (''catalog_generation'', JInt 7),
        (''capabilities'', JArr [JStr ''read''])]), e)),
     pc_runtime_status = (\<lambda>b e. (Inr (JObj [(''binding_id'', JStr b), (''installation_id'', JStr ''inst''),
        (''state'', JStr ''RUNNING''), (''generation'', JInt 3),
        (''connection_ref'', JStr ''cyrene-http-v1://127.0.0.1:8000'')]), e)),
     pc_get_installation = (\<lambda>i e. let g = JStr (''sha256:'' @ replicate 64 CHR ''a'') in
        (Inr (JObj [(''record_version'', JInt 1), (''installation_id'', JStr i), (''package_id'', JStr PACKAGE_ID),
          (''package_version'', JStr ''1.0''), (''state'', JStr ''INSTALLED''),
          (''capabilities'', JArr [JStr ''execution.engine.v1'']), (''verification'', JObj [(''manifest_digest'', g)]),
          (''artifact_digest'', g), (''archive_digest'', g)]), e))\<rparr>"

definition sample_host :: "unit host" where
  "sample_host = \<lparr>ho_no_follow = True, ho_euid = 1000,
     ho_file = (\<lambda>_. \<lparr>cf_openable = True, cf_regular = True, cf_permissions = 384, cf_owner = 1000,
                      cf_text = Some (replicate 32 CHR ''k'')\<rparr>),
     ho_http = (\<lambda>q e. (Reply 200 (Some (JObj (expected_metadata ''1.0''))), e)),
     ho_sdk = sample_sdk, ho_validation = (\<lambda>_. Inl (ValueError []))\<rparr>"
lemma sample_admission:
  "case fst (package_runtime_engine sample_host (Inr sample_client) ''b1'' [(''credential_file'', JStr ''/k'')] ()) of
     Inl _ \<Rightarrow> False | Inr k \<Rightarrow> rb_control_url (rk_binding k) = ''http://127.0.0.1:8000''"
  by code_simp


end
