(* ===== verification/Stream_Buffer.thy ===== *)
theory Stream_Buffer
  imports Prelude
begin

text \<open>
  The bounded stream buffer (\<open>utils/stream_buffer.py\<close>). A call runs under the condition's lock from its
  entry, or from a wake-up, until it returns, raises or waits; these atomic pieces are the functions
  below. \<open>time.monotonic()\<close> and timeouts are integers of one clock tick.
\<close>

section \<open>State and outcomes\<close>

record 'a buffer =
  bf_queue :: "'a list"
  bf_max_size :: nat
  bf_closed :: bool
  bf_pushed :: nat
  bf_popped :: nat
  bf_dropped :: nat

datatype buffer_error = BufferClosed string | InvalidSize | InvalidThreshold

text \<open>A piece of a call ends by returning, by raising, or in \<open>wait\<close>.\<close>

datatype 'r outcome = Returned 'r | Raised buffer_error | Waits

text \<open>\<open>__init__\<close>; the warning threshold is a percentage here.\<close>

definition new_buffer :: "int \<Rightarrow> int \<Rightarrow> buffer_error + 'a buffer" where
  "new_buffer max_size warn_percent =
     (if max_size \<le> 0 then Inl InvalidSize
      else if \<not> (0 < warn_percent \<and> warn_percent \<le> 100) then Inl InvalidThreshold
      else Inr \<lparr>bf_queue = [], bf_max_size = nat max_size, bf_closed = False, bf_pushed = 0,
                bf_popped = 0, bf_dropped = 0\<rparr>)"

definition expired :: "int option \<Rightarrow> int \<Rightarrow> int \<Rightarrow> bool" where
  "expired timeout start now = (case timeout of None \<Rightarrow> False | Some t \<Rightarrow> t - (now - start) \<le> 0)"

section \<open>\<open>push\<close>\<close>

text \<open>The loop and the insertion, from the loop test on.\<close>

definition push_loop ::
    "'a \<Rightarrow> bool \<Rightarrow> int option \<Rightarrow> int \<Rightarrow> int \<Rightarrow> 'a buffer \<Rightarrow> bool outcome \<times> 'a buffer" where
  "push_loop x block timeout start now b =
     (if bf_max_size b \<le> length (bf_queue b)
      then if \<not> block \<or> expired timeout start now
           then (Returned False, b\<lparr>bf_dropped := Suc (bf_dropped b)\<rparr>)
           else (Waits, b)
      else (Returned True, b\<lparr>bf_queue := bf_queue b @ [x], bf_pushed := Suc (bf_pushed b)\<rparr>))"

definition push :: "'a \<Rightarrow> bool \<Rightarrow> int option \<Rightarrow> int \<Rightarrow> 'a buffer \<Rightarrow> bool outcome \<times> 'a buffer" where
  "push x block timeout now b =
     (if bf_closed b then (Raised (BufferClosed ''Cannot push to a closed buffer.''), b)
      else push_loop x block timeout now now b)"

section \<open>\<open>pop\<close>, \<open>close\<close> and \<open>drain\<close>\<close>

definition pop_loop :: "bool \<Rightarrow> int option \<Rightarrow> int \<Rightarrow> int \<Rightarrow> 'a buffer \<Rightarrow> 'a outcome \<times> 'a buffer" where
  "pop_loop block timeout start now b =
     (case bf_queue b of
        [] \<Rightarrow>
          (if bf_closed b then (Raised (BufferClosed ''Buffer closed and drained.''), b)
           else if \<not> block then (Raised (BufferClosed ''Buffer empty and non-blocking pop requested.''), b)
           else if expired timeout start now
           then (Raised (BufferClosed ''Timed out waiting for buffer items.''), b)
           else (Waits, b))
      | x # q \<Rightarrow> (Returned x, b\<lparr>bf_queue := q, bf_popped := Suc (bf_popped b)\<rparr>))"

definition pop :: "bool \<Rightarrow> int option \<Rightarrow> int \<Rightarrow> 'a buffer \<Rightarrow> 'a outcome \<times> 'a buffer" where
  "pop block timeout now b = pop_loop block timeout now now b"

definition close :: "'a buffer \<Rightarrow> 'a buffer" where
  "close b = b\<lparr>bf_closed := True\<rparr>"

text \<open>\<open>range(count)\<close> is empty for a negative \<open>count\<close>.\<close>

definition drain_count :: "int option \<Rightarrow> 'a buffer \<Rightarrow> nat" where
  "drain_count max_items b =
     (case max_items of None \<Rightarrow> length (bf_queue b) | Some m \<Rightarrow> nat (min (int (length (bf_queue b))) m))"

definition drain :: "int option \<Rightarrow> 'a buffer \<Rightarrow> 'a list \<times> 'a buffer" where
  "drain max_items b =
     (let n = drain_count max_items b; items = take n (bf_queue b)
      in (items, b\<lparr>bf_queue := drop n (bf_queue b), bf_popped := bf_popped b + length items\<rparr>))"

text \<open>\<open>stats\<close>: \<open>usage >= warn_threshold\<close> compares in hundredths.\<close>

definition near_capacity :: "int \<Rightarrow> 'a buffer \<Rightarrow> bool" where
  "near_capacity warn_percent b \<longleftrightarrow> warn_percent * int (bf_max_size b) \<le> 100 * int (length (bf_queue b))"

text \<open>\<open>extend(items, block=False)\<close>: the number accepted, or the exception of a push.\<close>

fun extend_items :: "'a list \<Rightarrow> int \<Rightarrow> 'a buffer \<Rightarrow> (buffer_error + nat) \<times> 'a buffer" where
  "extend_items [] now b = (Inr 0, b)"
| "extend_items (x # xs) now b =
     (case push x False None now b of
        (Returned True, c) \<Rightarrow> (case extend_items xs now c of (Inr n, d) \<Rightarrow> (Inr (Suc n), d) | (Inl e, d) \<Rightarrow> (Inl e, d))
      | (Returned False, c) \<Rightarrow> (Inr 0, c)
      | (Raised e, c) \<Rightarrow> (Inl e, c)
      | (Waits, c) \<Rightarrow> (Inr 0, c))"

section \<open>The text buffer\<close>

text \<open>The legacy text interface keeps its own list of chunks.\<close>

type_synonym text_buffer = "string list"

definition text_write :: "string \<Rightarrow> text_buffer \<Rightarrow> text_buffer" where
  "text_write d t = t @ [d]"

definition text_read :: "text_buffer \<Rightarrow> string option \<times> text_buffer" where
  "text_read t = (if t = [] then (None, t) else (Some (concat t), []))"

definition text_size :: "text_buffer \<Rightarrow> nat" where
  "text_size t = sum_list (map length t)"

definition text_clear :: "text_buffer \<Rightarrow> text_buffer" where
  "text_clear t = []"

definition text_is_empty :: "text_buffer \<Rightarrow> bool" where
  "text_is_empty t \<longleftrightarrow> length t = 0"

section \<open>Threads\<close>

text \<open>
  A thread that waits inside a call, with what its loop test needs after a wake-up. \<open>notify_all\<close> and
  the passing of time can wake any waiter at any moment, so every waiter may resume at any time; a
  call that raced with others before its lock is one that starts later.
\<close>

datatype 'a waiter =
    PushWaiter 'a "int option" int
  | PopWaiter "int option" int

record 'a system =
  sy_buffer :: "'a buffer"
  sy_waiters :: "(nat \<times> 'a waiter) list"
  sy_accepted :: "'a list"
  sy_delivered :: "'a list"

datatype 'a action =
    Push nat 'a bool "int option" int
  | Pop nat bool "int option" int
  | Wake nat int
  | Close
  | Drain "int option"

definition finish_push :: "'a \<Rightarrow> bool outcome \<times> 'a buffer \<Rightarrow> nat \<Rightarrow> 'a waiter \<Rightarrow> 'a system \<Rightarrow> 'a system" where
  "finish_push x r t w s =
     (let s' = s\<lparr>sy_buffer := snd r, sy_waiters := filter (\<lambda>e. fst e \<noteq> t) (sy_waiters s)\<rparr>
      in case fst r of
           Returned True \<Rightarrow> s'\<lparr>sy_accepted := sy_accepted s @ [x]\<rparr>
         | Waits \<Rightarrow> s'\<lparr>sy_waiters := sy_waiters s' @ [(t, w)]\<rparr>
         | _ \<Rightarrow> s')"

definition finish_pop :: "'a outcome \<times> 'a buffer \<Rightarrow> nat \<Rightarrow> 'a waiter \<Rightarrow> 'a system \<Rightarrow> 'a system" where
  "finish_pop r t w s =
     (let s' = s\<lparr>sy_buffer := snd r, sy_waiters := filter (\<lambda>e. fst e \<noteq> t) (sy_waiters s)\<rparr>
      in case fst r of
           Returned x \<Rightarrow> s'\<lparr>sy_delivered := sy_delivered s @ [x]\<rparr>
         | Waits \<Rightarrow> s'\<lparr>sy_waiters := sy_waiters s' @ [(t, w)]\<rparr>
         | _ \<Rightarrow> s')"

text \<open>A waiting thread makes no other call; such an action is skipped, as is waking a thread that does not wait.\<close>

fun perform :: "'a action \<Rightarrow> 'a system \<Rightarrow> 'a system" where
  "perform (Push t x block timeout now) s =
     (if tbl_has t (sy_waiters s) then s
      else finish_push x (push x block timeout now (sy_buffer s)) t (PushWaiter x timeout now) s)"
| "perform (Pop t block timeout now) s =
     (if tbl_has t (sy_waiters s) then s
      else finish_pop (pop block timeout now (sy_buffer s)) t (PopWaiter timeout now) s)"
| "perform (Wake t now) s =
     (case map_of (sy_waiters s) t of
        None \<Rightarrow> s
      | Some (PushWaiter x timeout start) \<Rightarrow>
          finish_push x (push_loop x True timeout start now (sy_buffer s)) t (PushWaiter x timeout start) s
      | Some (PopWaiter timeout start) \<Rightarrow>
          finish_pop (pop_loop True timeout start now (sy_buffer s)) t (PopWaiter timeout start) s)"
| "perform Close s = s\<lparr>sy_buffer := close (sy_buffer s)\<rparr>"
| "perform (Drain m) s =
     (case drain m (sy_buffer s) of (items, b) \<Rightarrow>
        s\<lparr>sy_buffer := b, sy_delivered := sy_delivered s @ items\<rparr>)"

definition start_system :: "'a buffer \<Rightarrow> 'a system" where
  "start_system b = \<lparr>sy_buffer = b, sy_waiters = [], sy_accepted = [], sy_delivered = []\<rparr>"

definition perform_all :: "'a action list \<Rightarrow> 'a system \<Rightarrow> 'a system" where
  "perform_all = fold perform"

end
