(* ===== verification/Stream_Buffer_Properties.thy ===== *)
theory Stream_Buffer_Properties
  imports Stream_Buffer
begin

text \<open>
  Properties of the stream buffer under any interleaving of producers, consumers, wake-ups, closes and
  drains: it is a bounded FIFO channel, waits end, and a producer that waited through a close still
  writes.
\<close>

section \<open>The channel invariant\<close>

definition channel_ok :: "'a system \<Rightarrow> bool" where
  "channel_ok s \<longleftrightarrow> sy_accepted s = sy_delivered s @ bf_queue (sy_buffer s)
     \<and> length (bf_queue (sy_buffer s)) \<le> bf_max_size (sy_buffer s)
     \<and> bf_pushed (sy_buffer s) = length (sy_accepted s)
     \<and> bf_popped (sy_buffer s) = length (sy_delivered s)"

lemma finish_push_ok: "channel_ok s \<Longrightarrow> channel_ok (finish_push x (push_loop x bl to st now (sy_buffer s)) t w s)"
  by (auto simp: channel_ok_def finish_push_def push_loop_def Let_def)

lemma finish_pop_ok: "channel_ok s \<Longrightarrow> channel_ok (finish_pop (pop_loop bl to st now (sy_buffer s)) t w s)"
  by (cases "bf_queue (sy_buffer s)") (auto simp: channel_ok_def finish_pop_def pop_loop_def Let_def)

lemma perform_ok: "channel_ok s \<Longrightarrow> channel_ok (perform a s)"
proof (cases a)
  case (Push t x bl to now)
  moreover assume "channel_ok s"
  moreover from this have "channel_ok (finish_push x (Raised e, sy_buffer s) t w s)" for e w
    by (simp add: channel_ok_def finish_push_def)
  ultimately show ?thesis by (cases "bf_closed (sy_buffer s)") (simp_all add: push_def finish_push_ok)
next
  case (Wake t now)
  moreover assume "channel_ok s"
  ultimately show ?thesis by (auto simp: finish_push_ok finish_pop_ok split: option.splits waiter.splits)
next
  case (Drain m)
  have "take (drain_count m b) q @ drop (drain_count m b) q = q" for b :: "'a buffer" and q :: "'a list" by simp
  moreover assume "channel_ok s"
  ultimately show ?thesis using Drain by (auto simp: channel_ok_def drain_def Let_def)
next
  case (Pop t bl to now)
  moreover assume "channel_ok s"
  ultimately show ?thesis by (simp add: pop_def finish_pop_ok)
next
  case Close
  moreover assume "channel_ok s"
  ultimately show ?thesis by (simp add: channel_ok_def close_def)
qed

lemma perform_max_size: "bf_max_size (sy_buffer (perform a s)) = bf_max_size (sy_buffer s)"
  by (cases a) (auto simp: finish_push_def finish_pop_def push_def push_loop_def pop_def pop_loop_def
      close_def drain_def Let_def split: option.splits waiter.splits list.splits)

lemma perform_all_ok:
  "channel_ok s \<Longrightarrow> channel_ok (perform_all as s)
     \<and> bf_max_size (sy_buffer (perform_all as s)) = bf_max_size (sy_buffer s)"
  by (induction as arbitrary: s) (simp_all add: perform_all_def perform_ok perform_max_size)

lemma start_ok: "new_buffer m w = Inr b \<Longrightarrow> channel_ok (start_system b) \<and> int (bf_max_size b) = m"
  by (auto simp: new_buffer_def channel_ok_def start_system_def split: if_splits)

section \<open>After a close\<close>

lemma perform_closed: "bf_closed (sy_buffer s) \<Longrightarrow> bf_closed (sy_buffer (perform a s))"
  by (cases a) (auto simp: finish_push_def finish_pop_def push_def push_loop_def pop_def pop_loop_def
      close_def drain_def Let_def split: option.splits waiter.splits list.splits)

lemma closed_waiters:
  "bf_closed (sy_buffer s) \<Longrightarrow> set (sy_waiters (perform a s)) \<subseteq> set (sy_waiters s)"
  by (cases a) (auto simp: finish_push_def finish_pop_def push_def push_loop_def pop_def pop_loop_def
      close_def drain_def Let_def split: option.splits waiter.splits list.splits dest: map_of_SomeD)

lemma closed_run:
  "bf_closed (sy_buffer s) \<Longrightarrow> bf_closed (sy_buffer (perform_all as s))
     \<and> set (sy_waiters (perform_all as s)) \<subseteq> set (sy_waiters s)"
proof (induction as arbitrary: s)
  case (Cons a as)
  then have "set (sy_waiters (perform_all as (perform a s))) \<subseteq> set (sy_waiters (perform a s))"
    "bf_closed (sy_buffer (perform_all as (perform a s)))"
    by (simp_all add: perform_closed)
  with closed_waiters [OF Cons.prems, of a] show ?case by (auto simp: perform_all_def)
qed (simp add: perform_all_def)

section \<open>Properties\<close>

text \<open>C19: Whatever producers, consumers, wake-ups, closes and drains do and in whatever order, the buffer is
  a bounded FIFO channel: the items delivered so far followed by those buffered are exactly the accepted
  items in their order, the number buffered never exceeds \<open>max_size\<close>, and the pushed and popped counters
  count the accepted and the delivered items.\<close>

theorem buffer_is_bounded_fifo:
  assumes "new_buffer m w = Inr b"
  shows "sy_accepted (perform_all as (start_system b))
       = sy_delivered (perform_all as (start_system b)) @ bf_queue (sy_buffer (perform_all as (start_system b)))
    \<and> int (length (bf_queue (sy_buffer (perform_all as (start_system b))))) \<le> m
    \<and> bf_pushed (sy_buffer (perform_all as (start_system b))) = length (sy_accepted (perform_all as (start_system b)))
    \<and> bf_popped (sy_buffer (perform_all as (start_system b))) = length (sy_delivered (perform_all as (start_system b)))"
proof -
  have s: "channel_ok (start_system b)" "int (bf_max_size b) = m" using start_ok [OF assms] by simp_all
  with perform_all_ok [OF s(1), of as] show ?thesis by (auto simp: channel_ok_def start_system_def)
qed

definition sample_buffer :: "nat buffer" where
  "sample_buffer = \<lparr>bf_queue = [], bf_max_size = 1, bf_closed = False, bf_pushed = 0, bf_popped = 0, bf_dropped = 0\<rparr>"

lemma sample_new_buffer: "new_buffer 1 80 = Inr sample_buffer"
  by (simp add: new_buffer_def sample_buffer_def)

theorem buffer_is_bounded_fifo_witness:
  "sy_delivered (perform_all [Push 1 7 True None 0, Push 2 8 True None 0, Pop 3 True None 0, Wake 2 0]
      (start_system sample_buffer)) = [7]
   \<and> sy_accepted (perform_all [Push 1 7 True None 0, Push 2 8 True None 0, Pop 3 True None 0, Wake 2 0]
      (start_system sample_buffer)) = [7] @ bf_queue (sy_buffer (perform_all
        [Push 1 7 True None 0, Push 2 8 True None 0, Pop 3 True None 0, Wake 2 0] (start_system sample_buffer)))"
proof -
  have "sy_delivered (perform_all [Push 1 7 True None 0, Push 2 8 True None 0, Pop 3 True None 0, Wake 2 0]
      (start_system sample_buffer)) = [7]" by code_simp
  with buffer_is_bounded_fifo [OF sample_new_buffer,
      of "[Push 1 7 True None 0, Push 2 8 True None 0, Pop 3 True None 0, Wake 2 0]"]
  show ?thesis by simp
qed



text \<open>A non-blocking \<open>extend\<close> accepts exactly the longest prefix that fits, appends it in order, and
  counts one dropped item when anything is left; on a closed buffer it raises without any change.\<close>

theorem extend_accepts_prefix:
  assumes "length (bf_queue b) \<le> bf_max_size b"
  shows "extend_items xs now b =
    (let k = min (length xs) (bf_max_size b - length (bf_queue b)) in
     if xs = [] then (Inr 0, b)
     else if bf_closed b then (Inl (BufferClosed ''Cannot push to a closed buffer.''), b)
     else (Inr k, b\<lparr>bf_queue := bf_queue b @ take k xs, bf_pushed := bf_pushed b + k,
                    bf_dropped := (if k < length xs then Suc (bf_dropped b) else bf_dropped b)\<rparr>))"
  using assms
proof (induction xs arbitrary: b)
  case (Cons x xs)
  let ?c = "b\<lparr>bf_queue := bf_queue b @ [x], bf_pushed := Suc (bf_pushed b)\<rparr>"
  show ?case
  proof (cases "bf_closed b \<or> length (bf_queue b) = bf_max_size b")
    case True
    with Cons.prems show ?thesis by (auto simp: push_def push_loop_def)
  next
    case False
    with Cons.prems have room: "length (bf_queue b) < bf_max_size b" by simp
    with False have "push x False None now b = (Returned True, ?c)" by (auto simp: push_def push_loop_def)
    moreover have "bf_max_size b - length (bf_queue b) = Suc (bf_max_size b - Suc (length (bf_queue b)))"
      using room by simp
    ultimately show ?thesis
      using Cons.IH [of ?c] room False by (cases "xs = []") (auto simp: Let_def)
  qed
qed simp

theorem extend_accepts_prefix_witness: "fst (extend_items [4, 5, 6] 0 sample_buffer) = Inr 1"
proof -
  have "length (bf_queue sample_buffer) \<le> bf_max_size sample_buffer" by (simp add: sample_buffer_def)
  from extend_accepts_prefix [OF this, of "[4, 5, 6]" 0] show ?thesis by (simp add: sample_buffer_def)
qed

text \<open>A producer that waited for room while the buffer was closed still writes into the closed buffer
  when room appears: the closed flag is only tested on entry of \<open>push\<close>.\<close>

theorem waiting_push_survives_close:
  "sy_accepted (perform_all [Push 1 7 True None 0, Push 2 8 True None 0, Close, Pop 3 True None 0, Wake 2 0]
      (start_system sample_buffer)) = [7, 8]
   \<and> bf_closed (sy_buffer (perform_all [Push 1 7 True None 0, Push 2 8 True None 0, Close]
      (start_system sample_buffer)))"
  by code_simp

end
