(* ===== verification/Task_Scheduler.thy ===== *)
theory Task_Scheduler
  imports Prelude
begin

text \<open>
  The task scheduler (\<open>core/task_scheduler.py\<close>) as a state machine of its threads: submitters between
  their stop check and their \<open>put\<close>, the workers in their loop, their execution and their drain, and the
  futures. An event is one atomic action of a thread; \<open>step\<close> is \<open>None\<close> where the event is not enabled.
  \<open>PriorityQueue.get\<close> returns an entry that is least in \<open>(priority, created_at)\<close>: the documented
  contract, under which equal entries come out in any order.
\<close>

section \<open>State\<close>

record task =
  tk_priority :: int
  tk_created_at :: int
  tk_sequence :: nat

datatype 'r future = FPending | FCancelled | FRunning | FResult 'r | FException string

datatype worker = AtHead | Getting | Executing task | Draining | DrainGetting | Exited

record 'r scheduler =
  sc_queue :: "task list"
  sc_queue_size :: int
  sc_sequence :: nat
  sc_stop :: bool
  sc_submitting :: "task list"
  sc_workers :: "worker list"
  sc_futures :: "nat \<Rightarrow> 'r future option"

definition new_scheduler :: "nat \<Rightarrow> int \<Rightarrow> 'r scheduler" where
  "new_scheduler max_workers queue_size =
     \<lparr>sc_queue = [], sc_queue_size = queue_size, sc_sequence = 0, sc_stop = False, sc_submitting = [],
      sc_workers = replicate max_workers AtHead, sc_futures = (\<lambda>_. None)\<rparr>"

text \<open>A size of zero or less is unbounded.\<close>

definition queue_full :: "'r scheduler \<Rightarrow> bool" where
  "queue_full s \<longleftrightarrow> 0 < sc_queue_size s \<and> sc_queue_size s \<le> int (length (sc_queue s))"

text \<open>\<open>ScheduledTask\<close> compares by priority, then by creation time.\<close>

definition task_le :: "task \<Rightarrow> task \<Rightarrow> bool" where
  "task_le t u \<longleftrightarrow> tk_priority t < tk_priority u \<or> (tk_priority t = tk_priority u \<and> tk_created_at t \<le> tk_created_at u)"

definition least_entry :: "task \<Rightarrow> task list \<Rightarrow> bool" where
  "least_entry t q \<longleftrightarrow> t \<in> set q \<and> list_all (task_le t) q"

section \<open>Events\<close>

datatype 'r event =
    SubmitStart int int
  | SubmitPut task
  | SubmitFull task
  | LoopTest nat
  | Get nat task
  | GetEmpty nat
  | Finish nat "'r future"
  | DrainTest nat
  | DrainTake nat task
  | Cancel nat
  | Shutdown

definition worker_at :: "nat \<Rightarrow> 'r scheduler \<Rightarrow> worker option" where
  "worker_at w s = (if w < length (sc_workers s) then Some (sc_workers s ! w) else None)"

definition set_worker :: "nat \<Rightarrow> worker \<Rightarrow> 'r scheduler \<Rightarrow> 'r scheduler" where
  "set_worker w k s = s\<lparr>sc_workers := (sc_workers s)[w := k]\<rparr>"

definition set_future :: "nat \<Rightarrow> 'r future \<Rightarrow> 'r scheduler \<Rightarrow> 'r scheduler" where
  "set_future i f s = s\<lparr>sc_futures := (sc_futures s)(i \<mapsto> f)\<rparr>"

definition take_entry :: "task \<Rightarrow> 'r scheduler \<Rightarrow> 'r scheduler" where
  "take_entry t s = s\<lparr>sc_queue := remove1 t (sc_queue s)\<rparr>"

text \<open>\<open>submit\<close>: the stop check, the future and the sequence number; then the \<open>put\<close> or its \<open>Full\<close>.\<close>

definition submit_start :: "int \<Rightarrow> int \<Rightarrow> 'r scheduler \<Rightarrow> 'r scheduler option" where
  "submit_start priority now s =
     (if sc_stop s then None
      else let i = Suc (sc_sequence s)
           in Some (s\<lparr>sc_sequence := i, sc_futures := (sc_futures s)(i \<mapsto> FPending),
                sc_submitting := sc_submitting s @ [\<lparr>tk_priority = priority, tk_created_at = now, tk_sequence = i\<rparr>]\<rparr>))"

definition submit_put :: "task \<Rightarrow> 'r scheduler \<Rightarrow> 'r scheduler option" where
  "submit_put t s =
     (if t \<in> set (sc_submitting s) \<and> \<not> queue_full s
      then Some (s\<lparr>sc_submitting := remove1 t (sc_submitting s), sc_queue := sc_queue s @ [t]\<rparr>) else None)"

text \<open>\<open>SchedulerBusy\<close>: the future is never handed out.\<close>

definition submit_full :: "task \<Rightarrow> 'r scheduler \<Rightarrow> 'r scheduler option" where
  "submit_full t s =
     (if t \<in> set (sc_submitting s) \<and> queue_full s
      then Some (s\<lparr>sc_submitting := remove1 t (sc_submitting s),
                   sc_futures := (sc_futures s)(tk_sequence t := None)\<rparr>) else None)"

text \<open>\<open>set_running_or_notify_cancel\<close> after \<open>get\<close>, in the loop and in the drain.\<close>

definition worker_get :: "nat \<Rightarrow> task \<Rightarrow> 'r scheduler \<Rightarrow> 'r scheduler option" where
  "worker_get w t s =
     (if worker_at w s = Some Getting \<and> least_entry t (sc_queue s)
      then Some (case sc_futures s (tk_sequence t) of
             Some FPending \<Rightarrow> set_worker w (Executing t) (set_future (tk_sequence t) FRunning (take_entry t s))
           | _ \<Rightarrow> set_worker w AtHead (take_entry t s))
      else None)"

definition worker_drain :: "nat \<Rightarrow> task \<Rightarrow> 'r scheduler \<Rightarrow> 'r scheduler option" where
  "worker_drain w t s =
     (if worker_at w s = Some DrainGetting \<and> least_entry t (sc_queue s)
      then Some (set_worker w Draining (case sc_futures s (tk_sequence t) of
             Some FPending \<Rightarrow> set_future (tk_sequence t) (FException ''Scheduler stopped before execution.'') (take_entry t s)
           | _ \<Rightarrow> take_entry t s))
      else None)"

definition is_outcome :: "'r future \<Rightarrow> bool" where
  "is_outcome f = (case f of FResult _ \<Rightarrow> True | FException _ \<Rightarrow> True | _ \<Rightarrow> False)"

fun step :: "'r event \<Rightarrow> 'r scheduler \<Rightarrow> 'r scheduler option" where
  "step (SubmitStart p now) s = submit_start p now s"
| "step (SubmitPut t) s = submit_put t s"
| "step (SubmitFull t) s = submit_full t s"
| "step (LoopTest w) s =
     (if worker_at w s = Some AtHead then Some (set_worker w (if sc_stop s then Draining else Getting) s) else None)"
| "step (Get w t) s = worker_get w t s"
| "step (GetEmpty w) s =
     (if worker_at w s = Some Getting \<and> sc_queue s = [] then Some (set_worker w AtHead s) else None)"
| "step (Finish w f) s =
     (case worker_at w s of
        Some (Executing t) \<Rightarrow>
          (if is_outcome f then Some (set_worker w AtHead (set_future (tk_sequence t) f s)) else None)
      | _ \<Rightarrow> None)"
| "step (DrainTest w) s =
     (if worker_at w s = Some Draining
      then Some (set_worker w (if sc_queue s = [] then Exited else DrainGetting) s) else None)"
| "step (DrainTake w t) s = worker_drain w t s"
| "step (Cancel i) s =
     (if sc_futures s i = Some FPending \<and> i \<notin> tk_sequence ` set (sc_submitting s)
      then Some (set_future i FCancelled s) else None)"
| "step Shutdown s = Some (s\<lparr>sc_stop := True\<rparr>)"

inductive reachable :: "'r scheduler \<Rightarrow> 'r scheduler \<Rightarrow> bool" for s where
  reach_refl: "reachable s s"
| reach_step: "reachable s t \<Longrightarrow> step e t = Some u \<Longrightarrow> reachable s u"

inductive_cases reachableE: "reachable s t"

fun run_events :: "'r event list \<Rightarrow> 'r scheduler \<Rightarrow> 'r scheduler option" where
  "run_events [] s = Some s"
| "run_events (e # es) s = (case step e s of None \<Rightarrow> None | Some t \<Rightarrow> run_events es t)"

end
