(* ===== verification/Scheduler_Properties.thy ===== *)
theory Scheduler_Properties
  imports Task_Scheduler
begin

text \<open>
  Properties of the task scheduler over every reachable state: where each task is, how its future
  settles, what a drain leaves behind; and two runs in which a shutdown leaves a future pending and a
  worker blocked.
\<close>

section \<open>The invariant\<close>

definition executes :: "'r scheduler \<Rightarrow> nat \<Rightarrow> nat \<Rightarrow> bool" where
  "executes s w i \<longleftrightarrow> (\<exists>t. worker_at w s = Some (Executing t) \<and> tk_sequence t = i)"

definition scheduler_ok :: "'r scheduler \<Rightarrow> bool" where
  "scheduler_ok s \<longleftrightarrow>
     distinct (map tk_sequence (sc_submitting s)) \<and> distinct (map tk_sequence (sc_queue s))
   \<and> tk_sequence ` set (sc_submitting s) \<inter> tk_sequence ` set (sc_queue s) = {}
   \<and> (\<forall>i \<in> tk_sequence ` set (sc_queue s). sc_futures s i \<in> {Some FPending, Some FCancelled})
   \<and> (\<forall>i \<in> tk_sequence ` set (sc_submitting s). sc_futures s i = Some FPending)
   \<and> (\<forall>w i. executes s w i \<longrightarrow> sc_futures s i = Some FRunning)
   \<and> (\<forall>w v i. executes s w i \<longrightarrow> executes s v i \<longrightarrow> w = v)
   \<and> (\<forall>i. sc_futures s i = Some FRunning \<longrightarrow> (\<exists>w. executes s w i))
   \<and> (\<forall>i. sc_futures s i = Some FPending \<longrightarrow>
        i \<in> tk_sequence ` set (sc_submitting s) \<union> tk_sequence ` set (sc_queue s))
   \<and> (\<forall>i. sc_futures s i \<noteq> None \<longrightarrow> i \<le> sc_sequence s)
   \<and> (0 < sc_queue_size s \<longrightarrow> int (length (sc_queue s)) \<le> sc_queue_size s)"

lemma scheduler_okD:
  assumes "scheduler_ok s"
  shows "distinct (map tk_sequence (sc_submitting s))" and "distinct (map tk_sequence (sc_queue s))"
    and "i \<in> tk_sequence ` set (sc_submitting s) \<Longrightarrow> i \<notin> tk_sequence ` set (sc_queue s)"
    and "i \<in> tk_sequence ` set (sc_queue s) \<Longrightarrow> sc_futures s i = Some FPending \<or> sc_futures s i = Some FCancelled"
    and "i \<in> tk_sequence ` set (sc_submitting s) \<Longrightarrow> sc_futures s i = Some FPending"
    and "executes s w i \<Longrightarrow> sc_futures s i = Some FRunning"
    and "executes s w i \<Longrightarrow> executes s v i \<Longrightarrow> w = v"
    and "sc_futures s i = Some FRunning \<Longrightarrow> \<exists>w. executes s w i"
    and "sc_futures s i = Some FPending \<Longrightarrow>
        i \<in> tk_sequence ` set (sc_submitting s) \<union> tk_sequence ` set (sc_queue s)"
    and "sc_futures s i = Some f \<Longrightarrow> i \<le> sc_sequence s"
    and "0 < sc_queue_size s \<Longrightarrow> int (length (sc_queue s)) \<le> sc_queue_size s"
  using assms unfolding scheduler_ok_def by blast+

lemma scheduler_ok_new: "scheduler_ok (new_scheduler n q)"
  by (auto simp: scheduler_ok_def new_scheduler_def executes_def worker_at_def)

lemma worker_at_set [simp]:
  "worker_at v (set_worker w k s) = (if v = w \<and> w < length (sc_workers s) then Some k else worker_at v s)"
  by (auto simp: worker_at_def set_worker_def)

lemma worker_at_frame [simp]:
  "worker_at w (set_future i f s) = worker_at w s" "worker_at w (take_entry t s) = worker_at w s"
  "worker_at w (s\<lparr>sc_queue := q\<rparr>) = worker_at w s" "worker_at w (s\<lparr>sc_submitting := b\<rparr>) = worker_at w s"
  "worker_at w (s\<lparr>sc_stop := c\<rparr>) = worker_at w s" "worker_at w (s\<lparr>sc_futures := g\<rparr>) = worker_at w s"
  "worker_at w (s\<lparr>sc_sequence := n\<rparr>) = worker_at w s"
  by (simp_all add: worker_at_def set_future_def take_entry_def)

lemma worker_at_length: "worker_at w s = Some k \<Longrightarrow> w < length (sc_workers s)"
  by (simp add: worker_at_def split: if_splits)

lemma set_worker_fields [simp]:
  "sc_queue (set_worker w k s) = sc_queue s" "sc_submitting (set_worker w k s) = sc_submitting s"
  "sc_futures (set_worker w k s) = sc_futures s" "sc_sequence (set_worker w k s) = sc_sequence s"
  "sc_queue_size (set_worker w k s) = sc_queue_size s" "sc_stop (set_worker w k s) = sc_stop s"
  "length (sc_workers (set_worker w k s)) = length (sc_workers s)"
  by (simp_all add: set_worker_def)

lemma set_future_fields [simp]:
  "sc_queue (set_future i f s) = sc_queue s" "sc_submitting (set_future i f s) = sc_submitting s"
  "sc_futures (set_future i f s) = (sc_futures s)(i \<mapsto> f)" "sc_sequence (set_future i f s) = sc_sequence s"
  "sc_queue_size (set_future i f s) = sc_queue_size s" "sc_stop (set_future i f s) = sc_stop s"
  "sc_workers (set_future i f s) = sc_workers s"
  by (simp_all add: set_future_def)

lemma take_entry_fields [simp]:
  "sc_queue (take_entry t s) = remove1 t (sc_queue s)" "sc_submitting (take_entry t s) = sc_submitting s"
  "sc_futures (take_entry t s) = sc_futures s" "sc_sequence (take_entry t s) = sc_sequence s"
  "sc_queue_size (take_entry t s) = sc_queue_size s" "sc_stop (take_entry t s) = sc_stop s"
  "sc_workers (take_entry t s) = sc_workers s"
  by (simp_all add: take_entry_def)

lemma remove1_key:
  assumes "distinct (map f ys)" and "t \<in> set ys"
  shows "f ` set (remove1 t ys) = f ` set ys - {f t}"
proof -
  have "distinct ys" using assms(1) by (simp add: distinct_map)
  then have "set (remove1 t ys) = set ys - {t}" by simp
  with assms show ?thesis by (auto simp: distinct_map inj_on_def)
qed

lemma distinct_remove1_key: "distinct (map f ys) \<Longrightarrow> distinct (map f (remove1 t ys))"
  by (simp add: distinct_map inj_on_def)

lemma scheduler_okI:
  assumes "distinct (map tk_sequence (sc_submitting s))" and "distinct (map tk_sequence (sc_queue s))"
    and "tk_sequence ` set (sc_submitting s) \<inter> tk_sequence ` set (sc_queue s) = {}"
    and "\<And>i. i \<in> tk_sequence ` set (sc_queue s) \<Longrightarrow> sc_futures s i \<in> {Some FPending, Some FCancelled}"
    and "\<And>i. i \<in> tk_sequence ` set (sc_submitting s) \<Longrightarrow> sc_futures s i = Some FPending"
    and "\<And>w i. executes s w i \<Longrightarrow> sc_futures s i = Some FRunning"
    and "\<And>w v i. executes s w i \<Longrightarrow> executes s v i \<Longrightarrow> w = v"
    and "\<And>i. sc_futures s i = Some FRunning \<Longrightarrow> \<exists>w. executes s w i"
    and "\<And>i. sc_futures s i = Some FPending \<Longrightarrow> i \<in> tk_sequence ` set (sc_submitting s) \<union> tk_sequence ` set (sc_queue s)"
    and "\<And>i. sc_futures s i \<noteq> None \<Longrightarrow> i \<le> sc_sequence s"
    and "0 < sc_queue_size s \<Longrightarrow> int (length (sc_queue s)) \<le> sc_queue_size s"
  shows "scheduler_ok s"
  unfolding scheduler_ok_def
proof (intro conjI ballI allI impI)
  show "w = v" if "executes s w i" "executes s v i" for w v i using that by (rule assms(7))
  show "sc_futures s i \<in> {Some FPending, Some FCancelled}" if "i \<in> tk_sequence ` set (sc_queue s)" for i
    using that by (rule assms(4))
qed (simp_all add: assms del: Un_iff)

lemma idle_worker_ok:
  assumes ok: "scheduler_ok s" and w: "worker_at w s = Some k" and k: "\<And>t. k \<noteq> Executing t" "\<And>t. k' \<noteq> Executing t"
  shows "scheduler_ok (set_worker w k' s)"
proof -
  have "executes (set_worker w k' s) v i \<longleftrightarrow> executes s v i" for v i
    using w k by (auto simp: executes_def)
  with ok show ?thesis by (simp add: scheduler_ok_def)
qed

lemma least_entry_mem: "least_entry t q \<Longrightarrow> t \<in> set q"
  by (simp add: least_entry_def)

text \<open>An entry leaves the queue, its pending future settles or starts to run.\<close>

lemma take_entry_ids:
  assumes "scheduler_ok s" and "t \<in> set (sc_queue s)"
  shows "distinct (map tk_sequence (remove1 t (sc_queue s)))"
    and "tk_sequence ` set (remove1 t (sc_queue s)) = tk_sequence ` set (sc_queue s) - {tk_sequence t}"
    and "tk_sequence t \<notin> tk_sequence ` set (sc_submitting s)"
    and "sc_futures s (tk_sequence t) \<in> {Some FPending, Some FCancelled}"
    and "int (length (remove1 t (sc_queue s))) \<le> int (length (sc_queue s))"
proof -
  note d = scheduler_okD [OF assms(1)]
  have i: "tk_sequence t \<in> tk_sequence ` set (sc_queue s)" using assms(2) by (rule imageI)
  show "distinct (map tk_sequence (remove1 t (sc_queue s)))" using d(2) by (rule distinct_remove1_key)
  show "tk_sequence ` set (remove1 t (sc_queue s)) = tk_sequence ` set (sc_queue s) - {tk_sequence t}"
    using d(2) assms(2) by (rule remove1_key)
  show "tk_sequence t \<notin> tk_sequence ` set (sc_submitting s)" using d(3) i by blast
  show "sc_futures s (tk_sequence t) \<in> {Some FPending, Some FCancelled}" using d(4) i by blast
  show "int (length (remove1 t (sc_queue s))) \<le> int (length (sc_queue s))" by (simp add: length_remove1)
qed

lemma entry_leaves_ok:
  assumes ok: "scheduler_ok s" and t: "t \<in> set (sc_queue s)"
    and u: "sc_queue u = remove1 t (sc_queue s)" "sc_submitting u = sc_submitting s"
      "sc_sequence u = sc_sequence s" "sc_queue_size u = sc_queue_size s"
    and other: "\<And>i. i \<noteq> tk_sequence t \<Longrightarrow> sc_futures u i = sc_futures s i"
    and ex: "\<And>v i. i \<noteq> tk_sequence t \<Longrightarrow> executes u v i \<longleftrightarrow> executes s v i"
    and own: "sc_futures u (tk_sequence t) \<noteq> Some FPending" "sc_futures u (tk_sequence t) \<noteq> None"
    and run: "(\<exists>w. \<forall>v. executes u v (tk_sequence t) \<longleftrightarrow> v = w) \<and> sc_futures u (tk_sequence t) = Some FRunning
      \<or> (\<forall>v. \<not> executes u v (tk_sequence t)) \<and> sc_futures u (tk_sequence t) \<noteq> Some FRunning"
  shows "scheduler_ok u"
proof (rule scheduler_okI)
  note d = scheduler_okD [OF ok] and ids = take_entry_ids [OF ok t]
  show "distinct (map tk_sequence (sc_submitting u))" "distinct (map tk_sequence (sc_queue u))"
    using d(1) ids(1) u by simp_all
  show "tk_sequence ` set (sc_submitting u) \<inter> tk_sequence ` set (sc_queue u) = {}"
    unfolding u ids(2) using d(3) by blast
  show "sc_futures u i \<in> {Some FPending, Some FCancelled}" if "i \<in> tk_sequence ` set (sc_queue u)" for i
    using that d(4) [of i] other [of i] unfolding u ids(2) by auto
  show "sc_futures u i = Some FPending" if "i \<in> tk_sequence ` set (sc_submitting u)" for i
    using that d(5) [of i] ids(3) other [of i] unfolding u by metis
  show "sc_futures u i = Some FRunning" if "executes u w i" for w i
    using that run d(6) ex other by (cases "i = tk_sequence t") auto
  show "w = v" if "executes u w i" "executes u v i" for w v i
    using that run d(7) ex by (cases "i = tk_sequence t") auto
  show "\<exists>w. executes u w i" if "sc_futures u i = Some FRunning" for i
    using that run d(8) ex other by (cases "i = tk_sequence t") auto
  show "i \<in> tk_sequence ` set (sc_submitting u) \<union> tk_sequence ` set (sc_queue u)"
    if "sc_futures u i = Some FPending" for i
    using that own(1) other [of i] d(9) [of i] unfolding u ids(2) by (cases "i = tk_sequence t") auto
  have "\<exists>f. sc_futures s (tk_sequence t) = Some f" using ids(4) by auto
  then show "i \<le> sc_sequence u" if "sc_futures u i \<noteq> None" for i
    using that other [of i] d(10) unfolding u by (cases "i = tk_sequence t") auto
  show "int (length (sc_queue u)) \<le> sc_queue_size u" if "0 < sc_queue_size u"
    using that d(11) ids(5) unfolding u by linarith
qed

lemma worker_get_ok:
  assumes ok: "scheduler_ok s" and run: "worker_get w t s = Some u"
  shows "scheduler_ok u"
proof -
  have w: "worker_at w s = Some Getting" and t: "t \<in> set (sc_queue s)"
    and u: "u = (case sc_futures s (tk_sequence t) of
             Some FPending \<Rightarrow> set_worker w (Executing t) (set_future (tk_sequence t) FRunning (take_entry t s))
           | _ \<Rightarrow> set_worker w AtHead (take_entry t s))"
    using run by (auto simp: worker_get_def least_entry_def split: if_splits)
  note len = worker_at_length [OF w]
  have none: "\<not> executes s v (tk_sequence t)" for v
    using scheduler_okD(6) [OF ok] take_entry_ids(4) [OF ok t] by fastforce
  show ?thesis
  proof (cases "sc_futures s (tk_sequence t) = Some FPending")
    case True
    then have u: "u = set_worker w (Executing t) (set_future (tk_sequence t) FRunning (take_entry t s))" using u by simp
    have "executes u v i \<longleftrightarrow> (if v = w then i = tk_sequence t else executes s v i)" for v i
      using len by (auto simp: u executes_def)
    moreover have "\<not> executes s w i" for i using w by (simp add: executes_def)
    ultimately show ?thesis using none by (intro entry_leaves_ok [OF ok t]) (auto simp: u)
  next
    case False
    then have c: "sc_futures s (tk_sequence t) = Some FCancelled" using take_entry_ids(4) [OF ok t] by auto
    then have u: "u = set_worker w AtHead (take_entry t s)" using u by simp
    have "executes u v i \<longleftrightarrow> executes s v i" for v i using w by (auto simp: u executes_def)
    then show ?thesis using none c by (intro entry_leaves_ok [OF ok t]) (auto simp: u)
  qed
qed

lemma worker_drain_ok:
  assumes ok: "scheduler_ok s" and run: "worker_drain w t s = Some u"
  shows "scheduler_ok u"
proof -
  have w: "worker_at w s = Some DrainGetting" and t: "t \<in> set (sc_queue s)"
    using run by (auto simp: worker_drain_def least_entry_def split: if_splits)
  have none: "\<not> executes s v (tk_sequence t)" for v
    using scheduler_okD(6) [OF ok] take_entry_ids(4) [OF ok t] by fastforce
  have ids: "sc_futures s (tk_sequence t) = Some FPending \<or> sc_futures s (tk_sequence t) = Some FCancelled"
    using take_entry_ids(4) [OF ok t] by auto
  then have u: "u = set_worker w Draining (if sc_futures s (tk_sequence t) = Some FPending
      then set_future (tk_sequence t) (FException ''Scheduler stopped before execution.'') (take_entry t s) else take_entry t s)"
    using run by (auto simp: worker_drain_def split: if_splits)
  have "executes u v i \<longleftrightarrow> executes s v i" for v i using w by (auto simp: u executes_def)
  then show ?thesis using none ids by (intro entry_leaves_ok [OF ok t]) (auto simp: u)
qed
lemma submit_start_ok:
  assumes ok: "scheduler_ok s" and run: "submit_start p now s = Some u"
  shows "scheduler_ok u"
proof (rule scheduler_okI)
  note d = scheduler_okD [OF ok]
  let ?i = "Suc (sc_sequence s)"
  have u: "sc_queue u = sc_queue s" "sc_futures u = (sc_futures s)(?i \<mapsto> FPending)" "sc_sequence u = ?i"
      "tk_sequence ` set (sc_submitting u) = insert ?i (tk_sequence ` set (sc_submitting s))"
      "map tk_sequence (sc_submitting u) = map tk_sequence (sc_submitting s) @ [?i]"
      "sc_queue_size u = sc_queue_size s" "sc_workers u = sc_workers s"
    using run by (auto simp: submit_start_def Let_def split: if_splits)
  have ex: "executes u v i \<longleftrightarrow> executes s v i" for v i by (simp add: executes_def worker_at_def u)
  have new: "i \<noteq> ?i" if "sc_futures s i = Some f" for i f using d(10) that by fastforce
  have sub: "?i \<notin> tk_sequence ` set (sc_submitting s)" using new d(5) by blast
  have que: "?i \<notin> tk_sequence ` set (sc_queue s)" using new d(4) by blast
  show "distinct (map tk_sequence (sc_submitting u))" "distinct (map tk_sequence (sc_queue u))"
    unfolding u using d(1,2) sub by simp_all
  show "tk_sequence ` set (sc_submitting u) \<inter> tk_sequence ` set (sc_queue u) = {}"
    unfolding u using d(3) que by blast
  show "sc_futures u i \<in> {Some FPending, Some FCancelled}" if "i \<in> tk_sequence ` set (sc_queue u)" for i
    using that d(4) unfolding u by auto
  show "sc_futures u i = Some FPending" if "i \<in> tk_sequence ` set (sc_submitting u)" for i
    using that d(5) [of i] unfolding u by auto
  show "sc_futures u i = Some FRunning" if "executes u w i" for w i
    using that d(6) new [of i] unfolding u ex by fastforce
  show "w = v" if "executes u w i" "executes u v i" for w v i using that d(7) unfolding ex by blast
  show "\<exists>w. executes u w i" if "sc_futures u i = Some FRunning" for i
    using that d(8) unfolding u ex by (auto split: if_splits)
  show "i \<in> tk_sequence ` set (sc_submitting u) \<union> tk_sequence ` set (sc_queue u)" if "sc_futures u i = Some FPending" for i
    using that d(9) [of i] unfolding u by (auto split: if_splits)
  show "i \<le> sc_sequence u" if "sc_futures u i \<noteq> None" for i
    using that d(10) [of i] unfolding u by (fastforce split: if_splits)
  show "int (length (sc_queue u)) \<le> sc_queue_size u" if "0 < sc_queue_size u" using that d(11) unfolding u by simp
qed

lemma submit_leaves:
  assumes ok: "scheduler_ok s" and t: "t \<in> set (sc_submitting s)"
  shows "distinct (map tk_sequence (remove1 t (sc_submitting s)))"
    and "tk_sequence ` set (remove1 t (sc_submitting s)) = tk_sequence ` set (sc_submitting s) - {tk_sequence t}"
    and "tk_sequence t \<notin> tk_sequence ` set (sc_queue s)" and "sc_futures s (tk_sequence t) = Some FPending"
    and "\<not> executes s v (tk_sequence t)"
proof -
  note d = scheduler_okD [OF ok]
  have i: "tk_sequence t \<in> tk_sequence ` set (sc_submitting s)" using t by (rule imageI)
  show "distinct (map tk_sequence (remove1 t (sc_submitting s)))" using d(1) by (rule distinct_remove1_key)
  show "tk_sequence ` set (remove1 t (sc_submitting s)) = tk_sequence ` set (sc_submitting s) - {tk_sequence t}"
    using d(1) t by (rule remove1_key)
  show "tk_sequence t \<notin> tk_sequence ` set (sc_queue s)" using d(3) i by blast
  show f: "sc_futures s (tk_sequence t) = Some FPending" using d(5) i by blast
  show "\<not> executes s v (tk_sequence t)" using d(6) f by fastforce
qed

lemma submit_put_ok:
  assumes ok: "scheduler_ok s" and run: "submit_put t s = Some u"
  shows "scheduler_ok u"
proof (rule scheduler_okI)
  note d = scheduler_okD [OF ok]
  have t: "t \<in> set (sc_submitting s)" and nf: "\<not> queue_full s"
    and u: "sc_queue u = sc_queue s @ [t]" "sc_futures u = sc_futures s" "sc_sequence u = sc_sequence s"
      "sc_submitting u = remove1 t (sc_submitting s)" "sc_queue_size u = sc_queue_size s" "sc_workers u = sc_workers s"
    using run by (auto simp: submit_put_def split: if_splits)
  note l = submit_leaves [OF ok t]
  have ex: "executes u v i \<longleftrightarrow> executes s v i" for v i by (simp add: executes_def worker_at_def u)
  have q: "tk_sequence ` set (sc_queue u) = insert (tk_sequence t) (tk_sequence ` set (sc_queue s))" by (simp add: u)
  show "distinct (map tk_sequence (sc_submitting u))" "distinct (map tk_sequence (sc_queue u))"
    unfolding u using d(2) l(1,3) by simp_all
  show "tk_sequence ` set (sc_submitting u) \<inter> tk_sequence ` set (sc_queue u) = {}"
    unfolding q u(4) l(2) using d(3) by blast
  show "sc_futures u i \<in> {Some FPending, Some FCancelled}" if "i \<in> tk_sequence ` set (sc_queue u)" for i
    using that d(4) l(4) unfolding q u(2) by auto
  show "sc_futures u i = Some FPending" if "i \<in> tk_sequence ` set (sc_submitting u)" for i
    using that d(5) [of i] unfolding u(2,4) l(2) by blast
  show "sc_futures u i = Some FRunning" if "executes u w i" for w i using that d(6) unfolding u ex by blast
  show "w = v" if "executes u w i" "executes u v i" for w v i using that d(7) unfolding ex by blast
  show "\<exists>w. executes u w i" if "sc_futures u i = Some FRunning" for i using that d(8) unfolding u ex by blast
  show "i \<in> tk_sequence ` set (sc_submitting u) \<union> tk_sequence ` set (sc_queue u)" if "sc_futures u i = Some FPending" for i
    using that d(9) [of i] unfolding q u(2,4) l(2) by blast
  show "i \<le> sc_sequence u" if "sc_futures u i \<noteq> None" for i using that d(10) [of i] unfolding u by blast
  show "int (length (sc_queue u)) \<le> sc_queue_size u" if "0 < sc_queue_size u"
    using that nf unfolding u queue_full_def by simp
qed

lemma submit_full_ok:
  assumes ok: "scheduler_ok s" and run: "submit_full t s = Some u"
  shows "scheduler_ok u"
proof (rule scheduler_okI)
  note d = scheduler_okD [OF ok]
  have t: "t \<in> set (sc_submitting s)"
    and u: "sc_queue u = sc_queue s" "sc_futures u = (sc_futures s)(tk_sequence t := None)" "sc_sequence u = sc_sequence s"
      "sc_submitting u = remove1 t (sc_submitting s)" "sc_queue_size u = sc_queue_size s" "sc_workers u = sc_workers s"
    using run by (auto simp: submit_full_def split: if_splits)
  note l = submit_leaves [OF ok t]
  have ex: "executes u v i \<longleftrightarrow> executes s v i" for v i by (simp add: executes_def worker_at_def u)
  show "distinct (map tk_sequence (sc_submitting u))" "distinct (map tk_sequence (sc_queue u))"
    unfolding u using d(2) l(1) by simp_all
  show "tk_sequence ` set (sc_submitting u) \<inter> tk_sequence ` set (sc_queue u) = {}"
    unfolding u(1,4) l(2) using d(3) by blast
  show "sc_futures u i \<in> {Some FPending, Some FCancelled}" if "i \<in> tk_sequence ` set (sc_queue u)" for i
    using that d(4) [of i] l(3) unfolding u by (cases "i = tk_sequence t") simp_all
  show "sc_futures u i = Some FPending" if "i \<in> tk_sequence ` set (sc_submitting u)" for i
    using that d(5) [of i] unfolding u(2,4) l(2) by auto
  show "sc_futures u i = Some FRunning" if "executes u w i" for w i
    using that d(6) l(5) unfolding u ex by (cases "i = tk_sequence t") auto
  show "w = v" if "executes u w i" "executes u v i" for w v i using that d(7) unfolding ex by blast
  show "\<exists>w. executes u w i" if "sc_futures u i = Some FRunning" for i
    using that d(8) unfolding u ex by (auto split: if_splits)
  show "i \<in> tk_sequence ` set (sc_submitting u) \<union> tk_sequence ` set (sc_queue u)" if "sc_futures u i = Some FPending" for i
    using that d(9) [of i] unfolding u(1,2,4) l(2) by (auto split: if_splits)
  show "i \<le> sc_sequence u" if "sc_futures u i \<noteq> None" for i
    using that d(10) [of i] unfolding u by (auto split: if_splits)
  show "int (length (sc_queue u)) \<le> sc_queue_size u" if "0 < sc_queue_size u" using that d(11) unfolding u by simp
qed

text \<open>A worker finishes its task, or a caller cancels a waiting one.\<close>

lemma finish_ok:
  assumes ok: "scheduler_ok s" and w: "worker_at w s = Some (Executing t)" and f: "is_outcome f"
  shows "scheduler_ok (set_worker w AtHead (set_future (tk_sequence t) f s))" (is "scheduler_ok ?u")
proof (rule scheduler_okI)
  note d = scheduler_okD [OF ok]
  have nf: "f \<noteq> FPending" "f \<noteq> FCancelled" "f \<noteq> FRunning" using f by (auto simp: is_outcome_def)
  have e: "executes s w (tk_sequence t)" using w by (simp add: executes_def)
  then have run: "sc_futures s (tk_sequence t) = Some FRunning" by (rule d(6))
  have len: "w < length (sc_workers s)" using w by (rule worker_at_length)
  have ex: "executes ?u v i \<longleftrightarrow> executes s v i \<and> i \<noteq> tk_sequence t" for v i
  proof -
    have "executes s v i \<Longrightarrow> v = w \<longleftrightarrow> i = tk_sequence t" using d(7) e w by (auto simp: executes_def)
    then show ?thesis using len by (auto simp: executes_def)
  qed
  have q: "tk_sequence t \<notin> tk_sequence ` set (sc_queue s)" using run d(4) by fastforce
  have b: "tk_sequence t \<notin> tk_sequence ` set (sc_submitting s)" using run d(5) by fastforce
  show "distinct (map tk_sequence (sc_submitting ?u))" "distinct (map tk_sequence (sc_queue ?u))" using d(1,2) by simp_all
  show "tk_sequence ` set (sc_submitting ?u) \<inter> tk_sequence ` set (sc_queue ?u) = {}"
    unfolding set_worker_fields set_future_fields using d(3) by blast
  show "sc_futures ?u i \<in> {Some FPending, Some FCancelled}" if "i \<in> tk_sequence ` set (sc_queue ?u)" for i
    using that d(4) [of i] q unfolding set_worker_fields set_future_fields by (cases "i = tk_sequence t") simp_all
  show "sc_futures ?u i = Some FPending" if "i \<in> tk_sequence ` set (sc_submitting ?u)" for i
    using that d(5) [of i] b unfolding set_worker_fields set_future_fields by (cases "i = tk_sequence t") simp_all
  show "sc_futures ?u i = Some FRunning" if "executes ?u v i" for v i using that d(6) [of v i] unfolding ex by simp
  show "v = v'" if "executes ?u v i" "executes ?u v' i" for v v' i using that d(7) unfolding ex by blast
  show "\<exists>v. executes ?u v i" if "sc_futures ?u i = Some FRunning" for i
    using that d(8) nf unfolding ex by (auto split: if_splits)
  show "i \<in> tk_sequence ` set (sc_submitting ?u) \<union> tk_sequence ` set (sc_queue ?u)" if "sc_futures ?u i = Some FPending" for i
    using that d(9) [of i] nf unfolding set_worker_fields set_future_fields by (auto split: if_splits)
  show "i \<le> sc_sequence ?u" if "sc_futures ?u i \<noteq> None" for i
    using that d(10) run unfolding set_worker_fields set_future_fields by (auto split: if_splits)
  show "int (length (sc_queue ?u)) \<le> sc_queue_size ?u" if "0 < sc_queue_size ?u" using that d(11) by simp
qed

lemma cancel_ok:
  assumes ok: "scheduler_ok s" and f: "sc_futures s i = Some FPending" and b: "i \<notin> tk_sequence ` set (sc_submitting s)"
  shows "scheduler_ok (set_future i FCancelled s)"
proof -
  have "executes (set_future i FCancelled s) v j \<longleftrightarrow> executes s v j" for v j by (simp add: executes_def)
  moreover have "i \<le> sc_sequence s" using scheduler_okD(10) [OF ok f] .
  moreover have "\<not> executes s v i" for v using scheduler_okD(6) [OF ok] f by fastforce
  ultimately show ?thesis
    using ok f b unfolding scheduler_ok_def set_future_fields by (auto split: if_splits)
qed

lemma shutdown_ok: "scheduler_ok s \<Longrightarrow> scheduler_ok (s\<lparr>sc_stop := True\<rparr>)"
  by (simp add: scheduler_ok_def executes_def)

lemma step_ok: "scheduler_ok s \<Longrightarrow> step e s = Some u \<Longrightarrow> scheduler_ok u"
  by (cases e) (auto split: if_splits option.splits worker.splits
      intro: submit_start_ok submit_put_ok submit_full_ok worker_get_ok worker_drain_ok finish_ok cancel_ok
        shutdown_ok idle_worker_ok)

lemma reachable_ok: "reachable s t \<Longrightarrow> scheduler_ok s \<Longrightarrow> scheduler_ok t"
  by (induction rule: reachable.induct) (auto intro: step_ok)
lemma step_sizes:
  "step e s = Some u \<Longrightarrow> length (sc_workers u) = length (sc_workers s) \<and> sc_queue_size u = sc_queue_size s"
  by (cases e) (auto simp: submit_start_def submit_put_def submit_full_def worker_get_def worker_drain_def Let_def
      split: if_splits option.splits worker.splits future.splits)

lemma reachable_sizes:
  "reachable s t \<Longrightarrow> length (sc_workers t) = length (sc_workers s) \<and> sc_queue_size t = sc_queue_size s"
  by (induction rule: reachable.induct) (auto dest: step_sizes)

lemma run_events_reachable: "run_events es t = Some u \<Longrightarrow> reachable s t \<Longrightarrow> reachable s u"
  by (induction es arbitrary: t) (auto split: option.splits intro: reach_step)

lemma step_settled:
  assumes ok: "scheduler_ok s" and run: "step e s = Some u" and f: "sc_futures s i = Some f" "f \<noteq> FPending" "f \<noteq> FRunning"
  shows "sc_futures u i = Some f"
proof -
  have new: "i \<noteq> Suc (sc_sequence s)" using scheduler_okD(10) [OF ok f(1)] by simp
  have full: "t \<in> set (sc_submitting s) \<Longrightarrow> tk_sequence t \<noteq> i" for t using submit_leaves(4) [OF ok] f by fastforce
  have exec: "worker_at w s = Some (Executing t) \<Longrightarrow> tk_sequence t \<noteq> i" for w t
    using scheduler_okD(6) [OF ok] f by (fastforce simp: executes_def)
  show ?thesis
    using run f new
    by (cases e) (auto simp: submit_start_def submit_put_def submit_full_def worker_get_def worker_drain_def Let_def
        split: if_splits option.splits worker.splits future.splits dest: full exec)
qed

section \<open>Properties\<close>


definition sample_task :: task where
  "sample_task = \<lparr>tk_priority = 0, tk_created_at = 5, tk_sequence = 1\<rparr>"

text \<open>A run that executes one task, and the state while it runs.\<close>

definition running_events :: "nat event list" where
  "running_events = [SubmitStart 0 5, SubmitPut sample_task, LoopTest 0, Get 0 sample_task]"

definition running_state :: "nat scheduler" where
  "running_state = (case run_events running_events (new_scheduler 2 1) of Some s \<Rightarrow> s | None \<Rightarrow> new_scheduler 0 0)"

lemma running_state_reached: "reachable (new_scheduler 2 1) running_state"
proof -
  have "case run_events running_events (new_scheduler 2 1) of Some s \<Rightarrow> True | None \<Rightarrow> False" by code_simp
  then obtain s where s: "run_events running_events (new_scheduler 2 1) = Some s" by (auto split: option.splits)
  then have "running_state = s" by (simp add: running_state_def)
  with s show ?thesis using run_events_reachable [OF s reach_refl] by simp
qed


text \<open>C23: A future settles once: a result, an exception or a cancellation is never overwritten by any
  later event, so no task runs again and none runs after it was cancelled.\<close>

theorem future_settles_once:
  assumes "reachable (new_scheduler n q) s" and "reachable s t"
    and "sc_futures s i = Some f" and "f \<noteq> FPending" and "f \<noteq> FRunning"
  shows "sc_futures t i = Some f \<and> \<not> executes t w i"
proof -
  have main: "sc_futures t i = Some f \<and> scheduler_ok t"
    using assms(2) reachable_ok [OF assms(1) scheduler_ok_new]
  proof (induction rule: reachable.induct)
    case reach_refl
    then show ?case using assms(3) by simp
  next
    case (reach_step t e u)
    then show ?case using step_settled [of t e u i f] step_ok [of t e u] assms(4,5) by simp
  qed
  then show ?thesis using scheduler_okD(6) [of t w i] assms(5) by fastforce
qed

theorem future_settles_once_witness:
  "\<exists>s :: nat scheduler. reachable (new_scheduler 2 1) s \<and> sc_futures s 1 = Some (FResult 9) \<and> \<not> executes s 0 1"
proof -
  have "case step (Finish 0 (FResult 9)) running_state of Some s \<Rightarrow> sc_futures s 1 = Some (FResult 9) | None \<Rightarrow> False"
    by code_simp
  then obtain s where s: "step (Finish 0 (FResult 9)) running_state = Some s" and f: "sc_futures s 1 = Some (FResult 9)"
    by (auto split: option.splits)
  have r: "reachable (new_scheduler 2 1) s" using running_state_reached s by (rule reach_step)
  from future_settles_once [OF r reach_refl f] r f show ?thesis by blast
qed

lemma stopped_step:
  assumes "sc_stop s" "sc_submitting s = []" "step e s = Some u"
  shows "sc_stop u \<and> sc_submitting u = [] \<and> (sc_queue s = [] \<longrightarrow> sc_queue u = [])
    \<and> (worker_at w u = Some Exited \<longrightarrow> worker_at w s = Some Exited \<or> sc_queue u = [])"
  using assms
  by (cases e) (auto simp: submit_start_def submit_put_def submit_full_def worker_get_def worker_drain_def Let_def
      least_entry_def split: if_splits option.splits worker.splits future.splits)

text \<open>Draining completes: if a shutdown finds no submission in flight, then as soon as any worker
  leaves its drain loop the queue is empty and no future is pending, and this stays so forever.\<close>

theorem drain_leaves_nothing_pending:
  assumes "reachable (new_scheduler n q) s" and "sc_stop s" and "sc_submitting s = []"
    and "reachable s t" and "worker_at w s \<noteq> Some Exited" and "worker_at w t = Some Exited"
  shows "sc_queue t = [] \<and> sc_futures t i \<noteq> Some FPending"
proof -
  have inv: "sc_stop t \<and> sc_submitting t = [] \<and> (worker_at w t = Some Exited \<longrightarrow> sc_queue t = [])"
    using assms(4)
  proof (induction rule: reachable.induct)
    case (reach_step t e u)
    then show ?case using stopped_step [of t e u w] by blast
  qed (simp add: assms)
  have "scheduler_ok t" using reachable_ok assms(1,4) scheduler_ok_new by blast
  from scheduler_okD(9) [OF this, of i] inv assms(6) show ?thesis by auto
qed

text \<open>One queued task, a shutdown, and one worker that drains it.\<close>

definition draining_state :: "nat scheduler" where
  "draining_state = (case run_events [SubmitStart 0 5, SubmitPut sample_task, Shutdown] (new_scheduler 2 1) of
     Some s \<Rightarrow> s | None \<Rightarrow> new_scheduler 0 0)"

definition drain_events :: "nat event list" where
  "drain_events = [LoopTest 0, DrainTest 0, DrainTake 0 sample_task, DrainTest 0]"

definition drained_state :: "nat scheduler" where
  "drained_state = (case run_events drain_events draining_state of Some s \<Rightarrow> s | None \<Rightarrow> new_scheduler 0 0)"

lemma run_events_case:
  "(case run_events es s of Some t \<Rightarrow> True | None \<Rightarrow> False) \<Longrightarrow>
     reachable s (case run_events es s of Some t \<Rightarrow> t | None \<Rightarrow> u)"
  using run_events_reachable [OF _ reach_refl] by (auto split: option.splits)

theorem drain_leaves_nothing_pending_witness:
  "sc_queue drained_state = [] \<and> sc_futures drained_state 1 \<noteq> Some FPending"
proof -
  have "case run_events [SubmitStart 0 5, SubmitPut sample_task, Shutdown] (new_scheduler 2 1 :: nat scheduler) of
      Some t \<Rightarrow> True | None \<Rightarrow> False" by code_simp
  then have r: "reachable (new_scheduler 2 1) draining_state" unfolding draining_state_def by (rule run_events_case)
  have "case run_events drain_events draining_state of Some t \<Rightarrow> True | None \<Rightarrow> False" by code_simp
  then have d: "reachable draining_state drained_state" unfolding drained_state_def by (rule run_events_case)
  have "sc_stop draining_state" "sc_submitting draining_state = []" "worker_at 0 draining_state \<noteq> Some Exited"
    "worker_at 0 drained_state = Some Exited" by code_simp+
  from drain_leaves_nothing_pending [OF r this(1,2) d this(3,4)] show ?thesis by blast
qed

text \<open>The shutdown races the code leaves open. A submitter that passed the stop check before a shutdown
  still enqueues after every worker has exited: its future is pending, handed out, and no worker is left.
  And two draining workers that both saw one remaining task block: one takes it, the other waits in
  \<open>get\<close> without a timeout on an empty queue that no submission can fill any more.\<close>

theorem shutdown_races:
  "(case run_events [SubmitStart 0 5, Shutdown, LoopTest 0, DrainTest 0, SubmitPut sample_task]
       (new_scheduler 1 8 :: nat scheduler) of
      Some s \<Rightarrow> sc_futures s 1 = Some FPending \<and> sc_workers s = [Exited] \<and> sc_submitting s = []
    | None \<Rightarrow> False)
   \<and> (case run_events [SubmitStart 0 5, SubmitPut sample_task, Shutdown, LoopTest 0, LoopTest 1, DrainTest 0,
        DrainTest 1, DrainTake 0 sample_task, DrainTest 0] (new_scheduler 2 8 :: nat scheduler) of
      Some s \<Rightarrow> sc_workers s = [Exited, DrainGetting] \<and> sc_queue s = [] \<and> sc_submitting s = [] \<and> sc_stop s
    | None \<Rightarrow> False)"
  by code_simp

end
