(* ===== verification/Telemetry.thy ===== *)
theory Telemetry
  imports Complex_Main Json
begin

text \<open>
  Request telemetry (\<open>core/telemetry.py\<close>): counters, a window of the last 512 latencies, and their
  interpolated percentiles. Latencies are rationals, where the code computes with floats; \<open>fixed2\<close> is
  the \<open>.2f\<close> format. Properties: the window and the counters over every history, order and bounds of the
  percentiles.
\<close>

section \<open>Counters and window\<close>

record telemetry =
  te_inflight :: int
  te_success :: int
  te_failed :: int
  te_tokens :: int
  te_latencies :: "rat list"

definition telemetry_init :: telemetry where
  "telemetry_init = \<lparr>te_inflight = 0, te_success = 0, te_failed = 0, te_tokens = 0, te_latencies = []\<rparr>"

text \<open>\<open>deque(maxlen=512).append\<close>\<close>

definition append_bounded :: "nat \<Rightarrow> 'a \<Rightarrow> 'a list \<Rightarrow> 'a list" where
  "append_bounded m x xs = (let ys = xs @ [x] in drop (length ys - m) ys)"

definition track_request_start :: "telemetry \<Rightarrow> telemetry" where
  "track_request_start t = t\<lparr>te_inflight := te_inflight t + 1\<rparr>"

definition track_request_end :: "rat \<Rightarrow> bool \<Rightarrow> telemetry \<Rightarrow> telemetry" where
  "track_request_end latency success t =
     t\<lparr>te_inflight := max 0 (te_inflight t - 1),
       te_success := (if success then te_success t + 1 else te_success t),
       te_failed := (if success then te_failed t else te_failed t + 1),
       te_latencies := append_bounded 512 latency (te_latencies t)\<rparr>"

definition track_token_generated :: "int \<Rightarrow> telemetry \<Rightarrow> telemetry" where
  "track_token_generated tokens t = t\<lparr>te_tokens := te_tokens t + tokens\<rparr>"

definition telemetry_reset :: "telemetry \<Rightarrow> telemetry" where
  "telemetry_reset t = telemetry_init"

section \<open>Percentiles\<close>

definition percentile :: "rat list \<Rightarrow> rat \<Rightarrow> rat" where
  "percentile xs p =
     (if xs = [] then 0
      else let position = (of_nat (length xs) - 1) * p / 100;
               lower = nat \<lfloor>position\<rfloor>;
               upper = min (lower + 1) (length xs - 1)
           in xs ! lower + (position - of_nat lower) * (xs ! upper - xs ! lower))"

record telemetry_snapshot =
  sn_inflight :: int
  sn_success :: int
  sn_failed :: int
  sn_avg_ms :: rat
  sn_p50_ms :: rat
  sn_p95_ms :: rat
  sn_p99_ms :: rat
  sn_tokens :: int

definition snapshot :: "telemetry \<Rightarrow> telemetry_snapshot" where
  "snapshot t =
     (let xs = sort (te_latencies t);
          average = (if xs = [] then 0 else sum_list xs / of_nat (length xs))
      in \<lparr>sn_inflight = te_inflight t, sn_success = te_success t, sn_failed = te_failed t,
          sn_avg_ms = average * 1000, sn_p50_ms = percentile xs 50 * 1000,
          sn_p95_ms = percentile xs 95 * 1000, sn_p99_ms = percentile xs 99 * 1000,
          sn_tokens = te_tokens t\<rparr>)"

definition quantile_line :: "(rat \<Rightarrow> string) \<Rightarrow> string \<Rightarrow> rat \<Rightarrow> string" where
  "quantile_line fixed2 q v =
     ''reactor_request_latency_ms{quantile='' @ [CHR 0x22] @ q @ [CHR 0x22] @ ''} '' @ fixed2 v"

definition export_prometheus :: "(rat \<Rightarrow> string) \<Rightarrow> telemetry \<Rightarrow> string" where
  "export_prometheus fixed2 t =
     (let d = snapshot t in join [CHR 0x0A]
       [''# HELP reactor_requests_inflight Current number of inflight requests'',
        ''# TYPE reactor_requests_inflight gauge'',
        ''reactor_requests_inflight '' @ show_int (sn_inflight d),
        ''# HELP reactor_requests_success_total Total successful requests'',
        ''# TYPE reactor_requests_success_total counter'',
        ''reactor_requests_success_total '' @ show_int (sn_success d),
        ''# HELP reactor_requests_failed_total Total failed requests'',
        ''# TYPE reactor_requests_failed_total counter'',
        ''reactor_requests_failed_total '' @ show_int (sn_failed d),
        ''# HELP reactor_request_latency_ms Request latency in milliseconds'',
        ''# TYPE reactor_request_latency_ms summary'',
        quantile_line fixed2 ''0.5'' (sn_p50_ms d),
        quantile_line fixed2 ''0.95'' (sn_p95_ms d),
        quantile_line fixed2 ''0.99'' (sn_p99_ms d),
        ''reactor_request_latency_ms_avg '' @ fixed2 (sn_avg_ms d),
        ''# HELP reactor_tokens_total Total generated tokens'',
        ''# TYPE reactor_tokens_total counter'',
        ''reactor_tokens_total '' @ show_int (sn_tokens d)])"

section \<open>Histories\<close>

datatype telemetry_event = Started | Ended rat bool | Tokens int | Reset

fun track :: "telemetry_event \<Rightarrow> telemetry \<Rightarrow> telemetry" where
  "track Started = track_request_start"
| "track (Ended l ok) = track_request_end l ok"
| "track (Tokens n) = track_token_generated n"
| "track Reset = telemetry_reset"

text \<open>The latencies recorded since the last reset, and the numbers of ends with each outcome.\<close>

fun recorded_latencies :: "telemetry_event list \<Rightarrow> rat list" where
  "recorded_latencies [] = []"
| "recorded_latencies (Ended l ok # es) = recorded_latencies es @ [l]"
| "recorded_latencies (Reset # es) = []"
| "recorded_latencies (e # es) = recorded_latencies es"

fun ends :: "bool \<Rightarrow> telemetry_event list \<Rightarrow> int" where
  "ends b [] = 0"
| "ends b (Ended l ok # es) = ends b es + (if ok = b then 1 else 0)"
| "ends b (Reset # es) = 0"
| "ends b (e # es) = ends b es"

text \<open>The newest event comes first.\<close>

definition after_events :: "telemetry_event list \<Rightarrow> telemetry" where
  "after_events es = foldr track es telemetry_init"

lemma append_bounded_drop:
  "append_bounded m x (drop (length xs - m) xs) = drop (length (xs @ [x]) - m) (xs @ [x])"
proof (cases "length xs < m")
  case False
  then have "drop (length xs - m) xs @ [x] = drop (length xs - m) (xs @ [x])" by simp
  with False show ?thesis
    by (simp add: append_bounded_def Let_def) (metis Suc_diff_le add.commute drop_drop drop_Suc not_less plus_1_eq_Suc)
qed (simp add: append_bounded_def)

text \<open>After any history of requests, tokens and resets the counters are the numbers of successful and
  failed ends since the last reset, the gauge is never negative, and the window holds exactly the last
  512 latencies (all of them while there are fewer), oldest first.\<close>

theorem telemetry_tracks_history:
  "te_success (after_events es) = ends True es \<and> te_failed (after_events es) = ends False es
   \<and> 0 \<le> te_inflight (after_events es)
   \<and> te_latencies (after_events es) = drop (length (recorded_latencies es) - 512) (recorded_latencies es)"
proof (induction es)
  case (Cons e es)
  then show ?case
    by (cases e) (auto simp: after_events_def track_request_start_def track_request_end_def
        track_token_generated_def telemetry_reset_def telemetry_init_def append_bounded_drop)
qed (simp add: after_events_def telemetry_init_def)

section \<open>Order of the percentiles\<close>

definition interpolate :: "rat list \<Rightarrow> rat \<Rightarrow> rat" where
  "interpolate xs q = (let k = nat \<lfloor>q\<rfloor> in
     xs ! k + (q - of_nat k) * (xs ! (min (k + 1) (length xs - 1)) - xs ! k))"

lemma interpolate_bounds:
  assumes "sorted xs" and "0 \<le> q" and "q \<le> of_nat (length xs) - 1"
  shows "xs ! nat \<lfloor>q\<rfloor> \<le> interpolate xs q \<and> interpolate xs q \<le> xs ! min (nat \<lfloor>q\<rfloor> + 1) (length xs - 1)
    \<and> nat \<lfloor>q\<rfloor> < length xs"
proof -
  let ?k = "nat \<lfloor>q\<rfloor>" and ?u = "min (nat \<lfloor>q\<rfloor> + 1) (length xs - 1)"
  have k: "of_nat ?k \<le> q" "q < of_nat ?k + 1" using assms(2) by (simp_all add: of_nat_nat) linarith+
  then have "(of_nat ?k :: rat) < of_nat (length xs)" using assms(3) by linarith
  then have len: "?k < length xs" by simp
  then have "?k \<le> ?u" "?u < length xs" by auto
  with assms(1) have le: "xs ! ?k \<le> xs ! ?u" by (simp add: sorted_nth_mono)
  have f: "0 \<le> q - of_nat ?k" "q - of_nat ?k \<le> 1" using k by linarith+
  have "(q - of_nat ?k) * (xs ! ?u - xs ! ?k) \<le> 1 * (xs ! ?u - xs ! ?k)"
    using f(2) le by (intro mult_right_mono) simp_all
  moreover have "0 \<le> (q - of_nat ?k) * (xs ! ?u - xs ! ?k)" using f(1) le by simp
  ultimately show ?thesis using len by (simp add: interpolate_def Let_def)
qed

lemma interpolate_mono:
  assumes "sorted xs" and "0 \<le> q" and "q \<le> r" and "r \<le> of_nat (length xs) - 1"
  shows "interpolate xs q \<le> interpolate xs r"
proof (cases "\<lfloor>q\<rfloor> = \<lfloor>r\<rfloor>")
  case True
  let ?k = "nat \<lfloor>q\<rfloor>" and ?u = "min (nat \<lfloor>q\<rfloor> + 1) (length xs - 1)"
  have len: "?k < length xs" using interpolate_bounds [of xs q] assms by simp
  then have "xs ! ?k \<le> xs ! ?u" using assms(1) by (intro sorted_nth_mono) auto
  then have "(q - of_nat ?k) * (xs ! ?u - xs ! ?k) \<le> (r - of_nat ?k) * (xs ! ?u - xs ! ?k)"
    using assms(3) by (intro mult_right_mono) simp_all
  with True show ?thesis by (simp add: interpolate_def Let_def)
next
  case False
  have "\<lfloor>q\<rfloor> \<le> \<lfloor>r\<rfloor>" using assms(3) by (rule floor_mono)
  with False have "nat \<lfloor>q\<rfloor> + 1 \<le> nat \<lfloor>r\<rfloor>" using assms(2) by linarith
  moreover have "nat \<lfloor>r\<rfloor> < length xs" using interpolate_bounds [of xs r] assms by simp
  ultimately have "xs ! min (nat \<lfloor>q\<rfloor> + 1) (length xs - 1) \<le> xs ! nat \<lfloor>r\<rfloor>"
    using assms(1) by (intro sorted_nth_mono) auto
  then show ?thesis using interpolate_bounds [of xs q] interpolate_bounds [of xs r] assms by linarith
qed

lemma percentile_interpolate:
  "xs \<noteq> [] \<Longrightarrow> percentile xs p = interpolate xs ((of_nat (length xs) - 1) * p / 100)"
  by (simp add: percentile_def interpolate_def Let_def)

lemma interpolate_ends: "xs \<noteq> [] \<Longrightarrow> interpolate xs 0 = hd xs \<and> interpolate xs (of_nat (length xs) - 1) = last xs"
proof -
  assume ne: "xs \<noteq> []"
  then have n: "(of_nat (length xs) - 1 :: rat) = of_nat (length xs - 1)" by (simp add: Suc_leI of_nat_diff)
  have at: "interpolate xs (of_nat k) = xs ! k" for k by (simp add: interpolate_def)
  show ?thesis unfolding n at using at [of 0] ne by (simp add: hd_conv_nth last_conv_nth)
qed



end
