(* ===== verification/Inference_Server.thy ===== *)
theory Inference_Server
  imports Telemetry Errors "HOL-Library.AList"
begin

text \<open>
  The inference server and its residency registry (\<open>core/server.py\<close>, \<open>core/memory_manager.py\<close>). Plugin
  engines are parameters over an external state. The per-model lock makes loading and unloading a
  model one step. The task of a stream runs to its end before its queues are read: the consumer blocks
  on them and an item, once put, is read in its order, so reading earlier yields the same output.
  The Chinese texts are parameters, as strings are Latin-1 here.
\<close>

section \<open>Registry and server\<close>

type_synonym 'h registry = "(string \<times> 'h) list"

definition register_model :: "string \<Rightarrow> 'h \<Rightarrow> 'h registry \<Rightarrow> 'h registry" where
  "register_model m h r = AList.update m h r"

definition unregister_model :: "string \<Rightarrow> 'h registry \<Rightarrow> 'h registry" where
  "unregister_model m r = AList.delete m r"

definition get_loaded_model :: "string \<Rightarrow> 'h registry \<Rightarrow> 'h option" where
  "get_loaded_model m r = map_of r m"

definition get_loaded_models :: "'h registry \<Rightarrow> string list" where
  "get_loaded_models r = map fst r"

text \<open>\<open>memory_observation\<close>: \<open>None\<close> is a report that raises or cannot be read.\<close>

definition memory_observation :: "('h \<Rightarrow> (rat \<times> rat) option) \<Rightarrow> 'h registry \<Rightarrow> bool \<times> rat \<times> rat \<times> nat" where
  "memory_observation usage r =
     (let reports = List.map_filter (\<lambda>e. usage (snd e)) r
      in (reports \<noteq> [], sum_list (map fst reports), sum_list (map snd reports), length reports))"

text \<open>The text constants of the progress messages.\<close>

record texts =
  tx_connecting :: "string \<Rightarrow> string"
  tx_loading :: "string \<Rightarrow> string"
  tx_loaded :: string

text \<open>\<open>ei_infer\<close> yields its chunks and then ends or raises.\<close>

record ('e, 'h) engine_port =
  ei_factory :: "string \<Rightarrow> 'e \<Rightarrow> (exn + 'h) \<times> 'e"
  ei_load :: "'h \<Rightarrow> string \<Rightarrow> string option \<Rightarrow> dict \<Rightarrow> 'e \<Rightarrow> (exn + unit) \<times> 'e"
  ei_unload :: "'h \<Rightarrow> 'e \<Rightarrow> (exn + unit) \<times> 'e"
  ei_infer :: "'h \<Rightarrow> string \<Rightarrow> dict \<Rightarrow> 'e \<Rightarrow> (string list \<times> exn option) \<times> 'e"

record ('e, 'h) server =
  sv_engines :: "'h registry"
  sv_shutting_down :: bool
  sv_telemetry :: telemetry
  sv_ext :: 'e
  sv_progress :: "string list"

type_synonym ('e, 'h, 'a) srv = "(('e, 'h) server, exn, 'a) py"

definition runtime_error :: "string \<Rightarrow> exn" where
  "runtime_error t = PyException ''RuntimeError'' t None"

definition engine_call :: "('e \<Rightarrow> (exn + 'a) \<times> 'e) \<Rightarrow> ('e, 'h, 'a) srv" where
  "engine_call f = zoom sv_ext (\<lambda>e s. s\<lparr>sv_ext := e\<rparr>) f"

section \<open>Loading and unloading\<close>

record load_request =
  lr_model_id :: string
  lr_model_path :: string
  lr_adapter_path :: "string option"
  lr_provider_id :: string
  lr_engine_kwargs :: dict

definition report :: "bool \<Rightarrow> string \<Rightarrow> ('e, 'h, unit) srv" where
  "report callback message =
     (if callback then modS (\<lambda>s. s\<lparr>sv_progress := sv_progress s @ [message]\<rparr>) else ret ())"

definition load_model :: "texts \<Rightarrow> ('e, 'h) engine_port \<Rightarrow> load_request \<Rightarrow> 'h \<Rightarrow> bool \<Rightarrow> ('e, 'h, unit) srv" where
  "load_model tx p q h callback =
     bindE (report callback (tx_loading tx (lr_model_id q))) (\<lambda>_.
     engine_call (ei_load p h (lr_model_path q) (lr_adapter_path q) (lr_engine_kwargs q)))"

text \<open>\<open>ensure_model\<close>: \<open>callback\<close> says whether a progress callback was passed.\<close>

definition ensure_model ::
    "texts \<Rightarrow> ('e, 'h) engine_port \<Rightarrow> bool \<Rightarrow> load_request \<Rightarrow> bool \<Rightarrow> ('e, 'h, 'h) srv" where
  "ensure_model tx p allow_placeholder q callback =
     bindE (getS sv_shutting_down) (\<lambda>down.
     if down then raise (runtime_error ''Server is shutting down.'')
     else bindE (getS (\<lambda>s. get_loaded_model (lr_model_id q) (sv_engines s))) (\<lambda>loaded.
     case loaded of
       Some h \<Rightarrow> ret h
     | None \<Rightarrow>
         (if lr_model_path q = ''/path/to/model'' \<and> \<not> allow_placeholder
          then raise (ValueError ''Placeholder model path'')
          else bindE (report callback (tx_connecting tx (lr_provider_id q))) (\<lambda>_.
               bindE (engine_call (ei_factory p (lr_provider_id q))) (\<lambda>h.
               bindE (catchE (load_model tx p q h callback) (\<lambda>x.
                        bindE (catchE (engine_call (ei_unload p h)) (\<lambda>_. ret ())) (\<lambda>_. raise x))) (\<lambda>_.
               bindE (report callback (tx_loaded tx)) (\<lambda>_.
               bindE (modS (\<lambda>s. s\<lparr>sv_engines := register_model (lr_model_id q) h (sv_engines s)\<rparr>)) (\<lambda>_.
               ret h))))))))"

definition unload_model :: "('e, 'h) engine_port \<Rightarrow> string \<Rightarrow> ('e, 'h, unit) srv" where
  "unload_model p m =
     bindE (getS (\<lambda>s. get_loaded_model m (sv_engines s))) (\<lambda>loaded.
     case loaded of
       None \<Rightarrow> ret ()
     | Some h \<Rightarrow>
         bindE (engine_call (ei_unload p h)) (\<lambda>_.
         modS (\<lambda>s. s\<lparr>sv_engines := unregister_model m (sv_engines s)\<rparr>)))"

fun unload_all :: "('e, 'h) engine_port \<Rightarrow> string list \<Rightarrow> ('e, 'h, unit) srv" where
  "unload_all p [] = ret ()"
| "unload_all p (m # ms) = bindE (catchE (unload_model p m) (\<lambda>_. ret ())) (\<lambda>_. unload_all p ms)"

text \<open>The scheduler's own shutdown is in \<open>Task_Scheduler\<close>.\<close>

definition shutdown :: "('e, 'h) engine_port \<Rightarrow> ('e, 'h, unit) srv" where
  "shutdown p =
     bindE (modS (\<lambda>s. s\<lparr>sv_shutting_down := True\<rparr>)) (\<lambda>_.
     bindE (getS (\<lambda>s. sort (get_loaded_models (sv_engines s)))) (\<lambda>ms. unload_all p ms))"

section \<open>Streaming\<close>

definition SENTINEL :: string where "SENTINEL = ''__CY_LLM_STREAM_END__''"
definition PROGRESS_SENTINEL :: string where "PROGRESS_SENTINEL = ''__CY_LLM_PROGRESS_END__''"
definition LOADING :: string where "LOADING = ''__CY_LLM_LOADING__''"
definition LOADING_START :: string where "LOADING_START = ''__CY_LLM_LOADING_START__''"

text \<open>\<open>s.replace(m, '')\<close>; \<open>n\<close> characters of a removed occurrence are still to be skipped.\<close>

fun remove_all_from :: "nat \<Rightarrow> string \<Rightarrow> string \<Rightarrow> string" where
  "remove_all_from n m [] = []"
| "remove_all_from (Suc n) m (c # s) = remove_all_from n m s"
| "remove_all_from 0 m (c # s) =
     (if m \<noteq> [] \<and> startswith (c # s) m then remove_all_from (length m - 1) m s
      else c # remove_all_from 0 m s)"

definition progress_text :: "string \<Rightarrow> string" where
  "progress_text item = rstrip_char CHR ''_'' (remove_all_from 0 LOADING item)"

datatype item = StartNotice | Progress string | Chunk string

text \<open>The queues of one request after its task, and the exception the task caught.\<close>

record channels =
  ch_progress :: "string list"
  ch_response :: "string list"
  ch_error :: "exn option"

record stream_request =
  sq_load :: load_request
  sq_prompt :: string
  sq_generation_kwargs :: dict

definition prompt_problem :: "string \<Rightarrow> exn option" where
  "prompt_problem prompt =
     (if strip prompt = [] then Some (ValueError ''Prompt must not be empty.'')
      else if 50000 < int (length prompt) then Some (ValueError ''Prompt too long (max 50000 chars).'')
      else None)"

text \<open>\<open>_task\<close>: \<open>loaded\<close> was read before the submission; \<open>latency\<close> is what its clock measures.\<close>

definition stream_task ::
    "texts \<Rightarrow> ('e, 'h) engine_port \<Rightarrow> bool \<Rightarrow> rat \<Rightarrow> stream_request \<Rightarrow> bool
      \<Rightarrow> ('e, 'h) server \<Rightarrow> channels \<times> ('e, 'h) server" where
  "stream_task tx p allow latency q loaded s0 =
     (let s1 = s0\<lparr>sv_telemetry := track_request_start (sv_telemetry s0), sv_progress := []\<rparr>;
          (r, s2) = ensure_model tx p allow (sq_load q) (\<not> loaded) s1;
          messages = map (\<lambda>m. LOADING @ m @ ''__'') (sv_progress s2);
          before = (if loaded then [] else LOADING_START # messages);
          finished = (if loaded then [] else [PROGRESS_SENTINEL])
      in case r of
           Inl x \<Rightarrow>
             (\<lparr>ch_progress = before @ finished, ch_response = [SENTINEL], ch_error = Some x\<rparr>,
              s2\<lparr>sv_telemetry := track_request_end latency False (sv_telemetry s2)\<rparr>)
         | Inr h \<Rightarrow>
             (let ((chunks, failure), e) = ei_infer p h (sq_prompt q) (sq_generation_kwargs q) (sv_ext s2);
                  s3 = s2\<lparr>sv_ext := e\<rparr>
              in case failure of
                   None \<Rightarrow>
                     (\<lparr>ch_progress = before @ finished, ch_response = chunks @ [SENTINEL], ch_error = None\<rparr>,
                      s3\<lparr>sv_telemetry := track_token_generated (int (length chunks))
                           (track_request_end latency True (sv_telemetry s3))\<rparr>)
                 | Some x \<Rightarrow>
                     (\<lparr>ch_progress = before @ finished @ finished, ch_response = chunks @ [SENTINEL], ch_error = Some x\<rparr>,
                      s3\<lparr>sv_telemetry := track_request_end latency False (sv_telemetry s3)\<rparr>)))"

text \<open>The consumer: progress up to its sentinel, then the response up to its sentinel.\<close>

fun read_progress :: "string list \<Rightarrow> item list" where
  "read_progress [] = []"
| "read_progress (x # xs) =
     (if x = PROGRESS_SENTINEL then []
      else if startswith x LOADING then Progress (progress_text x) # read_progress xs
      else read_progress xs)"

fun read_response :: "string list \<Rightarrow> item list" where
  "read_response [] = []"
| "read_response (x # xs) = (if x = SENTINEL then [] else Chunk x # read_response xs)"

definition stream_output :: "bool \<Rightarrow> channels \<Rightarrow> item list \<times> exn option" where
  "stream_output loaded ch =
     ((if loaded then [] else StartNotice # read_progress (ch_progress ch)) @ read_response (ch_response ch),
      map_option (\<lambda>_. runtime_error ''Inference failed'') (ch_error ch))"

text \<open>\<open>stream_predict\<close>: what the generator yields and how it ends; \<open>busy\<close> is a full scheduler.\<close>

definition stream_predict ::
    "texts \<Rightarrow> ('e, 'h) engine_port \<Rightarrow> bool \<Rightarrow> bool \<Rightarrow> rat \<Rightarrow> stream_request
      \<Rightarrow> ('e, 'h) server \<Rightarrow> (item list \<times> exn option) \<times> ('e, 'h) server" where
  "stream_predict tx p allow busy latency q s =
     (if sv_shutting_down s then (([], Some (runtime_error ''Server is shutting down.'')), s)
      else case prompt_problem (sq_prompt q) of
        Some x \<Rightarrow> (([], Some x), s)
      | None \<Rightarrow>
          (if busy then (([], Some (runtime_error ''Server is overloaded, please retry later.'')), s)
           else let loaded = get_loaded_model (lr_model_id (sq_load q)) (sv_engines s) \<noteq> None;
                    (ch, t) = stream_task tx p allow latency q loaded s
                in (stream_output loaded ch, t)))"

end
