(* ===== verification/Server_Properties.thy ===== *)
theory Server_Properties
  imports Inference_Server WP
begin

text \<open>
  Properties of the inference server: what the registry holds after a load attempt, what a shutdown
  releases, and which chunks of an engine reach the consumer of a stream.
\<close>

lemma catchE_Inr: "catchE m h s = (Inr a, t) \<longleftrightarrow>
    m s = (Inr a, t) \<or> (\<exists>e u. m s = (Inl e, u) \<and> h e u = (Inr a, t))"
  by (auto simp: catchE_def split: sum.splits prod.splits)

lemma engine_call_Inr: "engine_call f s = (Inr a, t) \<longleftrightarrow> (\<exists>e. f (sv_ext s) = (Inr a, e) \<and> t = s\<lparr>sv_ext := e\<rparr>)"
  by (cases "f (sv_ext s)") (auto simp: engine_call_def zoom_def)

definition same_registry :: "('e, 'h) server \<Rightarrow> ('e, 'h) server \<Rightarrow> bool" where
  "same_registry s t \<longleftrightarrow> sv_engines t = sv_engines s \<and> sv_shutting_down t = sv_shutting_down s
     \<and> sv_telemetry t = sv_telemetry s"

interpretation registry: frame_rel same_registry
  by unfold_locales (auto simp: same_registry_def)

lemma engine_call_same [frame_rules]: "steps same_registry (engine_call f)"
  by (auto simp: steps_def same_registry_def engine_call_def zoom_def split: prod.splits)

lemma report_same [frame_rules]: "steps same_registry (report b m)"
  by (auto simp: report_def steps_def same_registry_def ret_def modS_def)

lemma load_model_same [frame_rules]: "steps same_registry (load_model tx p q h b)"
  unfolding load_model_def by (intro frame_rules)

text \<open>The load attempt up to its registration.\<close>

definition attempt :: "texts \<Rightarrow> ('e, 'h) engine_port \<Rightarrow> load_request \<Rightarrow> bool \<Rightarrow> ('e, 'h, 'h) srv" where
  "attempt tx p q callback =
     bindE (report callback (tx_connecting tx (lr_provider_id q))) (\<lambda>_.
     bindE (engine_call (ei_factory p (lr_provider_id q))) (\<lambda>h.
     bindE (catchE (load_model tx p q h callback) (\<lambda>x.
              bindE (catchE (engine_call (ei_unload p h)) (\<lambda>_. ret ())) (\<lambda>_. raise x))) (\<lambda>_.
     bindE (report callback (tx_loaded tx)) (\<lambda>_. ret h))))"

lemma attempt_same: "steps same_registry (attempt tx p q b)"
  unfolding attempt_def by (intro frame_rules)

definition loaded_by :: "('e, 'h) engine_port \<Rightarrow> load_request \<Rightarrow> 'h \<Rightarrow> bool" where
  "loaded_by p q h \<longleftrightarrow> (\<exists>e e'. ei_load p h (lr_model_path q) (lr_adapter_path q) (lr_engine_kwargs q) e = (Inr (), e'))"

lemma attempt_loaded: "attempt tx p q b s = (Inr h, t) \<Longrightarrow> loaded_by p q h"
proof -
  have load: "load_model tx p q h b u = (Inr (), v) \<Longrightarrow> loaded_by p q h" for h u v
    by (auto simp: load_model_def bindE_Inr engine_call_Inr loaded_by_def)
  assume "attempt tx p q b s = (Inr h, t)"
  then obtain u v where
    "catchE (load_model tx p q h b) (\<lambda>x. bindE (catchE (engine_call (ei_unload p h)) (\<lambda>_. ret ())) (\<lambda>_. raise x)) u
      = (Inr (), v)"
    by (auto simp: attempt_def bindE_Inr ret_def)
  then show ?thesis using load by (auto simp: catchE_Inr bindE_Inr raise_def)
qed

lemma ensure_model_attempt:
  "ensure_model tx p ok q b s =
     (if sv_shutting_down s then (Inl (runtime_error ''Server is shutting down.''), s)
      else case get_loaded_model (lr_model_id q) (sv_engines s) of
        Some h \<Rightarrow> (Inr h, s)
      | None \<Rightarrow>
          (if lr_model_path q = ''/path/to/model'' \<and> \<not> ok then (Inl (ValueError ''Placeholder model path''), s)
           else case attempt tx p q b s of
             (Inl x, t) \<Rightarrow> (Inl x, t)
           | (Inr h, t) \<Rightarrow> (Inr h, t\<lparr>sv_engines := register_model (lr_model_id q) h (sv_engines t)\<rparr>)))"
proof -
  have "bindE (report b (tx_connecting tx (lr_provider_id q))) (\<lambda>_.
      bindE (engine_call (ei_factory p (lr_provider_id q))) (\<lambda>h.
      bindE (catchE (load_model tx p q h b) (\<lambda>x.
               bindE (catchE (engine_call (ei_unload p h)) (\<lambda>_. ret ())) (\<lambda>_. raise x))) (\<lambda>_.
      bindE (report b (tx_loaded tx)) (\<lambda>_.
      bindE (modS (\<lambda>s. s\<lparr>sv_engines := register_model (lr_model_id q) h (sv_engines s)\<rparr>)) (\<lambda>_. ret h)))))
    = bindE (attempt tx p q b) (\<lambda>h.
      bindE (modS (\<lambda>s. s\<lparr>sv_engines := register_model (lr_model_id q) h (sv_engines s)\<rparr>)) (\<lambda>_. ret h))"
    unfolding attempt_def bindE_assoc bindE_ret ..
  note eq = this
  obtain r t where rt: "attempt tx p q b s = (r, t)" by fastforce
  show ?thesis
    unfolding ensure_model_def eq bindE_getS
    by (cases "sv_shutting_down s"; cases "get_loaded_model (lr_model_id q) (sv_engines s)";
        cases "lr_model_path q = ''/path/to/model'' \<and> \<not> ok"; cases r)
      (auto simp: rt raise_def ret_def bindE_def modS_def)
qed

lemma attempt_registry: "attempt tx p q b s = (r, t) \<Longrightarrow> sv_engines t = sv_engines s \<and> sv_shutting_down t = sv_shutting_down s"
  using stepsD [OF attempt_same, of tx p q b s r t] by (simp add: same_registry_def)

section \<open>Properties\<close>

text \<open>\<open>ensure_model\<close> keeps the registry honest. When it raises, the registry is unchanged (a failed
  load leaves nothing behind); when it returns an engine, the server was accepting work, that engine is the registered one, was
  registered before or has just loaded this model, every other model is unchanged, and asking again for
  the model, with any request, returns the same engine without touching any engine or the state.\<close>

theorem ensure_model_registers_loaded:
  "case ensure_model tx p ok q b s of
     (Inl x, t) \<Rightarrow> sv_engines t = sv_engines s
   | (Inr h, t) \<Rightarrow> \<not> sv_shutting_down s \<and> get_loaded_model (lr_model_id q) (sv_engines t) = Some h
       \<and> (get_loaded_model (lr_model_id q) (sv_engines s) = Some h \<and> t = s \<or> loaded_by p q h)
       \<and> (m = lr_model_id q \<or> get_loaded_model m (sv_engines t) = get_loaded_model m (sv_engines s))
       \<and> ensure_model tx p ok' (q'\<lparr>lr_model_id := lr_model_id q\<rparr>) b' t = (Inr h, t)"
proof (cases "ensure_model tx p ok q b s")
  case (Pair r t)
  show ?thesis
  proof (cases r)
    case (Inl x)
    then show ?thesis using Pair
      by (auto simp: ensure_model_attempt dest: attempt_registry split: if_splits option.splits sum.splits prod.splits)
  next
    case (Inr h)
    then have up: "\<not> sv_shutting_down s" using Pair by (auto simp: ensure_model_attempt)
    show ?thesis
    proof (cases "get_loaded_model (lr_model_id q) (sv_engines s)")
      case (Some h')
      then have "h' = h" "t = s" using Pair Inr up by (simp_all add: ensure_model_attempt)
      with Some up Pair Inr show ?thesis by (simp add: ensure_model_attempt)
    next
      case None
      then obtain u where u: "attempt tx p q b s = (Inr h, u)"
        and t: "t = u\<lparr>sv_engines := register_model (lr_model_id q) h (sv_engines u)\<rparr>"
        using Pair Inr up by (auto simp: ensure_model_attempt split: if_splits sum.splits prod.splits)
      have reg: "get_loaded_model k (sv_engines t) = (if k = lr_model_id q then Some h else get_loaded_model k (sv_engines s))" for k
        using attempt_registry [OF u] by (simp add: t get_loaded_model_def register_model_def update_conv')
      then have "ensure_model tx p ok' (q'\<lparr>lr_model_id := lr_model_id q\<rparr>) b' t = (Inr h, t)"
        using up attempt_registry [OF u] by (simp add: ensure_model_attempt t)
      then show ?thesis using up Pair Inr attempt_loaded [OF u] reg by simp
    qed
  qed
qed

lemma unload_all_returns: "\<exists>t. unload_all p ms s = (Inr (), t)"
proof (induction ms arbitrary: s)
  case (Cons m ms)
  obtain u where "catchE (unload_model p m) (\<lambda>_. ret ()) s = (Inr (), u)"
    by (cases "unload_model p m s"; cases "fst (unload_model p m s)") (auto simp: catchE_def ret_def)
  with Cons [of u] show ?case by (auto simp: bindE_def)
qed (simp add: ret_def)

definition unloads :: "('e, 'h) engine_port \<Rightarrow> bool" where
  "unloads p \<longleftrightarrow> (\<forall>h e. \<exists>e'. ei_unload p h e = (Inr (), e'))"

lemma unload_model_removes:
  assumes "unloads p" and "catchE (unload_model p m) (\<lambda>_. ret ()) s = (Inr (), u)"
  shows "sv_engines u = unregister_model m (sv_engines s) \<and> sv_shutting_down u = sv_shutting_down s"
proof (cases "get_loaded_model m (sv_engines s)")
  case None
  then have "unregister_model m (sv_engines s) = sv_engines s"
    by (simp add: get_loaded_model_def unregister_model_def delete_id map_of_eq_None_iff)
  with None assms(2) show ?thesis by (auto simp: unload_model_def py_unfold)
next
  case (Some h)
  obtain e' where "ei_unload p h (sv_ext s) = (Inr (), e')" using assms(1) unfolding unloads_def by blast
  with Some assms(2) show ?thesis by (auto simp: unload_model_def engine_call_def py_unfold)
qed

lemma unload_all_removes:
  "unloads p \<Longrightarrow> unload_all p ms s = (Inr (), t) \<Longrightarrow>
     set (map fst (sv_engines t)) = set (map fst (sv_engines s)) - set ms \<and> sv_shutting_down t = sv_shutting_down s"
proof (induction ms arbitrary: s)
  case (Cons m ms)
  then obtain u where u: "catchE (unload_model p m) (\<lambda>_. ret ()) s = (Inr (), u)" "unload_all p ms u = (Inr (), t)"
    by (auto simp: bindE_Inr)
  from unload_model_removes [OF Cons.prems(1) u(1)] Cons.IH [OF Cons.prems(1) u(2)] show ?case
    by (auto simp: unregister_model_def delete_keys)
qed (simp add: ret_def)

lemma unload_all_stays_down: "unload_all p ms s = (Inr (), t) \<Longrightarrow> sv_shutting_down t = sv_shutting_down s"
proof (induction ms arbitrary: s)
  case (Cons m ms)
  then obtain u where u: "catchE (unload_model p m) (\<lambda>_. ret ()) s = (Inr (), u)" "unload_all p ms u = (Inr (), t)"
    by (auto simp: bindE_Inr)
  have "sv_shutting_down u = sv_shutting_down s"
    using u(1) by (auto simp: unload_model_def engine_call_def py_unfold split: option.splits sum.splits prod.splits)
  with Cons.IH [OF u(2)] show ?case by simp
qed (simp add: ret_def)

text \<open>A shutdown always returns, whatever the engines do, and afterwards every load request is refused
  without touching any engine or the state; and if the engines unload, no model is left in the registry.\<close>

theorem shutdown_refuses_and_releases:
  "\<exists>t. shutdown p s = (Inr (), t)
     \<and> ensure_model tx p ok q b t = (Inl (runtime_error ''Server is shutting down.''), t)
     \<and> (unloads p \<longrightarrow> sv_engines t = [])"
proof -
  let ?s = "s\<lparr>sv_shutting_down := True\<rparr>"
  obtain t where t: "unload_all p (sort (get_loaded_models (sv_engines s))) ?s = (Inr (), t)"
    using unload_all_returns by blast
  then have "shutdown p s = (Inr (), t)" by (simp add: shutdown_def py_simps)
  moreover have "sv_shutting_down t" using unload_all_stays_down [OF t] by simp
  moreover have "sv_engines t = []" if "unloads p"
    using unload_all_removes [OF that t] by (simp add: get_loaded_models_def)
  ultimately show ?thesis by (auto simp: ensure_model_attempt)
qed

lemma read_response_chunks:
  "read_response (chunks @ [SENTINEL]) = map Chunk (takeWhile (\<lambda>c. c \<noteq> SENTINEL) chunks)"
  by (induction chunks) auto

text \<open>C24: For a loaded model an accepted request yields the engine's chunks in order, up to the first chunk
  that equals the in-band end marker, and then ends, or raises when the engine raised; and the telemetry
  counts one success with all chunks as tokens, or one failure.\<close>

theorem stream_yields_chunks:
  assumes "\<not> sv_shutting_down s" and "prompt_problem (sq_prompt q) = None"
    and "get_loaded_model (lr_model_id (sq_load q)) (sv_engines s) = Some h"
    and "ei_infer p h (sq_prompt q) (sq_generation_kwargs q) (sv_ext s) = ((chunks, failure), e)"
  shows "fst (stream_predict tx p ok False latency q s)
       = (map Chunk (takeWhile (\<lambda>c. c \<noteq> SENTINEL) chunks), map_option (\<lambda>_. runtime_error ''Inference failed'') failure)
    \<and> sv_engines (snd (stream_predict tx p ok False latency q s)) = sv_engines s
    \<and> (let u = sv_telemetry (snd (stream_predict tx p ok False latency q s)); v = sv_telemetry s in
         te_inflight u = max 0 (te_inflight v)
       \<and> te_success u = te_success v + (if failure = None then 1 else 0)
       \<and> te_failed u = te_failed v + (if failure = None then 0 else 1)
       \<and> te_tokens u = te_tokens v + (if failure = None then int (length chunks) else 0))"
proof -
  let ?s1 = "s\<lparr>sv_telemetry := track_request_start (sv_telemetry s), sv_progress := []\<rparr>"
  have "ensure_model tx p ok (sq_load q) False ?s1 = (Inr h, ?s1)"
    using assms(1,3) by (simp add: ensure_model_attempt)
  with assms show ?thesis
    by (cases failure)
      (simp_all add: stream_predict_def stream_task_def stream_output_def Let_def read_response_chunks
        track_request_start_def track_request_end_def track_token_generated_def)
qed

definition sample_port :: "(unit, nat) engine_port" where
  "sample_port = \<lparr>ei_factory = (\<lambda>i e. (Inr 7, e)), ei_load = (\<lambda>h p a k e. (Inr (), e)),
     ei_unload = (\<lambda>h e. (Inr (), e)), ei_infer = (\<lambda>h p k e. (([''a'', SENTINEL, ''b''], None), e))\<rparr>"

definition sample_server :: "(unit, nat) server" where
  "sample_server = \<lparr>sv_engines = [(''m'', 7)], sv_shutting_down = False, sv_telemetry = telemetry_init,
     sv_ext = (), sv_progress = []\<rparr>"

definition sample_stream :: stream_request where
  "sample_stream = \<lparr>sq_load = \<lparr>lr_model_id = ''m'', lr_model_path = ''/m'', lr_adapter_path = None,
     lr_provider_id = ''p'', lr_engine_kwargs = []\<rparr>, sq_prompt = ''hi'', sq_generation_kwargs = []\<rparr>"

text \<open>The witness also shows the cut: the engine's third chunk never reaches the consumer.\<close>

theorem stream_yields_chunks_witness:
  "\<forall>tx. fst (stream_predict tx sample_port True False 1 sample_stream sample_server) = ([Chunk ''a''], None)"
proof
  fix tx
  have p: "prompt_problem (sq_prompt sample_stream) = None"
    by (simp add: prompt_problem_def sample_stream_def strip_def is_space_def code_def)
  have "\<not> sv_shutting_down sample_server"
    "get_loaded_model (lr_model_id (sq_load sample_stream)) (sv_engines sample_server) = Some 7"
    by (simp_all add: sample_server_def sample_stream_def get_loaded_model_def)
  moreover have "ei_infer sample_port 7 (sq_prompt sample_stream) (sq_generation_kwargs sample_stream) (sv_ext sample_server)
      = (([''a'', SENTINEL, ''b''], None), ())" by (simp add: sample_port_def sample_server_def)
  ultimately have "fst (stream_predict tx sample_port True False 1 sample_stream sample_server)
      = (map Chunk (takeWhile (\<lambda>c. c \<noteq> SENTINEL) [''a'', SENTINEL, ''b'']), map_option (\<lambda>_. runtime_error ''Inference failed'') (None :: exn option))"
    by (rule stream_yields_chunks [OF _ p, THEN conjunct1])
  moreover have "''a'' \<noteq> SENTINEL" by (simp add: SENTINEL_def)
  ultimately show "fst (stream_predict tx sample_port True False 1 sample_stream sample_server) = ([Chunk ''a''], None)"
    by simp
qed

theorem shutdown_refuses_and_releases_witness:
  "unloads sample_port \<and> (\<exists>t. shutdown sample_port sample_server = (Inr (), t) \<and> sv_engines t = [])"
proof -
  have "unloads sample_port" by (simp add: unloads_def sample_port_def)
  with shutdown_refuses_and_releases [of sample_port sample_server] show ?thesis by blast
qed

end
