(* ===== verification/Exchange_Handoff.thy ===== *)
theory Exchange_Handoff
  imports Service Url
begin

text \<open>
  The handoff of a verified Endpoint to Exchange (\<open>exchange_handoff.py\<close>): which receiver origins are
  admitted, the checks before anything is sent, the one request, and what the receiver's draft must echo.
  The HTTP client is a parameter of the receiver (\<open>None\<close> for \<open>httpx.HTTPError\<close>), and so is the comparison
  of a float literal with an integer.
\<close>

section \<open>Standard library\<close>

text \<open>\<open>s.replace(p, "")\<close> for a non-empty \<open>p\<close>.\<close>

function remove_all :: "string \<Rightarrow> string \<Rightarrow> string" where
  "remove_all p [] = []"
| "remove_all p (c # s) =
     (if startswith (c # s) p then remove_all p (drop (length p - 1) s) else c # remove_all p s)"
  by pat_completeness auto
termination by (relation "measure (\<lambda>(p, s). length s)") auto

definition hex_digit_value :: "char \<Rightarrow> nat option" where
  "hex_digit_value c =
     (if is_digit c then Some (code c - 48)
      else if 97 \<le> code c \<and> code c \<le> 102 then Some (code c - 87)
      else if 65 \<le> code c \<and> code c \<le> 70 then Some (code c - 55) else None)"

text \<open>The digits of \<open>int(s, 16)\<close>: single underscores may separate them.\<close>

fun hex_digits :: "nat \<Rightarrow> string \<Rightarrow> nat option" where
  "hex_digits acc [] = None"
| "hex_digits acc [c] = (case hex_digit_value c of None \<Rightarrow> None | Some v \<Rightarrow> Some (16 * acc + v))"
| "hex_digits acc (c # d # s) =
     (case hex_digit_value c of
        None \<Rightarrow> None
      | Some v \<Rightarrow> (if d = CHR ''_'' then hex_digits (16 * acc + v) s else hex_digits (16 * acc + v) (d # s)))"

definition int_base_16 :: "string \<Rightarrow> int option" where
  "int_base_16 text =
     (let s = strip text;
          (neg, body) = (if startswith s ''-'' then (True, tl s) else if startswith s ''+'' then (False, tl s)
                         else (False, s));
          digits = (if startswith (lower body) ''0x''
                    then (if startswith (drop 2 body) ''_'' then drop 3 body else drop 2 body) else body)
      in map_option (\<lambda>n. if neg then - int n else int n) (hex_digits 0 digits))"

fun hex_text_of :: "nat \<Rightarrow> nat \<Rightarrow> string" where
  "hex_text_of 0 n = []"
| "hex_text_of (Suc k) n = hex_text_of k (n div 16) @ [hex_digit (n mod 16)]"

text \<open>\<open>str(UUID(s))\<close>, or \<open>None\<close> for the \<open>ValueError\<close>.\<close>

definition uuid_text :: "string \<Rightarrow> string option" where
  "uuid_text s =
     (let h = remove_all ''urn:'' s;
          h = remove_all ''uuid:'' h;
          h = rev (dropWhile (\<lambda>c. c \<in> set ''{}'') (rev (dropWhile (\<lambda>c. c \<in> set ''{}'') h)));
          h = remove_all ''-'' h
      in if length h \<noteq> 32 then None
         else case int_base_16 h of
           None \<Rightarrow> None
         | Some i \<Rightarrow>
             (if i < 0 \<or> 2 ^ 128 \<le> i then None
              else let t = hex_text_of 32 (nat i)
                   in Some (take 8 t @ ''-'' @ take 4 (drop 8 t) @ ''-'' @ take 4 (drop 12 t) @ ''-''
                        @ take 4 (drop 16 t) @ ''-'' @ drop 20 t)))"

text \<open>\<open>UUID(v)\<close> of a decoded JSON value: \<open>None\<close> is a \<open>TypeError\<close>, any other non-string has no \<open>replace\<close>.\<close>

fun uuid_of_json :: "json \<Rightarrow> string res" where
  "uuid_of_json (JStr s) = (case uuid_text s of None \<Rightarrow> Inl (ValueError ''badly formed hexadecimal UUID string'')
                              | Some u \<Rightarrow> Inr u)"
| "uuid_of_json JNull = Inl (TypeError ''one of the hex, bytes, bytes_le, fields, or int arguments must be given'')"
| "uuid_of_json v = Inl (PyException ''AttributeError'' ''object has no attribute replace'' None)"

text \<open>Python's \<open>==\<close> on decoded JSON: a bool is its integer, dictionaries are unordered.\<close>

fun json_eq :: "(string \<Rightarrow> int \<Rightarrow> bool) \<Rightarrow> json \<Rightarrow> json \<Rightarrow> bool"
  and json_eq_list :: "(string \<Rightarrow> int \<Rightarrow> bool) \<Rightarrow> json list \<Rightarrow> json list \<Rightarrow> bool"
  and json_eq_in :: "(string \<Rightarrow> int \<Rightarrow> bool) \<Rightarrow> dict \<Rightarrow> dict \<Rightarrow> bool" where
  "json_eq f (JObj d) v = (case v of JObj e \<Rightarrow> length d = length e \<and> json_eq_in f d e | _ \<Rightarrow> False)"
| "json_eq f (JArr xs) v = (case v of JArr ys \<Rightarrow> json_eq_list f xs ys | _ \<Rightarrow> False)"
| "json_eq f (JStr s) v = (v = JStr s)"
| "json_eq f JNull v = (v = JNull)"
| "json_eq f (JBool b) v = (case v of JBool c \<Rightarrow> b = c | JInt j \<Rightarrow> (if b then 1 else 0) = j
     | JFloat t \<Rightarrow> f t (if b then 1 else 0) | _ \<Rightarrow> False)"
| "json_eq f (JInt i) v = (case v of JInt j \<Rightarrow> i = j | JBool b \<Rightarrow> (if b then 1 else 0) = i
     | JFloat t \<Rightarrow> f t i | _ \<Rightarrow> False)"
| "json_eq f (JFloat t) v = (case v of JFloat u \<Rightarrow> t = u | JInt j \<Rightarrow> f t j
     | JBool b \<Rightarrow> f t (if b then 1 else 0) | _ \<Rightarrow> False)"
| "json_eq_list f [] ys = (ys = [])"
| "json_eq_list f (x # xs) ys = (case ys of [] \<Rightarrow> False | y # zs \<Rightarrow> json_eq f x y \<and> json_eq_list f xs zs)"
| "json_eq_in f [] e = True"
| "json_eq_in f ((k, x) # d) e =
     ((case dict_get e k of None \<Rightarrow> False | Some y \<Rightarrow> json_eq f x y) \<and> json_eq_in f d e)"

section \<open>Receivers\<close>

record 'e receiver =
  xr_receiver_id :: string
  xr_allowed_binding_ids :: "string list"
  xr_origin :: string
  xr_source_origin :: string
  xr_token :: string
  xr_post :: "string \<Rightarrow> dict \<Rightarrow> dict \<Rightarrow> 'e \<Rightarrow> (int \<times> json option) option \<times> 'e"
  xr_float_is :: "string \<Rightarrow> int \<Rightarrow> bool"

text \<open>\<open>admitted_origin\<close>; the userinfo of an absent part reads as false, like an empty one.\<close>

definition admitted_origin :: "string \<Rightarrow> string res" where
  "admitted_origin value =
     (let origin = rstrip_char CHR ''/'' value
      in case urlsplit origin of
           None \<Rightarrow> Inl (ValueError ''Invalid IPv6 URL'')
         | Some u \<Rightarrow>
             (if fst (url_userinfo u) \<notin> {None, Some []} \<or> snd (url_userinfo u) \<notin> {None, Some []}
                 \<or> su_query u \<noteq> [] \<or> su_fragment u \<noteq> [] \<or> su_path u \<noteq> []
              then Inl (ValueError ''HANDOFF_ORIGIN_INVALID'')
              else if su_scheme u \<noteq> ''https''
                  \<and> \<not> (su_scheme u = ''http''
                       \<and> url_hostname u \<in> {Some ''127.0.0.1'', Some ''localhost'', Some ''::1''})
              then Inl (ValueError ''HANDOFF_TLS_REQUIRED'')
              else if url_hostname u = None then Inl (ValueError ''HANDOFF_ORIGIN_INVALID'')
              else Inr origin))"

text \<open>\<open>ExchangeHandoff.__init__\<close>, given the credential file's stripped text and its mode bits.\<close>

definition open_handoff ::
    "string \<Rightarrow> string list \<Rightarrow> string \<Rightarrow> string \<Rightarrow> string \<Rightarrow> nat
     \<Rightarrow> (string \<Rightarrow> dict \<Rightarrow> dict \<Rightarrow> 'e \<Rightarrow> (int \<times> json option) option \<times> 'e) \<Rightarrow> (string \<Rightarrow> int \<Rightarrow> bool)
     \<Rightarrow> 'e receiver res" where
  "open_handoff receiver_id allowed control_url source_origin credential mode post float_is =
     resB (admitted_origin control_url) (\<lambda>origin.
     resB (admitted_origin source_origin) (\<lambda>source.
     let token = strip credential
     in if length token < 32 \<or> mode mod 64 \<noteq> 0 then Inl (ValueError ''EXCHANGE_CREDENTIAL_INVALID'')
        else Inr \<lparr>xr_receiver_id = receiver_id, xr_allowed_binding_ids = allowed, xr_origin = origin,
                  xr_source_origin = source, xr_token = token, xr_post = post, xr_float_is = float_is\<rparr>))"

record send_request =
  sr_resource_version :: int
  sr_receiver_id :: string
  sr_gateway_endpoint_id :: uuid
  sr_target_binding_id :: string
  sr_model_pattern :: string
  sr_priority :: int

section \<open>Sending\<close>

definition exchange_failure :: "string \<Rightarrow> string \<Rightarrow> int \<Rightarrow> exn" where
  "exchange_failure c detail status = ProductError
     \<lparr>pe_code = ''REACTOR_'' @ c, pe_title = ''Send to Exchange failed'', pe_detail = detail,
      pe_status = status, pe_retryable = (status = 503), pe_resource_ref = None\<rparr>"

definition exchange_source :: "'e receiver \<Rightarrow> endpoint \<Rightarrow> deployment \<Rightarrow> string \<Rightarrow> json res" where
  "exchange_source x e d digest =
     (let source = [(''product'', JStr ''reactor''),
                    (''resourceUri'', JStr (xr_source_origin x @ ''/api/v1/endpoints/'' @ ep_id e)),
                    (''resourceVersion'', JInt (ep_resource_version e)),
                    (''artifactDigest'', JStr digest)]
      in case dp_model_version d of
           None \<Rightarrow> Inr (JObj source)
         | Some v \<Rightarrow> (case dict_get v ''id'' of
             None \<Rightarrow> Inl (KeyError ''id'')
           | Some i \<Rightarrow> Inr (JObj (source @ [(''modelVersionId'', i)]))))"

definition exchange_payload :: "send_request \<Rightarrow> endpoint \<Rightarrow> json \<Rightarrow> dict" where
  "exchange_payload command e source =
     [(''endpointId'', JStr (sr_gateway_endpoint_id command)),
      (''modelPattern'', JStr (sr_model_pattern command)),
      (''targetBindingId'', JStr (sr_target_binding_id command)),
      (''targetModel'', json_opt_str (ep_model e)),
      (''priority'', JInt (sr_priority command)),
      (''source'', source)]"

definition receiver_code :: "int \<Rightarrow> string" where
  "receiver_code status =
     (if status = 401 \<or> status = 403 then ''RECEIVER_PERMISSION_DENIED''
      else if status = 404 then ''RECEIVER_RESOURCE_NOT_FOUND''
      else if status = 409 then ''RECEIVER_VERSION_CONFLICT''
      else if status = 422 then ''RECEIVER_CONTRACT_INCOMPATIBLE''
      else ''RECEIVER_UNAVAILABLE'')"

definition rejected_draft :: "int \<Rightarrow> exn" where
  "rejected_draft status = exchange_failure (receiver_code status)
     ''Exchange rejected the draft. Check access, resources and version.''
     (if status = 401 \<or> status = 403 then 403 else if status \<in> {404, 409, 422} then status else 503)"

definition incompatible_draft :: exn where
  "incompatible_draft = exchange_failure ''RECEIVER_RESPONSE_INCOMPATIBLE''
     ''The receiver did not return the requested draft. Inspect it in Exchange.'' 409"

definition receiver_unreachable :: exn where
  "receiver_unreachable = ProductError
     \<lparr>pe_code = ''REACTOR_RECEIVER_UNREACHABLE'', pe_title = ''Exchange unreachable'',
      pe_detail = ''Restore receiver reachability and retry with the same Idempotency-Key.'',
      pe_status = 503, pe_retryable = True, pe_resource_ref = None\<rparr>"

definition receiver_incompatible :: exn where
  "receiver_incompatible = product_failure ''REACTOR_RECEIVER_RESPONSE_INCOMPATIBLE''
     ''Exchange response incompatible''
     ''Inspect the receiver draft before retrying; its response was incompatible.'' 409"

text \<open>The part of \<open>send\<close> that reads the receiver's reply.\<close>

definition exchange_item :: "json \<Rightarrow> string \<Rightarrow> json res" where
  "exchange_item v k = (case v of
     JObj d \<Rightarrow> (case dict_get d k of None \<Rightarrow> Inl (KeyError k) | Some x \<Rightarrow> Inr x)
   | _ \<Rightarrow> Inl (TypeError ''indices must be integers''))"

definition checked_draft :: "'e receiver \<Rightarrow> dict \<Rightarrow> int \<Rightarrow> json option \<Rightarrow> dict res" where
  "checked_draft x payload status body =
     (if 400 \<le> status \<and> status < 600 then Inl (rejected_draft status)
      else case body of
        None \<Rightarrow> Inl (ValueError ''json'')
      | Some draft \<Rightarrow>
          resB (exchange_item draft ''id'') (\<lambda>i.
          resB (uuid_of_json i) (\<lambda>resource_id.
          resB (exchange_item draft ''state'') (\<lambda>state.
          case draft of
            JObj d \<Rightarrow>
              (if state \<noteq> JStr ''DRAFT''
                  \<or> list_ex (\<lambda>(k, v). \<not> json_eq (xr_float_is x) (get_or_null d k) v) payload
               then Inl incompatible_draft
               else resB (exchange_item draft ''resourceVersion'') (\<lambda>version.
                    if \<not> is_instance_int version then Inl incompatible_draft
                    else Inr [(''product'', JStr ''exchange''),
                              (''resourceUri'', JStr (xr_origin x @ ''/api/v1/gateway-routes/'' @ resource_id)),
                              (''route'', draft)]))
          | _ \<Rightarrow> Inl (TypeError ''indices must be integers'')))))"

definition exchange_errors :: "exn \<Rightarrow> exn" where
  "exchange_errors x = (if is_value_key_type_error x then receiver_incompatible else x)"

definition send :: "'e env \<Rightarrow> 'e receiver \<Rightarrow> uuid \<Rightarrow> send_request \<Rightarrow> string \<Rightarrow> ('e, dict) svc" where
  "send env x endpoint_id command key =
     (if sr_target_binding_id command \<notin> set (xr_allowed_binding_ids x)
      then raise (exchange_failure ''RECEIVER_PERMISSION_DENIED'' ''Select an admitted provider binding.'' 403)
      else bindE (get_endpoint env endpoint_id) (\<lambda>e.
        if ep_resource_version e \<noteq> sr_resource_version command
        then raise (exchange_failure ''SOURCE_VERSION_CONFLICT'' ''Refresh the Endpoint before sending.'' 409)
        else if ep_state e \<noteq> ES_READY \<or> ep_model e \<in> {None, Some []}
        then raise (exchange_failure ''SOURCE_NOT_READY'' ''The Endpoint has no verified model service.'' 409)
        else bindE (db_get (get_deployment_row (ep_deployment_id e))) (\<lambda>row.
          case row of
            None \<Rightarrow> raise (PyException ''AssertionError'' [] None)
          | Some d \<Rightarrow>
              bindE (liftE (serving_artifact d)) (\<lambda>model.
              bindE (liftE (exchange_source x e d (ar_digest model))) (\<lambda>source.
              let payload = exchange_payload command e source
              in bindE (ext (\<lambda>s. case xr_post x (xr_origin x @ ''/api/v1/gateway-route-drafts'')
                              [(''Authorization'', JStr (''Bearer '' @ xr_token x)),
                               (''Idempotency-Key'', JStr key)] payload s of
                              (r, s') \<Rightarrow> (Inr r, s'))) (\<lambda>reply.
                 case reply of
                   None \<Rightarrow> raise receiver_unreachable
                 | Some (status, body) \<Rightarrow>
                     (case checked_draft x payload status body of
                        Inl err \<Rightarrow> raise (exchange_errors err)
                      | Inr r \<Rightarrow> ret r)))))))"

end
