(* ===== verification/Workspace_Auth.thy ===== *)
theory Workspace_Auth
  imports Json
begin

text \<open>
  Authentication of the private Workspace routes (\<open>workspace_auth.py\<close>): the operator's credential map
  and binding grants, parsed from JSON, and the bearer check. \<open>json.loads\<close> and SHA-256 are parameters:
  \<open>loads s\<close> is \<open>None\<close> where the decoder raises, \<open>sha256 s\<close> is the digest of the ASCII bytes of \<open>s\<close>.
  A decoded object has each key once, so \<open>set(document)\<close> is compared on its key list.
\<close>

section \<open>Scopes, credentials and the shared checks\<close>

type_synonym workspace_scope = "string \<times> string"

record credential =
  cr_token_digest :: "nat list"
  cr_scope :: workspace_scope

definition MINIMUM_WORKSPACE_TOKEN_BYTES :: nat where
  "MINIMUM_WORKSPACE_TOKEN_BYTES = 32"

definition MAXIMUM_CREDENTIALS :: nat where
  "MAXIMUM_CREDENTIALS = 1024"

definition MAXIMUM_CREDENTIAL_MAP_BYTES :: nat where
  "MAXIMUM_CREDENTIAL_MAP_BYTES = 256 * 1024"

definition MAXIMUM_WORKSPACE_SERVING_BINDING_GRANTS :: nat where
  "MAXIMUM_WORKSPACE_SERVING_BINDING_GRANTS = 4096"

text \<open>\<open>len(raw.encode("utf-8"))\<close> on code points below 256.\<close>

definition utf8_length :: "string \<Rightarrow> nat" where
  "utf8_length s = sum_list (map (\<lambda>c. if code c < 128 then 1 else 2) s)"

definition keys_are :: "dict \<Rightarrow> string list \<Rightarrow> bool" where
  "keys_are d ks \<longleftrightarrow> set (map fst d) = set ks"

text \<open>The test repeated for every identity: a string of 1 to 200 characters, stripped and printable.\<close>

fun identity_ok :: "json \<Rightarrow> bool" where
  "identity_ok (JStr s) \<longleftrightarrow> 1 \<le> length s \<and> length s \<le> 200 \<and> s = strip s \<and> (\<forall>c \<in> set s. is_printable c)"
| "identity_ok _ \<longleftrightarrow> False"

definition sha256_text :: "string \<Rightarrow> bool" where
  "sha256_text s \<longleftrightarrow> length s = 64 \<and> (\<forall>c \<in> set s. is_hex c)"

fun str_of :: "json \<Rightarrow> string" where
  "str_of (JStr s) = s"
| "str_of _ = []"

fun items_of :: "json \<Rightarrow> json list option" where
  "items_of (JArr xs) = Some xs"
| "items_of _ = None"

text \<open>\<open>bytes.fromhex\<close> on lower-case hexadecimal text.\<close>

fun fromhex :: "string \<Rightarrow> nat list" where
  "fromhex (a # b # s) = (16 * hex_value a + hex_value b) # fromhex s"
| "fromhex _ = []"

section \<open>The credential map\<close>

definition CREDENTIAL_MAP_INVALID :: string where
  "CREDENTIAL_MAP_INVALID = ''REACTOR_WORKSPACE_CREDENTIAL_MAP_INVALID''"

text \<open>The checked document: its list under \<open>field\<close>, or \<open>None\<close> where the code raises.\<close>

definition credential_items :: "json \<Rightarrow> json list option" where
  "credential_items document =
     (case document of
        JObj d \<Rightarrow>
          (if \<not> keys_are d [''version'', ''credentials''] then None
           else if \<not> is_exact_int (get_or_null d ''version'') then None
           else if int_value (get_or_null d ''version'') \<noteq> 1 then None
           else case items_of (get_or_null d ''credentials'') of
             None \<Rightarrow> None
           | Some xs \<Rightarrow> (if 1 \<le> length xs \<and> length xs \<le> MAXIMUM_CREDENTIALS then Some xs else None))
      | _ \<Rightarrow> None)"

definition parse_credential :: "json \<Rightarrow> credential option" where
  "parse_credential item =
     (case item of
        JObj d \<Rightarrow>
          (if \<not> keys_are d [''tokenSha256'', ''organizationId'', ''workspaceId''] then None
           else
             let digest_text = get_or_null d ''tokenSha256'';
                 organization_id = get_or_null d ''organizationId'';
                 workspace_id = get_or_null d ''workspaceId''
             in if \<not> is_str digest_text \<or> \<not> sha256_text (str_of digest_text)
                  \<or> \<not> identity_ok organization_id \<or> \<not> identity_ok workspace_id then None
                else Some \<lparr>cr_token_digest = fromhex (str_of digest_text),
                           cr_scope = (str_of organization_id, str_of workspace_id)\<rparr>)
      | _ \<Rightarrow> None)"

text \<open>The loop over the items; \<open>seen\<close> holds the credentials appended so far.\<close>

fun parse_credentials :: "json list \<Rightarrow> credential list \<Rightarrow> string + credential list" where
  "parse_credentials [] seen = Inr seen"
| "parse_credentials (item # items) seen =
     (case parse_credential item of
        None \<Rightarrow> Inl CREDENTIAL_MAP_INVALID
      | Some c \<Rightarrow>
          (if cr_token_digest c \<in> set (map cr_token_digest seen) then Inl CREDENTIAL_MAP_INVALID
           else parse_credentials items (seen @ [c])))"

definition parse_credential_map :: "(string \<Rightarrow> json option) \<Rightarrow> string option \<Rightarrow> string + credential list" where
  "parse_credential_map loads raw =
     (case raw of
        None \<Rightarrow> Inr []
      | Some s \<Rightarrow>
          (if s = [] then Inr []
           else if MAXIMUM_CREDENTIAL_MAP_BYTES < utf8_length s then Inl CREDENTIAL_MAP_INVALID
           else case loads s of
             None \<Rightarrow> Inl CREDENTIAL_MAP_INVALID
           | Some document \<Rightarrow>
               (case credential_items document of
                  None \<Rightarrow> Inl CREDENTIAL_MAP_INVALID
                | Some items \<Rightarrow> parse_credentials items [])))"

section \<open>The bearer check\<close>

datatype http_exception =
  HTTPException int string "(string \<times> string) list"

definition WORKSPACE_ROUTE_PREFIX :: string where
  "WORKSPACE_ROUTE_PREFIX = ''/internal/workspace/v1''"

definition protects :: "string \<Rightarrow> bool" where
  "protects path \<longleftrightarrow> startswith path (WORKSPACE_ROUTE_PREFIX @ ''/'')"

definition bearer_token :: "string \<Rightarrow> string" where
  "bearer_token authorization = (if startswith authorization ''Bearer '' then drop 7 authorization else [])"

text \<open>\<open>token.encode("ascii")\<close>, or no bytes where it raises.\<close>

definition ascii_bytes :: "string \<Rightarrow> string" where
  "ascii_bytes token = (if \<forall>c \<in> set token. code c < 128 then token else [])"

definition token_is_valid :: "string \<Rightarrow> bool" where
  "token_is_valid token_bytes \<longleftrightarrow> MINIMUM_WORKSPACE_TOKEN_BYTES \<le> length token_bytes
     \<and> (\<forall>c \<in> set token_bytes. 33 \<le> code c \<and> code c \<le> 126)"

fun matched_scope :: "nat list \<Rightarrow> credential list \<Rightarrow> workspace_scope option \<Rightarrow> workspace_scope option" where
  "matched_scope candidate [] scope = scope"
| "matched_scope candidate (c # cs) scope =
     matched_scope candidate cs (if candidate = cr_token_digest c then Some (cr_scope c) else scope)"

definition AUTH_UNAVAILABLE :: http_exception where
  "AUTH_UNAVAILABLE = HTTPException 503 ''REACTOR_WORKSPACE_AUTH_UNAVAILABLE'' []"

definition UNAUTHORIZED :: http_exception where
  "UNAUTHORIZED = HTTPException 401 ''REACTOR_WORKSPACE_UNAUTHORIZED'' [(''WWW-Authenticate'', ''Bearer'')]"

text \<open>\<open>authorize\<close>: the scope it stores in \<open>request.state\<close> and returns, from the \<open>authorization\<close> header.\<close>

definition authorize_workspace ::
    "(string \<Rightarrow> nat list) \<Rightarrow> credential list \<Rightarrow> string option \<Rightarrow> http_exception + workspace_scope" where
  "authorize_workspace sha256 credentials header =
     (if credentials = [] then Inl AUTH_UNAVAILABLE
      else
        let authorization = (case header of None \<Rightarrow> [] | Some h \<Rightarrow> h);
            token_bytes = ascii_bytes (bearer_token authorization);
            valid = token_is_valid token_bytes;
            candidate = sha256 (if valid then token_bytes else [])
        in case matched_scope candidate credentials None of
             None \<Rightarrow> Inl UNAUTHORIZED
           | Some scope \<Rightarrow> (if valid then Inr scope else Inl UNAUTHORIZED))"

section \<open>Binding grants\<close>

definition BINDING_GRANTS_INVALID :: string where
  "BINDING_GRANTS_INVALID = ''REACTOR_WORKSPACE_SERVING_BINDING_GRANTS_INVALID''"

definition grant_items :: "json \<Rightarrow> json list option" where
  "grant_items document =
     (case document of
        JObj d \<Rightarrow>
          (if \<not> keys_are d [''version'', ''grants''] then None
           else if \<not> is_exact_int (get_or_null d ''version'') then None
           else if int_value (get_or_null d ''version'') \<noteq> 1 then None
           else case items_of (get_or_null d ''grants'') of
             None \<Rightarrow> None
           | Some xs \<Rightarrow> (if length xs \<le> MAXIMUM_WORKSPACE_SERVING_BINDING_GRANTS then Some xs else None))
      | _ \<Rightarrow> None)"

definition parse_grant :: "json \<Rightarrow> (string \<times> string \<times> string) option" where
  "parse_grant item =
     (case item of
        JObj d \<Rightarrow>
          (if \<not> keys_are d [''servingBindingId'', ''organizationId'', ''workspaceId''] then None
           else
             let values = [get_or_null d ''servingBindingId'', get_or_null d ''organizationId'',
                           get_or_null d ''workspaceId'']
             in if \<forall>v \<in> set values. identity_ok v
                then Some (str_of (values ! 0), str_of (values ! 1), str_of (values ! 2)) else None)
      | _ \<Rightarrow> None)"

fun parse_grants :: "json list \<Rightarrow> (string \<times> string \<times> string) list
    \<Rightarrow> string + (string \<times> string \<times> string) list" where
  "parse_grants [] grants = Inr grants"
| "parse_grants (item # items) grants =
     (case parse_grant item of
        None \<Rightarrow> Inl BINDING_GRANTS_INVALID
      | Some g \<Rightarrow> (if g \<in> set grants then Inl BINDING_GRANTS_INVALID else parse_grants items (grants @ [g])))"

definition parse_grant_map ::
    "(string \<Rightarrow> json option) \<Rightarrow> string option \<Rightarrow> string + (string \<times> string \<times> string) list" where
  "parse_grant_map loads raw =
     (case raw of
        None \<Rightarrow> Inr []
      | Some s \<Rightarrow>
          (if s = [] then Inr []
           else if MAXIMUM_CREDENTIAL_MAP_BYTES < utf8_length s then Inl BINDING_GRANTS_INVALID
           else case loads s of
             None \<Rightarrow> Inl BINDING_GRANTS_INVALID
           | Some document \<Rightarrow>
               (case grant_items document of
                  None \<Rightarrow> Inl BINDING_GRANTS_INVALID
                | Some items \<Rightarrow> parse_grants items [])))"

section \<open>Facts\<close>

lemma parse_credentials_Inr:
  "parse_credentials items seen = Inr cs \<longleftrightarrow>
     (\<exists>new. map parse_credential items = map Some new \<and> cs = seen @ new
        \<and> distinct (map cr_token_digest new)
        \<and> set (map cr_token_digest new) \<inter> set (map cr_token_digest seen) = {})"
proof (induction items arbitrary: seen)
  case (Cons item items)
  show ?case
  proof (cases "parse_credential item")
    case (Some c)
    then show ?thesis using Cons.IH [of "seen @ [c]"]
      by (auto simp: Cons_eq_map_conv)
  qed auto
qed auto

lemma matched_scope_append:
  "matched_scope d (cs @ [c]) s = (if d = cr_token_digest c then Some (cr_scope c) else matched_scope d cs s)"
  by (induction cs arbitrary: s) auto

text \<open>With distinct digests, as the map guarantees, the last match is the only one.\<close>

lemma matched_scope_Some:
  "distinct (map cr_token_digest cs) \<Longrightarrow>
     matched_scope d cs None = Some scope \<longleftrightarrow> \<lparr>cr_token_digest = d, cr_scope = scope\<rparr> \<in> set cs"
proof (induction cs rule: rev_induct)
  case (snoc c cs)
  then show ?case by (cases c) (force simp: matched_scope_append image_iff)
qed simp

lemma parse_credential_map_Inr:
  assumes "parse_credential_map loads raw = Inr cs"
  shows "distinct (map cr_token_digest cs) \<and> length cs \<le> MAXIMUM_CREDENTIALS"
proof (cases "raw = None \<or> raw = Some []")
  case False
  with assms obtain items where "length items \<le> MAXIMUM_CREDENTIALS" "parse_credentials items [] = Inr cs"
    by (auto simp: parse_credential_map_def credential_items_def split: option.splits if_splits json.splits)
  moreover have "length items = length new" if "map parse_credential items = map Some new" for new
    using that by (metis length_map)
  ultimately show ?thesis by (auto simp: parse_credentials_Inr)
qed (use assms in \<open>auto simp: parse_credential_map_def\<close>)

lemma parse_grants_Inr:
  "parse_grants items grants = Inr gs \<longleftrightarrow>
     (\<exists>new. map parse_grant items = map Some new \<and> gs = grants @ new
        \<and> distinct new \<and> set new \<inter> set grants = {})"
proof (induction items arbitrary: grants)
  case (Cons item items)
  show ?case
  proof (cases "parse_grant item")
    case (Some g)
    then show ?thesis using Cons.IH [of "grants @ [g]"] by (cases g) (auto simp: Cons_eq_map_conv)
  qed auto
qed auto

lemma valid_is_ascii: "token_is_valid t \<Longrightarrow> ascii_bytes t = t"
  by (force simp: token_is_valid_def ascii_bytes_def)

lemma bearer_append: "bearer_token (''Bearer '' @ tok) = tok"
  by (simp add: bearer_token_def startswith_def)

text \<open>The check on the decoded bytes is a condition on the header: it is \<open>Bearer\<close> and a valid token.\<close>

lemma bearer_token_valid:
  "token_is_valid (ascii_bytes (bearer_token h)) \<and> P (ascii_bytes (bearer_token h)) \<longleftrightarrow>
     (\<exists>tok. h = ''Bearer '' @ tok \<and> token_is_valid tok \<and> P tok)"
proof
  assume valid: "token_is_valid (ascii_bytes (bearer_token h)) \<and> P (ascii_bytes (bearer_token h))"
  have "ascii_bytes (bearer_token h) \<noteq> []"
    using valid by (auto simp: token_is_valid_def MINIMUM_WORKSPACE_TOKEN_BYTES_def)
  then have ne: "ascii_bytes (bearer_token h) = bearer_token h" "bearer_token h \<noteq> []"
    by (auto simp: ascii_bytes_def split: if_splits)
  then obtain t where "h = ''Bearer '' @ t" by (auto simp: bearer_token_def startswith_iff split: if_splits)
  with valid ne bearer_append show "\<exists>tok. h = ''Bearer '' @ tok \<and> token_is_valid tok \<and> P tok" by metis
next
  assume "\<exists>tok. h = ''Bearer '' @ tok \<and> token_is_valid tok \<and> P tok"
  then obtain tok where h: "h = ''Bearer '' @ tok" and v: "token_is_valid tok" "P tok" by blast
  show "token_is_valid (ascii_bytes (bearer_token h)) \<and> P (ascii_bytes (bearer_token h))"
    unfolding h bearer_append valid_is_ascii [OF v(1)] using v by blast
qed

end
