(* ===== verification/Logging.thy ===== *)
theory Logging
  imports Workspace_Auth
begin

text \<open>
  Structured logging (\<open>logging.py\<close>): the redaction of attributes, the clean-up of untrusted correlation
  headers, the W3C trace header, and the formatting of one record with its two size limits. The process
  instance id and the clock are arguments; writing the line to \<open>stderr\<close> is not modelled. Attributes
  are JSON values, as every caller in the Product passes them.
\<close>

section \<open>Sensitive keys\<close>

definition SENSITIVE_KEY_SUBSTRINGS :: "string list" where
  "SENSITIVE_KEY_SUBSTRINGS = [''authorization'', ''auth'', ''token'', ''api_key'', ''apikey'', ''secret'',
     ''password'', ''cookie'', ''client_secret'', ''private_key'']"

definition is_sensitive_key :: "string \<Rightarrow> bool" where
  "is_sensitive_key key =
     (let l = replace_char CHR ''-'' CHR ''_'' (lower key)
      in if l = ''tokens'' \<or> endswith l ''_tokens'' \<or> l = ''token_count'' then False
         else list_ex (contains l) SENSITIVE_KEY_SUBSTRINGS)"

section \<open>Correlation headers\<close>

definition correlation_char :: "char \<Rightarrow> bool" where
  "correlation_char c \<longleftrightarrow> is_alnum c \<or> c \<in> set ''-_./:''"

definition sanitize_correlation_id :: "string option \<Rightarrow> nat \<Rightarrow> string option" where
  "sanitize_correlation_id raw max_len =
     (case raw of
        None \<Rightarrow> None
      | Some s \<Rightarrow>
          (if s = [] then None
           else if strip s = [] then None
           else let filtered = filter correlation_char (strip s)
                in if filtered = [] then None else Some (take max_len filtered)))"

definition sanitize_request_id :: "string option \<Rightarrow> string option" where
  "sanitize_request_id raw = sanitize_correlation_id raw 128"

definition sanitize_operation_id :: "string option \<Rightarrow> string option" where
  "sanitize_operation_id raw = sanitize_correlation_id raw 128"

definition sanitize_resource_id :: "string option \<Rightarrow> string option" where
  "sanitize_resource_id raw = sanitize_correlation_id raw 256"

text \<open>The pattern has fixed widths, so its match is a cut at the columns 3, 35, 36, 52 and 53.\<close>

definition traceparent_shape :: "string \<Rightarrow> bool" where
  "traceparent_shape s \<longleftrightarrow> length s = 55 \<and> take 3 s = ''00-''
     \<and> (\<forall>c \<in> set (take 32 (drop 3 s)). is_hex c) \<and> s ! 35 = CHR ''-''
     \<and> (\<forall>c \<in> set (take 16 (drop 36 s)). is_hex c) \<and> s ! 52 = CHR ''-''
     \<and> (\<forall>c \<in> set (drop 53 s). is_hex c)"

definition zeros :: "nat \<Rightarrow> string" where
  "zeros n = replicate n CHR ''0''"

definition parse_w3c_traceparent :: "string option \<Rightarrow> (string \<times> string) option" where
  "parse_w3c_traceparent raw =
     (case raw of
        None \<Rightarrow> None
      | Some s \<Rightarrow>
          (if s = [] then None
           else let trimmed = strip s
                in if \<not> traceparent_shape trimmed then None
                   else let trace_id = take 32 (drop 3 trimmed); span_id = take 16 (drop 36 trimmed)
                        in if trace_id = zeros 32 \<or> span_id = zeros 16 then None
                           else Some (trace_id, span_id)))"

section \<open>Redaction\<close>

definition REDACTED :: json where
  "REDACTED = JStr ''[REDACTED]''"

text \<open>
  \<open>redact_attributes\<close>, with the treatment of one value (\<open>redact_value\<close>) and of one list item
  (\<open>redact_item\<close>: only mappings are entered, a list inside a list is copied as it is).
\<close>

fun redact_attributes :: "dict \<Rightarrow> dict"
  and redact_entry :: "string \<times> json \<Rightarrow> string \<times> json"
  and redact_value :: "json \<Rightarrow> json"
  and redact_item :: "json \<Rightarrow> json" where
  "redact_attributes d = map redact_entry d"
| "redact_entry (k, v) = (k, if is_sensitive_key k then REDACTED else redact_value v)"
| "redact_value (JObj d) = JObj (redact_attributes d)"
| "redact_value (JArr xs) = JArr (map redact_item xs)"
| "redact_value v = v"
| "redact_item (JObj d) = JObj (redact_attributes d)"
| "redact_item v = v"

section \<open>One record\<close>

definition MAX_RECORD_BYTES :: nat where
  "MAX_RECORD_BYTES = 32 * 1024"

definition MAX_MESSAGE_BYTES :: nat where
  "MAX_MESSAGE_BYTES = 4 * 1024"

definition truthy_str :: "string option \<Rightarrow> string option" where
  "truthy_str s = (if s = Some [] then None else s)"

definition log_record ::
    "string \<Rightarrow> string \<Rightarrow> string \<Rightarrow> string \<Rightarrow> string \<Rightarrow> string \<Rightarrow> string option \<Rightarrow> string option \<Rightarrow> dict option \<Rightarrow> dict"
  where
  "log_record instance_id now level event_name message service_name trace_id span_id attributes =
     [(''schema_version'', JInt 1), (''timestamp'', JStr now), (''level'', JStr (upper level)),
      (''event.name'', JStr event_name), (''service.name'', JStr service_name),
      (''service.instance.id'', JStr instance_id), (''message'', JStr (take MAX_MESSAGE_BYTES message))]
     @ (case truthy_str trace_id of None \<Rightarrow> [] | Some t \<Rightarrow> [(''trace_id'', JStr t)])
     @ (case truthy_str span_id of None \<Rightarrow> [] | Some t \<Rightarrow> [(''span_id'', JStr t)])
     @ (case attributes of
          None \<Rightarrow> []
        | Some a \<Rightarrow> (if redact_attributes a = [] then [] else [(''attributes'', JObj (redact_attributes a))]))"

definition format_cyrene_log ::
    "string \<Rightarrow> string \<Rightarrow> string \<Rightarrow> string \<Rightarrow> string \<Rightarrow> string \<Rightarrow> string option \<Rightarrow> string option \<Rightarrow> dict option \<Rightarrow> string"
  where
  "format_cyrene_log instance_id now level event_name message service_name trace_id span_id attributes =
     (let record = log_record instance_id now level event_name message service_name trace_id span_id attributes;
          serialized = dumps_compact False (JObj record)
      in if MAX_RECORD_BYTES < utf8_length serialized
         then dumps_compact False (JObj (dict_set record ''attributes'' (JObj [(''truncated'', JBool True)])))
         else serialized)"

definition emit_diagnostic_error ::
    "string \<Rightarrow> string \<Rightarrow> string \<Rightarrow> string \<Rightarrow> string \<Rightarrow> string option \<Rightarrow> string option \<Rightarrow> dict option \<Rightarrow> string"
  where
  "emit_diagnostic_error instance_id now event_name error_code message trace_id span_id attributes =
     (let attrs = dict_set (case attributes of None \<Rightarrow> [] | Some a \<Rightarrow> a) ''error.code'' (JStr error_code)
      in format_cyrene_log instance_id now ''ERROR'' event_name message ''cyrene-reactor'' trace_id span_id
           (Some attrs) @ [chr 10])"

section \<open>What redaction keeps and hides\<close>

text \<open>A position in a JSON value: object keys and list indices from the root.\<close>

datatype json_step = Key string | Item nat

fun json_at :: "json \<Rightarrow> json_step list \<Rightarrow> json option" where
  "json_at v [] = Some v"
| "json_at (JObj d) (Key k # p) = (case dict_get d k of None \<Rightarrow> None | Some v \<Rightarrow> json_at v p)"
| "json_at (JArr xs) (Item i # p) = (if i < length xs then json_at (xs ! i) p else None)"
| "json_at _ (_ # _) = None"

fun no_nested_lists :: "json_step list \<Rightarrow> bool" where
  "no_nested_lists (Item i # Item j # p) = False"
| "no_nested_lists (s # p) = no_nested_lists p"
| "no_nested_lists [] = True"

fun sensitive_step :: "json_step \<Rightarrow> bool" where
  "sensitive_step (Key k) = is_sensitive_key k"
| "sensitive_step (Item i) = False"

fun is_leaf :: "json \<Rightarrow> bool" where
  "is_leaf (JObj _) = False"
| "is_leaf (JArr _) = False"
| "is_leaf _ = True"

lemma redact_get: "dict_get (redact_attributes d) k =
    (case dict_get d k of None \<Rightarrow> None | Some v \<Rightarrow> Some (if is_sensitive_key k then REDACTED else redact_value v))"
  by (induction d) auto


lemma leaf_not_compound [simp]: "is_leaf w \<Longrightarrow> w \<noteq> JObj d" "is_leaf w \<Longrightarrow> w \<noteq> JArr xs"
  by auto

lemma no_nested_item: "no_nested_lists (Item i # p) \<longleftrightarrow> no_nested_lists (Item 0 # p)"
  by (cases p; cases "hd p"; simp)

lemma hidden_path:
  "list_ex sensitive_step p \<Longrightarrow>
     (no_nested_lists p \<longrightarrow> json_at (redact_value v) p \<in> {None, Some REDACTED})
   \<and> (no_nested_lists (Item 0 # p) \<longrightarrow> json_at (redact_item v) p \<in> {None, Some REDACTED})"
proof (induction p arbitrary: v)
  case (Cons s p)
  show ?case
  proof (cases s)
    case (Item i)
    have "no_nested_lists (Item i # p) \<Longrightarrow> no_nested_lists (Item 0 # p)" using no_nested_item by blast
    with Item Cons show ?thesis by (cases v; cases p) auto
  next
    case (Key k)
    have after: "json_at REDACTED p \<in> {None, Some REDACTED}" by (cases p) (simp_all add: REDACTED_def)
    have "json_at (JObj (redact_attributes d)) (Key k # p) \<in> {None, Some REDACTED}"
      if "no_nested_lists p" for d
      using that Cons Key after by (auto simp: redact_get split: option.splits simp del: redact_attributes.simps)
    with Key show ?thesis by (cases v) (simp_all del: redact_attributes.simps)
  qed
qed simp

lemma kept_path:
  "\<not> list_ex sensitive_step p \<Longrightarrow> is_leaf w \<Longrightarrow>
     (json_at (redact_value v) p = Some w \<longleftrightarrow> json_at v p = Some w)
   \<and> (json_at (redact_item v) p = Some w \<longleftrightarrow> json_at v p = Some w)"
proof (induction p arbitrary: v)
  case Nil
  then show ?case by (cases v) (auto dest: leaf_not_compound)
next
  case (Cons s p)
  show ?case
  proof (cases s)
    case (Item i)
    with Cons show ?thesis by (cases v) auto
  next
    case (Key k)
    with Cons show ?thesis
      by (cases v) (auto simp: redact_get split: option.splits simp del: redact_attributes.simps)
  qed
qed

lemma redact_root: "JObj (redact_attributes d) = redact_value (JObj d)"
  by simp

section \<open>Trace headers\<close>

definition hex_text :: "nat \<Rightarrow> string \<Rightarrow> bool" where
  "hex_text n s \<longleftrightarrow> length s = n \<and> (\<forall>c \<in> set s. is_hex c)"

text \<open>The header the API's middleware writes, for any flags.\<close>

definition traceparent :: "string \<Rightarrow> string \<Rightarrow> string \<Rightarrow> string" where
  "traceparent trace_id span_id flags = ''00-'' @ trace_id @ ''-'' @ span_id @ ''-'' @ flags"

lemma hex_not_space: "is_hex c \<Longrightarrow> \<not> is_space c"
  by (auto simp: is_hex_def is_digit_def is_space_def)

lemma strip_fixed: "s \<noteq> [] \<Longrightarrow> \<not> is_space (hd s) \<Longrightarrow> \<not> is_space (last s) \<Longrightarrow> strip s = s"
proof -
  assume "s \<noteq> []" "\<not> is_space (hd s)" "\<not> is_space (last s)"
  then have "dropWhile is_space s = s" "dropWhile is_space (rev s) = rev s"
    by (simp_all add: dropWhile_eq_self_iff hd_rev)
  then show ?thesis by (simp add: strip_def)
qed

lemma traceparent_cut:
  assumes "hex_text 32 t" "hex_text 16 n" "hex_text 2 f"
  shows "traceparent_shape (traceparent t n f)" "strip (traceparent t n f) = traceparent t n f"
    "take 32 (drop 3 (traceparent t n f)) = t" "take 16 (drop 36 (traceparent t n f)) = n"
proof -
  have "f \<noteq> []" using assms(3) by (auto simp: hex_text_def)
  moreover from this have "is_hex (last f)" using assms(3) last_in_set by (auto simp: hex_text_def)
  ultimately have f: "f \<noteq> []" "\<not> is_space (last f)" using hex_not_space by blast+
  then show "strip (traceparent t n f) = traceparent t n f"
    by (intro strip_fixed) (auto simp: traceparent_def is_space_def code_def)
  show "take 32 (drop 3 (traceparent t n f)) = t" "take 16 (drop 36 (traceparent t n f)) = n"
    using assms by (simp_all add: traceparent_def hex_text_def)
  show "traceparent_shape (traceparent t n f)"
    using assms by (simp add: traceparent_shape_def traceparent_def hex_text_def nth_append)
qed

lemma traceparent_only:
  assumes "traceparent_shape s"
  shows "s = traceparent (take 32 (drop 3 s)) (take 16 (drop 36 s)) (drop 53 s)"
    and "hex_text 32 (take 32 (drop 3 s))" "hex_text 16 (take 16 (drop 36 s))" "hex_text 2 (drop 53 s)"
proof -
  note d = assms [unfolded traceparent_shape_def]
  then show "hex_text 32 (take 32 (drop 3 s))" "hex_text 16 (take 16 (drop 36 s))" "hex_text 2 (drop 53 s)"
    by (auto simp: hex_text_def)
  have "s = take 3 s @ drop 3 s" by simp
  also have "drop 3 s = take 32 (drop 3 s) @ drop 35 s" using append_take_drop_id [of 32 "drop 3 s"] by simp
  also have "drop 35 s = s ! 35 # drop 36 s" using d Cons_nth_drop_Suc [of 35 s] by simp
  also have "drop 36 s = take 16 (drop 36 s) @ drop 52 s" using append_take_drop_id [of 16 "drop 36 s"] by simp
  also have "drop 52 s = s ! 52 # drop 53 s" using d Cons_nth_drop_Suc [of 52 s] by simp
  finally show "s = traceparent (take 32 (drop 3 s)) (take 16 (drop 36 s)) (drop 53 s)"
    using d by (simp add: traceparent_def)
qed

text \<open>\<open>parse_w3c_traceparent\<close> accepts exactly the headers \<open>00-trace-span-flags\<close> (up to surrounding white
  space) with 32, 16 and 2 lower-case hexadecimal digits and neither id all zeros, and returns the two ids.
  So the header the API answers with parses back to the trace id it carries.\<close>

theorem traceparent_roundtrip:
  "parse_w3c_traceparent raw = Some (t, n) \<longleftrightarrow>
     (\<exists>s f. raw = Some s \<and> strip s = traceparent t n f \<and> hex_text 32 t \<and> hex_text 16 n \<and> hex_text 2 f
        \<and> t \<noteq> zeros 32 \<and> n \<noteq> zeros 16)"
proof
  assume "parse_w3c_traceparent raw = Some (t, n)"
  then obtain s where s: "raw = Some s" "traceparent_shape (strip s)" "t = take 32 (drop 3 (strip s))"
      "n = take 16 (drop 36 (strip s))" "t \<noteq> zeros 32" "n \<noteq> zeros 16"
    by (auto simp: parse_w3c_traceparent_def Let_def split: option.splits if_splits)
  with traceparent_only [OF s(2)] show "\<exists>s f. raw = Some s \<and> strip s = traceparent t n f \<and> hex_text 32 t
      \<and> hex_text 16 n \<and> hex_text 2 f \<and> t \<noteq> zeros 32 \<and> n \<noteq> zeros 16" by blast
next
  assume "\<exists>s f. raw = Some s \<and> strip s = traceparent t n f \<and> hex_text 32 t \<and> hex_text 16 n \<and> hex_text 2 f
        \<and> t \<noteq> zeros 32 \<and> n \<noteq> zeros 16"
  then obtain s f where s: "raw = Some s" "strip s = traceparent t n f" "hex_text 32 t" "hex_text 16 n"
      "hex_text 2 f" "t \<noteq> zeros 32" "n \<noteq> zeros 16" by blast
  have "s \<noteq> []" using s(2) by (auto simp: traceparent_def strip_def)
  with s traceparent_cut [OF s(3-5)] show "parse_w3c_traceparent raw = Some (t, n)"
    by (simp add: parse_w3c_traceparent_def)
qed



end
