(* ===== verification/Workspace_Projection.thy ===== *)
theory Workspace_Projection
  imports Domain
begin

text \<open>
  The browser-safe projection of model imports (\<open>workspace_projection.py\<close>): the closed response models
  with their field constraints, the label and code filters, and the projection itself. Building a
  response model whose constraints fail raises pydantic's \<open>ValidationError\<close>, here \<open>None\<close>.
\<close>

section \<open>Response models\<close>

record artifact_document =
  ap_digest :: string
  ap_size_bytes :: int
  ap_kind :: artifact_kind
  ap_manifest_digest :: "string option"

record source_projection =
  sp_kind :: import_source_kind
  sp_revision :: "string option"

record validation_projection =
  vp_weights :: bool
  vp_config :: bool
  vp_tokenizer :: bool
  vp_chat_template :: bool
  vp_license :: "string option"
  vp_digest :: string

record failure_projection =
  fp_code :: string
  fp_retryable :: bool

record import_projection =
  wp_id :: uuid
  wp_name :: string
  wp_serving_binding_id :: string
  wp_source :: source_projection
  wp_state :: import_state
  wp_model_artifact :: "artifact_document option"
  wp_validation :: "validation_projection option"
  wp_failure :: "failure_projection option"
  wp_created_at :: datetime
  wp_updated_at :: datetime
  wp_resource_version :: int

section \<open>Patterns\<close>

text \<open>\<open>fullmatch\<close> of a bounded repetition of one character class.\<close>

definition repeated :: "(char \<Rightarrow> bool) \<Rightarrow> nat \<Rightarrow> nat \<Rightarrow> string \<Rightarrow> bool" where
  "repeated P lo hi s \<longleftrightarrow> lo \<le> length s \<and> length s \<le> hi \<and> (\<forall>c \<in> set s. P c)"

definition label_char :: "char \<Rightarrow> bool" where
  "label_char c \<longleftrightarrow> c \<notin> set ''/:'' \<and> code c \<noteq> 92"

definition safe_display_label :: "string \<Rightarrow> bool" where
  "safe_display_label s = repeated label_char 1 200 s"

definition safe_failure_code :: "string \<Rightarrow> bool" where
  "safe_failure_code s = repeated (\<lambda>c. is_upper c \<or> is_digit c \<or> c = CHR ''_'') 1 100 s"

definition safe_license :: "string \<Rightarrow> bool" where
  "safe_license s = repeated (\<lambda>c. is_upper c \<or> is_lower c \<or> is_digit c \<or> c \<in> set ''.+-'') 1 100 s"

definition is_slash :: "char \<Rightarrow> bool" where
  "is_slash c \<longleftrightarrow> c = CHR ''/'' \<or> code c = 92"

definition is_letter :: "char \<Rightarrow> bool" where
  "is_letter c \<longleftrightarrow> is_upper c \<or> is_lower c"

definition scheme_char :: "char \<Rightarrow> bool" where
  "scheme_char c \<longleftrightarrow> is_letter c \<or> is_digit c \<or> c \<in> set ''+.-''"

text \<open>\<open>_SCHEME_OR_ABSOLUTE_PATH.search\<close>: a URL scheme, a leading slash, or a drive letter.\<close>

definition scheme_or_absolute_path :: "string \<Rightarrow> bool" where
  "scheme_or_absolute_path s \<longleftrightarrow>
     (s \<noteq> [] \<and> is_letter (hd s) \<and> startswith (dropWhile scheme_char (tl s)) ''://'')
   \<or> (s \<noteq> [] \<and> is_slash (hd s))
   \<or> (2 < length s \<and> is_letter (hd s) \<and> s ! 1 = CHR '':'' \<and> is_slash (s ! 2))"

definition binding_label :: "string \<Rightarrow> bool" where
  "binding_label s \<longleftrightarrow> s \<noteq> [] \<and> length s \<le> 200
     \<and> (is_letter (hd s) \<or> is_digit (hd s))
     \<and> (\<forall>c \<in> set (tl s). is_letter c \<or> is_digit c \<or> c \<in> set ''_.-'')"

definition revision_text :: "string \<Rightarrow> bool" where
  "revision_text s \<longleftrightarrow> length s = 40 \<and> (\<forall>c \<in> set s. is_hex c)"

definition opt_ok :: "('a \<Rightarrow> bool) \<Rightarrow> 'a option \<Rightarrow> bool" where
  "opt_ok P x \<longleftrightarrow> (case x of None \<Rightarrow> True | Some v \<Rightarrow> P v)"

section \<open>Field constraints\<close>

definition artifact_projection_ok :: "artifact_document \<Rightarrow> bool" where
  "artifact_projection_ok a \<longleftrightarrow> sha256_ref (ap_digest a) \<and> 0 \<le> ap_size_bytes a
     \<and> opt_ok sha256_ref (ap_manifest_digest a)"

definition source_projection_ok :: "source_projection \<Rightarrow> bool" where
  "source_projection_ok x \<longleftrightarrow> opt_ok revision_text (sp_revision x)"

definition validation_projection_ok :: "validation_projection \<Rightarrow> bool" where
  "validation_projection_ok v \<longleftrightarrow> opt_ok safe_license (vp_license v) \<and> sha256_ref (vp_digest v)"

definition failure_projection_ok :: "failure_projection \<Rightarrow> bool" where
  "failure_projection_ok f \<longleftrightarrow> safe_failure_code (fp_code f)"

definition import_projection_ok :: "import_projection \<Rightarrow> bool" where
  "import_projection_ok w \<longleftrightarrow> safe_display_label (wp_name w) \<and> binding_label (wp_serving_binding_id w)
     \<and> source_projection_ok (wp_source w) \<and> opt_ok artifact_projection_ok (wp_model_artifact w)
     \<and> opt_ok validation_projection_ok (wp_validation w) \<and> opt_ok failure_projection_ok (wp_failure w)
     \<and> 1 \<le> wp_resource_version w"

section \<open>Projection\<close>

definition artifact_projection :: "artifact_ref option \<Rightarrow> artifact_document option" where
  "artifact_projection artifact = map_option (\<lambda>a.
     \<lparr>ap_digest = ar_digest a, ap_size_bytes = ar_size_bytes a, ap_kind = ar_kind a,
      ap_manifest_digest = ar_manifest_digest a\<rparr>) artifact"

definition project_name :: "model_import \<Rightarrow> string" where
  "project_name m =
     (if scheme_or_absolute_path (mi_name m) \<or> \<not> safe_display_label (mi_name m)
      then ''Model import '' @ mi_id m else mi_name m)"

definition project_validation :: "import_validation \<Rightarrow> validation_projection" where
  "project_validation v =
     \<lparr>vp_weights = iv_weights v, vp_config = iv_config v, vp_tokenizer = iv_tokenizer v,
      vp_chat_template = iv_chat_template v,
      vp_license = (case iv_license v of None \<Rightarrow> None | Some l \<Rightarrow> if safe_license l then Some l else None),
      vp_digest = iv_digest v\<rparr>"

definition project_failure :: "product_failure_doc \<Rightarrow> failure_projection" where
  "project_failure f =
     \<lparr>fp_code = (if safe_failure_code (pf_code f) then pf_code f else ''MODEL_IMPORT_FAILED''),
      fp_retryable = pf_retryable f\<rparr>"

definition projected_import :: "model_import \<Rightarrow> import_projection" where
  "projected_import m =
     \<lparr>wp_id = mi_id m, wp_name = project_name m, wp_serving_binding_id = mi_serving_binding_id m,
      wp_source = \<lparr>sp_kind = is_kind (mi_source m), sp_revision = is_revision (mi_source m)\<rparr>,
      wp_state = mi_state m, wp_model_artifact = artifact_projection (mi_model_artifact m),
      wp_validation = map_option project_validation (mi_validation m),
      wp_failure = map_option project_failure (mi_failure m),
      wp_created_at = mi_created_at m, wp_updated_at = mi_updated_at m,
      wp_resource_version = mi_resource_version m\<rparr>"

definition project_workspace_model_import :: "model_import \<Rightarrow> import_projection option" where
  "project_workspace_model_import m =
     (if import_projection_ok (projected_import m) then Some (projected_import m) else None)"

end
