(* ===== verification/Api.thy ===== *)
theory Api
  imports Exchange_Handoff Logging Workspace_Projection Package_Owner Remote_Engine
begin

text \<open>
  The HTTP adapter (\<open>api.py\<close>): building the application, the authorization of every request, the trace
  middleware, one definition per route handler, and the exception handlers that turn errors into problem
  documents. A request carries its path, headers and the already decoded arguments of its route;
  FastAPI's own decoding (routing, UUID and body parsing) is not modelled, but the bounds a handler
  declares for its headers and query are, and those of the bodies in \<open>Api_Requests\<close>. The database tables of the Product and of the package runtime
  owner are two parts of the state.
\<close>

section \<open>Application and requests\<close>

record 'e app =
  ap_env :: "'e env"
  ap_token :: "string option"
  ap_credentials :: "credential list"
  ap_sha256 :: "string \<Rightarrow> nat list"
  ap_allow_unauthenticated_dev :: bool
  ap_receivers :: "(string \<times> 'e receiver) list"
  ap_owner :: "owner option"
  ap_remotes :: "(string \<times> 'e remote option) list"
  ap_dump_draft :: "resource_ref \<Rightarrow> dict \<Rightarrow> string"

record 'e server_state =
  as_world :: "'e world"
  as_owner :: owner_db

type_synonym ('e, 'a) api = "('e server_state, exn, 'a) py"

record request =
  rq_path :: string
  rq_authorization :: "string option"
  rq_traceparent :: "string option"
  rq_request_id :: "string option"

definition svc :: "('e, 'a) svc \<Rightarrow> ('e, 'a) api" where
  "svc m = zoom as_world (\<lambda>w s. s\<lparr>as_world := w\<rparr>) m"

definition owned :: "'a owner_op \<Rightarrow> ('e, 'a) api" where
  "owned m = zoom as_owner (\<lambda>o' s. s\<lparr>as_owner := o'\<rparr>) m"

text \<open>
  \<open>create_app\<close>: the operator's maps and credential are checked before anything is served. The
  credential file is its text and its mode bits; the engines are given by the environment.
\<close>

definition create_app ::
    "(string \<Rightarrow> json option) \<Rightarrow> (string \<Rightarrow> nat list) \<Rightarrow> 'e env \<Rightarrow> (string \<times> 'e remote option) list
     \<Rightarrow> (string \<times> nat) option \<Rightarrow> string option \<Rightarrow> string option \<Rightarrow> bool \<Rightarrow> (string \<times> 'e receiver) list
     \<Rightarrow> owner option res \<Rightarrow> (resource_ref \<Rightarrow> dict \<Rightarrow> string) \<Rightarrow> 'e app res" where
  "create_app loads sha256 env remotes credential_file credential_map grants allow_dev receivers owner dump_draft =
     (case parse_credential_map loads credential_map of
        Inl e \<Rightarrow> Inl (ValueError e)
      | Inr credentials \<Rightarrow>
          (case parse_grant_map loads grants of
             Inl e \<Rightarrow> Inl (ValueError e)
           | Inr granted \<Rightarrow>
               resB owner (\<lambda>o'.
               let token = map_option (\<lambda>(text, mode). strip text) credential_file
               in if (case credential_file of
                        None \<Rightarrow> False
                      | Some (text, mode) \<Rightarrow> length (strip text) < 32 \<or> mode mod 64 \<noteq> 0)
                  then Inl (ValueError ''REACTOR_CREDENTIAL_INVALID'')
                  else Inr \<lparr>ap_env = env\<lparr>rx_workspace_grants := granted\<rparr>, ap_token = token,
                            ap_credentials = credentials, ap_sha256 = sha256,
                            ap_allow_unauthenticated_dev = allow_dev, ap_receivers = receivers,
                            ap_owner = o', ap_remotes = remotes, ap_dump_draft = dump_draft\<rparr>)))"

section \<open>Authorization\<close>

text \<open>\<open>secrets.compare_digest\<close> on strings raises for a character outside ASCII.\<close>

definition compare_digest :: "string \<Rightarrow> string \<Rightarrow> bool res" where
  "compare_digest a b =
     (if \<forall>c \<in> set (a @ b). code c < 128 then Inr (a = b)
      else Inl (TypeError ''comparing strings with non-ASCII characters is not supported''))"

definition header_text :: "string option \<Rightarrow> string" where
  "header_text h = (case h of None \<Rightarrow> [] | Some t \<Rightarrow> t)"

definition check_control_token :: "string \<Rightarrow> request \<Rightarrow> unit res" where
  "check_control_token token q =
     resB (compare_digest (header_text (rq_authorization q)) (''Bearer '' @ token)) (\<lambda>same.
     if same then Inr () else Inl (HttpError 403 ''REACTOR_PERMISSION_DENIED''))"

fun http_exception_exn :: "http_exception \<Rightarrow> exn" where
  "http_exception_exn (HTTPException n detail headers) = HttpError n detail"

text \<open>\<open>authorize\<close>; the result is the scope it left in \<open>request.state\<close>, for Workspace routes only.\<close>

definition authorize :: "'e app \<Rightarrow> request \<Rightarrow> workspace_scope option res" where
  "authorize a q =
     (if rq_path q \<in> {''/healthz'', ''/readyz'', ''/''} then Inr None
      else if startswith (rq_path q) ''/api/v1/runtime-bindings/'' then
        (case ap_token a of
           None \<Rightarrow> Inl (HttpError 503 ''REACTOR_CONTROL_AUTH_UNAVAILABLE'')
         | Some token \<Rightarrow> resB (check_control_token token q) (\<lambda>_. Inr None))
      else if protects (rq_path q) then
        (case authorize_workspace (ap_sha256 a) (ap_credentials a) (rq_authorization q) of
           Inl e \<Rightarrow> Inl (http_exception_exn e)
         | Inr scope \<Rightarrow> Inr (Some scope))
      else
        (case ap_token a of
           None \<Rightarrow> (if ap_allow_unauthenticated_dev a then Inr None
                     else Inl (HttpError 503 ''REACTOR_CONTROL_AUTH_UNAVAILABLE''))
         | Some token \<Rightarrow> resB (check_control_token token q) (\<lambda>_. Inr None)))"

section \<open>Middleware\<close>

record trace =
  tr_trace_id :: string
  tr_span_id :: string
  tr_request_id :: string

definition uuid_hex :: "'e env \<Rightarrow> ('e, string) svc" where
  "uuid_hex env = bindE (uuid4 env) (\<lambda>i. ret (remove_all ''-'' i))"

definition propagate_trace :: "'e app \<Rightarrow> request \<Rightarrow> ('e, trace) api" where
  "propagate_trace a q =
     svc (bindE (case parse_w3c_traceparent (rq_traceparent q) of
                   Some (t, s) \<Rightarrow> ret (t, s)
                 | None \<Rightarrow> bindE (uuid_hex (ap_env a)) (\<lambda>t. ret (t, ''0000000000000001''))) (\<lambda>(t, s).
          bindE (case sanitize_request_id (rq_request_id q) of
                   Some r \<Rightarrow> ret r
                 | None \<Rightarrow> uuid_hex (ap_env a)) (\<lambda>r.
          ret \<lparr>tr_trace_id = t, tr_span_id = s, tr_request_id = r\<rparr>)))"

definition response_headers :: "trace \<Rightarrow> (string \<times> string) list" where
  "response_headers t =
     [(''traceparent'', traceparent (tr_trace_id t) ''0000000000000001'' ''01''),
      (''x-request-id'', tr_request_id t)]"

section \<open>Error documents\<close>

record problem =
  pd_type :: string
  pd_title :: string
  pd_status :: int
  pd_detail :: string
  pd_instance :: string
  pd_code :: string
  pd_retryable :: bool
  pd_trace_id :: string
  pd_resource_ref :: "string option"
  pd_request_id :: "string option"
  pd_recovery_action :: "string option"

definition REQUEST_VALIDATION_ERROR :: exn where
  "REQUEST_VALIDATION_ERROR = PyException ''RequestValidationError'' [] None"

definition product_error :: "request \<Rightarrow> trace \<Rightarrow> product_error \<Rightarrow> problem" where
  "product_error q t e =
     (let mapped = map_reactor_error (pe_code e)
      in \<lparr>pd_type = ''https://errors.cyrene.dev/reactor/'' @ lower (em_code mapped), pd_title = pe_title e,
          pd_status = pe_status e, pd_detail = pe_detail e, pd_instance = rq_path q, pd_code = pe_code e,
          pd_retryable = pe_retryable e, pd_trace_id = tr_trace_id t, pd_resource_ref = pe_resource_ref e,
          pd_request_id = Some (tr_request_id t), pd_recovery_action = Some (em_recovery_action mapped)\<rparr>)"

definition binding_error :: "engine_failure \<Rightarrow> product_error" where
  "binding_error f =
     \<lparr>pe_code = (if ef_status f = 403 then ''REACTOR_BINDING_PERMISSION_DENIED'' else ''REACTOR_BINDING_UNAVAILABLE''),
      pe_title = ''Serving binding unavailable'', pe_detail = ef_detail f, pe_status = ef_status f,
      pe_retryable = ef_retryable f, pe_resource_ref = None\<rparr>"

definition validation_error :: "request \<Rightarrow> trace \<Rightarrow> problem" where
  "validation_error q t =
     (let mapped = map_reactor_error ''REACTOR_REQUEST_INVALID''
      in \<lparr>pd_type = ''https://errors.cyrene.dev/reactor/'' @ lower (em_code mapped),
          pd_title = ''Request validation failed'', pd_status = 422,
          pd_detail = ''The request does not conform to the Reactor Product API v1 contract.'',
          pd_instance = rq_path q, pd_code = ''REACTOR_REQUEST_INVALID'', pd_retryable = False,
          pd_trace_id = tr_trace_id t, pd_resource_ref = None, pd_request_id = Some (tr_request_id t),
          pd_recovery_action = Some (em_recovery_action mapped)\<rparr>)"

definition http_error :: "int \<Rightarrow> string \<Rightarrow> product_error" where
  "http_error n detail =
     \<lparr>pe_code = detail, pe_title = ''Reactor request rejected'', pe_detail = detail, pe_status = n,
      pe_retryable = False, pe_resource_ref = None\<rparr>"

text \<open>\<open>ProblemDetails\<close> admits the statuses 400 to 599; outside them its constructor raises.\<close>

definition checked_problem :: "problem \<Rightarrow> exn + problem" where
  "checked_problem p =
     (if 400 \<le> pd_status p \<and> pd_status p \<le> 599 then Inr p else Inl (ValueError ''ProblemDetails.status''))"

text \<open>Which handler an exception reaches; \<open>Inl\<close> is one that escapes as an internal server error.\<close>

definition error_response :: "request \<Rightarrow> trace \<Rightarrow> exn \<Rightarrow> exn + problem" where
  "error_response q t x =
     (case x of
        ProductError e \<Rightarrow> checked_problem (product_error q t e)
      | EngineFailure f \<Rightarrow> checked_problem (product_error q t (binding_error f))
      | HttpError n detail \<Rightarrow> checked_problem (product_error q t (http_error n detail))
      | _ \<Rightarrow> (if x = REQUEST_VALIDATION_ERROR then checked_problem (validation_error q t) else Inl x))"
section \<open>Declared bounds\<close>

definition key_within :: "nat \<Rightarrow> nat \<Rightarrow> string option \<Rightarrow> unit res" where
  "key_within lo hi key =
     (case key of
        None \<Rightarrow> Inr ()
      | Some k \<Rightarrow> (if lo \<le> length k \<and> length k \<le> hi then Inr () else Inl REQUEST_VALIDATION_ERROR))"

definition required_key :: "string option \<Rightarrow> string res" where
  "required_key key =
     (case key of
        None \<Rightarrow> Inl REQUEST_VALIDATION_ERROR
      | Some k \<Rightarrow> resB (key_within 1 128 key) (\<lambda>_. Inr k))"

text \<open>A body whose validator raises is a request validation error.\<close>

definition validated :: "'a res \<Rightarrow> 'a res" where
  "validated r = (case r of Inl e \<Rightarrow> Inl (if is_value_key_type_error e then REQUEST_VALIDATION_ERROR else e) | Inr v \<Rightarrow> Inr v)"

section \<open>Drafts\<close>

record deploy_draft_request =
  dq_name :: string
  dq_serving_binding_id :: string
  dq_node_ref :: "node_ref option"

definition import_draft ::
    "'e app \<Rightarrow> resource_ref \<Rightarrow> dict \<Rightarrow> string option \<Rightarrow> ('e, deployment_draft) api" where
  "import_draft a source_ref model_version key =
     bindE (liftE (validated (canonical_model_version (rx_sdk (ap_env a)) model_version))) (\<lambda>mv.
     bindE (liftE (key_within 0 200 key)) (\<lambda>_.
     svc (bindE (uuid4 (ap_env a)) (\<lambda>i.
          let digest = rx_sha256 (ap_env a) (ap_dump_draft a source_ref mv)
          in bindE (liftE (canonical_model_version (rx_sdk (ap_env a)) mv)) (\<lambda>again.
             bindE (utc_now (ap_env a)) (\<lambda>now.
             db (create_draft
                  \<lparr>dd_source_ref = source_ref, dd_model_version = again, dd_id = i,
                   dd_resource_ref = \<lparr>rr_uri = ''cyrene://reactor/deployment-drafts/'' @ i, rr_id = i,
                                      rr_resource_version = 1\<rparr>,
                   dd_state = DR_DRAFT, dd_deployment_ref = None, dd_created_at = now\<rparr>
                  (if key \<in> {None, Some []} then ''import:'' @ digest else header_text key) digest)))))))"

definition list_drafts_route :: "('e, deployment_draft list) api" where
  "list_drafts_route = svc (db_get list_drafts)"

definition get_draft_route :: "uuid \<Rightarrow> ('e, deployment_draft) api" where
  "get_draft_route i = svc (db (get_draft i))"

definition draft_command :: "deploy_draft_request \<Rightarrow> dict \<Rightarrow> deployment_request" where
  "draft_command command mv =
     \<lparr>cq_name = dq_name command, cq_model_artifact = None, cq_composition = FULL_MODEL,
      cq_composition_set = False, cq_model_version = Some mv,
      cq_serving_binding_id = dq_serving_binding_id command, cq_node_ref = dq_node_ref command\<rparr>"

definition started_draft :: "deployment_draft \<Rightarrow> deployment \<Rightarrow> deployment_draft" where
  "started_draft draft d =
     draft\<lparr>dd_state := DR_STARTED,
           dd_deployment_ref := Some \<lparr>rr_uri = ''cyrene://reactor/deployments/'' @ dp_id d, rr_id = dp_id d,
                                      rr_resource_version = dp_resource_version d\<rparr>\<rparr>"

definition deploy_draft :: "'e app \<Rightarrow> uuid \<Rightarrow> deploy_draft_request \<Rightarrow> ('e, deployment) api" where
  "deploy_draft a draft_id command =
     svc (bindE (db (get_draft draft_id)) (\<lambda>draft.
          bindE (liftE (validate_request (rx_sdk (ap_env a)) (draft_command command (dd_model_version draft)))) (\<lambda>request.
          bindE (create_deployment (ap_env a) request (Some (''deployment-draft:'' @ draft_id))) (\<lambda>d.
          bindE (db (save_draft (started_draft draft d))) (\<lambda>_.
          ret d)))))"

section \<open>Deployments and endpoints\<close>

definition create_deployment_route ::
    "'e app \<Rightarrow> deployment_request \<Rightarrow> string option \<Rightarrow> ('e, deployment) api" where
  "create_deployment_route a body key =
     bindE (liftE (validated (validate_request (rx_sdk (ap_env a)) body))) (\<lambda>command.
     bindE (liftE (key_within 0 200 key)) (\<lambda>_.
     svc (create_deployment (ap_env a) command key)))"

definition get_deployment_route :: "'e app \<Rightarrow> uuid \<Rightarrow> ('e, deployment) api" where
  "get_deployment_route a i = svc (get_deployment (ap_env a) i)"

definition deployment_events_route :: "uuid \<Rightarrow> ('e, uuid \<times> deployment_event list) api" where
  "deployment_events_route i = svc (deployment_events i)"

definition deployment_diagnostics_route :: "'e app \<Rightarrow> uuid \<Rightarrow> int \<Rightarrow> int \<Rightarrow> ('e, diagnostics_page) api" where
  "deployment_diagnostics_route a i after_sequence limit =
     (if after_sequence < 0 \<or> limit < 1 \<or> 500 < limit then raise REQUEST_VALIDATION_ERROR
      else svc (deployment_diagnostics (ap_env a) i after_sequence limit))"

definition stop_deployment_route :: "'e app \<Rightarrow> uuid \<Rightarrow> ('e, deployment) api" where
  "stop_deployment_route a i = svc (stop_deployment (ap_env a) i)"

definition get_endpoint_route :: "'e app \<Rightarrow> uuid \<Rightarrow> ('e, endpoint) api" where
  "get_endpoint_route a i = svc (get_endpoint (ap_env a) i)"

definition list_deployments_route :: "('e, deployment list) api" where
  "list_deployments_route = svc (db_get list_deployments)"

definition restart_route :: "'e app \<Rightarrow> uuid \<Rightarrow> node_ref \<Rightarrow> int \<Rightarrow> ('e, deployment) api" where
  "restart_route a i node version = svc (restart_deployment (ap_env a) i node version)"

text \<open>\<open>export_deployment\<close>: the reconciled Deployment and its reconciled Endpoint, in this order.\<close>

definition export_deployment :: "'e app \<Rightarrow> uuid \<Rightarrow> ('e, deployment \<times> endpoint option) api" where
  "export_deployment a i =
     svc (bindE (get_deployment (ap_env a) i) (\<lambda>d.
          case dp_endpoint_id d of
            None \<Rightarrow> ret (d, None)
          | Some j \<Rightarrow> bindE (get_endpoint (ap_env a) j) (\<lambda>e. ret (d, Some e))))"

section \<open>Exchange\<close>

definition receivers_route :: "'e app \<Rightarrow> (string \<times> string list) list" where
  "receivers_route a = map (\<lambda>(name, x). (name, sort (remdups (xr_allowed_binding_ids x)))) (ap_receivers a)"

definition send_to_exchange ::
    "'e app \<Rightarrow> uuid \<Rightarrow> send_request \<Rightarrow> string option \<Rightarrow> ('e, dict) api" where
  "send_to_exchange a endpoint_id command key =
     bindE (liftE (key_within 0 200 key)) (\<lambda>_.
     if strip (header_text key) = []
     then raise (product_failure ''REACTOR_IDEMPOTENCY_KEY_REQUIRED'' ''Idempotency key required''
            ''Provide a stable Idempotency-Key for this explicit send operation.'' 422)
     else case map_of (ap_receivers a) (sr_receiver_id command) of
       None \<Rightarrow> raise (product_failure ''REACTOR_RECEIVER_PERMISSION_DENIED'' ''Receiver unavailable''
                 ''Select an Exchange receiver admitted for this workspace.'' 403)
     | Some x \<Rightarrow> svc (send (ap_env a) x endpoint_id command (header_text key)))"

section \<open>Model imports\<close>

definition create_model_import_route ::
    "'e app \<Rightarrow> import_request \<Rightarrow> string option \<Rightarrow> ('e, model_import) api" where
  "create_model_import_route a command key =
     bindE (liftE (key_within 0 200 key)) (\<lambda>_. svc (create_model_import (ap_env a) command key None))"

definition list_model_imports_route :: "('e, model_import list) api" where
  "list_model_imports_route = svc list_model_imports"

definition get_model_import_route :: "uuid \<Rightarrow> ('e, model_import) api" where
  "get_model_import_route i = svc (get_model_import i)"

definition projected :: "model_import \<Rightarrow> import_projection res" where
  "projected m = (case project_workspace_model_import m of
     None \<Rightarrow> Inl (ValueError ''WorkspaceModelImportProjection'') | Some w \<Rightarrow> Inr w)"

definition workspace_create_model_import ::
    "'e app \<Rightarrow> workspace_scope \<Rightarrow> import_request \<Rightarrow> string option \<Rightarrow> ('e, import_projection) api" where
  "workspace_create_model_import a scope command key =
     bindE (liftE (key_within 0 200 key)) (\<lambda>_.
     bindE (svc (create_model_import (ap_env a) command key (Some scope))) (\<lambda>m.
     liftE (projected m)))"

fun projected_all :: "model_import list \<Rightarrow> import_projection list res" where
  "projected_all [] = Inr []"
| "projected_all (m # ms) = resB (projected m) (\<lambda>w. resB (projected_all ms) (\<lambda>ws. Inr (w # ws)))"

definition workspace_list_model_imports :: "workspace_scope \<Rightarrow> ('e, import_projection list) api" where
  "workspace_list_model_imports scope =
     bindE (svc (list_model_imports_for_workspace scope)) (\<lambda>ms. liftE (projected_all ms))"

section \<open>Serving bindings and the model export\<close>

definition remote_binding :: "'e app \<Rightarrow> string \<Rightarrow> 'e remote res" where
  "remote_binding a binding_id =
     (case map_of (ap_remotes a) binding_id of
        Some (Some k) \<Rightarrow> Inr k
      | _ \<Rightarrow> Inl (HttpError 403 ''REACTOR_BINDING_PERMISSION_DENIED''))"

definition bindings_route :: "'e app \<Rightarrow> string list" where
  "bindings_route a = map fst (ap_remotes a)"

definition node_route :: "'e app \<Rightarrow> string \<Rightarrow> ('e, dict) api" where
  "node_route a binding_id =
     bindE (liftE (remote_binding a binding_id)) (\<lambda>k. svc (ext (remote_request k ''GET'' ''/node'' None)))"

definition export_unavailable :: exn where
  "export_unavailable = ProductError
     \<lparr>pe_code = ''REACTOR_MODEL_EXPORT_UNAVAILABLE'', pe_title = ''Model export unavailable'',
      pe_detail = ''Restore the execution binding and model Artifact access, then retry.'',
      pe_status = 503, pe_retryable = True, pe_resource_ref = None\<rparr>"

text \<open>\<open>export_model\<close> up to the open upstream response; its bytes are then streamed unchanged.\<close>

definition export_model :: "'e app \<Rightarrow> uuid \<Rightarrow> ('e, unit) api" where
  "export_model a i =
     svc (bindE (db_get (get_deployment_row i)) (\<lambda>row.
     case row of
       None \<Rightarrow> raise (product_failure ''REACTOR_DEPLOYMENT_NOT_FOUND'' ''Deployment not found''
                 ''Open an existing Deployment before exporting its model.'' 404)
     | Some d \<Rightarrow>
         (if dp_composition d = BASE_PLUS_LORA
          then raise (product_failure ''COMPOSED_MODEL_EXPORT_UNSUPPORTED'' ''Composed model export is unsupported''
                 (''Exporting a BASE_PLUS_LORA projection as a full model is unsupported; ''
                   @ ''use a future merge/export task to create a new FULL_MODEL ModelVersion.'') 409)
          else case dp_model_artifact d of
            None \<Rightarrow> raise (product_failure ''REACTOR_MODEL_VERSION_INVALID'' ''Model artifact projection missing''
                      ''The Deployment has no exportable full/base artifact projection.'' 422)
          | Some model \<Rightarrow>
              bindE (liftE (remote_binding a (dp_serving_binding_id d))) (\<lambda>k.
              bindE (ext (\<lambda>e. case rk_http k
                        \<lparr>hq_method = ''POST'', hq_url = base_url k @ ''/exports'',
                         hq_payload = Some (dump_artifact model), hq_bearer = rb_token (rk_binding k),
                         hq_timeout = 1900\<rparr> e of (r, e') \<Rightarrow> (Inr r, e'))) (\<lambda>reply.
              case reply of
                TransportError \<Rightarrow> raise export_unavailable
              | Reply n body \<Rightarrow> (if 200 \<le> n \<and> n < 300 then ret () else raise export_unavailable))))))"

section \<open>Package runtime bindings\<close>

definition require_package_owner :: "'e app \<Rightarrow> string \<Rightarrow> owner res" where
  "require_package_owner a binding_id =
     (case ap_owner a of
        Some o' \<Rightarrow> (if binding_id = po_binding_id o' then Inr o'
                    else Inl (HttpError 404 ''PACKAGE_RUNTIME_BINDING_NOT_CONFIGURED''))
      | None \<Rightarrow> Inl (HttpError 404 ''PACKAGE_RUNTIME_BINDING_NOT_CONFIGURED''))"

definition owner_errors :: "('e, 'a) api \<Rightarrow> ('e, 'a) api" where
  "owner_errors m = catchE m (\<lambda>x. case x of OwnerFailure c n \<Rightarrow> raise (HttpError n c) | _ \<Rightarrow> raise x)"

definition activate_package_runtime ::
    "'e app \<Rightarrow> string \<Rightarrow> string \<Rightarrow> string option \<Rightarrow> activation_run \<Rightarrow> ('e, dict) api" where
  "activate_package_runtime a binding_id installation_id key sdk =
     bindE (liftE (if length installation_id < 1 \<or> 256 < length installation_id
                   then Inl REQUEST_VALIDATION_ERROR else Inr ())) (\<lambda>_.
     bindE (liftE (required_key key)) (\<lambda>k.
     bindE (liftE (require_package_owner a binding_id)) (\<lambda>o'.
     owner_errors (owned (activate o' sdk k installation_id)))))"

definition reconcile_package_runtime ::
    "'e app \<Rightarrow> string \<Rightarrow> string \<Rightarrow> string option \<Rightarrow> (dict \<Rightarrow> reconcile_run) \<Rightarrow> ('e, dict) api" where
  "reconcile_package_runtime a binding_id body key sdk =
     bindE (liftE (required_key key)) (\<lambda>k.
     if body \<noteq> [] then raise (HttpError 422 ''PACKAGE_RUNTIME_RECONCILE_BODY_NOT_ACCEPTED'')
     else bindE (liftE (require_package_owner a binding_id)) (\<lambda>o'.
          owner_errors (owned (reconcile o' sdk k))))"

definition package_runtime_status_route :: "'e app \<Rightarrow> string \<Rightarrow> ('e, dict) api" where
  "package_runtime_status_route a binding_id =
     bindE (liftE (require_package_owner a binding_id)) (\<lambda>o'. owned (status o'))"

section \<open>A served request\<close>

datatype 'a outcome = Served 'a | Problem problem | InternalError exn

text \<open>Middleware, authorization, the route (which may read the scope), and the exception handlers.\<close>

definition serve ::
    "'e app \<Rightarrow> request \<Rightarrow> (workspace_scope option \<Rightarrow> ('e, 'a) api) \<Rightarrow> 'e server_state \<Rightarrow> 'a outcome \<times> 'e server_state"
  where
  "serve a q route s =
     (case propagate_trace a q s of
        (Inl x, s1) \<Rightarrow> (InternalError x, s1)
      | (Inr t, s1) \<Rightarrow>
          (case bindE (liftE (authorize a q)) route s1 of
             (Inr v, s2) \<Rightarrow> (Served v, s2)
           | (Inl x, s2) \<Rightarrow>
               ((case error_response q t x of Inl y \<Rightarrow> InternalError y | Inr p \<Rightarrow> Problem p), s2)))"

text \<open>A Workspace route reads \<open>request.state.workspace_scope\<close>, which only the Workspace branch sets.\<close>

definition with_scope :: "(workspace_scope \<Rightarrow> ('e, 'a) api) \<Rightarrow> workspace_scope option \<Rightarrow> ('e, 'a) api" where
  "with_scope route scope = (case scope of
     None \<Rightarrow> raise (PyException ''AttributeError'' ''workspace_scope'' None) | Some w \<Rightarrow> route w)"

end
