(* ===== verification/Api_Requests.thy ===== *)
theory Api_Requests
  imports Api
begin

text \<open>
  The request bodies of the HTTP adapter and the field constraints of their models (\<open>domain.py\<close> and
  \<open>ActivatePackageRuntimeRequest\<close> in \<open>api.py\<close>). A body outside them is a request validation error, raised
  after authorization and before the handler runs.
\<close>

section \<open>Field constraints\<close>

definition text_within :: "nat \<Rightarrow> nat \<Rightarrow> string \<Rightarrow> bool" where
  "text_within lo hi s \<longleftrightarrow> lo \<le> length s \<and> length s \<le> hi"

definition node_ref_ok :: "node_ref \<Rightarrow> bool" where
  "node_ref_ok n \<longleftrightarrow> text_within 1 200 (nr_node_id n) \<and> 0 < nr_node_epoch n"

definition restart_request_ok :: "node_ref \<Rightarrow> int \<Rightarrow> bool" where
  "restart_request_ok node version \<longleftrightarrow> node_ref_ok node \<and> 0 < version"

definition import_source_ok :: "import_source \<Rightarrow> bool" where
  "import_source_ok s \<longleftrightarrow>
     opt_ok (text_within 1 300) (is_repository s) \<and> opt_ok revision_text (is_revision s)
   \<and> opt_ok (text_within 1 4096) (is_path s) \<and> validate_source s = Inr s"

definition import_request_ok :: "import_request \<Rightarrow> bool" where
  "import_request_ok c \<longleftrightarrow> text_within 1 200 (iq_name c) \<and> text_within 1 200 (iq_serving_binding_id c)
     \<and> import_source_ok (iq_source c) \<and> opt_ok (text_within 1 300) (iq_credential_ref c)"

definition deployment_request_ok :: "deployment_request \<Rightarrow> bool" where
  "deployment_request_ok c \<longleftrightarrow> text_within 1 200 (cq_name c) \<and> text_within 1 200 (cq_serving_binding_id c)
     \<and> opt_ok artifact_ref_ok (cq_model_artifact c) \<and> opt_ok node_ref_ok (cq_node_ref c)"

text \<open>What the class admits as a binding's import result.\<close>

definition import_result_ok :: "import_result \<Rightarrow> bool" where
  "import_result_ok r \<longleftrightarrow> artifact_ref_ok (ir_model_artifact r)
     \<and> iv_provenance (ir_validation r) \<noteq> [] \<and> sha256_ref (iv_digest (ir_validation r))"

text \<open>\<open>ProductResourceRef.uri\<close>: the pattern \<open>^(cyrene|https?)://\<close>.\<close>

definition resource_uri :: "string \<Rightarrow> bool" where
  "resource_uri s \<longleftrightarrow> startswith s ''cyrene://'' \<or> startswith s ''http://'' \<or> startswith s ''https://''"

definition resource_ref_ok :: "resource_ref \<Rightarrow> bool" where
  "resource_ref_ok r \<longleftrightarrow> resource_uri (rr_uri r) \<and> length (rr_uri r) \<le> 2000 \<and> 1 \<le> rr_resource_version r"

definition deploy_draft_request_ok :: "deploy_draft_request \<Rightarrow> bool" where
  "deploy_draft_request_ok c \<longleftrightarrow> text_within 1 200 (dq_name c) \<and> text_within 1 200 (dq_serving_binding_id c)
     \<and> opt_ok node_ref_ok (dq_node_ref c)"

definition send_request_ok :: "send_request \<Rightarrow> bool" where
  "send_request_ok c \<longleftrightarrow> 1 \<le> sr_resource_version c \<and> text_within 1 200 (sr_receiver_id c)
     \<and> text_within 1 300 (sr_target_binding_id c) \<and> text_within 1 200 (sr_model_pattern c)
     \<and> 0 \<le> sr_priority c \<and> sr_priority c \<le> 10000"

definition activate_request_ok :: "string \<Rightarrow> bool" where
  "activate_request_ok installation \<longleftrightarrow> text_within 1 256 installation"

definition diagnostics_page_ok :: "diagnostics_page \<Rightarrow> bool" where
  "diagnostics_page_ok p \<longleftrightarrow> 0 \<le> pg_next_sequence p"

section \<open>Health\<close>

definition health_check :: dict where
  "health_check = [(''status'', JStr ''UP''), (''service'', JStr ''cyrene-reactor'')]"

end
