(* ===== verification/Service_Create.thy ===== *)
theory Service_Create
  imports Service_Lifecycle Service_Audit
begin

text \<open>
  The create command at the level of the service: the Deployment it returns is the one its key points at,
  so a retry in any later state reads that Deployment and a different body is refused.
\<close>

section \<open>Identities\<close>

lemma table_id: "table_ok key t \<Longrightarrow> map_of t i = Some v \<Longrightarrow> key v = i"
  by (metis get_listed snd_conv fst_conv map_of_SomeD table_ok_def)

lemma require_deployment_id:
  "store_ok (w_store w) \<Longrightarrow> require_deployment i w = (Inr d, v) \<Longrightarrow> dp_id d = i \<and> v = w"
  by (auto simp: require_deployment_def db_get_def get_deployment_row_def store_ok_def py_unfold
    intro: table_id split: option.splits)

definition observation_id :: "observation \<Rightarrow> uuid" where
  "observation_id ob = (case ob of Settled d \<Rightarrow> dp_id d | Changed n d e \<Rightarrow> dp_id d)"

lemma observe_id:
  assumes ok: "store_ok (w_store w)" and run: "observe_deployment env i w = (Inr ob, v)"
  shows "observation_id ob = i"
proof -
  from run obtain c u where c: "require_deployment i w = (Inr c, u)"
    by (auto simp: observe_deployment_def bindE_Inr)
  have id: "dp_id c = i" using require_deployment_id [OF ok c] by simp
  with c have "stored c w"
    by (auto simp: stored_def require_deployment_def db_get_def py_unfold split: option.splits)
  from wp_Inr [OF wp_observe_deployment [OF this], of env ob v] run id
  show ?thesis by (cases ob) (simp_all add: observation_id_def)
qed

lemma get_deployment_id:
  assumes ok: "store_ok (w_store w)" and "get_deployment env i w = (Inr d, v)"
  shows "dp_id d = i"
proof -
  from assms(2) obtain ob u where ob: "observe_deployment env i w = (Inr ob, u)" "commit_observation ob u = (Inr d, v)"
    by (auto simp: get_deployment_def bindE_Inr)
  have id: "observation_id ob = i" using observe_id [OF ok ob(1)] .
  have u: "store_ok (w_store u)"
    using stepsD [OF observe_audited ob(1)] ok by (simp add: waudit_def audit_def)
  show ?thesis
  proof (cases ob)
    case (Settled c)
    with ob(2) id show ?thesis by (simp add: commit_observation_def ret_def observation_id_def)
  next
    case (Changed n c e)
    then have c: "dp_id c = i" using id by (simp add: observation_id_def)
    from ob(2) Changed obtain r x where "require_deployment (dp_id c) u = (Inr r, x)"
      and "d = r \<or> d = c" by (auto simp: commit_observation_def bindE_Inr ret_def split: if_splits)
    with require_deployment_id [OF u] c show ?thesis by auto
  qed
qed

section \<open>Keys\<close>

definition key_row :: "string \<Rightarrow> store \<Rightarrow> (string \<times> uuid) option" where
  "key_row k s = map_of (st_idempotency s) (''create-deployment'', k)"

lemma resolve_key:
  "resolve_idempotency (Some k) h s = (Inr r, t) \<Longrightarrow>
     t = s \<and> (case r of None \<Rightarrow> key_row k s = None | Some i \<Rightarrow> key_row k s = Some (h, i))"
  by (auto simp: resolve_idempotency_def key_row_def py_unfold split: option.splits if_splits)

lemma create_intent_key:
  assumes "create_intent d (Some k) h s = (Inr r, t)"
  shows "key_row k t = Some (h, case r of None \<Rightarrow> dp_id d | Some i \<Rightarrow> i)
    \<and> (r = None \<longrightarrow> get_deployment_row (dp_id d) t = Some d)"
proof -
  from assms obtain p u where p: "resolve_idempotency (Some k) h s = (Inr p, u)"
    and rest: "(case p of Some i \<Rightarrow> r = Some i \<and> t = u
      | None \<Rightarrow> r = None \<and> (\<exists>v. insert_deployment d u = (Inr (), v)
          \<and> insert_idempotency ''create-deployment'' k h (dp_id d) v = (Inr (), t)))"
    by (auto simp: create_intent_def txn_def bindE_Inr ret_def split: prod.splits sum.splits option.splits)
  note key = resolve_key [OF p]
  show ?thesis
  proof (cases p)
    case (Some i)
    with key rest show ?thesis by simp
  next
    case None
    with rest key show ?thesis
      by (auto simp: insert_deployment_def insert_idempotency_def key_row_def get_deployment_row_def
        tbl_has_iff map_add_def py_unfold split: if_splits)
  qed
qed

lemma key_row_grows:
  "waudit v w \<Longrightarrow> store_ok (w_store v) \<Longrightarrow> key_row k (w_store v) = Some x \<Longrightarrow> key_row k (w_store w) = Some x"
  by (auto simp: waudit_def audit_def grows_def key_row_def map_le_def dom_def)


lemma db_Inr: "db m w = (Inr a, v) \<longleftrightarrow> (\<exists>t. m (w_store w) = (Inr a, t) \<and> v = w\<lparr>w_store := t\<rparr>)"
  by (auto simp: db_def zoom_def split: prod.splits)

lemma ret_Inr: "ret a s = (Inr b, t) \<longleftrightarrow> b = a \<and> t = s"
  by (auto simp: ret_def)

text \<open>The part of a create after its intent is stored: the key keeps pointing at what is returned.\<close>

lemma after_intent:
  assumes none: "rx_activity env = None" and ok: "store_ok (w_store v)"
    and intent: "create_intent d (Some k) h (w_store v) = (Inr r, t)"
    and rest: "(case r of
        Some i \<Rightarrow> get_deployment env i (v\<lparr>w_store := t\<rparr>) = (Inr e, w)
      | None \<Rightarrow> (\<exists>ev u. append_event env (dp_id d) PH_QUEUED ''Deployment queued'' None (v\<lparr>w_store := t\<rparr>) = (Inr ev, u)
                   \<and> launch env d u = (Inr e, w)))"
  shows "key_row k (w_store w) = Some (h, dp_id e)"
proof -
  have t: "store_ok t" using steps_snd [OF create_intent_audited, of "w_store v" d "Some k" h] intent ok
    by (simp add: audit_def)
  note key = create_intent_key [OF intent]
  show ?thesis
  proof (cases r)
    case (Some i)
    with rest have run: "get_deployment env i (v\<lparr>w_store := t\<rparr>) = (Inr e, w)" by simp
    have "dp_id e = i" using get_deployment_id [OF _ run] t by simp
    with key_row_grows [OF stepsD [OF get_deployment_audited run]] t key Some show ?thesis by simp
  next
    case None
    with rest obtain ev u where ev: "append_event env (dp_id d) PH_QUEUED ''Deployment queued'' None (v\<lparr>w_store := t\<rparr>) = (Inr ev, u)"
      and run: "launch env d u = (Inr e, w)" by auto
    have "stored d (v\<lparr>w_store := t\<rparr>)" using key None by (simp add: stored_def)
    with stepsD [OF append_event_same_rows ev] have st: "stored d u" by (rule same_rows_stored)
    have "waudit (v\<lparr>w_store := t\<rparr>) w"
      using waudit.R_trans stepsD [OF append_svc_event_audited ev] stepsD [OF launch_audited run] by blast
    moreover have "dp_id e = dp_id d"
      using wp_Inr [OF wp_launch [OF st none] run] by (simp add: launched_def)
    ultimately show ?thesis using key_row_grows [of "v\<lparr>w_store := t\<rparr>" w] t key None by simp
  qed
qed

lemma create_deployment_key:
  assumes none: "rx_activity env = None" and ok: "store_ok (w_store w)"
    and run: "create_deployment env command (Some k) w = (Inr e, v)"
  shows "key_row k (w_store v) = Some (request_hash env command, dp_id e)"
proof -
  let ?h = "request_hash env command"
  from run obtain r s where r: "resolve_idempotency (Some k) ?h (w_store w) = (Inr r, s)"
    by (auto simp: create_deployment_def Let_def bindE_Inr db_Inr)
  note key = resolve_key [OF r]
  show ?thesis
  proof (cases r)
    case (Some i)
    with run r key have get: "get_deployment env i w = (Inr e, v)"
      by (auto simp: create_deployment_def Let_def bindE_Inr db_Inr)
    with get_deployment_id [OF ok get] key_row_grows [OF stepsD [OF get_deployment_audited get] ok] key Some
    show ?thesis by simp
  next
    case None
    with run r key obtain now w1 i w2 d w3 en w4 p t where
        pre: "utc_now env w = (Inr now, w1)" "uuid4 env w1 = (Inr i, w2)" "w3 = w2" "w4 = w3"
      and intent: "create_intent d (Some k) ?h (w_store w4) = (Inr p, t)"
      and rest: "(case p of
        Some i \<Rightarrow> get_deployment env i (w4\<lparr>w_store := t\<rparr>) = (Inr e, v)
      | None \<Rightarrow> (\<exists>ev u. append_event env (dp_id d) PH_QUEUED ''Deployment queued'' None (w4\<lparr>w_store := t\<rparr>) = (Inr ev, u)
                   \<and> launch env d u = (Inr e, v)))"
      unfolding create_deployment_def Let_def with_activity_none [OF none]
      by (auto simp: bindE_Inr db_Inr liftE_Inr ret_Inr split: option.splits)
    have "store_ok (w_store w4)" using pre ok by (auto simp: utc_now_def uuid4_def py_unfold)
    from after_intent [OF none this intent rest] show ?thesis .
  qed
qed

lemma create_deployment_again:
  assumes "key_row k (w_store w) = Some (h, i)"
  shows "create_deployment env command (Some k) w =
    (if request_hash env command = h then get_deployment env i w
     else (Inl (idempotency_conflict ''Idempotency key conflict''
             ''The Idempotency-Key was already used with a different request body.''), w))"
  using assms by (auto simp: create_deployment_def key_row_def resolve_idempotency_def db_def Let_def py_unfold)

end
