(* ===== verification/Draft_Properties.thy ===== *)
theory Draft_Properties
  imports Api Service_Create Service_Properties
begin

text \<open>The single Deployment of a draft, whatever is called in between.\<close>

lemma svc_Inr: "svc m s = (Inr v, t) \<longleftrightarrow> (\<exists>w. m (as_world s) = (Inr v, w) \<and> t = s\<lparr>as_world := w\<rparr>)"
  by (auto simp: svc_def zoom_def split: prod.splits)

section \<open>Drafts\<close>

lemma get_draft_Inr: "get_draft i s = (Inr dr, t) \<longleftrightarrow> map_of (st_drafts s) i = Some dr \<and> t = s"
  by (auto simp: get_draft_def py_unfold split: option.splits)

text \<open>What a returned deployment of a draft did: the draft's key points at it, and the draft is started.\<close>

lemma deploy_draft_run:
  assumes none: "rx_activity (ap_env a) = None" and ok: "store_ok (w_store (as_world s))"
    and run: "deploy_draft a i command s = (Inr d, t)"
  shows "(\<exists>h. key_row (''deployment-draft:'' @ i) (w_store (as_world t)) = Some (h, dp_id d))
    \<and> (\<exists>dr r. map_of (st_drafts (w_store (as_world t))) i = Some dr \<and> dd_state dr = DR_STARTED
         \<and> dd_deployment_ref dr = Some r \<and> rr_id r = dp_id d)
    \<and> store_ok (w_store (as_world t))"
proof -
  from run obtain dr req w v where dr: "map_of (st_drafts (w_store (as_world s))) i = Some dr"
    and create: "create_deployment (ap_env a) req (Some (''deployment-draft:'' @ i)) (as_world s) = (Inr d, w)"
    and save: "save_draft (started_draft dr d) (w_store w) = (Inr (), v)" and t: "w_store (as_world t) = v"
    by (auto simp: deploy_draft_def svc_Inr bindE_Inr db_Inr liftE_Inr ret_Inr get_draft_Inr)
  have w: "store_ok (w_store w)"
    using stepsD [OF create_deployment_audited create] ok by (simp add: waudit_def audit_def)
  have v: "v = (w_store w)\<lparr>st_drafts := tbl_replace (dd_id (started_draft dr d)) (started_draft dr d) (st_drafts (w_store w))\<rparr>"
    using save by (simp add: save_draft_def txn_def modS_def)
  have "dd_id dr = i" using ok dr by (auto simp: store_ok_def intro: table_id)
  then have id: "dd_id (started_draft dr d) = i" by (simp add: started_draft_def)
  have "store_ok v" using steps_snd [OF save_draft_audited, of "w_store w" "started_draft dr d"] save w
    by (simp add: audit_def)
  moreover have "map_of (st_drafts v) i = Some (started_draft dr d)"
    unfolding v id by (simp add: tbl_replace_get)
  ultimately show ?thesis
    using create_deployment_key [OF none ok create] t v
    by (auto simp: started_draft_def key_row_def)
qed


definition sample_draft :: deployment_draft where
  "sample_draft = \<lparr>dd_source_ref = \<lparr>rr_uri = ''u'', rr_id = ''i'', rr_resource_version = 1\<rparr>,
     dd_model_version = [(''id'', JStr ''v1''), (''composition'', JStr ''FULL_MODEL''), (''fullModelArtifact'', JObj [])],
     dd_id = ''draft'', dd_resource_ref = \<lparr>rr_uri = ''u'', rr_id = ''draft'', rr_resource_version = 1\<rparr>,
     dd_state = DR_DRAFT, dd_deployment_ref = None, dd_created_at = ''t''\<rparr>"

definition draft_state :: "unit server_state" where
  "draft_state = \<lparr>as_world = (sample_world ''d1'')\<lparr>w_store := (w_store (sample_world ''d1''))
       \<lparr>st_drafts := [(''draft'', sample_draft)],
        st_idempotency := [((''create-deployment'', ''deployment-draft:draft''), ''chat'', ''d1'')]\<rparr>\<rparr>,
     as_owner = \<lparr>ob_rows = [], ob_clock = 0, ob_now = (\<lambda>n. [])\<rparr>\<rparr>"

definition draft_app :: "unit app" where
  "draft_app = \<lparr>ap_env = sample_env UnconfiguredServingExecutionPort, ap_token = None, ap_credentials = [],
     ap_sha256 = (\<lambda>t. []), ap_allow_unauthenticated_dev = True, ap_receivers = [], ap_owner = None,
     ap_remotes = [], ap_dump_draft = (\<lambda>r d. rr_id r)\<rparr>"

definition draft_command_1 :: deploy_draft_request where
  "draft_command_1 = \<lparr>dq_name = ''chat'', dq_serving_binding_id = ''gpu-1'', dq_node_ref = None\<rparr>"

definition deploy_twice :: "(exn + deployment) \<times> (exn + deployment)" where
  "deploy_twice = (case deploy_draft draft_app ''draft'' draft_command_1 draft_state of
     (r, t) \<Rightarrow> (r, fst (deploy_draft draft_app ''draft'' draft_command_1 t)))"


end
