(* ===== verification/Api_Properties.thy ===== *)
theory Api_Properties
  imports Draft_Properties "HOL-Library.Code_Target_Nat"
begin

text \<open>
  Properties of the HTTP adapter: who is admitted, the isolation of Workspace requests from the header to
  the database, and what a projection may show.
\<close>

section \<open>Admission\<close>

definition health_path :: "string \<Rightarrow> bool" where
  "health_path p \<longleftrightarrow> p \<in> {''/healthz'', ''/readyz'', ''/''}"

definition runtime_path :: "string \<Rightarrow> bool" where
  "runtime_path p \<longleftrightarrow> startswith p ''/api/v1/runtime-bindings/''"

definition ascii_text :: "string \<Rightarrow> bool" where
  "ascii_text t \<longleftrightarrow> (\<forall>c \<in> set t. code c < 128)"

definition presents :: "request \<Rightarrow> string \<Rightarrow> bool" where
  "presents q tok \<longleftrightarrow> rq_authorization q = Some (''Bearer '' @ tok)"

lemma ascii_Bearer [simp]: "ascii_text (''Bearer '' @ t) = ascii_text t"
  by (simp add: ascii_text_def code_def)

lemma header_presents: "header_text (rq_authorization q) = ''Bearer '' @ tok \<longleftrightarrow> presents q tok"
  by (auto simp: header_text_def presents_def split: option.splits)

lemma check_control_token_cases:
  "check_control_token tok q =
     (if \<not> ascii_text (header_text (rq_authorization q)) \<or> \<not> ascii_text tok
      then Inl (TypeError ''comparing strings with non-ASCII characters is not supported'')
      else if presents q tok then Inr () else Inl (HttpError 403 ''REACTOR_PERMISSION_DENIED''))"
proof -
  have "(\<forall>c \<in> set (h @ ''Bearer '' @ tok). code c < 128) \<longleftrightarrow> ascii_text h \<and> ascii_text tok" for h
    using ascii_Bearer [of tok] by (auto simp: ascii_text_def)
  then show ?thesis
    unfolding check_control_token_def compare_digest_def header_presents [symmetric] by simp
qed

lemma workspace_admits:
  assumes "parse_credential_map loads raw = Inr cs"
  shows "authorize_workspace sha cs header = Inr w \<longleftrightarrow>
    (\<exists>tok. header = Some (''Bearer '' @ tok) \<and> token_is_valid tok
       \<and> \<lparr>cr_token_digest = sha tok, cr_scope = w\<rparr> \<in> set cs)"
proof -
  have d: "distinct (map cr_token_digest cs)" using parse_credential_map_Inr [OF assms] by simp
  let ?h = "case header of None \<Rightarrow> [] | Some h \<Rightarrow> h"
  have "authorize_workspace sha cs header = Inr w \<longleftrightarrow> cs \<noteq> [] \<and> token_is_valid (ascii_bytes (bearer_token ?h))
      \<and> \<lparr>cr_token_digest = sha (ascii_bytes (bearer_token ?h)), cr_scope = w\<rparr> \<in> set cs"
    unfolding authorize_workspace_def Let_def matched_scope_Some [OF d, symmetric]
    by (auto split: option.splits if_splits)
  also have "\<dots> \<longleftrightarrow> (\<exists>tok. ?h = ''Bearer '' @ tok \<and> token_is_valid tok
      \<and> \<lparr>cr_token_digest = sha tok, cr_scope = w\<rparr> \<in> set cs)"
    using bearer_token_valid [of ?h "\<lambda>t. \<lparr>cr_token_digest = sha t, cr_scope = w\<rparr> \<in> set cs"] by auto
  also have "\<dots> \<longleftrightarrow> (\<exists>tok. header = Some (''Bearer '' @ tok) \<and> token_is_valid tok
      \<and> \<lparr>cr_token_digest = sha tok, cr_scope = w\<rparr> \<in> set cs)"
    by (cases header) auto
  finally show ?thesis .
qed


lemma route_split:
  "health_path p \<Longrightarrow> \<not> runtime_path p \<and> \<not> protects p"
  "runtime_path p \<Longrightarrow> \<not> protects p"
  by (auto simp: health_path_def runtime_path_def protects_def WORKSPACE_ROUTE_PREFIX_def startswith_iff)

lemma create_app_fields:
  assumes "create_app loads sha env remotes file raw grants dev receivers owner dump = Inr a"
  obtains cs where "parse_credential_map loads raw = Inr cs" "ap_credentials a = cs" "ap_sha256 a = sha"
    "ap_allow_unauthenticated_dev a = dev"
  using assms by (auto simp: create_app_def Let_def resB_Inr_iff split: sum.splits if_splits)

lemma authorize_health: "health_path (rq_path q) \<Longrightarrow> authorize a q = Inr None"
  by (simp add: authorize_def health_path_def)

lemma authorize_workspace_path:
  assumes "protects (rq_path q)"
  shows "authorize a q = (case authorize_workspace (ap_sha256 a) (ap_credentials a) (rq_authorization q) of
     Inl e \<Rightarrow> Inl (http_exception_exn e) | Inr scope \<Rightarrow> Inr (Some scope))"
proof -
  from assms have "\<not> health_path (rq_path q)" "\<not> runtime_path (rq_path q)" using route_split by blast+
  with assms show ?thesis by (simp add: authorize_def health_path_def runtime_path_def)
qed

lemma authorize_other_path:
  assumes "\<not> health_path (rq_path q)" and "\<not> protects (rq_path q)"
  shows "authorize a q = (case ap_token a of
      None \<Rightarrow> (if ap_allow_unauthenticated_dev a \<and> \<not> runtime_path (rq_path q) then Inr None
                else Inl (HttpError 503 ''REACTOR_CONTROL_AUTH_UNAVAILABLE''))
    | Some token \<Rightarrow> resB (check_control_token token q) (\<lambda>_. Inr None))"
  using assms by (simp add: authorize_def health_path_def runtime_path_def split: option.split)

lemma workspace_refusal:
  "authorize_workspace sha cs h = Inl y \<Longrightarrow> \<exists>n c. http_exception_exn y = HttpError n c \<and> n \<in> {401, 403, 503}"
  by (auto simp: authorize_workspace_def Let_def UNAUTHORIZED_def AUTH_UNAVAILABLE_def split: if_splits option.splits)

lemma presents_ascii: "presents q tok \<Longrightarrow> ascii_text (header_text (rq_authorization q)) = ascii_text tok"
  by (metis ascii_Bearer header_presents)

text \<open>On the private path: the scopes of the presented token, and nothing but refusals otherwise.\<close>

lemma workspace_path_admission:
  assumes cs: "parse_credential_map loads raw = Inr (ap_credentials a)" and path: "protects (rq_path q)"
  shows "authorize a q = Inr sc \<longleftrightarrow> (\<exists>tok w. presents q tok \<and> token_is_valid tok
      \<and> \<lparr>cr_token_digest = ap_sha256 a tok, cr_scope = w\<rparr> \<in> set (ap_credentials a) \<and> sc = Some w)"
    and "authorize a q = Inl x \<Longrightarrow> \<exists>n c. x = HttpError n c \<and> n \<in> {401, 403, 503}"
proof -
  have admits: "authorize_workspace (ap_sha256 a) (ap_credentials a) (rq_authorization q) = Inr w \<longleftrightarrow> (\<exists>tok. presents q tok
      \<and> token_is_valid tok \<and> \<lparr>cr_token_digest = ap_sha256 a tok, cr_scope = w\<rparr> \<in> set (ap_credentials a))" for w
    using workspace_admits [OF cs] by (simp add: presents_def)
  have "authorize a q = Inr sc \<longleftrightarrow> (\<exists>w. sc = Some w
      \<and> authorize_workspace (ap_sha256 a) (ap_credentials a) (rq_authorization q) = Inr w)"
    unfolding authorize_workspace_path [OF path] by (auto split: sum.splits)
  then show "authorize a q = Inr sc \<longleftrightarrow> (\<exists>tok w. presents q tok \<and> token_is_valid tok
      \<and> \<lparr>cr_token_digest = ap_sha256 a tok, cr_scope = w\<rparr> \<in> set (ap_credentials a) \<and> sc = Some w)"
    unfolding admits by blast
  show "authorize a q = Inl x \<Longrightarrow> \<exists>n c. x = HttpError n c \<and> n \<in> {401, 403, 503}"
    unfolding authorize_workspace_path [OF path] using workspace_refusal by (auto split: sum.splits)
qed

text \<open>On every other path outside the health probes: the control token, or development mode.\<close>

lemma control_path_admission:
  assumes "\<not> health_path (rq_path q)" and "\<not> protects (rq_path q)"
  shows "authorize a q = Inr sc \<longleftrightarrow> sc = None \<and> (case ap_token a of
      Some tok \<Rightarrow> presents q tok \<and> ascii_text tok | None \<Rightarrow> ap_allow_unauthenticated_dev a \<and> \<not> runtime_path (rq_path q))"
    and "authorize a q = Inl x \<Longrightarrow> (\<exists>n c. x = HttpError n c \<and> n \<in> {401, 403, 503})
      \<or> (\<exists>t. x = TypeError t) \<and> (\<exists>tok. ap_token a = Some tok
           \<and> \<not> (ascii_text (header_text (rq_authorization q)) \<and> ascii_text tok))"
  unfolding authorize_other_path [OF assms]
  by (auto simp: check_control_token_cases presents_ascii split: option.splits if_splits)

text \<open>C34: Who is let in. On an application that was built, a request is admitted exactly when its path is a
  health probe; or a private Workspace path and its bearer token is listed in the operator's map, and then
  under the scope of that credential; or another path with the control token; or, on a path other than the
  runtime bindings, when development mode runs without a token. Every other request gets 401, 403 or 503,
  unless its header is not ASCII, when the comparison raises \<open>TypeError\<close>, an internal error.\<close>

theorem request_admission:
  assumes "create_app loads sha env remotes file raw grants dev receivers owner dump = Inr a"
  shows "(authorize a q = Inr sc \<longleftrightarrow>
      (health_path (rq_path q) \<and> sc = None)
    \<or> (protects (rq_path q) \<and> (\<exists>tok w. presents q tok \<and> token_is_valid tok
         \<and> \<lparr>cr_token_digest = sha tok, cr_scope = w\<rparr> \<in> set (ap_credentials a) \<and> sc = Some w))
    \<or> (\<not> health_path (rq_path q) \<and> \<not> protects (rq_path q) \<and> sc = None
       \<and> (case ap_token a of
            Some tok \<Rightarrow> presents q tok \<and> ascii_text tok
          | None \<Rightarrow> dev \<and> \<not> runtime_path (rq_path q))))
    \<and> (\<forall>x. authorize a q = Inl x \<longrightarrow>
        (\<exists>n c. x = HttpError n c \<and> n \<in> {401, 403, 503})
      \<or> (\<exists>t. x = TypeError t) \<and> (\<exists>tok. ap_token a = Some tok
           \<and> \<not> (ascii_text (header_text (rq_authorization q)) \<and> ascii_text tok)))"
proof -
  from assms obtain cs where "parse_credential_map loads raw = Inr cs" "ap_credentials a = cs" and sha: "ap_sha256 a = sha"
    and dev: "ap_allow_unauthenticated_dev a = dev" by (rule create_app_fields)
  then have cs: "parse_credential_map loads raw = Inr (ap_credentials a)" by simp
  consider "health_path (rq_path q)" | "protects (rq_path q)"
    | "\<not> health_path (rq_path q)" "\<not> protects (rq_path q)" by blast
  then show ?thesis
  proof cases
    case 1
    with authorize_health [OF 1] route_split(1) [OF 1] show ?thesis by auto
  next
    case 2
    then have "\<not> health_path (rq_path q)" using route_split by blast
    with 2 show ?thesis using workspace_path_admission [OF cs 2] unfolding sha by blast
  next
    case 3
    with control_path_admission [OF 3, of a] show ?thesis unfolding dev by blast
  qed
qed

section \<open>Served requests\<close>

lemma uuid_hex_store: "w_store (snd (uuid_hex env w)) = w_store w"
  by (simp add: uuid_hex_def uuid4_def py_unfold)

lemma propagate_trace_store:
  assumes "propagate_trace a q s = (r, t)"
  shows "w_store (as_world t) = w_store (as_world s) \<and> as_owner t = as_owner s"
proof -
  have "steps (\<lambda>v w. w_store w = w_store v) (uuid_hex env)" for env :: "'a env"
    by (simp add: steps_def uuid_hex_store)
  with assms show ?thesis
    by (auto simp: propagate_trace_def svc_def uuid_hex_def uuid4_def py_unfold split: option.splits)
qed

lemma serve_Served:
  "serve a q route s = (Served v, u) \<longleftrightarrow>
     (\<exists>t s1 sc. propagate_trace a q s = (Inr t, s1) \<and> authorize a q = Inr sc \<and> route sc s1 = (Inr v, u))"
  by (auto simp: serve_def bindE_def liftE_def split: prod.splits sum.splits)

lemma create_app_env:
  "create_app loads sha env remotes file raw grants dev receivers owner dump = Inr a \<Longrightarrow>
     \<exists>g. parse_grant_map loads grants = Inr g \<and> ap_env a = env\<lparr>rx_workspace_grants := g\<rparr>"
  by (auto simp: create_app_def Let_def resB_Inr_iff split: sum.splits if_splits)

lemma authorize_scope:
  assumes "create_app loads sha env remotes file raw grants dev receivers owner dump = Inr a"
    and "authorize a q = Inr (Some w)"
  shows "\<exists>tok. presents q tok \<and> token_is_valid tok \<and> \<lparr>cr_token_digest = sha tok, cr_scope = w\<rparr> \<in> set (ap_credentials a)"
proof -
  from assms(1) obtain cs where cs: "parse_credential_map loads raw = Inr cs"
    and a: "ap_credentials a = cs" "ap_sha256 a = sha"
    by (auto simp: create_app_def Let_def resB_Inr_iff split: sum.splits if_splits)
  from assms(2) have "authorize_workspace sha cs (rq_authorization q) = Inr w"
    by (auto simp: authorize_def a resB_def split: if_splits option.splits sum.splits)
  with workspace_admits [OF cs] show ?thesis by (auto simp: a presents_def)
qed

lemma created_visible:
  assumes "rx_activity env = None" and ok: "store_ok (w_store w)"
    and run: "create_model_import env command key scope w = (Inr m, w')"
  shows "get_model_import_row (mi_id m) (w_store w') = Some m \<and> model_import_scope (mi_id m) (w_store w') = scope
    \<and> (\<forall>o' ws. scope = Some (o', ws) \<longrightarrow> (iq_serving_binding_id command, o', ws) \<in> set (rx_workspace_grants env))
    \<and> store_ok (w_store w')"
proof -
  from wp_Inr [OF wp_create_model_import [OF assms(1,2)] run]
  obtain k where k: "map_of (st_imports (w_store w')) k = Some m"
      "map_of (st_import_scopes (w_store w')) k = scope"
    and rest: "\<forall>o' ws. scope = Some (o', ws) \<longrightarrow>
         (iq_serving_binding_id command, o', ws) \<in> set (rx_workspace_grants env)"
    by (auto simp: import_visible_def)
  have ok': "store_ok (w_store w')"
    using stepsD [OF create_model_import_audited run] ok by (simp add: waudit_def audit_def)
  then have "mi_id m = k" using k(1) by (auto simp: store_ok_def intro: table_id)
  with k rest ok' show ?thesis by (simp add: get_model_import_row_def model_import_scope_def)
qed


section \<open>Projections\<close>

text \<open>A stored import as its model admits it, with a UUID for its id.\<close>

definition import_document_ok :: "model_import \<Rightarrow> bool" where
  "import_document_ok m \<longleftrightarrow> safe_display_label (''Model import '' @ mi_id m)
     \<and> opt_ok revision_text (is_revision (mi_source m)) \<and> opt_ok artifact_ref_ok (mi_model_artifact m)
     \<and> opt_ok (\<lambda>v. sha256_ref (iv_digest v)) (mi_validation m) \<and> 1 \<le> mi_resource_version m"

text \<open>Any change of what must stay private.\<close>

definition disguised ::
    "string option \<Rightarrow> string option \<Rightarrow> string option \<Rightarrow> string \<Rightarrow> string \<Rightarrow> string list \<Rightarrow> string \<Rightarrow> model_import \<Rightarrow> model_import"
  where
  "disguised credential repository path uri provenance issues message m =
     m\<lparr>mi_credential_ref := credential,
       mi_source := (mi_source m)\<lparr>is_repository := repository, is_path := path\<rparr>,
       mi_model_artifact := map_option (\<lambda>a. a\<lparr>ar_uri := uri\<rparr>) (mi_model_artifact m),
       mi_validation := map_option (\<lambda>v. v\<lparr>iv_provenance := provenance, iv_issues := issues\<rparr>) (mi_validation m),
       mi_failure := map_option (\<lambda>f. f\<lparr>pf_message := message\<rparr>) (mi_failure m)\<rparr>"

lemma document_projected:
  assumes "import_document_ok m"
  shows "project_workspace_model_import m \<noteq> None \<longleftrightarrow> binding_label (mi_serving_binding_id m)"
proof -
  have "safe_display_label (project_name m)" using assms by (simp add: project_name_def import_document_ok_def)
  moreover have "opt_ok artifact_projection_ok (artifact_projection (mi_model_artifact m))"
    using assms by (auto simp: import_document_ok_def opt_ok_def artifact_projection_def artifact_projection_ok_def
      artifact_ref_ok_def split: option.splits)
  moreover have "opt_ok validation_projection_ok (map_option project_validation (mi_validation m))"
    using assms by (auto simp: import_document_ok_def opt_ok_def validation_projection_ok_def project_validation_def
      split: option.splits)
  moreover have "opt_ok failure_projection_ok (map_option project_failure (mi_failure m))"
  proof -
    have "safe_failure_code ''MODEL_IMPORT_FAILED''" by code_simp
    then show ?thesis by (auto simp: opt_ok_def failure_projection_ok_def project_failure_def split: option.splits)
  qed
  ultimately show ?thesis using assms
    by (auto simp: project_workspace_model_import_def import_projection_ok_def projected_import_def
      import_document_ok_def source_projection_ok_def)
qed

text \<open>C38: What a Workspace sees of an import. The projection does not depend on the credential reference, the
  repository, the path, the artifact's address, the provenance, the issues or the failure message; the name
  it shows has no slash, backslash or colon; and a stored import has a projection exactly when its binding
  id matches the pattern of the response model.\<close>

theorem projection_hides_internals:
  "project_workspace_model_import (disguised c r pa u pr is' me m) = project_workspace_model_import m
   \<and> (\<forall>p. project_workspace_model_import m = Some p \<longrightarrow> (\<forall>ch \<in> set (wp_name p). label_char ch))
   \<and> (import_document_ok m \<longrightarrow>
       (project_workspace_model_import m \<noteq> None \<longleftrightarrow> binding_label (mi_serving_binding_id m)))"
proof (intro conjI allI impI)
  have v: "project_validation (v\<lparr>iv_provenance := pr, iv_issues := is'\<rparr>) = project_validation v" for v
    by (simp add: project_validation_def)
  have f: "project_failure (v\<lparr>pf_message := me\<rparr>) = project_failure v" for v
    by (simp add: project_failure_def)
  have "projected_import (disguised c r pa u pr is' me m) = projected_import m"
    by (simp add: projected_import_def disguised_def project_name_def artifact_projection_def
      option.map_comp comp_def v f)
  then show "project_workspace_model_import (disguised c r pa u pr is' me m) = project_workspace_model_import m"
    by (simp add: project_workspace_model_import_def)
  show "\<forall>ch \<in> set (wp_name p). label_char ch" if "project_workspace_model_import m = Some p" for p
    using that by (auto simp: project_workspace_model_import_def import_projection_ok_def safe_display_label_def
      repeated_def split: if_splits)
  show "project_workspace_model_import m \<noteq> None \<longleftrightarrow> binding_label (mi_serving_binding_id m)"
    if "import_document_ok m" using that by (rule document_projected)
qed

section \<open>Bindings without a projection\<close>

lemma projected_all_fails: "m \<in> set ms \<Longrightarrow> project_workspace_model_import m = None \<Longrightarrow>
    projected_all ms = Inl (ValueError ''WorkspaceModelImportProjection'')"
  by (induction ms) (auto simp: projected_def resB_def split: option.splits sum.splits)

lemma listed_import:
  "get_model_import_row (mi_id m) s = Some m \<Longrightarrow> model_import_scope (mi_id m) s = Some w \<Longrightarrow>
     m \<in> set (list_model_imports_for_workspace_rows (fst w) (snd w) s)"
  by (force simp: list_model_imports_for_workspace_rows_def get_model_import_row_def model_import_scope_def
    dest: map_of_SomeD)

text \<open>The grants admit any printable binding id, the projection only some: for an import on another binding
  id, granted and created, the Workspace's create request ends in an internal error although the import is
  stored, and from then on every listing of this Workspace ends in an internal error.\<close>

theorem unprojectable_binding_breaks_listing:
  assumes "rx_activity (ap_env a) = None" and "store_ok (w_store (as_world s))"
    and create: "create_model_import (ap_env a) command key (Some w) (as_world s) = (Inr m, u)"
    and bad: "\<not> binding_label (mi_serving_binding_id m)" and short: "key_within 0 200 key = Inr ()"
  shows "workspace_create_model_import a w command key s
       = (Inl (ValueError ''WorkspaceModelImportProjection''), s\<lparr>as_world := u\<rparr>)
    \<and> get_model_import_row (mi_id m) (w_store u) = Some m
    \<and> workspace_list_model_imports w (s\<lparr>as_world := u\<rparr>)
       = (Inl (ValueError ''WorkspaceModelImportProjection''), s\<lparr>as_world := u\<rparr>)
    \<and> error_response q tr (ValueError ''WorkspaceModelImportProjection'')
       = Inl (ValueError ''WorkspaceModelImportProjection'')"
proof -
  from created_visible [OF assms(1-3)]
  have row: "get_model_import_row (mi_id m) (w_store u) = Some m" "model_import_scope (mi_id m) (w_store u) = Some w"
    by simp_all
  have none: "project_workspace_model_import m = None"
    using bad by (simp add: project_workspace_model_import_def import_projection_ok_def projected_import_def)
  then have "projected m = Inl (ValueError ''WorkspaceModelImportProjection'')" by (simp add: projected_def)
  moreover note projected_all_fails [OF listed_import [OF row] none]
  ultimately show ?thesis
    using create short row
    by (simp add: workspace_create_model_import_def workspace_list_model_imports_def svc_def db_get_def
      list_model_imports_for_workspace_def error_response_def REQUEST_VALIDATION_ERROR_def zoom_def py_simps
      bindE_def liftE_def getS_def)
qed

section \<open>A small application\<close>

definition sample_token :: string where
  "sample_token = replicate 32 CHR ''k''"

definition sample_digest :: "string \<Rightarrow> nat list" where
  "sample_digest t = (if t = sample_token then replicate 32 170 else replicate 32 0)"

definition sample_document :: json where
  "sample_document = JObj [(''version'', JInt 1), (''credentials'', JArr [JObj
     [(''tokenSha256'', JStr (replicate 64 CHR ''a'')), (''organizationId'', JStr ''org''), (''workspaceId'', JStr ''ws'')]])]"

definition sample_grants :: "string \<Rightarrow> json" where
  "sample_grants b = JObj [(''version'', JInt 1), (''grants'', JArr [JObj
     [(''servingBindingId'', JStr b), (''organizationId'', JStr ''org''), (''workspaceId'', JStr ''ws'')]])]"

definition sample_loads :: "string \<Rightarrow> string \<Rightarrow> json option" where
  "sample_loads b text = (if text = ''credentials'' then Some sample_document
     else if text = ''grants'' then Some (sample_grants b) else None)"

definition import_engine :: "unit engine" where
  "import_engine = UnconfiguredServingExecutionPort\<lparr>en_import_model := (\<lambda>c e.
     (Inr \<lparr>ir_model_artifact = sample_artifact, ir_validation =
        \<lparr>iv_weights = True, iv_config = True, iv_tokenizer = True, iv_chat_template = True, iv_license = None,
         iv_provenance = ''p'', iv_digest = ar_digest sample_artifact, iv_issues = []\<rparr>\<rparr>, e))\<rparr>"

definition sample_app_result :: "string \<Rightarrow> unit app res" where
  "sample_app_result b = create_app (sample_loads b) sample_digest (sample_env import_engine) [] None
     (Some ''credentials'') (Some ''grants'') False [] (Inr None) (\<lambda>r d. rr_id r)"

definition sample_app :: "string \<Rightarrow> unit app" where
  "sample_app b = (case sample_app_result b of Inr a \<Rightarrow> a)"

definition workspace_request :: request where
  "workspace_request = \<lparr>rq_path = ''/internal/workspace/v1/model-imports'',
     rq_authorization = Some (''Bearer '' @ sample_token), rq_traceparent = None, rq_request_id = Some ''r1''\<rparr>"

definition empty_state :: "unit server_state" where
  "empty_state = \<lparr>as_world = \<lparr>w_store = empty_store, w_ext = (), w_clock = 0, w_uuids = 0\<rparr>,
     as_owner = \<lparr>ob_rows = [], ob_clock = 0, ob_now = (\<lambda>n. [])\<rparr>\<rparr>"

definition import_on :: "string \<Rightarrow> import_request" where
  "import_on b = (sample_command False)\<lparr>iq_serving_binding_id := b\<rparr>"

lemma sample_app_built: "sample_app_result ''gpu-1'' = Inr (sample_app ''gpu-1'')"
  "sample_app_result ''gpu 1'' = Inr (sample_app ''gpu 1'')"
proof -
  have "\<not> isl (sample_app_result ''gpu-1'')" "\<not> isl (sample_app_result ''gpu 1'')" by code_simp+
  then show "sample_app_result ''gpu-1'' = Inr (sample_app ''gpu-1'')"
    "sample_app_result ''gpu 1'' = Inr (sample_app ''gpu 1'')"
    by (auto simp: sample_app_def split: sum.splits)
qed

theorem request_admission_witness:
  "authorize (sample_app ''gpu-1'') workspace_request = Inr (Some (''org'', ''ws''))"
proof -
  have "protects (rq_path workspace_request)" "presents workspace_request sample_token" "token_is_valid sample_token"
    "\<lparr>cr_token_digest = sample_digest sample_token, cr_scope = (''org'', ''ws'')\<rparr> \<in> set (ap_credentials (sample_app ''gpu-1''))"
    by code_simp+
  with request_admission [OF sample_app_built(1) [unfolded sample_app_result_def], of workspace_request "Some (''org'', ''ws'')"]
  show ?thesis by blast
qed

lemma empty_state_ok: "store_ok (w_store (as_world empty_state))"
  by (simp add: empty_state_def empty_store_ok)

definition created_on :: "string \<Rightarrow> import_projection outcome \<times> unit server_state" where
  "created_on b = serve (sample_app b) workspace_request
     (with_scope (\<lambda>w. workspace_create_model_import (sample_app b) w (import_on b) None)) empty_state"


theorem projection_hides_internals_witness:
  "\<forall>c r pa u pr is' me. project_workspace_model_import (disguised c r pa u pr is' me (sample_import ''i1''))
     = project_workspace_model_import (sample_import ''i1'')
   \<and> project_workspace_model_import (sample_import ''i1'') \<noteq> None"
proof (intro allI)
  fix c r pa u pr is' me
  have "import_document_ok (sample_import ''i1'')" "binding_label (mi_serving_binding_id (sample_import ''i1''))"
    by code_simp+
  with projection_hides_internals [of c r pa u pr is' me "sample_import ''i1''"]
  show "project_workspace_model_import (disguised c r pa u pr is' me (sample_import ''i1''))
     = project_workspace_model_import (sample_import ''i1'')
   \<and> project_workspace_model_import (sample_import ''i1'') \<noteq> None" by blast
qed

definition spaced_run :: "exn + model_import" where
  "spaced_run = fst (create_model_import (ap_env (sample_app ''gpu 1'')) (import_on ''gpu 1'') None
     (Some (''org'', ''ws'')) (as_world empty_state))"

theorem unprojectable_binding_breaks_listing_witness:
  "\<exists>u. workspace_create_model_import (sample_app ''gpu 1'') (''org'', ''ws'') (import_on ''gpu 1'') None empty_state
       = (Inl (ValueError ''WorkspaceModelImportProjection''), empty_state\<lparr>as_world := u\<rparr>)
   \<and> st_imports (w_store u) \<noteq> []"
proof -
  have "case spaced_run of Inr m \<Rightarrow> \<not> binding_label (mi_serving_binding_id m) | Inl x \<Rightarrow> False" by code_simp
  then obtain m where m: "spaced_run = Inr m" "\<not> binding_label (mi_serving_binding_id m)" by (auto split: sum.splits)
  obtain u where run: "create_model_import (ap_env (sample_app ''gpu 1'')) (import_on ''gpu 1'') None
      (Some (''org'', ''ws'')) (as_world empty_state) = (Inr m, u)"
    using m(1) unfolding spaced_run_def by (metis prod.collapse)
  have none: "rx_activity (ap_env (sample_app ''gpu 1'')) = None"
    using create_app_env [OF sample_app_built(2) [unfolded sample_app_result_def]] by (auto simp: sample_env_def)
  have short: "key_within 0 200 None = Inr ()" by (simp add: key_within_def)
  from unprojectable_binding_breaks_listing [OF none empty_state_ok run m(2) short] show ?thesis
    by (auto simp: get_model_import_row_def)
qed

end
