(* ===== verification/Http_History.thy ===== *)
theory Http_History
  imports Api_Requests Api_Properties Package_Owner_Properties
begin

text \<open>
  The Product as its clients drive it: every route with its path, one event for one request, and the state
  after any sequence of requests. \<open>http_frame\<close> carries a relation on the two databases through every
  handler; it is interpreted on their audit orders and on the provenance of import scopes.
\<close>

section \<open>Routes\<close>

datatype http_call =
    HealthCheck
  | ImportDraft resource_ref dict "string option"
  | ListDrafts
  | ReadDraft uuid
  | DeployDraft uuid deploy_draft_request
  | PostDeployment deployment_request "string option"
  | ListDeployments
  | ReadDeployment uuid
  | ReadEvents uuid
  | ReadDiagnostics uuid int int
  | PostStop uuid
  | PostRestart uuid node_ref int
  | ExportDeployment uuid
  | ExportModel uuid
  | ReadEndpoint uuid
  | ListReceivers
  | SendToExchange uuid send_request "string option"
  | PostImport import_request "string option"
  | ListImports
  | ReadImport uuid
  | WorkspacePostImport import_request "string option"
  | WorkspaceListImports
  | ListBindings
  | ReadNode string
  | ActivateRuntime string string "string option" activation_run
  | ReconcileRuntime string string "string option" "dict \<Rightarrow> reconcile_run"
  | ReadRuntime string

fun call_path :: "http_call \<Rightarrow> string" where
  "call_path HealthCheck = ''/healthz''"
| "call_path (ImportDraft r d k) = ''/api/v1/deployment-drafts''"
| "call_path ListDrafts = ''/api/v1/deployment-drafts''"
| "call_path (ReadDraft i) = ''/api/v1/deployment-drafts/'' @ i"
| "call_path (DeployDraft i c) = ''/api/v1/deployment-drafts/'' @ i @ ''/actions/deploy''"
| "call_path (PostDeployment c k) = ''/api/v1/deployments''"
| "call_path ListDeployments = ''/api/v1/deployments''"
| "call_path (ReadDeployment i) = ''/api/v1/deployments/'' @ i"
| "call_path (ReadEvents i) = ''/api/v1/deployments/'' @ i @ ''/events''"
| "call_path (ReadDiagnostics i a l) = ''/api/v1/deployments/'' @ i @ ''/diagnostics''"
| "call_path (PostStop i) = ''/api/v1/deployments/'' @ i @ ''/actions/stop''"
| "call_path (PostRestart i n v) = ''/api/v1/deployments/'' @ i @ ''/actions/restart''"
| "call_path (ExportDeployment i) = ''/api/v1/deployments/'' @ i @ ''/export''"
| "call_path (ExportModel i) = ''/api/v1/deployments/'' @ i @ ''/model-export''"
| "call_path (ReadEndpoint i) = ''/api/v1/endpoints/'' @ i"
| "call_path ListReceivers = ''/api/v1/exchange-receivers''"
| "call_path (SendToExchange i c k) = ''/api/v1/endpoints/'' @ i @ ''/actions/send-to-exchange''"
| "call_path (PostImport c k) = ''/api/v1/model-imports''"
| "call_path ListImports = ''/api/v1/model-imports''"
| "call_path (ReadImport i) = ''/api/v1/model-imports/'' @ i"
| "call_path (WorkspacePostImport c k) = ''/internal/workspace/v1/model-imports''"
| "call_path WorkspaceListImports = ''/internal/workspace/v1/model-imports''"
| "call_path ListBindings = ''/api/v1/serving-bindings''"
| "call_path (ReadNode b) = ''/api/v1/serving-bindings/'' @ b @ ''/node''"
| "call_path (ActivateRuntime b n k x) = ''/api/v1/runtime-bindings/'' @ b @ ''/actions/activate''"
| "call_path (ReconcileRuntime b body k x) = ''/api/v1/runtime-bindings/'' @ b @ ''/actions/reconcile''"
| "call_path (ReadRuntime b) = ''/api/v1/runtime-bindings/'' @ b"

text \<open>The handler of a call; its answer is dropped, as only the state is followed.\<close>

abbreviation run_only :: "('e, 'a) api \<Rightarrow> ('e, unit) api" where
  "run_only m \<equiv> bindE m (\<lambda>_. ret ())"

fun dispatch :: "'e app \<Rightarrow> http_call \<Rightarrow> workspace_scope option \<Rightarrow> ('e, unit) api" where
  "dispatch a HealthCheck sc = ret ()"
| "dispatch a (ImportDraft r d k) sc = run_only (import_draft a r d k)"
| "dispatch a ListDrafts sc = run_only list_drafts_route"
| "dispatch a (ReadDraft i) sc = run_only (get_draft_route i)"
| "dispatch a (DeployDraft i c) sc = run_only (deploy_draft a i c)"
| "dispatch a (PostDeployment c k) sc = run_only (create_deployment_route a c k)"
| "dispatch a ListDeployments sc = run_only list_deployments_route"
| "dispatch a (ReadDeployment i) sc = run_only (get_deployment_route a i)"
| "dispatch a (ReadEvents i) sc = run_only (deployment_events_route i)"
| "dispatch a (ReadDiagnostics i af l) sc = run_only (deployment_diagnostics_route a i af l)"
| "dispatch a (PostStop i) sc = run_only (stop_deployment_route a i)"
| "dispatch a (PostRestart i n v) sc = run_only (restart_route a i n v)"
| "dispatch a (ExportDeployment i) sc = run_only (export_deployment a i)"
| "dispatch a (ExportModel i) sc = run_only (export_model a i)"
| "dispatch a (ReadEndpoint i) sc = run_only (get_endpoint_route a i)"
| "dispatch a ListReceivers sc = ret ()"
| "dispatch a (SendToExchange i c k) sc = run_only (send_to_exchange a i c k)"
| "dispatch a (PostImport c k) sc = run_only (create_model_import_route a c k)"
| "dispatch a ListImports sc = run_only list_model_imports_route"
| "dispatch a (ReadImport i) sc = run_only (get_model_import_route i)"
| "dispatch a (WorkspacePostImport c k) sc = run_only (with_scope (\<lambda>w. workspace_create_model_import a w c k) sc)"
| "dispatch a WorkspaceListImports sc = run_only (with_scope workspace_list_model_imports sc)"
| "dispatch a ListBindings sc = ret ()"
| "dispatch a (ReadNode b) sc = run_only (node_route a b)"
| "dispatch a (ActivateRuntime b n k x) sc = run_only (activate_package_runtime a b n k x)"
| "dispatch a (ReconcileRuntime b body k x) sc = run_only (reconcile_package_runtime a b body k x)"
| "dispatch a (ReadRuntime b) sc = run_only (package_runtime_status_route a b)"

text \<open>The constraints of the body models.\<close>

fun body_ok :: "http_call \<Rightarrow> bool" where
  "body_ok (ImportDraft r d k) = resource_ref_ok r"
| "body_ok (DeployDraft i c) = deploy_draft_request_ok c"
| "body_ok (PostDeployment c k) = deployment_request_ok c"
| "body_ok (PostRestart i n v) = restart_request_ok n v"
| "body_ok (SendToExchange i c k) = send_request_ok c"
| "body_ok (PostImport c k) = import_request_ok c"
| "body_ok (WorkspacePostImport c k) = import_request_ok c"
| "body_ok (ActivateRuntime b n k x) = activate_request_ok n"
| "body_ok _ = True"

definition route :: "'e app \<Rightarrow> http_call \<Rightarrow> workspace_scope option \<Rightarrow> ('e, unit) api" where
  "route a c sc = (if body_ok c then dispatch a c sc else raise REQUEST_VALIDATION_ERROR)"

record http_event =
  he_call :: http_call
  he_authorization :: "string option"
  he_traceparent :: "string option"
  he_request_id :: "string option"

definition event_request :: "http_event \<Rightarrow> request" where
  "event_request ev = \<lparr>rq_path = call_path (he_call ev), rq_authorization = he_authorization ev,
     rq_traceparent = he_traceparent ev, rq_request_id = he_request_id ev\<rparr>"

definition handle :: "'e app \<Rightarrow> http_event \<Rightarrow> 'e server_state \<Rightarrow> unit outcome \<times> 'e server_state" where
  "handle a ev s = serve a (event_request ev) (route a (he_call ev)) s"

definition run_http :: "'e app \<Rightarrow> http_event list \<Rightarrow> 'e server_state \<Rightarrow> 'e server_state" where
  "run_http a evs s = fold (\<lambda>ev s. snd (handle a ev s)) evs s"

section \<open>Relations between databases through a request\<close>

lemma steps_case_prod [frame_rules]: "(\<And>a b. steps R (f a b)) \<Longrightarrow> steps R (case x of (a, b) \<Rightarrow> f a b)"
  by (cases x) simp

lemma steps_case_reply [frame_rules]:
  "steps R m \<Longrightarrow> (\<And>n b. steps R (f n b)) \<Longrightarrow> steps R (case x of TransportError \<Rightarrow> m | Reply n b \<Rightarrow> f n b)"
  by (cases x) simp_all

definition on_server :: "(store \<Rightarrow> store \<Rightarrow> bool) \<Rightarrow> (owner_db \<Rightarrow> owner_db \<Rightarrow> bool)
    \<Rightarrow> 'e server_state \<Rightarrow> 'e server_state \<Rightarrow> bool" where
  "on_server R Q s t \<longleftrightarrow> on_store R (as_world s) (as_world t) \<and> Q (as_owner s) (as_owner t)"

locale http_frame = store_frame R + tables: frame_rel Q
  for R :: "store \<Rightarrow> store \<Rightarrow> bool" and Q :: "owner_db \<Rightarrow> owner_db \<Rightarrow> bool" +
  assumes keeps_activate: "steps Q (activate o' run i n)"
    and keeps_reconcile: "steps Q (reconcile o' f i)"
    and keeps_status: "steps Q (status o')"

sublocale http_frame \<subseteq> server: frame_rel "on_server R Q"
  by unfold_locales
    (auto simp: on_server_def world.R_refl tables.R_refl intro: world.R_trans tables.R_trans)

context http_frame begin

abbreviation api_kept :: "('e, 'a) api \<Rightarrow> bool" where
  "api_kept m \<equiv> steps (on_server R Q) m"

lemma svc_lifted [frame_rules]: "svc_kept m \<Longrightarrow> api_kept (svc m)"
  unfolding svc_def by (erule steps_zoom) (simp add: on_server_def tables.R_refl)

lemma owned_lifted [frame_rules]: "steps Q m \<Longrightarrow> api_kept (owned m)"
  unfolding owned_def by (erule steps_zoom) (simp add: on_server_def world.R_refl)

lemma owner_errors_kept [frame_rules]: "api_kept m \<Longrightarrow> api_kept (owner_errors m)"
proof -
  have "api_kept (case x of OwnerFailure c n \<Rightarrow> raise (HttpError n c) | _ \<Rightarrow> raise x)" for x
    by (cases x) (simp_all add: server.steps_raise)
  then show "api_kept m \<Longrightarrow> api_kept (owner_errors m)" unfolding owner_errors_def by (intro frame_rules)
qed

lemma uuid_hex_kept [frame_rules]: "svc_kept (uuid_hex env)"
  unfolding uuid_hex_def by (intro frame_rules)

lemma trace_kept [frame_rules]: "api_kept (propagate_trace a q)"
  unfolding propagate_trace_def by (intro frame_rules)

lemma draft_routes_kept [frame_rules]:
  "api_kept (import_draft a r d k)" "api_kept list_drafts_route" "api_kept (get_draft_route i)"
  "api_kept (deploy_draft a i command)"
  unfolding import_draft_def list_drafts_route_def get_draft_route_def deploy_draft_def
  by (intro frame_rules)+

lemma deployment_routes_kept [frame_rules]:
  "api_kept (create_deployment_route a c k)" "api_kept (get_deployment_route a i)"
  "api_kept (deployment_events_route i)" "api_kept (deployment_diagnostics_route a i af l)"
  "api_kept (stop_deployment_route a i)" "api_kept (get_endpoint_route a i)"
  "api_kept list_deployments_route" "api_kept (restart_route a i n v)" "api_kept (export_deployment a i)"
  unfolding create_deployment_route_def get_deployment_route_def deployment_events_route_def
    deployment_diagnostics_route_def stop_deployment_route_def get_endpoint_route_def list_deployments_route_def
    restart_route_def export_deployment_def
  by (intro frame_rules)+

lemma exchange_route_kept [frame_rules]: "api_kept (send_to_exchange a i c k)"
  unfolding send_to_exchange_def send_def by (intro frame_rules)

lemma import_routes_kept [frame_rules]:
  "api_kept list_model_imports_route" "api_kept (get_model_import_route i)"
  "api_kept (workspace_list_model_imports w)"
  unfolding list_model_imports_route_def list_model_imports_def get_model_import_route_def get_model_import_def
    workspace_list_model_imports_def list_model_imports_for_workspace_def
  by (intro frame_rules)+

lemma binding_routes_kept [frame_rules]: "api_kept (node_route a b)" "api_kept (export_model a i)"
  unfolding node_route_def export_model_def by (intro frame_rules)+

lemma runtime_routes_kept [frame_rules]:
  "api_kept (activate_package_runtime a b n k x)" "api_kept (reconcile_package_runtime a b body k f)"
  "api_kept (package_runtime_status_route a b)"
  unfolding activate_package_runtime_def reconcile_package_runtime_def package_runtime_status_route_def
  by (intro frame_rules keeps_activate keeps_reconcile keeps_status)+

lemma with_scope_kept: "(\<And>w. sc = Some w \<Longrightarrow> api_kept (m w)) \<Longrightarrow> api_kept (with_scope m sc)"
  by (cases sc) (simp_all add: with_scope_def server.steps_raise)

text \<open>Every route, provided the intents of the imports it may create are kept.\<close>

lemma dispatch_kept:
  assumes creates: "\<And>command k sc'. c = PostImport command k \<and> sc' = None \<or> c = WorkspacePostImport command k \<and> sc' = sc
    \<Longrightarrow> svc_kept (create_model_import (ap_env a) command k sc')"
  shows "api_kept (dispatch a c sc)"
proof (cases c)
  case (PostImport command k)
  then show ?thesis using creates by (auto simp: create_model_import_route_def intro!: frame_rules)
next
  case (WorkspacePostImport command k)
  then show ?thesis using creates
    by (auto simp: workspace_create_model_import_def intro!: frame_rules with_scope_kept)
qed (auto intro!: frame_rules with_scope_kept)

lemma route_kept:
  assumes creates: "\<And>command k sc'. body_ok c \<Longrightarrow>
      c = PostImport command k \<and> sc' = None \<or> c = WorkspacePostImport command k \<and> sc' = sc
      \<Longrightarrow> svc_kept (create_model_import (ap_env a) command k sc')"
  shows "api_kept (route a c sc)"
  unfolding route_def by (intro frame_rules dispatch_kept creates)

lemma handle_kept:
  assumes creates: "\<And>sc command k sc'. authorize a (event_request ev) = Inr sc \<Longrightarrow> body_ok (he_call ev) \<Longrightarrow>
      he_call ev = PostImport command k \<and> sc' = None \<or> he_call ev = WorkspacePostImport command k \<and> sc' = sc
      \<Longrightarrow> svc_kept (create_model_import (ap_env a) command k sc')"
  shows "on_server R Q s (snd (handle a ev s))"
proof -
  obtain r t where trace: "propagate_trace a (event_request ev) s = (r, t)" by (rule prod.exhaust)
  note st = stepsD [OF trace_kept trace]
  have "steps (on_server R Q) (bindE (liftE (authorize a (event_request ev))) (route a (he_call ev)))"
  proof (cases "authorize a (event_request ev)")
    case (Inl x)
    then show ?thesis by (simp add: steps_def bindE_def liftE_def server.R_refl)
  next
    case (Inr sc)
    with route_kept [of "he_call ev" sc a] creates [OF Inr] show ?thesis
      by (simp add: steps_def bindE_def liftE_def)
  qed
  then have "on_server R Q t (snd (bindE (liftE (authorize a (event_request ev))) (route a (he_call ev)) t))"
    by (rule steps_snd)
  with trace st show ?thesis
    by (auto simp: handle_def serve_def intro: server.R_trans split: sum.splits prod.splits)
qed

end
section \<open>Histories\<close>

lemma run_http_append: "run_http a (xs @ ys) s = run_http a ys (run_http a xs s)"
  by (simp add: run_http_def)

text \<open>What a history established and did not begin with, one of its requests established.\<close>

lemma established_by_request:
  assumes "P (run_http a evs s)" and "\<not> P s"
  obtains before ev after where "evs = before @ ev # after" "\<not> P (run_http a before s)"
    "P (snd (handle a ev (run_http a before s)))"
  using assms
proof (induction evs arbitrary: thesis rule: rev_induct)
  case Nil
  then show ?case by (simp add: run_http_def)
next
  case (snoc ev evs)
  show ?case
  proof (cases "P (run_http a evs s)")
    case True
    from snoc.IH [OF _ True snoc.prems(3)] show ?thesis
      by (metis snoc.prems(1) append_Cons append_assoc)
  next
    case False
    then show ?thesis using snoc.prems(2) snoc.prems(1) [of evs ev "[]"]
      by (simp add: run_http_append) (simp add: run_http_def)
  qed
qed

end
