(* ===== verification/Http_Properties.thy ===== *)
theory Http_Properties
  imports Http_History
begin

text \<open>
  Properties of the Product over every history of HTTP requests: the consistency of both databases, and
  the origin of what a Workspace may read.
\<close>

section \<open>Both databases over a history\<close>

interpretation http_audit: http_frame audit owner_grows
  by unfold_locales (intro frame_rules)+

lemma handle_audit: "on_server audit owner_grows s (snd (handle a ev s))"
  by (rule http_audit.handle_kept) (rule create_model_import_audited)

lemma run_http_audit: "on_server audit owner_grows s (run_http a evs s)"
proof (induction evs rule: rev_induct)
  case (snoc ev evs)
  from http_audit.server.R_trans [OF snoc.IH handle_audit] show ?case by (simp add: run_http_def)
qed (simp add: run_http_def http_audit.server.R_refl)

definition fresh_server :: "'e \<Rightarrow> (nat \<Rightarrow> datetime) \<Rightarrow> 'e server_state" where
  "fresh_server e now = \<lparr>as_world = start_world e, as_owner = empty_owner_db now\<rparr>"

lemma fresh_server_ok: "store_ok (w_store (as_world (fresh_server e now)))" "owner_ok (as_owner (fresh_server e now))"
  by (simp_all add: fresh_server_def start_world_def empty_store_ok empty_owner_ok)

lemma run_http_store_ok: "store_ok (w_store (as_world s)) \<Longrightarrow> store_ok (w_store (as_world (run_http a evs s)))"
  using run_http_audit [of s a evs] by (simp add: on_server_def on_store_def audit_def)

text \<open>C2: Whatever requests the Product has served since its databases were empty, in any order, with any
  headers, by any clients, whatever its engines, remote bindings, receivers and the package SDK did and
  whether the requests succeeded or failed: the service database is consistent, the runtime operations table
  is consistent, and from any earlier point of the history events, diagnostics, idempotency answers, import
  scopes and table rows were only added to or, for a runtime operation, advanced.\<close>

theorem http_history_consistent:
  "store_ok (w_store (as_world (run_http a evs (fresh_server e now))))
   \<and> grows (w_store (as_world (run_http a evs (fresh_server e now))))
           (w_store (as_world (run_http a (evs @ later) (fresh_server e now))))
   \<and> owner_ok (as_owner (run_http a evs (fresh_server e now)))
   \<and> (\<exists>ys zs. ob_rows (as_owner (run_http a (evs @ later) (fresh_server e now))) = ys @ zs
        \<and> list_all2 row_le (ob_rows (as_owner (run_http a evs (fresh_server e now)))) ys)"
  using run_http_audit [of "fresh_server e now" a evs] run_http_audit [of "run_http a evs (fresh_server e now)" a later]
  by (simp add: run_http_append on_server_def on_store_def audit_def owner_grows_def fresh_server_ok)

section \<open>Where import scopes come from\<close>

text \<open>Import scopes are only added, and only scopes of \<open>W\<close>.\<close>

definition scopes_within :: "workspace_scope set \<Rightarrow> store \<Rightarrow> store \<Rightarrow> bool" where
  "scopes_within W s t \<longleftrightarrow> (\<forall>r \<in> set (st_import_scopes t). r \<in> set (st_import_scopes s) \<or> snd r \<in> W)"

interpretation scope_rel: frame_rel "scopes_within W" for W
  by unfold_locales (auto simp: scopes_within_def)

lemma scopes_unchanged: "(\<And>s. st_import_scopes (f s) = st_import_scopes s) \<Longrightarrow> steps (scopes_within W) (modS f)"
  by (rule scope_rel.steps_modS) (simp add: scopes_within_def)

lemma insert_key_scopes_within [frame_rules]: "steps (scopes_within W) (insert_idempotency sc k d i)"
  unfolding insert_idempotency_def by (intro frame_rules scopes_unchanged) simp

lemma insert_import_scopes_within: "steps (scopes_within W) (insert_import m)"
  unfolding insert_import_def by (intro frame_rules scopes_unchanged) simp

lemma insert_import_scope_within: "w \<in> W \<Longrightarrow> steps (scopes_within W) (insert_import_scope i w)"
  unfolding insert_import_scope_def
  by (intro frame_rules scope_rel.steps_modS) (auto simp: scopes_within_def)

lemma save_model_import_within: "steps (scopes_within W) (save_model_import m)"
  unfolding save_model_import_def by (intro frame_rules scopes_unchanged) simp

interpretation scope_writers: store_frame "scopes_within W" for W
proof unfold_locales
  fix d e x k h dr key m i ph msg t c ds n
  have "steps (scopes_within W) (resolve_idempotency k h)" "steps (scopes_within W) (get_draft j)" for k h j
    unfolding resolve_idempotency_def get_draft_def by (intro frame_rules)+
  note rules = frame_rules scopes_unchanged this
  show "steps (scopes_within W) (save_deployment d)" unfolding save_deployment_def by (intro rules) simp
  show "steps (scopes_within W) (save_pair d e x)" unfolding save_pair_def by (intro rules) simp_all
  show "steps (scopes_within W) (create_intent d k h)"
    unfolding create_intent_def insert_deployment_def by (intro rules) simp
  show "steps (scopes_within W) (save_draft dr)" unfolding save_draft_def by (intro rules) simp
  show "steps (scopes_within W) (create_draft dr key h)" unfolding create_draft_def by (intro rules) simp
  show "steps (scopes_within W) (append_deployment_event i ph msg t c)"
    unfolding append_deployment_event_def by (intro rules) simp
  show "steps (scopes_within W) (append_deployment_diagnostics i ds)"
    unfolding append_deployment_diagnostics_def by (intro rules) simp
  show "steps (scopes_within W) (set_runtime_diagnostics_cursor i n)"
    unfolding set_runtime_diagnostics_cursor_def by (intro rules) simp
qed

interpretation scoped: http_frame "scopes_within W" "\<lambda>_ _. True" for W
  by unfold_locales (simp_all add: steps_def)

text \<open>The requests that may store an import under the scope \<open>w\<close>: they post an import on the private path, with
  the bearer token of \<open>w\<close> and for a binding granted to \<open>w\<close>.\<close>

definition imports_for :: "'e app \<Rightarrow> http_event \<Rightarrow> workspace_scope \<Rightarrow> bool" where
  "imports_for a ev w \<longleftrightarrow> (\<exists>command key tok. he_call ev = WorkspacePostImport command key
     \<and> presents (event_request ev) tok \<and> token_is_valid tok
     \<and> \<lparr>cr_token_digest = ap_sha256 a tok, cr_scope = w\<rparr> \<in> set (ap_credentials a)
     \<and> (iq_serving_binding_id command, w) \<in> set (rx_workspace_grants (ap_env a)))"

lemma commit_import_within:
  assumes "\<And>w. sc = Some w \<Longrightarrow> w \<in> W"
  shows "steps (scopes_within W) (commit_model_import_intent m k h scope sc grants)"
proof (cases sc)
  case None
  show ?thesis unfolding commit_model_import_intent_def None option.case
    by (intro frame_rules insert_import_scopes_within scope_writers.readers_kept)
next
  case (Some w)
  with assms have "w \<in> W" by simp
  then show ?thesis unfolding commit_model_import_intent_def Some option.case
    by (intro frame_rules insert_import_scopes_within insert_import_scope_within scope_writers.readers_kept)
qed

lemma create_model_import_within:
  assumes "\<And>w. sc = Some w \<Longrightarrow> (iq_serving_binding_id command, w) \<in> set (rx_workspace_grants env) \<Longrightarrow> w \<in> W"
  shows "steps (on_store (scopes_within W)) (create_model_import env command key sc)"
proof (cases "\<exists>w. sc = Some w \<and> (iq_serving_binding_id command, w) \<notin> set (rx_workspace_grants env)")
  case True
  then show ?thesis by (auto simp: create_model_import_def intro: scope_writers.world.steps_raise)
next
  case False
  then show ?thesis using assms by (intro scope_writers.create_model_import_kept commit_import_within save_model_import_within) auto
qed

lemma handle_scopes:
  assumes app: "create_app loads sha env remotes file raw grants dev receivers owner dump = Inr a"
  shows "on_server (scopes_within {w. imports_for a ev w}) (\<lambda>_ _. True) s (snd (handle a ev s))"
proof (rule scoped.handle_kept)
  fix sc command k sc'
  assume auth: "authorize a (event_request ev) = Inr sc" and "body_ok (he_call ev)"
    and call: "he_call ev = PostImport command k \<and> sc' = None \<or> he_call ev = WorkspacePostImport command k \<and> sc' = sc"
  show "steps (on_store (scopes_within {w. imports_for a ev w})) (create_model_import (ap_env a) command k sc')"
  proof (rule create_model_import_within)
    fix w assume w: "sc' = Some w" "(iq_serving_binding_id command, w) \<in> set (rx_workspace_grants (ap_env a))"
    with call auth have "he_call ev = WorkspacePostImport command k" "authorize a (event_request ev) = Inr (Some w)"
      by auto
    moreover have "ap_sha256 a = sha" using app by (auto simp: create_app_def Let_def resB_Inr_iff split: sum.splits if_splits)
    ultimately show "w \<in> {w. imports_for a ev w}" using authorize_scope [OF app] w(2)
      unfolding imports_for_def by blast
  qed
qed

lemma scope_of: "store_ok s \<Longrightarrow> model_import_scope i s = Some w \<longleftrightarrow> (i, w) \<in> set (st_import_scopes s)"
  by (simp add: store_ok_def model_import_scope_def)

text \<open>Request number \<open>length before\<close> of a history is the one that gave the import \<open>i\<close> its scope \<open>w\<close>.\<close>

definition scoped_by :: "'e app \<Rightarrow> http_event list \<Rightarrow> 'e server_state \<Rightarrow> uuid \<Rightarrow> workspace_scope \<Rightarrow> bool" where
  "scoped_by a evs s i w \<longleftrightarrow> (\<exists>before ev after. evs = before @ ev # after \<and> imports_for a ev w
     \<and> model_import_scope i (w_store (as_world (run_http a before s))) = None
     \<and> model_import_scope i (w_store (as_world (run_http a (before @ [ev]) s))) = Some w)"

lemma scoped_import:
  assumes app: "create_app loads sha env remotes file raw grants dev receivers owner dump = Inr a"
    and ok: "store_ok (w_store (as_world s))" and none: "st_import_scopes (w_store (as_world s)) = []"
    and scope: "model_import_scope i (w_store (as_world (run_http a evs s))) = Some w"
  shows "scoped_by a evs s i w"
proof -
  let ?P = "\<lambda>t. model_import_scope i (w_store (as_world t)) = Some w"
  have "\<not> ?P s" using none by (simp add: model_import_scope_def)
  with scope obtain before ev after where evs: "evs = before @ ev # after"
    and old: "\<not> ?P (run_http a before s)" and new: "?P (snd (handle a ev (run_http a before s)))"
    by (rule established_by_request [where P = ?P])
  let ?u = "run_http a before s" and ?v = "snd (handle a ev (run_http a before s))"
  have u: "store_ok (w_store (as_world ?u))" and v: "store_ok (w_store (as_world ?v))"
    and g: "grows (w_store (as_world ?u)) (w_store (as_world ?v))"
    using run_http_audit [of s a before] handle_audit [of ?u a ev] ok
    by (auto simp: on_server_def on_store_def audit_def)
  have "imports_for a ev w"
    using handle_scopes [OF app, of ev ?u] old new
    by (auto simp: on_server_def on_store_def scopes_within_def scope_of [OF u] scope_of [OF v])
  moreover have "model_import_scope i (w_store (as_world ?u)) = None"
  proof (cases "model_import_scope i (w_store (as_world ?u))")
    case (Some w')
    with g have "model_import_scope i (w_store (as_world ?v)) = Some w'"
      by (auto simp: grows_def model_import_scope_def map_le_def dom_def)
    with new old Some show ?thesis by simp
  qed
  moreover have "run_http a (before @ [ev]) s = ?v" by (simp add: run_http_def)
  ultimately show ?thesis using evs new unfolding scoped_by_def by metis
qed

lemma projected_all_Inr: "projected_all ms = Inr ps \<Longrightarrow> p \<in> set ps
    \<Longrightarrow> \<exists>m \<in> set ms. project_workspace_model_import m = Some p"
  by (induction ms arbitrary: ps) (fastforce simp: projected_def resB_Inr_iff split: option.splits)+

lemma listed_row:
  assumes "store_ok s" and "m \<in> set (list_model_imports_for_workspace_rows (fst w) (snd w) s)"
  shows "get_model_import_row (mi_id m) s = Some m \<and> model_import_scope (mi_id m) s = Some w"
proof -
  from assms(2) obtain i where i: "(i, m) \<in> set (st_imports s)" "map_of (st_import_scopes s) i = Some w"
    by (auto simp: list_model_imports_for_workspace_rows_def)
  then have "map_of (st_imports s) i = Some m" using assms(1) by (simp add: store_ok_def table_ok_def)
  moreover from this have "mi_id m = i" using assms(1) by (auto simp: store_ok_def intro: table_id)
  ultimately show ?thesis using i(2) by (simp add: get_model_import_row_def model_import_scope_def)
qed

text \<open>C36: What a Workspace reads. On an application that was built, after any history of requests from empty
  databases, a Workspace listing is served only to a bearer listed in the operator's map, and every entry
  is the projection of a stored import whose scope is that bearer's and came from one earlier request of the
  history: one that posted an import on the private path, presented a listed token of the same scope, for a
  binding the operator grants to it, and found the import without a scope. No request of another Workspace or
  of the control plane puts an import into the listing.\<close>

theorem workspace_reads_only_own_imports:
  assumes app: "create_app loads sha env remotes file raw grants dev receivers owner dump = Inr a"
    and run: "serve a q (with_scope workspace_list_model_imports) (run_http a evs (fresh_server e now)) = (Served ps, t)"
  shows "\<exists>tok w. presents q tok \<and> token_is_valid tok
    \<and> \<lparr>cr_token_digest = ap_sha256 a tok, cr_scope = w\<rparr> \<in> set (ap_credentials a)
    \<and> (\<forall>p \<in> set ps. \<exists>m. project_workspace_model_import m = Some p
        \<and> get_model_import_row (mi_id m) (w_store (as_world t)) = Some m
        \<and> model_import_scope (mi_id m) (w_store (as_world t)) = Some w
        \<and> scoped_by a evs (fresh_server e now) (mi_id m) w)"
proof -
  let ?s = "run_http a evs (fresh_server e now)"
  have sha: "ap_sha256 a = sha" using app by (auto simp: create_app_def Let_def resB_Inr_iff split: sum.splits if_splits)
  from run obtain tr s1 sc where tr: "propagate_trace a q ?s = (Inr tr, s1)" and auth: "authorize a q = Inr sc"
    and route: "with_scope workspace_list_model_imports sc s1 = (Inr ps, t)" unfolding serve_Served by blast
  from route obtain w where w: "sc = Some w" and "workspace_list_model_imports w s1 = (Inr ps, t)"
    by (auto simp: with_scope_def raise_def split: option.splits)
  then have t: "t = s1"
    and ps: "projected_all (list_model_imports_for_workspace_rows (fst w) (snd w) (w_store (as_world s1))) = Inr ps"
    by (auto simp: workspace_list_model_imports_def list_model_imports_for_workspace_def bindE_Inr svc_Inr liftE_Inr
      db_get_def getS_def)
  have st: "w_store (as_world s1) = w_store (as_world ?s)" using propagate_trace_store [OF tr] by simp
  have ok: "store_ok (w_store (as_world ?s))" by (rule run_http_store_ok [OF fresh_server_ok(1)])
  have none: "st_import_scopes (w_store (as_world (fresh_server e now))) = []"
    by (simp add: fresh_server_def start_world_def empty_store_def)
  have "\<exists>m. project_workspace_model_import m = Some p
      \<and> get_model_import_row (mi_id m) (w_store (as_world t)) = Some m
      \<and> model_import_scope (mi_id m) (w_store (as_world t)) = Some w
      \<and> scoped_by a evs (fresh_server e now) (mi_id m) w" if "p \<in> set ps" for p
    using projected_all_Inr [OF ps that] listed_row [OF ok] scoped_import [OF app fresh_server_ok(1) none]
    unfolding t st by blast
  moreover obtain tok where "presents q tok" "token_is_valid tok"
      "\<lparr>cr_token_digest = sha tok, cr_scope = w\<rparr> \<in> set (ap_credentials a)"
    using authorize_scope [OF app] auth w by blast
  ultimately show ?thesis unfolding sha by blast
qed

section \<open>Every listing is served\<close>

text \<open>Imports are only stored as documents with \<open>P\<close>.\<close>

definition imports_within :: "(model_import \<Rightarrow> bool) \<Rightarrow> store \<Rightarrow> store \<Rightarrow> bool" where
  "imports_within P s t \<longleftrightarrow> (\<forall>r \<in> set (st_imports t). r \<in> set (st_imports s) \<or> P (snd r))"

interpretation import_rel: frame_rel "imports_within P" for P
  by unfold_locales (auto simp: imports_within_def)

lemma imports_unchanged: "(\<And>s. st_imports (f s) = st_imports s) \<Longrightarrow> steps (imports_within P) (modS f)"
  by (rule import_rel.steps_modS) (simp add: imports_within_def)

lemma insert_key_imports_within [frame_rules]: "steps (imports_within P) (insert_idempotency sc k d i)"
  unfolding insert_idempotency_def by (intro frame_rules imports_unchanged) simp

lemma insert_import_within: "P m \<Longrightarrow> steps (imports_within P) (insert_import m)"
  unfolding insert_import_def by (intro frame_rules import_rel.steps_modS) (auto simp: imports_within_def)

lemma insert_scope_imports: "steps (imports_within P) (insert_import_scope i w)"
  unfolding insert_import_scope_def by (intro frame_rules imports_unchanged) simp

lemma save_import_within: "P m \<Longrightarrow> steps (imports_within P) (save_model_import m)"
  unfolding save_model_import_def
  by (intro frame_rules import_rel.steps_modS) (auto simp: imports_within_def tbl_replace_def)

interpretation import_writers: store_frame "imports_within P" for P
proof unfold_locales
  fix d e x k h dr key i ph msg t c ds n
  have "steps (imports_within P) (resolve_idempotency k h)" "steps (imports_within P) (get_draft j)" for k h j
    unfolding resolve_idempotency_def get_draft_def by (intro frame_rules)+
  note rules = frame_rules imports_unchanged this
  show "steps (imports_within P) (save_deployment d)" unfolding save_deployment_def by (intro rules) simp
  show "steps (imports_within P) (save_pair d e x)" unfolding save_pair_def by (intro rules) simp_all
  show "steps (imports_within P) (create_intent d k h)"
    unfolding create_intent_def insert_deployment_def by (intro rules) simp
  show "steps (imports_within P) (save_draft dr)" unfolding save_draft_def by (intro rules) simp
  show "steps (imports_within P) (create_draft dr key h)" unfolding create_draft_def by (intro rules) simp
  show "steps (imports_within P) (append_deployment_event i ph msg t c)"
    unfolding append_deployment_event_def by (intro rules) simp
  show "steps (imports_within P) (append_deployment_diagnostics i ds)"
    unfolding append_deployment_diagnostics_def by (intro rules) simp
  show "steps (imports_within P) (set_runtime_diagnostics_cursor i n)"
    unfolding set_runtime_diagnostics_cursor_def by (intro rules) simp
qed

interpretation imported: http_frame "imports_within P" "\<lambda>_ _. True" for P
  by unfold_locales (simp_all add: steps_def)

lemma commit_pending_within: "P m \<Longrightarrow> steps (imports_within P) (commit_model_import_intent m k h scope sc grants)"
  unfolding commit_model_import_intent_def
  by (intro frame_rules insert_import_within insert_scope_imports import_writers.readers_kept)

text \<open>A stored import the projection accepts, on a configured binding.\<close>

definition canonical_uuid :: "string \<Rightarrow> bool" where
  "canonical_uuid i \<longleftrightarrow> length i = 36 \<and> (\<forall>c \<in> set i. is_hex c \<or> c = CHR ''-'')"

definition servable :: "'e env \<Rightarrow> model_import \<Rightarrow> bool" where
  "servable env m \<longleftrightarrow> import_document_ok m \<and> \<not> isl (engine_for env (mi_serving_binding_id m))"

lemma uuid_label: "canonical_uuid i \<Longrightarrow> safe_display_label (''Model import '' @ i)"
  by (auto simp: canonical_uuid_def safe_display_label_def repeated_def label_char_def is_hex_def is_digit_def code_def)

lemma servable_documents:
  assumes "import_request_ok c" and "canonical_uuid i" and "engine_for env (iq_serving_binding_id c) = Inr e"
  shows "servable env (pending_import c i now)" "servable env (failed_import (pending_import c i now) f t)"
    "import_result_ok r \<Longrightarrow> servable env (ready_import (pending_import c i now) r t)"
  using assms uuid_label [OF assms(2)]
  by (auto simp: servable_def import_document_ok_def pending_import_def import_request_ok_def
    import_source_ok_def opt_ok_def import_result_ok_def)

lemma create_servable:
  assumes "import_request_ok command" and "\<And>n. canonical_uuid (rx_uuid env n)"
    and "\<And>b e c x r x'. engine_for env b = Inr e \<Longrightarrow> en_import_model e c x = (Inr r, x') \<Longrightarrow> import_result_ok r"
  shows "steps (on_store (imports_within (servable env))) (create_model_import env command k sc)"
  by (rule import_writers.create_model_import_kept)
    (auto intro!: commit_pending_within save_import_within servable_documents assms(1,2) intro: assms(3))

lemma run_http_servable:
  assumes "\<And>n. canonical_uuid (rx_uuid (ap_env a) n)"
    and "\<And>b e c x r x'. engine_for (ap_env a) b = Inr e \<Longrightarrow> en_import_model e c x = (Inr r, x') \<Longrightarrow> import_result_ok r"
  shows "on_server (imports_within (servable (ap_env a))) (\<lambda>_ _. True) s (run_http a evs s)"
proof (induction evs rule: rev_induct)
  case (snoc ev evs)
  have "on_server (imports_within (servable (ap_env a))) (\<lambda>_ _. True) t (snd (handle a ev t))" for t
    by (rule imported.handle_kept) (auto intro!: create_servable assms intro: assms(2))
  from imported.server.R_trans [OF snoc.IH this] show ?case by (simp add: run_http_def)
qed (simp add: run_http_def imported.server.R_refl)

lemma propagate_trace_Inr: "\<exists>tr s'. propagate_trace a q s = (Inr tr, s')"
  by (auto simp: propagate_trace_def svc_def uuid_hex_def uuid4_def py_unfold split: option.splits)

lemma projected_all_served:
  assumes "\<And>m. m \<in> set ms \<Longrightarrow> project_workspace_model_import m \<noteq> None"
  shows "\<exists>ps. projected_all ms = Inr ps \<and> map project_workspace_model_import ms = map Some ps"
  using assms by (induction ms) (fastforce simp: projected_def resB_def)+

text \<open>C37: A Workspace can always read its imports. On an application that was built, with bindings named by
  labels, canonical UUIDs and engines whose import results satisfy their class, after any history of requests
  from empty databases every admitted listing is answered, with the projection of each stored import of the
  bearer's scope, newest first, and nothing else; no request can store an import that breaks the listing.\<close>

theorem workspace_listing_served:
  assumes app: "create_app loads sha env remotes file raw grants dev receivers owner dump = Inr a"
    and labels: "\<And>b e. engine_for env b = Inr e \<Longrightarrow> binding_label b"
    and uuids: "\<And>n. canonical_uuid (rx_uuid env n)"
    and results: "\<And>b e c x r x'. engine_for env b = Inr e \<Longrightarrow> en_import_model e c x = (Inr r, x') \<Longrightarrow> import_result_ok r"
    and auth: "authorize a q = Inr (Some w)"
  shows "\<exists>ps t. serve a q (with_scope workspace_list_model_imports) (run_http a evs (fresh_server e now)) = (Served ps, t)
    \<and> map project_workspace_model_import (list_model_imports_for_workspace_rows (fst w) (snd w)
        (w_store (as_world (run_http a evs (fresh_server e now))))) = map Some ps"
proof -
  let ?s = "run_http a evs (fresh_server e now)"
  obtain g where env: "ap_env a = env\<lparr>rx_workspace_grants := g\<rparr>" using create_app_env [OF app] by blast
  have engines: "engine_for (ap_env a) b = engine_for env b" for b by (simp add: env engine_for_def split: option.split)
  have "on_server (imports_within (servable (ap_env a))) (\<lambda>_ _. True) (fresh_server e now) ?s"
  proof (rule run_http_servable)
    show "canonical_uuid (rx_uuid (ap_env a) n)" for n using uuids by (simp add: env)
  qed (use results in \<open>simp add: engines\<close>)
  then have "servable (ap_env a) m" if "m \<in> snd ` set (st_imports (w_store (as_world ?s)))" for m
    using that by (auto simp: on_server_def on_store_def imports_within_def fresh_server_def start_world_def empty_store_def)
  then have shown: "project_workspace_model_import m \<noteq> None"
    if "m \<in> snd ` set (st_imports (w_store (as_world ?s)))" for m
    using that labels unfolding servable_def engines document_projected
    by (metis document_projected sum.collapse(2))
  obtain tr s1 where tr: "propagate_trace a q ?s = (Inr tr, s1)" using propagate_trace_Inr by blast
  have st: "w_store (as_world s1) = w_store (as_world ?s)" using propagate_trace_store [OF tr] by simp
  let ?ms = "list_model_imports_for_workspace_rows (fst w) (snd w) (w_store (as_world ?s))"
  obtain ps where ps: "projected_all ?ms = Inr ps" "map project_workspace_model_import ?ms = map Some ps"
    using projected_all_served [of ?ms] shown by (force simp: list_model_imports_for_workspace_rows_def)
  have "workspace_list_model_imports w s1 = (Inr ps, s1)"
    using ps(1) by (simp add: workspace_list_model_imports_def list_model_imports_for_workspace_def svc_def db_get_def
      py_unfold st)
  then have "serve a q (with_scope workspace_list_model_imports) ?s = (Served ps, s1)"
    using tr auth by (simp add: serve_Served with_scope_def)
  with ps(2) show ?thesis by blast
qed

section \<open>A small history\<close>

text \<open>One private import, then the listing: the small application of \<open>Api_Properties\<close>.\<close>

definition import_event :: http_event where
  "import_event = \<lparr>he_call = WorkspacePostImport (import_on ''gpu-1'') None,
     he_authorization = Some (''Bearer '' @ sample_token), he_traceparent = None, he_request_id = Some ''r1''\<rparr>"

definition listed_after :: "http_event list \<Rightarrow> import_projection list outcome \<times> unit server_state" where
  "listed_after evs = serve (sample_app ''gpu-1'') workspace_request (with_scope workspace_list_model_imports)
     (run_http (sample_app ''gpu-1'') evs (fresh_server () (\<lambda>n. [])))"

theorem workspace_reads_only_own_imports_witness:
  "\<exists>ps t (m :: model_import) w. listed_after [import_event] = (Served ps, t) \<and> length ps = 1
     \<and> model_import_scope (mi_id m) (w_store (as_world t)) = Some w
     \<and> scoped_by (sample_app ''gpu-1'') [import_event] (fresh_server () (\<lambda>n. [])) (mi_id m) w"
proof -
  have "case fst (listed_after [import_event]) of Served ps \<Rightarrow> length ps = 1 | _ \<Rightarrow> False" by code_simp
  then obtain ps t where run: "listed_after [import_event] = (Served ps, t)" and one: "length ps = 1"
    by (cases "listed_after [import_event]") (auto split: outcome.splits)
  then obtain p where "p \<in> set ps" by (cases ps) auto
  moreover from workspace_reads_only_own_imports [OF sample_app_built(1) [unfolded sample_app_result_def]
      run [unfolded listed_after_def]]
  obtain w where "\<forall>p \<in> set ps. \<exists>m. project_workspace_model_import m = Some p
      \<and> get_model_import_row (mi_id m) (w_store (as_world t)) = Some m
      \<and> model_import_scope (mi_id m) (w_store (as_world t)) = Some w
      \<and> scoped_by (sample_app ''gpu-1'') [import_event] (fresh_server () (\<lambda>n. [])) (mi_id m) w"
    by (elim exE conjE)
  ultimately obtain m :: model_import where "model_import_scope (mi_id m) (w_store (as_world t)) = Some w"
      "scoped_by (sample_app ''gpu-1'') [import_event] (fresh_server () (\<lambda>n. [])) (mi_id m) w" by blast
  with run one show ?thesis by blast
qed

text \<open>The same application with its binding configured.\<close>

definition bound_env :: "unit env" where
  "bound_env = (sample_env import_engine)\<lparr>rx_engines := Some [(''gpu-1'', import_engine)],
     rx_uuid := (\<lambda>n. ''00000000-0000-4000-8000-000000000001'')\<rparr>"

definition bound_app_result :: "unit app res" where
  "bound_app_result = create_app (sample_loads ''gpu-1'') sample_digest bound_env [] None
     (Some ''credentials'') (Some ''grants'') False [] (Inr None) (\<lambda>r d. rr_id r)"

definition bound_app :: "unit app" where
  "bound_app = (case bound_app_result of Inr a \<Rightarrow> a)"

lemma bound_app_built: "bound_app_result = Inr bound_app"
proof -
  have "\<not> isl bound_app_result" by code_simp
  then obtain a where "bound_app_result = Inr a" by (metis sum.collapse(2))
  then show ?thesis unfolding bound_app_def by (elim ssubst) simp
qed

lemma bound_engines: "engine_for bound_env b = Inr e \<longleftrightarrow> b = ''gpu-1'' \<and> e = import_engine"
  by (auto simp: engine_for_def bound_env_def)

theorem workspace_listing_served_witness:
  "\<exists>ps t. serve bound_app workspace_request (with_scope workspace_list_model_imports)
      (run_http bound_app [import_event] (fresh_server () (\<lambda>n. []))) = (Served ps, t) \<and> length ps = 1"
proof -
  have auth: "authorize bound_app workspace_request = Inr (Some (''org'', ''ws''))" by code_simp
  have one: "length (list_model_imports_for_workspace_rows ''org'' ''ws''
      (w_store (as_world (run_http bound_app [import_event] (fresh_server () (\<lambda>n. [])))))) = 1" by code_simp
  have label: "binding_label ''gpu-1''" and uuid: "canonical_uuid (rx_uuid bound_env 0)"
    and artifact: "artifact_ref_ok sample_artifact" by code_simp+
  have "\<exists>ps t. serve bound_app workspace_request (with_scope workspace_list_model_imports)
      (run_http bound_app [import_event] (fresh_server () (\<lambda>n. []))) = (Served ps, t)
    \<and> map project_workspace_model_import (list_model_imports_for_workspace_rows (fst (''org'', ''ws'')) (snd (''org'', ''ws''))
        (w_store (as_world (run_http bound_app [import_event] (fresh_server () (\<lambda>n. [])))))) = map Some ps"
  proof (rule workspace_listing_served [OF bound_app_built [unfolded bound_app_result_def] _ _ _ auth])
    show "binding_label b" if "engine_for bound_env b = Inr e" for b e using that label by (simp add: bound_engines)
    show "canonical_uuid (rx_uuid bound_env n)" for n using uuid by (simp add: bound_env_def)
    show "import_result_ok r" if "engine_for bound_env b = Inr e" "en_import_model e c x = (Inr r, x')" for b e c x r x'
      using that artifact by (auto simp: bound_engines import_engine_def import_result_ok_def artifact_ref_ok_def)
  qed
  with one show ?thesis by (metis length_map fst_conv snd_conv)
qed

end
