(* ===== verification/Worker_Errors.thy ===== *)
theory Worker_Errors
  imports Errors
begin

text \<open>
  The exception hierarchy of the inference worker (\<open>cy_exec/exceptions.py\<close>): every class with its
  superclass, every constructor with its code and details, the printed form, and \<open>wrap_exception\<close>.
  Message templates with characters outside Latin-1 are a parameter: \<open>msg code args\<close> is the text the
  constructor of that code builds from its arguments, and \<open>labels\<close> the two labels of the printed form.
\<close>

section \<open>The classes\<close>

datatype worker_class =
    CYLLMWorkerError
  | EngineError | EngineNotFoundError | EngineLoadError | EngineInferenceError | EngineTimeoutError
  | InferenceError
  | ModelError | ModelNotFoundError | ModelLoadError | ModelUnloadError
  | ConfigError | ConfigNotFoundError | ConfigValidationError | ConfigReloadError | ConfigurationError
  | ResourceError | GPUMemoryError | ResourceExhaustedError | QuotaExceededError
  | CommunicationError | GRPCError | AuthenticationError

fun superclass :: "worker_class \<Rightarrow> worker_class option" where
  "superclass CYLLMWorkerError = None"
| "superclass EngineError = Some CYLLMWorkerError"
| "superclass EngineNotFoundError = Some EngineError"
| "superclass EngineLoadError = Some EngineError"
| "superclass EngineInferenceError = Some EngineError"
| "superclass EngineTimeoutError = Some EngineError"
| "superclass InferenceError = Some EngineError"
| "superclass ModelError = Some CYLLMWorkerError"
| "superclass ModelNotFoundError = Some ModelError"
| "superclass ModelLoadError = Some ModelError"
| "superclass ModelUnloadError = Some ModelError"
| "superclass ConfigError = Some CYLLMWorkerError"
| "superclass ConfigNotFoundError = Some ConfigError"
| "superclass ConfigValidationError = Some ConfigError"
| "superclass ConfigReloadError = Some ConfigError"
| "superclass ConfigurationError = Some ConfigError"
| "superclass ResourceError = Some CYLLMWorkerError"
| "superclass GPUMemoryError = Some ResourceError"
| "superclass ResourceExhaustedError = Some ResourceError"
| "superclass QuotaExceededError = Some ResourceError"
| "superclass CommunicationError = Some CYLLMWorkerError"
| "superclass GRPCError = Some CommunicationError"
| "superclass AuthenticationError = Some CommunicationError"

text \<open>\<open>isinstance\<close> climbs to the superclass; the base class is three steps away at most.\<close>

fun class_depth :: "worker_class \<Rightarrow> nat" where
  "class_depth c = (if c = CYLLMWorkerError then 0
     else if c \<in> {EngineError, ModelError, ConfigError, ResourceError, CommunicationError} then 1 else 2)"

lemma superclass_depth: "superclass c = Some d \<Longrightarrow> class_depth d < class_depth c"
  by (cases c) auto

function is_a :: "worker_class \<Rightarrow> worker_class \<Rightarrow> bool" where
  "is_a c d = (c = d \<or> (case superclass c of None \<Rightarrow> False | Some b \<Rightarrow> is_a b d))"
  by pat_completeness auto
termination
  by (relation "measure (\<lambda>(c, d). class_depth c)") (use superclass_depth in \<open>simp_all del: class_depth.simps\<close>)

declare is_a.simps [simp del] class_depth.simps [simp del]

definition class_name :: "worker_class \<Rightarrow> string" where
  "class_name c = (case c of
     CYLLMWorkerError \<Rightarrow> ''CYLLMWorkerError''
   | EngineError \<Rightarrow> ''EngineError'' | EngineNotFoundError \<Rightarrow> ''EngineNotFoundError''
   | EngineLoadError \<Rightarrow> ''EngineLoadError'' | EngineInferenceError \<Rightarrow> ''EngineInferenceError''
   | EngineTimeoutError \<Rightarrow> ''EngineTimeoutError'' | InferenceError \<Rightarrow> ''InferenceError''
   | ModelError \<Rightarrow> ''ModelError'' | ModelNotFoundError \<Rightarrow> ''ModelNotFoundError''
   | ModelLoadError \<Rightarrow> ''ModelLoadError'' | ModelUnloadError \<Rightarrow> ''ModelUnloadError''
   | ConfigError \<Rightarrow> ''ConfigError'' | ConfigNotFoundError \<Rightarrow> ''ConfigNotFoundError''
   | ConfigValidationError \<Rightarrow> ''ConfigValidationError'' | ConfigReloadError \<Rightarrow> ''ConfigReloadError''
   | ConfigurationError \<Rightarrow> ''ConfigurationError''
   | ResourceError \<Rightarrow> ''ResourceError'' | GPUMemoryError \<Rightarrow> ''GPUMemoryError''
   | ResourceExhaustedError \<Rightarrow> ''ResourceExhaustedError'' | QuotaExceededError \<Rightarrow> ''QuotaExceededError''
   | CommunicationError \<Rightarrow> ''CommunicationError'' | GRPCError \<Rightarrow> ''GRPCError''
   | AuthenticationError \<Rightarrow> ''AuthenticationError'')"

definition worker_classes :: "worker_class list" where
  "worker_classes = [CYLLMWorkerError, EngineError, EngineNotFoundError, EngineLoadError,
     EngineInferenceError, EngineTimeoutError, InferenceError, ModelError, ModelNotFoundError,
     ModelLoadError, ModelUnloadError, ConfigError, ConfigNotFoundError, ConfigValidationError,
     ConfigReloadError, ConfigurationError, ResourceError, GPUMemoryError, ResourceExhaustedError,
     QuotaExceededError, CommunicationError, GRPCError, AuthenticationError]"

text \<open>\<open>isinstance(exc, C)\<close> for an exception of the model, which carries the name of its class.\<close>

fun exn_class :: "exn \<Rightarrow> string option" where
  "exn_class (PyException n _ _) = Some n"
| "exn_class _ = None"

definition isinstance :: "exn \<Rightarrow> worker_class \<Rightarrow> bool" where
  "isinstance x d = (case exn_class x of
     None \<Rightarrow> False | Some n \<Rightarrow> list_ex (\<lambda>c. class_name c = n \<and> is_a c d) worker_classes)"

section \<open>Instances\<close>

text \<open>\<open>we_cause\<close> is \<open>str\<close> of the cause.\<close>

record worker_error =
  we_class :: worker_class
  we_message :: string
  we_code :: string
  we_details :: dict
  we_cause :: "string option"

definition worker_error_init ::
    "worker_class \<Rightarrow> string \<Rightarrow> string option \<Rightarrow> dict \<Rightarrow> string option \<Rightarrow> worker_error" where
  "worker_error_init c message given_code details cause =
     \<lparr>we_class = c, we_message = message,
      we_code = (case given_code of None \<Rightarrow> class_name c | Some k \<Rightarrow> if k = [] then class_name c else k),
      we_details = details, we_cause = cause\<rparr>"

definition worker_error_str :: "string \<times> string \<Rightarrow> (dict \<Rightarrow> string) \<Rightarrow> worker_error \<Rightarrow> string" where
  "worker_error_str labels repr e =
     join '' | '' ([''['' @ we_code e @ ''] '' @ we_message e]
       @ (if we_details e = [] then [] else [fst labels @ repr (we_details e)])
       @ (case we_cause e of None \<Rightarrow> [] | Some c \<Rightarrow> [snd labels @ c]))"

definition worker_error_to_dict :: "worker_error \<Rightarrow> dict" where
  "worker_error_to_dict e =
     [(''error'', JStr (we_code e)), (''message'', JStr (we_message e)), (''details'', JObj (we_details e))]"

definition opt_str :: "string option \<Rightarrow> json" where
  "opt_str v = (case v of None \<Rightarrow> JNull | Some t \<Rightarrow> JStr t)"

definition truthy_str :: "string option \<Rightarrow> bool" where
  "truthy_str v \<longleftrightarrow> (case v of None \<Rightarrow> False | Some t \<Rightarrow> t \<noteq> [])"

definition opt_text :: "string option \<Rightarrow> string" where
  "opt_text v = (case v of None \<Rightarrow> ''None'' | Some t \<Rightarrow> t)"

text \<open>The constructors; \<open>**kwargs\<close> are further keywords, so they repeat no named one.\<close>

type_synonym template = "string \<Rightarrow> string list \<Rightarrow> string"

definition engine_not_found :: "template \<Rightarrow> string \<Rightarrow> string list \<Rightarrow> worker_error" where
  "engine_not_found msg engine_type available =
     worker_error_init EngineNotFoundError (msg ''ENGINE_NOT_FOUND'' [engine_type]) (Some ''ENGINE_NOT_FOUND'')
       ((''engine_type'', JStr engine_type)
         # (if available = [] then [] else [(''available_engines'', JArr (map JStr available))])) None"

definition engine_load_error :: "template \<Rightarrow> string \<Rightarrow> string \<Rightarrow> string option \<Rightarrow> worker_error" where
  "engine_load_error msg engine_type reason cause =
     worker_error_init EngineLoadError (msg ''ENGINE_LOAD_ERROR'' [engine_type, reason]) (Some ''ENGINE_LOAD_ERROR'')
       [(''engine_type'', JStr engine_type), (''reason'', JStr reason)] cause"

definition engine_inference_error :: "template \<Rightarrow> string \<Rightarrow> string \<Rightarrow> string option \<Rightarrow> worker_error" where
  "engine_inference_error msg engine_type reason cause =
     worker_error_init EngineInferenceError (msg ''ENGINE_INFERENCE_ERROR'' [engine_type, reason])
       (Some ''ENGINE_INFERENCE_ERROR'') [(''engine_type'', JStr engine_type), (''reason'', JStr reason)] cause"

definition engine_timeout :: "template \<Rightarrow> string \<Rightarrow> string \<Rightarrow> worker_error" where
  "engine_timeout msg operation seconds =
     worker_error_init EngineTimeoutError (msg ''ENGINE_TIMEOUT'' [operation, seconds]) (Some ''ENGINE_TIMEOUT'')
       [(''operation'', JStr operation), (''timeout_seconds'', JFloat seconds)] None"

definition inference_error ::
    "string \<Rightarrow> string option \<Rightarrow> int option \<Rightarrow> dict \<Rightarrow> worker_error" where
  "inference_error message model_id prompt_length kwargs =
     worker_error_init InferenceError message (Some ''INFERENCE_ERROR'')
       ([(''model_id'', opt_str model_id),
         (''prompt_length'', case prompt_length of None \<Rightarrow> JNull | Some n \<Rightarrow> JInt n)] @ kwargs) None"

definition model_not_found :: "template \<Rightarrow> string \<Rightarrow> string option \<Rightarrow> worker_error" where
  "model_not_found msg model_id registry_path =
     worker_error_init ModelNotFoundError (msg ''MODEL_NOT_FOUND'' [model_id]) (Some ''MODEL_NOT_FOUND'')
       ((''model_id'', JStr model_id)
         # (if truthy_str registry_path then [(''registry_path'', opt_str registry_path)] else [])) None"

definition model_load_error ::
    "template \<Rightarrow> string \<Rightarrow> string option \<Rightarrow> string option \<Rightarrow> string option \<Rightarrow> string option \<Rightarrow> dict \<Rightarrow> worker_error" where
  "model_load_error msg message model_id model_path reason cause kwargs =
     worker_error_init ModelLoadError
       (if truthy_str reason then msg ''MODEL_LOAD_ERROR'' [opt_text model_id, opt_text reason]
        else if message \<noteq> [] then message else msg ''MODEL_LOAD_ERROR'' [])
       (Some ''MODEL_LOAD_ERROR'')
       ([(''model_id'', opt_str model_id), (''model_path'', opt_str model_path), (''reason'', opt_str reason)] @ kwargs)
       cause"

definition model_unload_error :: "template \<Rightarrow> string \<Rightarrow> string \<Rightarrow> string option \<Rightarrow> worker_error" where
  "model_unload_error msg model_id reason cause =
     worker_error_init ModelUnloadError (msg ''MODEL_UNLOAD_ERROR'' [model_id, reason]) (Some ''MODEL_UNLOAD_ERROR'')
       [(''model_id'', JStr model_id), (''reason'', JStr reason)] cause"

definition config_not_found :: "template \<Rightarrow> string \<Rightarrow> worker_error" where
  "config_not_found msg config_path =
     worker_error_init ConfigNotFoundError (msg ''CONFIG_NOT_FOUND'' [config_path]) (Some ''CONFIG_NOT_FOUND'')
       [(''config_path'', JStr config_path)] None"

definition config_validation_error :: "template \<Rightarrow> json list \<Rightarrow> string option \<Rightarrow> worker_error" where
  "config_validation_error msg errors config_path =
     worker_error_init ConfigValidationError
       (msg ''CONFIG_VALIDATION_ERROR'' [show_nat (length errors)]) (Some ''CONFIG_VALIDATION_ERROR'')
       ((''errors'', JArr errors)
         # (if truthy_str config_path then [(''config_path'', opt_str config_path)] else [])) None"

definition config_reload_error :: "template \<Rightarrow> string \<Rightarrow> string option \<Rightarrow> worker_error" where
  "config_reload_error msg reason cause =
     worker_error_init ConfigReloadError (msg ''CONFIG_RELOAD_ERROR'' [reason]) (Some ''CONFIG_RELOAD_ERROR'')
       [(''reason'', JStr reason)] cause"

definition configuration_error :: "string \<Rightarrow> string option \<Rightarrow> dict \<Rightarrow> worker_error" where
  "configuration_error message key kwargs =
     worker_error_init ConfigurationError message (Some ''CONFIG_ERROR'') ((''key'', opt_str key) # kwargs) None"

definition gpu_memory_error ::
    "template \<Rightarrow> (string \<Rightarrow> string) \<Rightarrow> string \<Rightarrow> string \<Rightarrow> int \<Rightarrow> string list \<Rightarrow> worker_error" where
  "gpu_memory_error msg fixed0 required available device suggestions =
     worker_error_init GPUMemoryError (msg ''GPU_MEMORY_ERROR'' [fixed0 required, fixed0 available])
       (Some ''GPU_MEMORY_ERROR'')
       ([(''required_mb'', JFloat required), (''available_mb'', JFloat available), (''device_id'', JInt device)]
         @ (if suggestions = [] then [] else [(''suggestions'', JArr (map JStr suggestions))])) None"

definition resource_exhausted ::
    "template \<Rightarrow> string \<Rightarrow> string option \<Rightarrow> string option \<Rightarrow> dict \<Rightarrow> worker_error" where
  "resource_exhausted msg message resource_type reason kwargs =
     worker_error_init ResourceExhaustedError
       (if truthy_str resource_type \<and> truthy_str reason
        then msg ''RESOURCE_EXHAUSTED'' [opt_text resource_type, opt_text reason]
        else if truthy_str resource_type then msg ''RESOURCE_EXHAUSTED'' [opt_text resource_type, message]
        else if message \<noteq> [] then message else msg ''RESOURCE_EXHAUSTED'' [])
       (Some ''RESOURCE_EXHAUSTED'')
       ([(''resource_type'', opt_str resource_type), (''reason'', opt_str reason)] @ kwargs) None"

definition quota_exceeded :: "template \<Rightarrow> string \<Rightarrow> int \<Rightarrow> int \<Rightarrow> worker_error" where
  "quota_exceeded msg quota_type limit current =
     worker_error_init QuotaExceededError
       (msg ''QUOTA_EXCEEDED'' [quota_type, show_int current, show_int limit]) (Some ''QUOTA_EXCEEDED'')
       [(''quota_type'', JStr quota_type), (''limit'', JInt limit), (''current'', JInt current)] None"

definition grpc_error :: "template \<Rightarrow> string \<Rightarrow> string \<Rightarrow> string option \<Rightarrow> worker_error" where
  "grpc_error msg status_code message cause =
     worker_error_init GRPCError (msg ''GRPC_ERROR'' [status_code, message]) (Some ''GRPC_ERROR'')
       [(''grpc_status'', JStr status_code), (''message'', JStr message)] cause"

definition authentication_error :: "string \<Rightarrow> string option \<Rightarrow> dict \<Rightarrow> worker_error" where
  "authentication_error message given_code details =
     worker_error_init AuthenticationError message
       (Some (case given_code of None \<Rightarrow> ''AUTH_ERROR'' | Some k \<Rightarrow> if k = [] then ''AUTH_ERROR'' else k))
       details None"

section \<open>Wrapping\<close>

text \<open>Either a worker error, which is returned as it is, or another exception by its class and text.\<close>

datatype any_exn = Worker worker_error | Other string string

definition wrap_exception :: "any_exn \<Rightarrow> string \<Rightarrow> worker_error" where
  "wrap_exception x context_text = (case x of
     Worker e \<Rightarrow> e
   | Other n t \<Rightarrow>
       worker_error_init CYLLMWorkerError (if context_text = [] then t else context_text @ '': '' @ t)
         (Some ''WRAPPED_ERROR'') [(''original_type'', JStr n)] (Some t))"

lemma is_a_refl [simp]: "is_a c c"
  by (simp add: is_a.simps [of c c])

lemma is_a_trans: "is_a c d \<Longrightarrow> is_a d b \<Longrightarrow> is_a c b"
proof (induction c d rule: is_a.induct)
  case (1 c d)
  show ?case
  proof (cases "c = d")
    case False
    with "1.prems"(1) obtain a where a: "superclass c = Some a" "is_a a d"
      by (auto simp: is_a.simps [of c d] split: option.splits)
    with "1.IH" [OF a(1)] "1.prems"(2) show ?thesis by (simp add: is_a.simps [of c b])
  qed (use "1.prems" in simp)
qed

lemma is_a_root: "is_a c CYLLMWorkerError"
  by (cases c) (simp_all add: is_a.simps)

end
