(* ===== verification/Worker_Auth.thy ===== *)
theory Worker_Auth
  imports Worker_Errors
begin

text \<open>
  The token check between the gateway and the worker (\<open>cy_exec/utils/auth.py\<close>). The module keeps the
  token it read from the environment, or generated, in a global: it is the state here. \<open>os.getenv\<close> is a
  map; the metadata of a call is absent, cannot be read, or is a sequence of pairs of which \<open>dict\<close> keeps
  the last of a key.
\<close>

record token_state =
  ts_token :: string
  ts_environ :: "string \<Rightarrow> string option"

datatype metadata = MetadataFails | NoMetadata | Metadata "(string \<times> string) list"

definition getenv :: "token_state \<Rightarrow> string \<Rightarrow> string \<Rightarrow> string" where
  "getenv s k default_value = (case ts_environ s k of None \<Rightarrow> default_value | Some v \<Rightarrow> v)"

definition load_token :: "(string \<Rightarrow> string option) \<Rightarrow> token_state" where
  "load_token env =
     \<lparr>ts_token = (case env ''CY_LLM_INTERNAL_TOKEN'' of None \<Rightarrow> [] | Some v \<Rightarrow> v), ts_environ = env\<rparr>"

definition is_insecure_internal_token_allowed :: "token_state \<Rightarrow> bool" where
  "is_insecure_internal_token_allowed s \<longleftrightarrow>
     strip (lower (getenv s ''CY_LLM_ENV'' ''development'')) \<noteq> ''production''
     \<or> strip (lower (getenv s ''CY_LLM_ALLOW_INSECURE_INTERNAL_TOKEN'' ''false'')) \<in> {''1'', ''true'', ''yes''}"

text \<open>\<open>verify_token\<close>: validity and the error message. The comparison of the UTF-8 forms is equality.\<close>

definition verify_token :: "token_state \<Rightarrow> string option \<Rightarrow> string option \<Rightarrow> bool \<times> string" where
  "verify_token s provided given_expected =
     (let expected = (case given_expected of None \<Rightarrow> ts_token s | Some e \<Rightarrow> if e = [] then ts_token s else e)
      in if expected = []
         then (if is_insecure_internal_token_allowed s then (True, []) else (False, ''Internal token required''))
         else case provided of
           None \<Rightarrow> (False, ''Missing authorization token'')
         | Some t \<Rightarrow>
             (if t = [] then (False, ''Missing authorization token'')
              else if t \<noteq> ''Bearer '' @ expected then (False, ''Invalid internal token'')
              else (True, [])))"

definition extract_token_from_metadata :: "(string \<times> string) list \<Rightarrow> string option" where
  "extract_token_from_metadata pairs = map_of (rev pairs) ''authorization''"

definition read_metadata :: "metadata \<Rightarrow> (string \<times> string) list" where
  "read_metadata m = (case m of Metadata pairs \<Rightarrow> pairs | _ \<Rightarrow> [])"

text \<open>\<open>verify_grpc_context\<close> aborts the call with the message; \<open>abort\<close> raises.\<close>

definition verify_grpc_context :: "token_state \<Rightarrow> metadata \<Rightarrow> string + unit" where
  "verify_grpc_context s m =
     (let (valid, message) = verify_token s (extract_token_from_metadata (read_metadata m)) None
      in if valid then Inr () else Inl message)"

text \<open>\<open>fresh\<close> is \<open>uuid4().hex\<close>.\<close>

definition get_internal_token :: "string \<Rightarrow> (token_state, exn, string) py" where
  "get_internal_token fresh =
     bindE (getS ts_token) (\<lambda>t.
     if t \<noteq> [] then ret t
     else bindE (getS is_insecure_internal_token_allowed) (\<lambda>allowed.
          if allowed then bindE (modS (\<lambda>s. s\<lparr>ts_token := fresh\<rparr>)) (\<lambda>_. ret fresh)
          else raise (PyException ''RuntimeError'' ''CY_LLM_INTERNAL_TOKEN is required in production'' None)))"

definition enforce_internal_token_policy :: "(token_state, exn, unit) py" where
  "enforce_internal_token_policy =
     bindE (getS ts_token) (\<lambda>t.
     if t \<noteq> [] then ret ()
     else bindE (getS is_insecure_internal_token_allowed) (\<lambda>allowed.
          if allowed then ret ()
          else raise (PyException ''RuntimeError'' ''CY_LLM_INTERNAL_TOKEN is required in production'' None)))"

lemma verify_grpc_context_iff:
  "verify_grpc_context s m = Inr () \<longleftrightarrow>
     (if ts_token s = [] then is_insecure_internal_token_allowed s
      else extract_token_from_metadata (read_metadata m) = Some (''Bearer '' @ ts_token s))"
  by (auto simp: verify_grpc_context_def verify_token_def Let_def split: option.splits)

section \<open>Asynchronous callers\<close>

text \<open>\<open>verify_grpc_context_async\<close>, whose awaited \<open>abort\<close> raises too, and the asynchronous servicer's own
  \<open>_verify_internal_token\<close>, which answers without aborting.\<close>

definition verify_grpc_context_async :: "token_state \<Rightarrow> metadata \<Rightarrow> string + unit" where
  "verify_grpc_context_async s m =
     (case verify_token s (extract_token_from_metadata (read_metadata m)) None of
        (True, message) \<Rightarrow> Inr () | (False, message) \<Rightarrow> Inl message)"

definition verify_internal_token_async :: "token_state \<Rightarrow> metadata \<Rightarrow> bool" where
  "verify_internal_token_async s m = fst (verify_token s (extract_token_from_metadata (read_metadata m)) None)"

text \<open>The three checks agree on who is let in.\<close>

lemma token_checks_agree:
  "verify_grpc_context_async s m = verify_grpc_context s m"
  "verify_internal_token_async s m \<longleftrightarrow> verify_grpc_context s m = Inr ()"
  by (auto simp: verify_grpc_context_async_def verify_grpc_context_def verify_internal_token_async_def
    split: prod.splits bool.splits)

end
