(* ===== verification/Worker_Config.thy ===== *)
theory Worker_Config
  imports Complex_Main Worker_Errors
begin

text \<open>
  The worker's configuration (\<open>cy_exec/config/models.py\<close>, \<open>cy_exec/config/config_loader.py\<close>). Pydantic's
  lax conversions of a JSON value to \<open>int\<close>, \<open>float\<close> and \<open>bool\<close> are parameters (\<open>conversions\<close>), as are
  \<open>json.loads\<close>, the environment and the files; the constraints of the fields are written out. A pydantic
  error is a \<open>ValueError\<close> whose text is not modelled.
\<close>

record conversions =
  cv_int :: "json \<Rightarrow> int option"
  cv_float :: "json \<Rightarrow> rat option"
  cv_bool :: "json \<Rightarrow> bool option"

record model_spec =
  ms_model_path :: string
  ms_adapter_path :: "string option"
  ms_provider_id :: "string option"
  ms_quantization :: "string option"
  ms_max_model_len :: "int option"
  ms_tensor_parallel_size :: "int option"
  ms_gpu_memory_utilization :: "rat option"
  ms_enable_prefix_caching :: "bool option"
  ms_kv_cache_dtype :: "string option"

record worker_config =
  wc_provider_id :: string
  wc_model_registry :: "(string \<times> model_spec) list"
  wc_grpc_port :: int
  wc_max_workers :: int
  wc_queue_size :: int

definition MODEL_SPEC_FIELDS :: "string list" where
  "MODEL_SPEC_FIELDS = [''model_path'', ''adapter_path'', ''provider_id'', ''quantization'', ''max_model_len'',
     ''tensor_parallel_size'', ''gpu_memory_utilization'', ''enable_prefix_caching'', ''kv_cache_dtype'']"

definition invalid_field :: "string \<Rightarrow> exn" where
  "invalid_field k = ValueError (''invalid '' @ k)"

text \<open>An optional field: absent and \<open>null\<close> are \<open>None\<close>; otherwise converted and tested.\<close>

definition optional_field ::
    "(json \<Rightarrow> 'a option) \<Rightarrow> ('a \<Rightarrow> bool) \<Rightarrow> dict \<Rightarrow> string \<Rightarrow> 'a option res" where
  "optional_field convert good d k = (case dict_get d k of
     None \<Rightarrow> Inr None
   | Some JNull \<Rightarrow> Inr None
   | Some v \<Rightarrow> (case convert v of
       None \<Rightarrow> Inl (invalid_field k)
     | Some a \<Rightarrow> if good a then Inr (Some a) else Inl (invalid_field k)))"

fun text_value :: "json \<Rightarrow> string option" where
  "text_value (JStr t) = Some t"
| "text_value _ = None"

definition validate_model_spec :: "conversions \<Rightarrow> json \<Rightarrow> model_spec res" where
  "validate_model_spec cv v = (case v of
     JObj d \<Rightarrow>
       (if \<not> set (map fst d) \<subseteq> set MODEL_SPEC_FIELDS then Inl (ValueError ''extra fields not permitted'')
        else resB (case dict_get d ''model_path'' of
               Some (JStr t) \<Rightarrow> if t = [] then Inl (invalid_field ''model_path'') else Inr t
             | _ \<Rightarrow> Inl (invalid_field ''model_path'')) (\<lambda>path.
             resB (optional_field text_value (\<lambda>_. True) d ''adapter_path'') (\<lambda>adapter.
             resB (optional_field text_value (\<lambda>_. True) d ''provider_id'') (\<lambda>provider.
             resB (optional_field text_value (\<lambda>_. True) d ''quantization'') (\<lambda>quant.
             resB (optional_field (cv_int cv) (\<lambda>n. 1 \<le> n) d ''max_model_len'') (\<lambda>max_len.
             resB (optional_field (cv_int cv) (\<lambda>n. 1 \<le> n) d ''tensor_parallel_size'') (\<lambda>tp.
             resB (optional_field (cv_float cv) (\<lambda>r. 0 < r \<and> r \<le> 1) d ''gpu_memory_utilization'') (\<lambda>gpu.
             resB (optional_field (cv_bool cv) (\<lambda>_. True) d ''enable_prefix_caching'') (\<lambda>prefix.
             resB (optional_field text_value (\<lambda>_. True) d ''kv_cache_dtype'') (\<lambda>kv.
             Inr \<lparr>ms_model_path = path, ms_adapter_path = adapter, ms_provider_id = provider,
                  ms_quantization = quant, ms_max_model_len = max_len, ms_tensor_parallel_size = tp,
                  ms_gpu_memory_utilization = gpu, ms_enable_prefix_caching = prefix,
                  ms_kv_cache_dtype = kv\<rparr>))))))))))
   | _ \<Rightarrow> Inl (ValueError ''Input should be a valid dictionary''))"

fun validate_specs :: "conversions \<Rightarrow> dict \<Rightarrow> (string \<times> model_spec) list res" where
  "validate_specs cv [] = Inr []"
| "validate_specs cv ((name, v) # rest) =
     resB (validate_model_spec cv v) (\<lambda>spec. resB (validate_specs cv rest) (\<lambda>specs. Inr ((name, spec) # specs)))"

text \<open>\<open>_parse_registry_json\<close>; \<open>loads\<close> is \<open>json.loads\<close>, \<open>None\<close> when it raises.\<close>

definition parse_registry_json ::
    "conversions \<Rightarrow> (string \<Rightarrow> json option) \<Rightarrow> string \<Rightarrow> (string \<times> model_spec) list res" where
  "parse_registry_json cv loads payload = (case loads payload of
     None \<Rightarrow> Inl (ValueError ''JSONDecodeError'')
   | Some (JObj d) \<Rightarrow>
       (case dict_get d ''models'' of
          None \<Rightarrow> validate_specs cv d
        | Some (JObj ms) \<Rightarrow> validate_specs cv ms
        | Some _ \<Rightarrow> Inl (ValueError (''Model registry '' @ [CHR 0x27] @ ''models'' @ [CHR 0x27] @ '' must be an object'')))
   | Some _ \<Rightarrow> Inl (ValueError ''Model registry must be a JSON object''))"

text \<open>The process: its environment, its files (\<open>Inl\<close> is a read that raises, \<open>None\<close> no regular file).\<close>

record process =
  pr_environ :: "string \<Rightarrow> string option"
  pr_file :: "string \<Rightarrow> (exn + string) option"
  pr_loads :: "string \<Rightarrow> json option"
  pr_conversions :: conversions
  pr_expanduser :: "string \<Rightarrow> string"

definition registry_path :: "process \<Rightarrow> string option \<Rightarrow> string" where
  "registry_path pr given =
     (let configured = (case pr_environ pr ''CY_LLM_MODEL_REGISTRY_PATH'' of None \<Rightarrow> [] | Some e \<Rightarrow> e)
      in case given of Some p \<Rightarrow> if p \<noteq> [] then p else configured | None \<Rightarrow> configured)"

definition default_spec :: "process \<Rightarrow> model_spec res" where
  "default_spec pr =
     (let path = (case pr_environ pr ''CY_LLM_DEFAULT_MODEL'' of None \<Rightarrow> ''deepseek-ai/deepseek-llm-7b-chat'' | Some p \<Rightarrow> p)
      in if path = [] then Inl (invalid_field ''model_path'')
         else Inr \<lparr>ms_model_path = path, ms_adapter_path = pr_environ pr ''CY_LLM_DEFAULT_ADAPTER'',
                ms_provider_id = None, ms_quantization = None, ms_max_model_len = None,
                ms_tensor_parallel_size = None, ms_gpu_memory_utilization = None,
                ms_enable_prefix_caching = None, ms_kv_cache_dtype = None\<rparr>)"

definition load_model_registry :: "process \<Rightarrow> string option \<Rightarrow> (string \<times> model_spec) list res" where
  "load_model_registry pr given = (case pr_environ pr ''CY_LLM_MODEL_REGISTRY'' of
     Some payload \<Rightarrow> parse_registry_json (pr_conversions pr) (pr_loads pr) payload
   | None \<Rightarrow>
       (let path = registry_path pr given in
        if path \<noteq> []
        then (let file = pr_expanduser pr path in case pr_file pr file of
                None \<Rightarrow> Inl (PyException ''FileNotFoundError'' (''Model registry file not found: '' @ file) None)
              | Some (Inl x) \<Rightarrow> Inl x
              | Some (Inr payload) \<Rightarrow> parse_registry_json (pr_conversions pr) (pr_loads pr) payload)
        else resB (default_spec pr) (\<lambda>spec. Inr [(''default'', spec)])))"

definition load_worker_config :: "process \<Rightarrow> string option \<Rightarrow> worker_config res" where
  "load_worker_config pr given =
     (let provider_id = strip (case pr_environ pr ''CYRENE_SERVING_PROVIDER_ID'' of None \<Rightarrow> [] | Some p \<Rightarrow> p) in
      if provider_id = [] then Inl (ValueError ''CYRENE_SERVING_PROVIDER_ID must be non-empty'')
      else resB (load_model_registry pr given) (\<lambda>models.
           Inr \<lparr>wc_provider_id = provider_id, wc_model_registry = models, wc_grpc_port = 50051,
                wc_max_workers = 10, wc_queue_size = 128\<rparr>))"

section \<open>A loaded configuration is well typed\<close>

definition spec_ok :: "model_spec \<Rightarrow> bool" where
  "spec_ok m \<longleftrightarrow> ms_model_path m \<noteq> []
     \<and> pred_option (\<lambda>n. 1 \<le> n) (ms_max_model_len m)
     \<and> pred_option (\<lambda>n. 1 \<le> n) (ms_tensor_parallel_size m)
     \<and> pred_option (\<lambda>r. 0 < r \<and> r \<le> 1) (ms_gpu_memory_utilization m)"

definition config_ok :: "worker_config \<Rightarrow> bool" where
  "config_ok c \<longleftrightarrow> wc_provider_id c \<noteq> [] \<and> strip (wc_provider_id c) = wc_provider_id c
     \<and> (\<forall>m \<in> set (map snd (wc_model_registry c)). spec_ok m)
     \<and> 1 \<le> wc_grpc_port c \<and> wc_grpc_port c \<le> 65535 \<and> 1 \<le> wc_max_workers c \<and> 1 \<le> wc_queue_size c"

lemma optional_field_ok:
  assumes "optional_field convert good d k = Inr r"
  shows "pred_option good r"
proof -
  have tested: "(case oo of None \<Rightarrow> Inl x | Some a \<Rightarrow> if good a then Inr (Some a) else Inl x) = Inr r \<Longrightarrow> pred_option good r"
    for oo and x :: exn
    by (cases oo) (auto split: if_splits)
  show ?thesis
  proof (cases "dict_get d k \<in> {None, Some JNull}")
    case True
    with assms show ?thesis by (auto simp: optional_field_def)
  next
    case False
    then obtain v where "dict_get d k = Some v" "v \<noteq> JNull" by auto
    with assms have "(case convert v of None \<Rightarrow> Inl (invalid_field k) | Some a \<Rightarrow> if good a then Inr (Some a) else Inl (invalid_field k)) = Inr r"
      by (cases v) (simp_all add: optional_field_def)
    then show ?thesis by (rule tested)
  qed
qed

lemma validate_model_spec_ok: "validate_model_spec cv v = Inr m \<Longrightarrow> spec_ok m"
  by (auto simp: validate_model_spec_def resB_Inr_iff spec_ok_def dest: optional_field_ok
      split: json.splits if_splits option.splits)

lemma validate_specs_ok:
  "validate_specs cv d = Inr ms \<Longrightarrow> map fst ms = map fst d \<and> (\<forall>e \<in> set ms. spec_ok (snd e))"
proof (induction d arbitrary: ms)
  case (Cons e d)
  obtain k v where e: "e = (k, v)" by fastforce
  with Cons.prems obtain m rest where "validate_model_spec cv v = Inr m" "validate_specs cv d = Inr rest" "ms = (k, m) # rest"
    by (auto simp: resB_Inr_iff)
  with Cons.IH e show ?case by (simp add: validate_model_spec_ok)
qed simp

lemma parse_registry_ok:
  assumes "parse_registry_json cv loads t = Inr ms"
  shows "\<forall>e \<in> set ms. spec_ok (snd e)"
proof -
  obtain d where "validate_specs cv d = Inr ms"
    using assms by (auto simp: parse_registry_json_def split: option.splits json.splits)
  then show ?thesis using validate_specs_ok by blast
qed

lemma load_registry_ok:
  assumes "load_model_registry pr given = Inr ms"
  shows "\<forall>e \<in> set ms. spec_ok (snd e)"
proof -
  consider t where "parse_registry_json (pr_conversions pr) (pr_loads pr) t = Inr ms"
    | m where "default_spec pr = Inr m" "ms = [(''default'', m)]"
    using assms by (auto simp: load_model_registry_def Let_def resB_Inr_iff split: option.splits sum.splits if_splits)
  then show ?thesis
  proof cases
    case 1
    then show ?thesis by (rule parse_registry_ok)
  next
    case 2
    then show ?thesis by (auto simp: default_spec_def spec_ok_def Let_def split: if_splits)
  qed
qed

text \<open>C31: A configuration the worker loads is well typed, whatever the environment, the registry text and the
  file say: the provider is a stripped non-empty name, each model has a path and its numbers are in range.\<close>

theorem loaded_config_is_valid:
  assumes "load_worker_config pr given = Inr c"
  shows "config_ok c"
proof -
  obtain ms where ms: "load_model_registry pr given = Inr ms" "wc_model_registry c = ms"
    using assms by (auto simp: load_worker_config_def Let_def resB_Inr_iff split: if_splits)
  have "\<forall>m \<in> set (map snd (wc_model_registry c)). spec_ok m" using load_registry_ok [OF ms(1)] ms(2) by simp
  then show ?thesis
    using assms by (auto simp: load_worker_config_def config_ok_def Let_def resB_Inr_iff split: if_splits)
qed

definition sample_process :: process where
  "sample_process = \<lparr>pr_environ = [''CYRENE_SERVING_PROVIDER_ID'' \<mapsto> '' vllm '', ''CY_LLM_MODEL_REGISTRY'' \<mapsto> ''R''],
     pr_file = (\<lambda>f. None),
     pr_loads = (\<lambda>t. Some (JObj [(''models'', JObj [(''m'', JObj [(''model_path'', JStr ''/m''), (''max_model_len'', JInt 8)])])])),
     pr_conversions = \<lparr>cv_int = (\<lambda>v. case v of JInt n \<Rightarrow> Some n | _ \<Rightarrow> None), cv_float = (\<lambda>v. None), cv_bool = (\<lambda>v. None)\<rparr>,
     pr_expanduser = (\<lambda>p. p)\<rparr>"

theorem loaded_config_is_valid_witness:
  "case load_worker_config sample_process None of
     Inl x \<Rightarrow> False | Inr c \<Rightarrow> config_ok c \<and> map ms_max_model_len (map snd (wc_model_registry c)) = [Some 8]"
proof -
  have "case load_worker_config sample_process None of
      Inl x \<Rightarrow> False | Inr c \<Rightarrow> map ms_max_model_len (map snd (wc_model_registry c)) = [Some 8]"
    by code_simp
  then show ?thesis using loaded_config_is_valid by (auto split: sum.splits)
qed

end
