(* ===== verification/Grpc_Servicer.thy ===== *)
theory Grpc_Servicer
  imports Inference_Server Worker_Auth Worker_Config "HOL-Library.Word"
begin

text \<open>
  The worker's gRPC services over the inference server (\<open>cy_exec/grpc_servicer.py\<close> and
  \<open>cy_exec/grpc_servicer_async.py\<close>, with \<open>InferenceServer.async_stream_predict\<close>): the prediction stream,
  the control commands and the health report, synchronous and asynchronous.

  A stream call is modelled by what its consumer receives: the responses and the status it is aborted
  with, if any; \<open>context.abort\<close> raises, so nothing follows it. \<open>uint32\<close> fields are 32-bit words; assigning
  a larger number raises \<open>ValueError\<close>. Clock readings, fresh trace ids, the Chinese progress texts and
  the printing of floats are parameters; spans and log lines are left out, as is the rounding of the two
  statistics to 32-bit floats.
\<close>

section \<open>Messages\<close>

datatype grpc_status = INVALID_ARGUMENT | UNAUTHENTICATED | NOT_FOUND | RESOURCE_EXHAUSTED | INTERNAL

record generation =
  gp_max_new_tokens :: "32 word"
  gp_temperature :: rat
  gp_top_p :: rat
  gp_repetition_penalty :: rat

record predict_request =
  pq_trace_id :: string
  pq_model_id :: string
  pq_prompt :: string
  pq_adapter :: string
  pq_priority :: int
  pq_generation :: generation

record predict_response =
  ps_trace_id :: string
  ps_chunk :: string
  ps_end_of_stream :: bool
  ps_index :: "32 word"
  ps_ttft_ms :: rat
  ps_tokens_per_sec :: rat

record control_message =
  cm_trace_id :: string
  cm_command :: string
  cm_payload :: "(string \<times> string) list"

type_synonym stream_end = "(grpc_status \<times> string) option"
type_synonym stream_result = "predict_response list \<times> stream_end"

text \<open>The servicer: the inference server, the configuration and the state of the token module.\<close>

record ('e, 'h) worker =
  wk_server :: "('e, 'h) server"
  wk_config :: worker_config
  wk_token :: token_state

text \<open>What one call draws from its surroundings; \<open>cl_busy\<close> is a full scheduler.\<close>

record call_env =
  cl_metadata :: metadata
  cl_uuid :: string
  cl_busy :: bool
  cl_allow_placeholder :: bool
  cl_latency :: rat
  cl_start :: rat
  cl_first :: rat
  cl_end :: rat

record wire_texts =
  wt_start :: string
  wt_progress :: "string \<Rightarrow> string"
  wt_texts :: texts
  wt_float :: "rat \<Rightarrow> string"

section \<open>Requests and responses\<close>

text \<open>\<open>str(chunk)\<close> of what the inference server yields.\<close>

fun render :: "wire_texts \<Rightarrow> item \<Rightarrow> string" where
  "render w StartNotice = wt_start w"
| "render w (Progress m) = wt_progress w m"
| "render w (Chunk c) = c"

definition generation_kwargs :: "wire_texts \<Rightarrow> generation \<Rightarrow> dict" where
  "generation_kwargs w g =
     (if 0 < gp_max_new_tokens g then [(''max_new_tokens'', JInt (uint (gp_max_new_tokens g)))] else [])
     @ (if 0 < gp_temperature g then [(''temperature'', JFloat (wt_float w (gp_temperature g)))] else [])
     @ (if 0 < gp_top_p g then [(''top_p'', JFloat (wt_float w (gp_top_p g)))] else [])
     @ (if 0 < gp_repetition_penalty g
        then [(''repetition_penalty'', JFloat (wt_float w (gp_repetition_penalty g)))] else [])"

definition cache_kwargs :: "wire_texts \<Rightarrow> model_spec \<Rightarrow> dict" where
  "cache_kwargs w spec =
     (case ms_max_model_len spec of None \<Rightarrow> [] | Some n \<Rightarrow> [(''max_model_len'', JInt n)])
     @ (case ms_tensor_parallel_size spec of None \<Rightarrow> [] | Some n \<Rightarrow> [(''tensor_parallel_size'', JInt n)])
     @ (case ms_enable_prefix_caching spec of None \<Rightarrow> [] | Some b \<Rightarrow> [(''enable_prefix_caching'', JBool b)])
     @ (case ms_kv_cache_dtype spec of None \<Rightarrow> [] | Some t \<Rightarrow> [(''kv_cache_dtype'', JStr t)])
     @ (case ms_gpu_memory_utilization spec of
          None \<Rightarrow> [] | Some r \<Rightarrow> [(''gpu_memory_utilization'', JFloat (wt_float w r))])"

text \<open>The synchronous servicer drops an empty quantization, the asynchronous one passes it on.\<close>

definition sync_engine_kwargs :: "wire_texts \<Rightarrow> model_spec \<Rightarrow> dict" where
  "sync_engine_kwargs w spec =
     (if truthy_str (ms_quantization spec) then [(''quantization'', opt_str (ms_quantization spec))] else [])
     @ cache_kwargs w spec"

definition build_engine_kwargs :: "wire_texts \<Rightarrow> model_spec \<Rightarrow> dict" where
  "build_engine_kwargs w spec =
     (case ms_quantization spec of None \<Rightarrow> [] | Some t \<Rightarrow> [(''quantization'', JStr t)]) @ cache_kwargs w spec"

definition model_id_of :: "predict_request \<Rightarrow> string" where
  "model_id_of q = (if pq_model_id q = [] then ''default'' else pq_model_id q)"

definition stream_request_of ::
    "wire_texts \<Rightarrow> worker_config \<Rightarrow> model_spec \<Rightarrow> dict \<Rightarrow> predict_request \<Rightarrow> stream_request" where
  "stream_request_of w c spec kwargs q =
     \<lparr>sq_load = \<lparr>lr_model_id = model_id_of q, lr_model_path = ms_model_path spec,
        lr_adapter_path = (if pq_adapter q = [] then ms_adapter_path spec else Some (pq_adapter q)),
        lr_provider_id = (if truthy_str (ms_provider_id spec) then opt_text (ms_provider_id spec)
                          else wc_provider_id c),
        lr_engine_kwargs = kwargs\<rparr>,
      sq_prompt = pq_prompt q, sq_generation_kwargs = generation_kwargs w (pq_generation q)\<rparr>"

text \<open>The responses for the chunks from index \<open>n\<close>; \<open>False\<close> when an index did not fit its field.\<close>

fun numbered :: "string \<Rightarrow> nat \<Rightarrow> string list \<Rightarrow> predict_response list \<times> bool" where
  "numbered trace n [] = ([], True)"
| "numbered trace n (c # cs) =
     (if 2 ^ 32 \<le> n then ([], False)
      else let (rs, fits) = numbered trace (n + 1) cs
           in (\<lparr>ps_trace_id = trace, ps_chunk = c, ps_end_of_stream = False, ps_index = of_nat n,
                ps_ttft_ms = 0, ps_tokens_per_sec = 0\<rparr> # rs, fits))"

definition final_response :: "call_env \<Rightarrow> string \<Rightarrow> nat \<Rightarrow> predict_response" where
  "final_response cl trace n =
     (let first = (if n = 0 then 0 else cl_first cl);
          ttft = (if first = 0 then 0 else (first - cl_start cl) * 1000);
          duration = max (if first = 0 then cl_end cl - cl_start cl else cl_end cl - first) (1 / 1000)
      in \<lparr>ps_trace_id = trace, ps_chunk = [], ps_end_of_stream = True, ps_index = of_nat n,
          ps_ttft_ms = ttft, ps_tokens_per_sec = of_nat n / duration\<rparr>)"

section \<open>Failures\<close>

text \<open>\<open>str\<close> and the class name of an exception of the worker; the product's classes do not occur in it.\<close>

fun worker_exn_text :: "exn \<Rightarrow> string" where
  "worker_exn_text (PyException n t c) = t"
| "worker_exn_text (ValueError t) = t"
| "worker_exn_text (TypeError t) = t"
| "worker_exn_text (KeyError t) = [CHR 0x27] @ t @ [CHR 0x27]"
| "worker_exn_text _ = []"

fun worker_exn_type :: "exn \<Rightarrow> string" where
  "worker_exn_type (PyException n t c) = n"
| "worker_exn_type (ValueError t) = ''ValueError''"
| "worker_exn_type (TypeError t) = ''TypeError''"
| "worker_exn_type (KeyError t) = ''KeyError''"
| "worker_exn_type _ = ''Exception''"

definition is_runtime_error :: "exn \<Rightarrow> bool" where
  "is_runtime_error x \<longleftrightarrow> exn_class x \<in> Some ` {''RuntimeError'', ''SchedulerBusy'', ''ServingPortFailure''}"

text \<open>The \<open>except\<close> clauses of the synchronous servicer, in their order.\<close>

definition sync_abort :: "exn \<Rightarrow> grpc_status \<times> string" where
  "sync_abort x =
     (if isinstance x GPUMemoryError then (RESOURCE_EXHAUSTED, worker_exn_text x)
      else if isinstance x ResourceError then (RESOURCE_EXHAUSTED, worker_exn_text x)
      else if isinstance x ModelError then (NOT_FOUND, worker_exn_text x)
      else if isinstance x EngineError then (INTERNAL, worker_exn_text x)
      else if isinstance x CYLLMWorkerError then (INTERNAL, worker_exn_text x)
      else if is_runtime_error x then (RESOURCE_EXHAUSTED, worker_exn_text x)
      else (INTERNAL, ''Internal error: '' @ worker_exn_type x))"

definition async_abort :: "exn \<Rightarrow> grpc_status \<times> string" where
  "async_abort x = (INTERNAL, ''Inference error: '' @ worker_exn_text x)"

definition out_of_range :: exn where
  "out_of_range = ValueError ''Value out of range''"

text \<open>The loop over the chunks, the closing message, and what each failure becomes.\<close>

definition respond ::
    "(exn \<Rightarrow> grpc_status \<times> string) \<Rightarrow> call_env \<Rightarrow> string \<Rightarrow> string list \<times> exn option \<Rightarrow> stream_result" where
  "respond abort_with cl trace output =
     (let (chunks, failure) = output; (rs, fits) = numbered trace 0 chunks in
      if \<not> fits then (rs, Some (abort_with out_of_range))
      else case failure of
        Some x \<Rightarrow> (rs, Some (abort_with x))
      | None \<Rightarrow>
          (if 2 ^ 32 \<le> length chunks then (rs, Some (abort_with out_of_range))
           else (rs @ [final_response cl trace (length chunks)], None)))"

section \<open>The prediction stream\<close>

definition not_registered :: "string \<Rightarrow> stream_end" where
  "not_registered m =
     Some (NOT_FOUND, ''Model '' @ [CHR 0x27] @ m @ [CHR 0x27] @ '' not found in registry'')"

text \<open>\<open>StreamPredict\<close>; only the first request of the stream is read.\<close>

definition StreamPredict ::
    "wire_texts \<Rightarrow> ('e, 'h) engine_port \<Rightarrow> call_env \<Rightarrow> predict_request list \<Rightarrow> ('e, 'h) worker
      \<Rightarrow> stream_result \<times> ('e, 'h) worker" where
  "StreamPredict w p cl requests k =
     (case verify_grpc_context (wk_token k) (cl_metadata cl) of
        Inl message \<Rightarrow> (([], Some (UNAUTHENTICATED, message)), k)
      | Inr _ \<Rightarrow> (case requests of
          [] \<Rightarrow> (([], Some (INVALID_ARGUMENT, ''Empty request stream'')), k)
        | q # _ \<Rightarrow>
            (if 50000 < int (length (pq_prompt q))
             then (([], Some (INVALID_ARGUMENT, ''Prompt too long (max 50000 chars)'')), k)
             else case map_of (wc_model_registry (wk_config k)) (model_id_of q) of
               None \<Rightarrow> (([], not_registered (model_id_of q)), k)
             | Some spec \<Rightarrow>
                 (let ((items, failure), s) = stream_predict (wt_texts w) p (cl_allow_placeholder cl) (cl_busy cl) (cl_latency cl)
                        (stream_request_of w (wk_config k) spec (sync_engine_kwargs w spec) q) (wk_server k)
                  in (respond sync_abort cl (pq_trace_id q) (map (render w) items, failure), k\<lparr>wk_server := s\<rparr>)))))"

text \<open>\<open>InferenceServer.async_stream_predict\<close>: the synchronous generator in a thread, read back through a
  queue up to the same sentinel; every failure becomes one \<open>RuntimeError\<close>.\<close>

definition async_stream_predict ::
    "wire_texts \<Rightarrow> ('e, 'h) engine_port \<Rightarrow> bool \<Rightarrow> bool \<Rightarrow> rat \<Rightarrow> stream_request
      \<Rightarrow> ('e, 'h) server \<Rightarrow> (string list \<times> exn option) \<times> ('e, 'h) server" where
  "async_stream_predict w p allow busy latency q s =
     (let ((items, failure), t) = stream_predict (wt_texts w) p allow busy latency q s
      in ((takeWhile (\<lambda>c. c \<noteq> SENTINEL) (map (render w) items),
           map_option (\<lambda>_. runtime_error ''Inference failed'') failure), t))"

definition AsyncStreamPredict ::
    "wire_texts \<Rightarrow> ('e, 'h) engine_port \<Rightarrow> call_env \<Rightarrow> predict_request list \<Rightarrow> ('e, 'h) worker
      \<Rightarrow> stream_result \<times> ('e, 'h) worker" where
  "AsyncStreamPredict w p cl requests k = (case requests of
     [] \<Rightarrow> (([], Some (INVALID_ARGUMENT, ''Empty request stream'')), k)
   | q # _ \<Rightarrow>
       (case map_of (wc_model_registry (wk_config k)) (model_id_of q) of
          None \<Rightarrow> (([], not_registered (model_id_of q)), k)
        | Some spec \<Rightarrow>
            (let (output, s) = async_stream_predict w p (cl_allow_placeholder cl) (cl_busy cl) (cl_latency cl)
                   (stream_request_of w (wk_config k) spec (build_engine_kwargs w spec) q) (wk_server k);
                 trace = (if pq_trace_id q = [] then cl_uuid cl else pq_trace_id q)
             in (respond async_abort cl trace output, k\<lparr>wk_server := s\<rparr>))))"

section \<open>Control and health\<close>

text \<open>The end of a unary call: its reply, an abort, or an exception that leaves the handler.\<close>

datatype 'a unary = Reply 'a | Abort grpc_status string | Escaped exn

definition payload_get :: "(string \<times> string) list \<Rightarrow> string \<Rightarrow> string" where
  "payload_get pl key = (case map_of pl key of None \<Rightarrow> [] | Some v \<Rightarrow> v)"

definition control_reply ::
    "call_env \<Rightarrow> control_message \<Rightarrow> (string \<times> string) list \<Rightarrow> control_message unary" where
  "control_reply cl q pl = Reply
     \<lparr>cm_trace_id = (if cm_trace_id q = [] then cl_uuid cl else cm_trace_id q),
      cm_command = cm_command q @ ''_response'', cm_payload = pl\<rparr>"

definition list_models :: "worker_config \<Rightarrow> string" where
  "list_models c = join '','' (map fst (wc_model_registry c))"

definition control_unload ::
    "('e, 'h) engine_port \<Rightarrow> call_env \<Rightarrow> control_message \<Rightarrow> ('e, 'h) worker
      \<Rightarrow> control_message unary \<times> ('e, 'h) worker" where
  "control_unload p cl q k =
     (let m = payload_get (cm_payload q) ''model_id'' in
      if m = [] then (control_reply cl q [(''status'', ''error''), (''message'', ''Missing model_id'')], k)
      else case unload_model p m (wk_server k) of
        (Inl x, s) \<Rightarrow> (Escaped x, k\<lparr>wk_server := s\<rparr>)
      | (Inr _, s) \<Rightarrow>
          (control_reply cl q [(''status'', ''ok''), (''message'', ''Model '' @ m @ '' unloaded'')],
           k\<lparr>wk_server := s\<rparr>))"

definition Control ::
    "('e, 'h) engine_port \<Rightarrow> call_env \<Rightarrow> control_message \<Rightarrow> ('e, 'h) worker
      \<Rightarrow> control_message unary \<times> ('e, 'h) worker" where
  "Control p cl q k =
     (case verify_grpc_context (wk_token k) (cl_metadata cl) of
        Inl message \<Rightarrow> (Abort UNAUTHENTICATED message, k)
      | Inr _ \<Rightarrow>
          (if cm_command q = ''unload_model'' then control_unload p cl q k
           else if cm_command q = ''list_models''
             then (control_reply cl q [(''status'', ''ok''), (''models'', list_models (wk_config k))], k)
           else if cm_command q = ''ping'' then (control_reply cl q [(''status'', ''ok''), (''message'', ''pong'')], k)
           else (control_reply cl q [(''status'', ''error''), (''message'', ''Unknown command: '' @ cm_command q)], k)))"

text \<open>The asynchronous form also reloads the registry from the process.\<close>

definition control_reload ::
    "process \<Rightarrow> call_env \<Rightarrow> control_message \<Rightarrow> ('e, 'h) worker
      \<Rightarrow> control_message unary \<times> ('e, 'h) worker" where
  "control_reload pr cl q k = (case load_worker_config pr None of
     Inl x \<Rightarrow> (control_reply cl q [(''status'', ''error''), (''message'', worker_exn_text x)], k)
   | Inr c \<Rightarrow>
       (control_reply cl q [(''status'', ''ok''), (''message'', ''Registry reloaded''), (''models'', list_models c)],
        k\<lparr>wk_config := c\<rparr>))"

definition AsyncControl ::
    "process \<Rightarrow> ('e, 'h) engine_port \<Rightarrow> call_env \<Rightarrow> control_message \<Rightarrow> ('e, 'h) worker
      \<Rightarrow> control_message unary \<times> ('e, 'h) worker" where
  "AsyncControl pr p cl q k =
     (case verify_grpc_context (wk_token k) (cl_metadata cl) of
        Inl _ \<Rightarrow> (Abort UNAUTHENTICATED ''Invalid internal token'', k)
      | Inr _ \<Rightarrow>
          (if cm_command q = ''unload_model'' then control_unload p cl q k
           else if cm_command q = ''list_models''
             then (control_reply cl q [(''status'', ''ok''), (''models'', list_models (wk_config k))], k)
           else if cm_command q = ''reload_registry'' then control_reload pr cl q k
           else if cm_command q = ''ping'' then (control_reply cl q [(''status'', ''ok''), (''message'', ''pong'')], k)
           else (control_reply cl q [(''status'', ''error''), (''message'', ''Unknown command: '' @ cm_command q)], k)))"

text \<open>\<open>Health\<close> asks for no token.\<close>

definition health_metrics :: "('e, 'h) worker \<Rightarrow> (string \<times> string) list" where
  "health_metrics k =
     (let d = snapshot (sv_telemetry (wk_server k)) in
      [(''requests_inflight'', show_int (sn_inflight d)), (''requests_success'', show_int (sn_success d)),
       (''requests_failed'', show_int (sn_failed d)), (''provider_id'', wc_provider_id (wk_config k))])"

definition Health :: "('e, 'h) worker \<Rightarrow> bool \<times> (string \<times> string) list" where
  "Health k = (True, health_metrics k)"

definition AsyncHealth :: "('e, 'h) worker \<Rightarrow> bool \<times> (string \<times> string) list" where
  "AsyncHealth k = (True, health_metrics k @ [(''async_mode'', ''true'')])"

end
