(* ===== verification/Grpc_Properties.thy ===== *)
theory Grpc_Properties
  imports Grpc_Servicer Server_Properties
begin

text \<open>
  Properties of the worker's gRPC services: the token, the shape of every response stream, the agreement
  of the two servicers, and the statuses failures are reported with.
\<close>

section \<open>Numbered responses\<close>

lemma numbered_shape:
  "map (unat \<circ> ps_index) (fst (numbered trace n cs)) = [n..<n + length (fst (numbered trace n cs))]
   \<and> map ps_end_of_stream (fst (numbered trace n cs)) = replicate (length (fst (numbered trace n cs))) False
   \<and> (snd (numbered trace n cs) \<longrightarrow> map ps_chunk (fst (numbered trace n cs)) = cs)"
proof (induction trace n cs rule: numbered.induct)
  case (2 trace n c cs)
  show ?case
  proof (cases "2 ^ 32 \<le> n")
    case False
    then have "unat (of_nat n :: 32 word) = n" by (simp add: unat_of_nat)
    with False 2 show ?thesis by (auto simp: Let_def upt_conv_Cons split: prod.splits)
  qed simp
qed simp

definition stream_shape :: "stream_result \<Rightarrow> bool" where
  "stream_shape r \<longleftrightarrow>
     map (unat \<circ> ps_index) (fst r) = [0..<length (fst r)]
   \<and> map ps_end_of_stream (fst r)
       = (if snd r = None then replicate (length (fst r) - 1) False @ [True]
          else replicate (length (fst r)) False)"

lemma stream_shape_abort: "stream_shape ([], Some e)"
  by (simp add: stream_shape_def)

lemma respond_shape: "stream_shape (respond f cl trace (cs, failure))"
proof -
  obtain rs fits where n: "numbered trace 0 cs = (rs, fits)" by fastforce
  have s: "map (unat \<circ> ps_index) rs = [0..<length rs]" "map ps_end_of_stream rs = replicate (length rs) False"
    and c: "fits \<Longrightarrow> map ps_chunk rs = cs"
    using numbered_shape [of trace 0 cs] by (simp_all add: n)
  show ?thesis
  proof (cases "fits \<and> failure = None \<and> length cs < 2 ^ 32")
    case True
    then have "length rs = length cs" using c by (metis length_map)
    moreover have "unat (of_nat (length cs) :: 32 word) = length cs" using True by (simp add: unat_of_nat)
    ultimately show ?thesis using True s by (simp add: respond_def n stream_shape_def final_response_def Let_def)
  next
    case False
    then show ?thesis using s by (auto simp: respond_def n stream_shape_def Let_def split: option.splits)
  qed
qed

text \<open>C28: Every prediction call, synchronous or asynchronous, ends: its responses are numbered from 0 without a
  gap, and it is either aborted with a status and has no closing message, or the last response, and only
  the last, closes the stream.\<close>

theorem predict_stream_shape:
  "stream_shape (fst (StreamPredict w p cl requests k)) \<and> stream_shape (fst (AsyncStreamPredict w p cl requests k))"
  by (simp add: StreamPredict_def AsyncStreamPredict_def stream_shape_abort not_registered_def respond_shape Let_def
      split: sum.splits list.splits option.splits prod.splits)

section \<open>The token\<close>

lemma refused_token:
  assumes "ts_token s \<noteq> []" "extract_token_from_metadata (read_metadata m) \<noteq> Some (''Bearer '' @ ts_token s)"
  shows "\<exists>message. verify_grpc_context s m = Inl message"
  using assms verify_grpc_context_iff [of s m] by (cases "verify_grpc_context s m") auto

lemma async_stream_any_metadata:
  "AsyncStreamPredict w p (cl\<lparr>cl_metadata := m\<rparr>) requests k = AsyncStreamPredict w p cl requests k"
proof -
  have f: "final_response (cl\<lparr>cl_metadata := m\<rparr>) = final_response cl"
    by (intro ext) (simp add: final_response_def Let_def)
  have r: "respond async_abort (cl\<lparr>cl_metadata := m\<rparr>) = respond async_abort cl"
    by (intro ext) (simp add: respond_def f split: prod.splits option.splits)
  show ?thesis
  proof (cases requests)
    case (Cons q rest)
    show ?thesis
      by (cases "map_of (wc_model_registry (wk_config k)) (model_id_of q)")
        (simp_all add: AsyncStreamPredict_def Cons r split: prod.splits)
  qed (simp add: AsyncStreamPredict_def)
qed

text \<open>C25: With a configured token, a call whose last authorization entry is not that bearer token is refused
  as unauthenticated and changes nothing, for the synchronous stream and both control services. The
  asynchronous stream does not look: it answers exactly as it would with the right token.\<close>

theorem worker_token_required:
  assumes "ts_token (wk_token k) = secret" and "secret \<noteq> []"
    and "extract_token_from_metadata (read_metadata (cl_metadata cl)) \<noteq> Some (''Bearer '' @ secret)"
  shows "(\<exists>message. StreamPredict w p cl requests k = (([], Some (UNAUTHENTICATED, message)), k)
            \<and> Control p cl q k = (Abort UNAUTHENTICATED message, k))
    \<and> AsyncControl pr p cl q k = (Abort UNAUTHENTICATED ''Invalid internal token'', k)
    \<and> AsyncStreamPredict w p cl requests k
        = AsyncStreamPredict w p (cl\<lparr>cl_metadata := Metadata [(''authorization'', ''Bearer '' @ secret)]\<rparr>) requests k"
proof -
  obtain message where m: "verify_grpc_context (wk_token k) (cl_metadata cl) = Inl message"
    using refused_token assms by blast
  have "AsyncStreamPredict w p cl requests k
      = AsyncStreamPredict w p (cl\<lparr>cl_metadata := Metadata [(''authorization'', ''Bearer '' @ secret)]\<rparr>) requests k"
    by (rule async_stream_any_metadata [symmetric])
  with m show ?thesis by (simp only: StreamPredict_def Control_def AsyncControl_def sum.case) blast
qed

section \<open>Failures of the inference server\<close>

definition server_failures :: "exn option set" where
  "server_failures = {None, Some (runtime_error ''Server is shutting down.''),
     Some (runtime_error ''Server is overloaded, please retry later.''), Some (runtime_error ''Inference failed'')}"

lemma stream_predict_failure:
  assumes "stream_predict tx p allow busy latency q s = ((items, failure), t)"
  shows "failure \<in> server_failures \<or> failure = prompt_problem (sq_prompt q)"
  using assms unfolding stream_predict_def server_failures_def
  by (auto simp: stream_output_def Let_def split: if_splits option.splits prod.splits)

lemma runtime_error_abort: "sync_abort (runtime_error t) = (RESOURCE_EXHAUSTED, t)"
proof -
  have "\<not> isinstance (runtime_error t) c" for c
    by (simp add: isinstance_def runtime_error_def worker_classes_def class_name_def)
  then show ?thesis by (simp add: sync_abort_def is_runtime_error_def runtime_error_def)
qed

lemma value_error_abort: "sync_abort (ValueError t) = (INTERNAL, ''Internal error: ValueError'')"
  by (simp add: sync_abort_def isinstance_def is_runtime_error_def)


section \<open>The two servicers agree\<close>

lemma read_response_text: "Chunk SENTINEL \<notin> set (read_response xs)"
  by (induction xs) auto

lemma read_progress_text: "Chunk c \<notin> set (read_progress xs)"
  by (induction xs) auto

lemma stream_predict_text:
  assumes "stream_predict tx p allow busy latency q s = ((items, failure), t)" "Chunk c \<in> set items"
  shows "c \<noteq> SENTINEL"
proof
  assume "c = SENTINEL"
  with assms show False unfolding stream_predict_def
    by (auto simp: stream_output_def Let_def read_progress_text read_response_text
        split: if_splits option.splits prod.splits)
qed

lemma respond_alike:
  "fst (respond f cl trace (cs, failure)) = fst (respond g cl trace (cs, map_option h failure))
   \<and> (snd (respond f cl trace (cs, failure)) = None \<longleftrightarrow> snd (respond g cl trace (cs, map_option h failure)) = None)"
  by (cases failure) (auto simp: respond_def Let_def split: prod.splits)

text \<open>C26: The two servicers are equivalent on admitted requests: with an accepted token, a trace id, a prompt
  within the limit and no empty quantization, they send the same responses, leave the same state, and fail
  in the same cases, though not with the same status.\<close>

theorem async_stream_matches_sync:
  assumes "verify_grpc_context (wk_token k) (cl_metadata cl) = Inr ()"
    and "pq_trace_id q \<noteq> []" and "int (length (pq_prompt q)) \<le> 50000"
    and "\<forall>spec \<in> set (map snd (wc_model_registry (wk_config k))). ms_quantization spec \<noteq> Some []"
    and "wt_start w \<noteq> SENTINEL" and "\<forall>m. wt_progress w m \<noteq> SENTINEL"
  shows "snd (AsyncStreamPredict w p cl (q # rest) k) = snd (StreamPredict w p cl (q # rest) k)
    \<and> fst (fst (AsyncStreamPredict w p cl (q # rest) k)) = fst (fst (StreamPredict w p cl (q # rest) k))
    \<and> (snd (fst (AsyncStreamPredict w p cl (q # rest) k)) = None
        \<longleftrightarrow> snd (fst (StreamPredict w p cl (q # rest) k)) = None)"
proof (cases "map_of (wc_model_registry (wk_config k)) (model_id_of q)")
  case None
  with assms show ?thesis by (simp add: StreamPredict_def AsyncStreamPredict_def)
next
  case (Some spec)
  then have "spec \<in> set (map snd (wc_model_registry (wk_config k)))" by (force dest: map_of_SomeD)
  with assms(4) have kw: "build_engine_kwargs w spec = sync_engine_kwargs w spec"
    by (auto simp: build_engine_kwargs_def sync_engine_kwargs_def truthy_str_def opt_str_def split: option.splits)
  obtain items failure t where run: "stream_predict (wt_texts w) p (cl_allow_placeholder cl) (cl_busy cl) (cl_latency cl)
      (stream_request_of w (wk_config k) spec (sync_engine_kwargs w spec) q) (wk_server k) = ((items, failure), t)"
    by (metis surj_pair)
  have "render w i \<noteq> SENTINEL" if "i \<in> set items" for i
  proof (cases i)
    case (Chunk c)
    with that stream_predict_text [OF run] show ?thesis by simp
  qed (use assms(5,6) in simp_all)
  then have cut: "takeWhile (\<lambda>c. c \<noteq> SENTINEL) (map (render w) items) = map (render w) items"
    by (simp add: takeWhile_eq_all_conv)
  have "async_stream_predict w p (cl_allow_placeholder cl) (cl_busy cl) (cl_latency cl)
      (stream_request_of w (wk_config k) spec (sync_engine_kwargs w spec) q) (wk_server k)
    = ((map (render w) items, map_option (\<lambda>_. runtime_error ''Inference failed'') failure), t)"
    unfolding async_stream_predict_def run Let_def prod.case cut ..
  with assms(1,2,3) Some run kw show ?thesis
    using
      respond_alike [of sync_abort cl "pq_trace_id q" "map (render w) items" failure async_abort "\<lambda>_. runtime_error ''Inference failed''"]
    by (simp add: StreamPredict_def AsyncStreamPredict_def)
qed

section \<open>Witnesses\<close>

definition sample_config :: worker_config where
  "sample_config = \<lparr>wc_provider_id = ''p'', wc_model_registry =
     [(''m'', \<lparr>ms_model_path = ''/m'', ms_adapter_path = None, ms_provider_id = None, ms_quantization = None,
        ms_max_model_len = None, ms_tensor_parallel_size = None, ms_gpu_memory_utilization = None,
        ms_enable_prefix_caching = None, ms_kv_cache_dtype = None\<rparr>)],
     wc_grpc_port = 50051, wc_max_workers = 10, wc_queue_size = 128\<rparr>"

definition sample_worker :: "(unit, nat) worker" where
  "sample_worker = \<lparr>wk_server = sample_server, wk_config = sample_config,
     wk_token = \<lparr>ts_token = ''s3cret'', ts_environ = Map.empty\<rparr>\<rparr>"

definition sample_call :: "metadata \<Rightarrow> call_env" where
  "sample_call m = \<lparr>cl_metadata = m, cl_uuid = ''u'', cl_busy = False, cl_allow_placeholder = True,
     cl_latency = 1, cl_start = 1, cl_first = 2, cl_end = 3\<rparr>"

definition sample_predict :: predict_request where
  "sample_predict = \<lparr>pq_trace_id = ''t'', pq_model_id = ''m'', pq_prompt = ''hi'', pq_adapter = [], pq_priority = 0,
     pq_generation = \<lparr>gp_max_new_tokens = 0, gp_temperature = 0, gp_top_p = 0, gp_repetition_penalty = 0\<rparr>\<rparr>"

definition sample_wire :: wire_texts where
  "sample_wire = \<lparr>wt_start = ''start'', wt_progress = (\<lambda>m. ''[load] '' @ m),
     wt_texts = \<lparr>tx_connecting = (\<lambda>m. m), tx_loading = (\<lambda>m. m), tx_loaded = []\<rparr>, wt_float = (\<lambda>r. [])\<rparr>"

definition bearer_call :: call_env where
  "bearer_call = sample_call (Metadata [(''authorization'', ''Bearer s3cret'')])"

lemma sample_admitted: "verify_grpc_context (wk_token sample_worker) (cl_metadata bearer_call) = Inr ()"
  by code_simp

theorem worker_token_required_witness:
  "AsyncStreamPredict sample_wire sample_port (sample_call NoMetadata) [sample_predict] sample_worker
     = AsyncStreamPredict sample_wire sample_port
        (sample_call NoMetadata\<lparr>cl_metadata := Metadata [(''authorization'', ''Bearer '' @ ''s3cret'')]\<rparr>) [sample_predict] sample_worker
   \<and> (\<exists>message. StreamPredict sample_wire sample_port (sample_call NoMetadata) [sample_predict] sample_worker
        = (([], Some (UNAUTHENTICATED, message)), sample_worker))"
proof -
  have "ts_token (wk_token sample_worker) = ''s3cret''" "''s3cret'' \<noteq> []"
    "extract_token_from_metadata (read_metadata (cl_metadata (sample_call NoMetadata))) \<noteq> Some (''Bearer '' @ ''s3cret'')"
    by code_simp+
  from worker_token_required [OF this] show ?thesis by blast
qed


theorem async_stream_matches_sync_witness:
  "fst (fst (AsyncStreamPredict sample_wire sample_port bearer_call [sample_predict] sample_worker))
     = fst (fst (StreamPredict sample_wire sample_port bearer_call [sample_predict] sample_worker))"
proof -
  have "pq_trace_id sample_predict \<noteq> []" "int (length (pq_prompt sample_predict)) \<le> 50000"
    "\<forall>spec \<in> set (map snd (wc_model_registry (wk_config sample_worker))). ms_quantization spec \<noteq> Some []"
    "wt_start sample_wire \<noteq> SENTINEL" "\<forall>m. wt_progress sample_wire m \<noteq> SENTINEL"
    by (simp_all add: sample_predict_def sample_worker_def sample_config_def sample_wire_def SENTINEL_def)
  from async_stream_matches_sync [OF sample_admitted this] show ?thesis by blast
qed

end
