(* ===== verification/Capability_Seam.thy ===== *)
theory Capability_Seam
  imports Complex_Main Worker_Errors
begin

text \<open>
  The execution-engine seam (\<open>cy_exec/capability_seam.py\<close>): the resolver from the environment, the provider
  and the adapter that carries the engine operations to a plugin. The plugin SDK is a parameter: how a
  local connection reference is opened, and what an invocation answers over the state \<open>'e\<close> of the outside.
  The SDK's error classes are given by the tests the code makes of an error. A \<open>ServingPortFailure\<close> is kept
  as a record; the texts taken from exceptions are those of the SDK.
\<close>

section \<open>Failures of the port\<close>

record port_failure =
  pf_message :: string
  pf_status :: int
  pf_retryable :: bool

datatype seam_error = ServingPortFailure port_failure | SeamValueError string

definition port_error :: "string \<Rightarrow> int \<Rightarrow> seam_error" where
  "port_error m status = ServingPortFailure \<lparr>pf_message = m, pf_status = status, pf_retryable = False\<rparr>"

text \<open>A \<open>DirectPluginError\<close> by the \<open>isinstance\<close> tests and attributes the translation uses.\<close>

record direct_failure =
  df_code :: int
  df_domain_code :: string
  df_message :: string
  df_retryable :: bool
  df_is_cancelled :: bool

record direct_error =
  de_text :: string
  de_is_invocation_cancelled :: bool
  de_is_deadline_exceeded :: bool
  de_is_protocol_error :: bool
  de_failure :: "direct_failure option"
  de_transport :: "(string \<times> string) option"

definition failure_code_name :: "int \<Rightarrow> string" where
  "failure_code_name c =
     (if c = 1 then ''INVALID_REQUEST'' else if c = 2 then ''METHOD_NOT_FOUND''
      else if c = 3 then ''CANCELLED'' else if c = 4 then ''DEADLINE_EXCEEDED''
      else if c = 5 then ''EXECUTION_FAILED'' else if c = 6 then ''UNAVAILABLE'' else ''UNKNOWN_FAILURE'')"

definition transport_status :: "string \<Rightarrow> int" where
  "transport_status n =
     (if n = ''CANCELLED'' then 499 else if n = ''DEADLINE_EXCEEDED'' then 504 else 503)"

definition translate_direct_error :: "direct_error \<Rightarrow> port_failure" where
  "translate_direct_error e =
     (if de_is_invocation_cancelled e \<or> (case de_failure e of None \<Rightarrow> False | Some f \<Rightarrow> df_is_cancelled f)
      then \<lparr>pf_message = ''DIRECT_PLUGIN_CANCELLED: direct Plugin invocation was cancelled'', pf_status = 499, pf_retryable = False\<rparr>
      else if de_is_deadline_exceeded e \<or> (case de_failure e of None \<Rightarrow> False | Some f \<Rightarrow> df_code f = 4)
      then \<lparr>pf_message = ''DIRECT_PLUGIN_DEADLINE_EXCEEDED: '' @ de_text e, pf_status = 504, pf_retryable = True\<rparr>
      else if de_is_protocol_error e
      then \<lparr>pf_message = ''DIRECT_PLUGIN_PROTOCOL_ERROR: '' @ de_text e, pf_status = 502, pf_retryable = False\<rparr>
      else case de_failure e of
        Some f \<Rightarrow>
          \<lparr>pf_message = ''DIRECT_PLUGIN_FAILURE['' @ (if df_domain_code f = [] then failure_code_name (df_code f) else df_domain_code f)
             @ '']: '' @ df_message f,
           pf_status = (if df_code f = 6 then 503 else 502),
           pf_retryable = (df_retryable f \<or> df_code f = 6)\<rparr>
      | None \<Rightarrow> (case de_transport e of
          Some (status_text, message) \<Rightarrow>
            (let name = upper status_text; status = transport_status name in
             \<lparr>pf_message = ''DIRECT_PLUGIN_TRANSPORT_ERROR['' @ name @ '']: '' @ message,
              pf_status = status, pf_retryable = (status \<in> {503, 504})\<rparr>)
        | None \<Rightarrow>
            \<lparr>pf_message = ''DIRECT_PLUGIN_ERROR: '' @ de_text e, pf_status = 503, pf_retryable = True\<rparr>))"

section \<open>The SDK\<close>

datatype invoke_result =
    Answered string string
  | Untyped
  | DirectError direct_error
  | InvokeTypeError string
  | InvokeFails string

text \<open>\<open>sd_invoke\<close>: method, request type and bytes, deadline. \<open>sd_decode\<close> is UTF-8 decoding and
  \<open>json.loads\<close>; \<open>sd_connect\<close> gives the text of a \<open>TypeError\<close> or \<open>ValueError\<close>, or a client.\<close>

record ('e, 'c) sdk =
  sd_connect :: "string \<Rightarrow> string + 'c"
  sd_invoke :: "'c \<Rightarrow> string \<Rightarrow> string \<Rightarrow> string \<Rightarrow> json \<Rightarrow> 'e \<Rightarrow> invoke_result \<times> 'e"
  sd_decode :: "string \<Rightarrow> json option"

record seam_binding =
  bi_direct :: bool
  bi_connection_ref :: "string option"
  bi_provider_id :: "string option"
  bi_timeout_seconds :: json

record 'c adapter =
  ad_binding :: seam_binding
  ad_client :: "'c option"
  ad_is_loaded :: bool
  ad_model_path :: "string option"
  ad_engine_info :: dict

record ('e, 'c) seam =
  sm_adapter :: "'c adapter"
  sm_ext :: 'e

type_synonym ('e, 'c, 'a) seam_op = "(('e, 'c) seam, seam_error, 'a) py"

definition EXECUTION_ENGINE_CAPABILITY :: string where
  "EXECUTION_ENGINE_CAPABILITY = ''execution.engine.v1''"

definition type_url :: "string \<Rightarrow> string \<Rightarrow> string" where
  "type_url method direction = ''type.cyrene.io/execution.engine.v1.'' @ method @ ''.'' @ direction"

definition json_bytes :: "dict \<Rightarrow> string" where
  "json_bytes payload = dumps_compact False (sorted_keys (JObj payload))"

definition adapter_init :: "seam_binding \<Rightarrow> 'c option \<Rightarrow> 'c adapter" where
  "adapter_init b client =
     \<lparr>ad_binding = b, ad_client = client, ad_is_loaded = False, ad_model_path = None,
      ad_engine_info =
        [(''engine'', JStr (if truthy_str (bi_provider_id b) then opt_text (bi_provider_id b) else ''direct-plugin-engine'')),
         (''capability'', JStr EXECUTION_ENGINE_CAPABILITY),
         (''connection_ref'', opt_str (bi_connection_ref b)), (''is_loaded'', JBool False)]\<rparr>"

definition on_adapter :: "('c adapter \<Rightarrow> 'c adapter) \<Rightarrow> ('e, 'c, unit) seam_op" where
  "on_adapter f = modS (\<lambda>s. s\<lparr>sm_adapter := f (sm_adapter s)\<rparr>)"

definition connect :: "('e, 'c) sdk \<Rightarrow> seam_binding \<Rightarrow> seam_error + 'c" where
  "connect d b =
     (if \<not> truthy_str (bi_connection_ref b)
      then Inl (port_error ''SERVING_BINDING_REQUIRED: direct plugin connection_ref is not configured'' 503)
      else case sd_connect d (opt_text (bi_connection_ref b)) of
        Inl t \<Rightarrow> Inl (port_error (''SERVING_BINDING_INVALID: direct plugin connection_ref is invalid: '' @ t) 503)
      | Inr c \<Rightarrow> Inr c)"

definition get_client :: "('e, 'c) sdk \<Rightarrow> ('e, 'c, 'c) seam_op" where
  "get_client d =
     bindE (getS (ad_client \<circ> sm_adapter)) (\<lambda>client. case client of
       Some c \<Rightarrow> ret c
     | None \<Rightarrow>
         bindE (getS (ad_binding \<circ> sm_adapter)) (\<lambda>b.
         bindE (liftE (connect d b)) (\<lambda>c.
         bindE (on_adapter (\<lambda>a. a\<lparr>ad_client := Some c\<rparr>)) (\<lambda>_. ret c))))"

section \<open>Invocation\<close>

definition decode_response :: "('e, 'c) sdk \<Rightarrow> string \<Rightarrow> invoke_result \<Rightarrow> seam_error + dict" where
  "decode_response d method r = (case r of
     DirectError e \<Rightarrow> Inl (ServingPortFailure (translate_direct_error e))
   | InvokeTypeError t \<Rightarrow> Inl (port_error (''DIRECT_PLUGIN_PROTOCOL_ERROR: SDK invocation rejected the request: '' @ t) 502)
   | InvokeFails t \<Rightarrow> Inl (ServingPortFailure
       \<lparr>pf_message = ''DIRECT_PLUGIN_ERROR: direct Plugin invocation failed: '' @ t, pf_status = 503, pf_retryable = True\<rparr>)
   | Untyped \<Rightarrow> Inl (port_error ''DIRECT_PLUGIN_PROTOCOL_ERROR: response is not a typed DirectPayload'' 502)
   | Answered url bytes \<Rightarrow>
       (if url \<noteq> type_url method ''response''
        then Inl (port_error (''DIRECT_PLUGIN_PROTOCOL_ERROR: unexpected response type URL ''
               @ repr_str url @ ''; expected '' @ repr_str (type_url method ''response'')) 502)
        else case sd_decode d bytes of
          None \<Rightarrow> Inl (port_error ''DIRECT_PLUGIN_PROTOCOL_ERROR: response payload is not valid JSON'' 502)
        | Some (JObj v) \<Rightarrow> Inr v
        | Some _ \<Rightarrow> Inl (port_error ''DIRECT_PLUGIN_PROTOCOL_ERROR: response payload must be a JSON object'' 502)))"

text \<open>\<open>_invoke\<close>; \<open>cancelled\<close>: a cancel event was given and is already set. A deadline of \<open>null\<close> is the
  binding's timeout.\<close>

definition invoke :: "('e, 'c) sdk \<Rightarrow> string \<Rightarrow> dict \<Rightarrow> json \<Rightarrow> bool \<Rightarrow> ('e, 'c, dict) seam_op" where
  "invoke d method payload deadline cancelled =
     bindE (get_client d) (\<lambda>c.
     if cancelled
     then raise (port_error ''DIRECT_PLUGIN_CANCELLED: direct Plugin invocation was cancelled'' 499)
     else bindE (getS (\<lambda>s. if deadline = JNull then bi_timeout_seconds (ad_binding (sm_adapter s)) else deadline)) (\<lambda>limit.
          bindE (zoom sm_ext (\<lambda>e s. s\<lparr>sm_ext := e\<rparr>) (\<lambda>e. (let (r, e') = sd_invoke d c method (type_url method ''request'') (json_bytes payload) limit e in (Inr r, e')))) (\<lambda>r.
          liftE (decode_response d method r))))"

section \<open>The engine operations\<close>

definition kwarg :: "dict \<Rightarrow> string \<Rightarrow> json" where
  "kwarg kw k = (case dict_get kw k of None \<Rightarrow> JNull | Some v \<Rightarrow> v)"

definition LOAD_FIELDS :: "string list" where
  "LOAD_FIELDS = [''adapter_name'', ''max_lora_rank'', ''max_model_len'', ''max_output_len'', ''quantization'',
     ''tensor_parallel_size'', ''gpu_memory_utilization'', ''enable_prefix_caching'', ''kv_cache_dtype'']"

definition load_payload :: "string \<Rightarrow> string option \<Rightarrow> dict \<Rightarrow> dict" where
  "load_payload model_path adapter_path kw =
     [(''model_path'', JStr model_path),
      (''max_batch_size'', case dict_get kw ''max_batch_size'' of None \<Rightarrow> JInt 8 | Some v \<Rightarrow> v)]
     @ (if truthy_str adapter_path then [(''adapter_path'', opt_str adapter_path)] else [])
     @ map (\<lambda>f. (f, kwarg kw f)) (filter (\<lambda>f. kwarg kw f \<noteq> JNull) LOAD_FIELDS)"

fun string_field :: "json option \<Rightarrow> bool" where
  "string_field (Some (JStr t)) = True"
| "string_field _ = False"

definition seam_load_model :: "('e, 'c) sdk \<Rightarrow> string \<Rightarrow> string option \<Rightarrow> dict \<Rightarrow> ('e, 'c, unit) seam_op" where
  "seam_load_model d model_path adapter_path kw =
     bindE (invoke d ''load_model'' (load_payload model_path adapter_path kw) (kwarg kw ''deadline_seconds'') False) (\<lambda>resp.
     if dict_get resp ''status'' \<noteq> Some (JStr ''LOADED'') \<or> \<not> string_field (dict_get resp ''model_path'')
     then raise (port_error (''Model load rejected by direct plugin: ''
            @ (case dict_get resp ''detail'' of None \<Rightarrow> ''LOAD_FAILED'' | Some v \<Rightarrow> py_str v)) 502)
     else on_adapter (\<lambda>a. a\<lparr>ad_is_loaded := True, ad_model_path := Some model_path,
            ad_engine_info := dict_set (dict_set (ad_engine_info a) ''is_loaded'' (JBool True)) ''model_path'' (JStr model_path)\<rparr>))"

text \<open>The cancel event of an inference: none, one that is not set or is set, or an object without \<open>is_set\<close>.\<close>

datatype cancel = NoEvent | EventClear | EventSet | NotAnEvent

definition infer_payload :: "string \<Rightarrow> dict \<Rightarrow> dict" where
  "infer_payload prompt kw =
     [(''prompt'', JStr prompt),
      (''max_new_tokens'', case dict_get kw ''max_tokens'' of Some v \<Rightarrow> v
         | None \<Rightarrow> (case dict_get kw ''max_new_tokens'' of None \<Rightarrow> JInt 512 | Some v \<Rightarrow> v)),
      (''temperature'', case dict_get kw ''temperature'' of None \<Rightarrow> JFloat ''0.7'' | Some v \<Rightarrow> v),
      (''top_p'', case dict_get kw ''top_p'' of None \<Rightarrow> JFloat ''0.9'' | Some v \<Rightarrow> v)]"

definition seam_infer :: "('e, 'c) sdk \<Rightarrow> string \<Rightarrow> dict \<Rightarrow> cancel \<Rightarrow> bool \<Rightarrow> ('e, 'c, string list) seam_op" where
  "seam_infer d prompt kw event cancel_requested =
     bindE (getS (ad_is_loaded \<circ> sm_adapter)) (\<lambda>loaded.
     if \<not> loaded then raise (port_error ''Model is not loaded. Call load_model() first.'' 503)
     else let event' = (if cancel_requested then EventSet else event) in
       if event' = NotAnEvent
       then raise (port_error ''DIRECT_PLUGIN_REQUEST_INVALID: cancel_event must expose is_set()'' 500)
       else bindE (invoke d ''execute_inference'' (infer_payload prompt kw) (kwarg kw ''deadline_seconds'') (event' = EventSet)) (\<lambda>resp.
            case dict_get resp ''output_text'' of
              Some (JStr t) \<Rightarrow>
                (if string_field (dict_get resp ''engine'') then ret [t]
                 else raise (port_error ''DIRECT_PLUGIN_PROTOCOL_ERROR: inference response is malformed'' 502))
            | _ \<Rightarrow> raise (port_error ''DIRECT_PLUGIN_PROTOCOL_ERROR: inference response is malformed'' 502)))"

definition seam_unload_model :: "('e, 'c) sdk \<Rightarrow> ('e, 'c, unit) seam_op" where
  "seam_unload_model d =
     bindE (getS (ad_is_loaded \<circ> sm_adapter)) (\<lambda>loaded.
     if \<not> loaded then ret ()
     else bindE (invoke d ''unload_model'' [] JNull False) (\<lambda>resp.
          if dict_get resp ''status'' \<noteq> Some (JStr ''UNLOADED'') \<or> \<not> string_field (dict_get resp ''engine'')
          then raise (port_error ''DIRECT_PLUGIN_PROTOCOL_ERROR: unload response is malformed'' 502)
          else on_adapter (\<lambda>a. a\<lparr>ad_is_loaded := False, ad_model_path := None,
                 ad_engine_info := dict_set (ad_engine_info a) ''is_loaded'' (JBool False)\<rparr>)))"

definition seam_get_model_info :: "('e, 'c) sdk \<Rightarrow> ('e, 'c, dict) seam_op" where
  "seam_get_model_info d =
     bindE (getS (ad_is_loaded \<circ> sm_adapter)) (\<lambda>loaded.
     if \<not> loaded then getS (ad_engine_info \<circ> sm_adapter)
     else bindE (invoke d ''get_engine_info'' [] JNull False) (\<lambda>info.
          if \<not> set [''engine_name'', ''runtime_available'', ''is_loaded''] \<subseteq> set (map fst info)
          then raise (port_error ''DIRECT_PLUGIN_PROTOCOL_ERROR: engine info response is malformed'' 502)
          else bindE (on_adapter (\<lambda>a. a\<lparr>ad_engine_info := foldl (\<lambda>i e. dict_set i (fst e) (snd e)) (ad_engine_info a) info\<rparr>)) (\<lambda>_.
               getS (ad_engine_info \<circ> sm_adapter))))"

definition seam_health_check :: "'c adapter \<Rightarrow> bool" where
  "seam_health_check a = ad_is_loaded a"

section \<open>Resolver and provider\<close>

text \<open>\<open>DirectPluginEngineProvider.create\<close>. The factory makes a provider for each call, so the client a provider
  keeps is the one its only adapter gets.\<close>

definition provider_create :: "('e, 'c) sdk \<Rightarrow> seam_binding \<Rightarrow> 'c option \<Rightarrow> string \<Rightarrow> seam_error + 'c adapter" where
  "provider_create d b client provider_id =
     (if Some provider_id \<noteq> bi_provider_id b
      then Inl (port_error ''SERVING_PROVIDER_MISMATCH: requested provider does not match the bound Plugin'' 409)
      else case client of
        Some c \<Rightarrow> Inr (adapter_init b (Some c))
      | None \<Rightarrow> (case connect d b of Inl x \<Rightarrow> Inl x | Inr c \<Rightarrow> Inr (adapter_init b (Some c))))"

record requirement =
  rq_capability :: string
  rq_interface_version :: string
  rq_execution_modes :: "string list"

definition EXECUTION_ENGINE_REQUIREMENT :: requirement where
  "EXECUTION_ENGINE_REQUIREMENT = \<lparr>rq_capability = EXECUTION_ENGINE_CAPABILITY, rq_interface_version = ''1'',
     rq_execution_modes = [''SERVICE'', ''WORKER'']\<rparr>"

text \<open>\<open>ConfiguredExecutionEngineResolver.resolve\<close>: the provider is its binding with the resolver's client.\<close>

definition resolver_resolve :: "seam_binding \<Rightarrow> requirement \<Rightarrow> seam_error + seam_binding" where
  "resolver_resolve b r =
     (if r \<noteq> EXECUTION_ENGINE_REQUIREMENT then Inl (SeamValueError ''Unsupported serving capability requirement'')
      else if bi_direct b
      then (if \<not> truthy_str (bi_connection_ref b)
            then Inl (port_error ''SERVING_BINDING_REQUIRED: direct plugin profile requires connection_ref'' 503)
            else if \<not> truthy_str (bi_provider_id b)
            then Inl (port_error ''SERVING_BINDING_REQUIRED: direct plugin profile requires provider_id'' 503)
            else Inr b)
      else Inl (port_error ''SERVING_PROFILE_UNSUPPORTED: profile is not supported'' 500))"

definition capability_factory :: "('e, 'c) sdk \<Rightarrow> seam_binding \<Rightarrow> 'c option \<Rightarrow> string \<Rightarrow> seam_error + 'c adapter" where
  "capability_factory d b client provider_id =
     (case resolver_resolve b EXECUTION_ENGINE_REQUIREMENT of
        Inl x \<Rightarrow> Inl x | Inr b' \<Rightarrow> provider_create d b' client provider_id)"

definition resolve_execution_engine_resolver :: "(string \<Rightarrow> string option) \<Rightarrow> seam_error + seam_binding" where
  "resolve_execution_engine_resolver env =
     (let profile = upper (strip (case env ''CYRENE_SERVING_PROFILE'' of None \<Rightarrow> [] | Some p \<Rightarrow> p)) in
      if profile = [] \<or> profile = ''DIRECT_PLUGIN''
      then Inr \<lparr>bi_direct = True, bi_connection_ref = env ''CYRENE_SERVING_CONNECTION_REF'',
                bi_provider_id = env ''CYRENE_SERVING_PROVIDER_ID'', bi_timeout_seconds = JFloat ''30.0''\<rparr>
      else Inl (port_error (''SERVING_PROFILE_UNSUPPORTED: unknown serving profile '' @ repr_str profile) 500))"

end
