(* ===== verification/Residency.thy ===== *)
theory Residency
  imports Server_Properties
begin

text \<open>
  The contract between the inference server and its engines, and what the server guarantees under it. A
  factory gives out new handles; a load that returns leaves its handle loaded, an unload that raises leaves
  it as it was; and no operation unloads another handle. Under the contract every model the registry lists
  has a handle of its own that is loaded, after every sequence of calls (\<open>core/server.py\<close>).
\<close>

text \<open>From \<open>w\<close> to \<open>w'\<close> no handle is forgotten, and nothing loaded is unloaded, handle \<open>h\<close> apart.\<close>

definition keeps_but ::
    "('e \<Rightarrow> 'h \<Rightarrow> bool) \<Rightarrow> ('e \<Rightarrow> 'h \<Rightarrow> bool) \<Rightarrow> 'h option \<Rightarrow> 'e \<Rightarrow> 'e \<Rightarrow> bool" where
  "keeps_but issued loaded h w w' \<longleftrightarrow>
     (\<forall>j. issued w j \<longrightarrow> issued w' j) \<and> (\<forall>j. Some j = h \<or> (loaded w j \<longrightarrow> loaded w' j))"

definition residents_loaded :: "('e \<Rightarrow> 'h \<Rightarrow> bool) \<Rightarrow> ('e, 'h) server \<Rightarrow> bool" where
  "residents_loaded loaded s \<longleftrightarrow> distinct (map fst (sv_engines s)) \<and> distinct (map snd (sv_engines s))
     \<and> (\<forall>h \<in> set (map snd (sv_engines s)). loaded (sv_ext s) h)"

definition residents_keep :: "('e \<Rightarrow> 'h \<Rightarrow> bool) \<Rightarrow> ('e, 'h) server \<Rightarrow> ('e, 'h) server \<Rightarrow> bool" where
  "residents_keep loaded s t \<longleftrightarrow> (residents_loaded loaded s \<longrightarrow> residents_loaded loaded t)"

interpretation residents: frame_rel "residents_keep loaded" for loaded
  by unfold_locales (auto simp: residents_keep_def)

text \<open>The calls the worker makes on the inference server, in any order.\<close>

datatype server_call =
    EnsureModel load_request bool
  | UnloadModel string
  | Predict stream_request bool rat
  | ShutDown

fun server_step ::
    "texts \<Rightarrow> ('e, 'h) engine_port \<Rightarrow> bool \<Rightarrow> server_call \<Rightarrow> ('e, 'h) server \<Rightarrow> ('e, 'h) server" where
  "server_step tx p allow (EnsureModel q cb) s = snd (ensure_model tx p allow q cb s)"
| "server_step tx p allow (UnloadModel m) s = snd (unload_model p m s)"
| "server_step tx p allow (Predict q busy latency) s = snd (stream_predict tx p allow busy latency q s)"
| "server_step tx p allow ShutDown s = snd (shutdown p s)"

section \<open>A load attempt\<close>

text \<open>What a load attempt does to the outside.\<close>

definition attempt_engine :: "('e, 'h) engine_port \<Rightarrow> load_request \<Rightarrow> 'e \<Rightarrow> (exn + 'h) \<times> 'e" where
  "attempt_engine p q w = (case ei_factory p (lr_provider_id q) w of
     (Inl x, w1) \<Rightarrow> (Inl x, w1)
   | (Inr h, w1) \<Rightarrow> (case ei_load p h (lr_model_path q) (lr_adapter_path q) (lr_engine_kwargs q) w1 of
       (Inr _, w2) \<Rightarrow> (Inr h, w2)
     | (Inl x, w2) \<Rightarrow> (Inl x, snd (ei_unload p h w2))))"

lemma attempt_ext: "attempt tx p q b s = (r, t) \<Longrightarrow> (r, sv_ext t) = attempt_engine p q (sv_ext s)"
  by (auto simp: attempt_def attempt_engine_def load_model_def report_def engine_call_def py_unfold
      split: if_splits sum.splits prod.splits)

lemma update_absent: "k \<notin> set (map fst xs) \<Longrightarrow> AList.update k v xs = xs @ [(k, v)]"
  by (induction xs) auto

section \<open>The contract\<close>

locale engine_contract =
  fixes p :: "('e, 'h) engine_port"
    and issued :: "'e \<Rightarrow> 'h \<Rightarrow> bool"
    and loaded :: "'e \<Rightarrow> 'h \<Rightarrow> bool"
  assumes loaded_issued: "loaded w h \<Longrightarrow> issued w h"
    and factory_law: "ei_factory p provider w = (r, w') \<Longrightarrow>
      keeps_but issued loaded None w w' \<and> (\<forall>h. r = Inr h \<longrightarrow> \<not> issued w h \<and> issued w' h)"
    and load_law: "ei_load p h path adapter kw w = (u, w') \<Longrightarrow>
      keeps_but issued loaded (Some h) w w' \<and> (\<forall>a. u = Inr a \<and> issued w h \<longrightarrow> loaded w' h)"
    and unload_law: "ei_unload p h w = (v, w') \<Longrightarrow>
      keeps_but issued loaded (Some h) w w' \<and> (\<forall>x. v = Inl x \<and> loaded w h \<longrightarrow> loaded w' h)"
    and infer_law: "ei_infer p h prompt kw w = (c, w') \<Longrightarrow> keeps_but issued loaded None w w'"
begin

abbreviation keeps :: "'h option \<Rightarrow> 'e \<Rightarrow> 'e \<Rightarrow> bool" where
  "keeps \<equiv> keeps_but issued loaded"

lemma keeps_weaken: "keeps (Some h) w w' \<Longrightarrow> \<not> issued w0 h \<Longrightarrow> keeps None w0 w \<Longrightarrow> keeps None w0 w'"
  unfolding keeps_but_def using loaded_issued by (metis option.discI option.inject)

lemma attempt_engine_keeps:
  assumes "attempt_engine p q w = (r, w')"
  shows "keeps None w w' \<and> (\<forall>h. r = Inr h \<longrightarrow> \<not> issued w h \<and> loaded w' h)"
proof -
  obtain r1 w1 where f: "ei_factory p (lr_provider_id q) w = (r1, w1)" by fastforce
  note k1 = factory_law [OF f]
  show ?thesis
  proof (cases r1)
    case (Inl x)
    with assms f k1 show ?thesis by (auto simp: attempt_engine_def)
  next
    case (Inr h)
    obtain r2 w2 where l: "ei_load p h (lr_model_path q) (lr_adapter_path q) (lr_engine_kwargs q) w1 = (r2, w2)"
      by fastforce
    obtain r3 w3 where u: "ei_unload p h w2 = (r3, w3)" by fastforce
    from Inr k1 have h: "\<not> issued w h" "issued w1 h" "keeps None w w1" by auto
    with load_law [OF l] have k2: "keeps None w w2" using keeps_weaken by blast
    with unload_law [OF u] h have k3: "keeps None w w3" using keeps_weaken by blast
    show ?thesis
    proof (cases r2)
      case Inl
      with assms f Inr l u k3 show ?thesis by (auto simp: attempt_engine_def)
    next
      case (Inr a)
      with assms f \<open>r1 = Inr h\<close> l load_law [OF l] h k2 show ?thesis by (auto simp: attempt_engine_def)
    qed
  qed
qed

abbreviation residents :: "('e, 'h) server \<Rightarrow> bool" where
  "residents \<equiv> residents_loaded loaded"

lemma residents_mono:
  "residents s \<Longrightarrow> keeps None (sv_ext s) (sv_ext t) \<Longrightarrow> sv_engines t = sv_engines s \<Longrightarrow> residents t"
  by (auto simp: residents_loaded_def keeps_but_def)

lemma ensure_model_residents:
  assumes ok: "residents s" and run: "ensure_model tx p allow q cb s = (r, t)"
  shows "residents t"
proof -
  obtain r' u where u: "attempt tx p q cb s = (r', u)" by fastforce
  note reg = attempt_registry [OF u]
  note k = attempt_engine_keeps [OF attempt_ext [OF u, symmetric]]
  have mono: "residents u" using residents_mono ok k reg by blast
  have "residents (u\<lparr>sv_engines := register_model (lr_model_id q) h (sv_engines u)\<rparr>)"
    if h: "r' = Inr h" and absent: "get_loaded_model (lr_model_id q) (sv_engines s) = None" for h
  proof -
    have new: "lr_model_id q \<notin> set (map fst (sv_engines s))"
      using absent by (simp add: get_loaded_model_def map_of_eq_None_iff)
    then have up: "register_model (lr_model_id q) h (sv_engines s) = sv_engines s @ [(lr_model_id q, h)]"
      by (simp add: register_model_def update_absent)
    have "\<forall>j \<in> set (map snd (sv_engines s)). issued (sv_ext s) j"
      using ok loaded_issued by (auto simp: residents_loaded_def)
    with k h have fresh: "h \<notin> set (map snd (sv_engines s))" and up_h: "loaded (sv_ext u) h" by fastforce+
    show ?thesis using mono new fresh up_h reg up by (auto simp: residents_loaded_def)
  qed
  with run u mono ok show ?thesis
    by (auto simp: ensure_model_attempt split: if_splits option.splits sum.splits)
qed

lemma unload_model_residents:
  assumes ok: "residents s" and run: "unload_model p m s = (r, t)"
  shows "residents t"
proof (cases "get_loaded_model m (sv_engines s)")
  case None
  with ok run show ?thesis by (simp add: unload_model_def py_simps ret_def)
next
  case (Some h)
  obtain r' w where u: "ei_unload p h (sv_ext s) = (r', w)" by fastforce
  have mh: "(m, h) \<in> set (sv_engines s)" using Some by (simp add: get_loaded_model_def map_of_SomeD)
  then have "loaded (sv_ext s) h" using ok by (force simp: residents_loaded_def)
  with unload_law [OF u] have failed: "keeps None (sv_ext s) w" if "r' = Inl x" for x
    using that unfolding keeps_but_def by (metis option.inject)
  have removed: "residents (s\<lparr>sv_ext := w, sv_engines := unregister_model m (sv_engines s)\<rparr>)"
  proof -
    have d: "distinct (map snd (sv_engines s))" "distinct (map fst (sv_engines s))"
      using ok by (auto simp: residents_loaded_def)
    have others: "j \<noteq> h \<and> j \<in> set (map snd (sv_engines s))" if "(k, j) \<in> set (unregister_model m (sv_engines s))" for k j
    proof -
      have kj: "(k, j) \<in> set (sv_engines s)" "k \<noteq> m"
        using that by (auto simp: unregister_model_def AList.delete_eq)
      then have "j \<noteq> h" using mh d(1) by (metis distinct_map inj_onD prod.inject snd_conv)
      with kj show ?thesis by force
    qed
    have "distinct (map snd (unregister_model m (sv_engines s)))"
      using d by (auto simp: unregister_model_def AList.delete_eq distinct_map_filter)
    moreover have "distinct (map fst (unregister_model m (sv_engines s)))"
      using d by (auto simp: unregister_model_def AList.delete_eq distinct_map_filter)
    moreover have "loaded w j" if j: "j \<in> set (map snd (unregister_model m (sv_engines s)))" for j
    proof -
      obtain k where "(k, j) \<in> set (unregister_model m (sv_engines s))" using j by (metis in_set_zipE list.set_map prod.collapse imageE)
      from others [OF this] have "j \<noteq> h" "loaded (sv_ext s) j" using ok by (auto simp: residents_loaded_def)
      with unload_law [OF u] show ?thesis unfolding keeps_but_def by auto
    qed
    ultimately show ?thesis by (auto simp: residents_loaded_def)
  qed
  show ?thesis
  proof (cases r')
    case (Inl x)
    then have "t = s\<lparr>sv_ext := w\<rparr>"
      using run Some u by (auto simp: unload_model_def engine_call_def py_unfold)
    with residents_mono [OF ok, of t] failed [OF Inl] show ?thesis by simp
  next
    case (Inr a)
    then have "t = s\<lparr>sv_ext := w, sv_engines := unregister_model m (sv_engines s)\<rparr>"
      using run Some u by (auto simp: unload_model_def engine_call_def py_unfold)
    with removed show ?thesis by simp
  qed
qed

lemma unload_model_kept [frame_rules]: "steps (residents_keep loaded) (unload_model p m)"
  unfolding steps_def residents_keep_def using unload_model_residents by (metis surj_pair snd_conv)

lemma unload_all_kept: "steps (residents_keep loaded) (unload_all p ms)"
  by (induction ms) (simp_all add: frame_rules)

lemma shutdown_kept: "steps (residents_keep loaded) (shutdown p)"
proof -
  have "residents_keep loaded s (s\<lparr>sv_shutting_down := True\<rparr>)" for s :: "('e, 'h) server"
    by (simp add: residents_keep_def residents_loaded_def)
  then show ?thesis unfolding shutdown_def by (intro frame_rules residents.steps_modS unload_all_kept)
qed

lemma stream_predict_residents:
  assumes ok: "residents s"
  shows "residents (snd (stream_predict tx p allow busy latency q s))"
proof -
  define was_loaded where "was_loaded = (get_loaded_model (lr_model_id (sq_load q)) (sv_engines s) \<noteq> None)"
  let ?p = "p"
  let ?s1 = "s\<lparr>sv_telemetry := track_request_start (sv_telemetry s), sv_progress := []\<rparr>"
  obtain r s2 where e: "ensure_model tx ?p allow (sq_load q) (\<not> was_loaded) ?s1 = (r, s2)" by fastforce
  have "residents ?s1" using ok by (simp add: residents_loaded_def)
  from ensure_model_residents [OF this e] have s2: "residents s2" .
  have "residents (snd (stream_task tx ?p allow latency q was_loaded s))"
  proof (cases r)
    case (Inl x)
    with s2 e show ?thesis by (simp add: stream_task_def Let_def residents_loaded_def)
  next
    case (Inr h)
    obtain chunks failure w where i: "ei_infer ?p h (sq_prompt q) (sq_generation_kwargs q) (sv_ext s2) = ((chunks, failure), w)"
      by (metis surj_pair)
    from infer_law [OF i] residents_mono [OF s2, of "s2\<lparr>sv_ext := w\<rparr>"] have "residents (s2\<lparr>sv_ext := w\<rparr>)" by simp
    with Inr e i show ?thesis by (cases failure) (simp_all add: stream_task_def Let_def residents_loaded_def)
  qed
  with ok show ?thesis
    by (auto simp: stream_predict_def was_loaded_def Let_def split: option.splits prod.splits)
qed

lemma server_step_residents:
  "residents s \<Longrightarrow> residents (server_step tx p allow c s)"
proof (cases c)
  case (EnsureModel q cb)
  assume "residents s"
  with ensure_model_residents EnsureModel show ?thesis by (metis server_step.simps(1) surj_pair snd_conv)
next
  case (ShutDown)
  assume "residents s"
  moreover have "residents_keep loaded s (snd (shutdown p s))" using shutdown_kept by (rule steps_snd)
  ultimately show ?thesis using ShutDown by (simp add: residents_keep_def)
next
  case (UnloadModel m)
  assume "residents s"
  with unload_model_residents UnloadModel show ?thesis by (metis server_step.simps(2) surj_pair snd_conv)
qed (simp add: stream_predict_residents)

lemma history_residents:
  assumes "sv_engines s = []"
  shows "residents (fold (server_step tx p allow) calls s)"
  by (rule fold_invariant [where Q = "\<lambda>_. True"])
    (use assms in \<open>simp_all add: residents_loaded_def [of _ s] server_step_residents\<close>)

end

end
