(* ===== verification/Seam_Properties.thy ===== *)
theory Seam_Properties
  imports Capability_Seam Residency
begin

text \<open>
  The seam's properties. Alone: its operations raise only port failures, and its load state follows the
  plugin's confirmations. Composed: the factory the worker builds (\<open>cy_exec/main.py\<close>, \<open>_build_server\<close>)
  gives the inference server an adapter per model, which meets the contract of \<open>Residency\<close>; so over every
  history of server calls each resident model has an adapter of its own that its plugin confirmed as loaded.
\<close>

section \<open>Failures\<close>

definition is_port_failure :: "seam_error \<Rightarrow> bool" where
  "is_port_failure x \<longleftrightarrow> (case x of
     ServingPortFailure f \<Rightarrow> pf_status f \<in> {499, 500, 502, 503, 504}
       \<and> (if pf_retryable f then pf_status f \<in> {502, 503, 504} else True)
   | SeamValueError t \<Rightarrow> False)"

definition fails_well :: "('e, 'c, 'a) seam_op \<Rightarrow> bool" where
  "fails_well m \<longleftrightarrow> (\<forall>s. case fst (m s) of Inl x \<Rightarrow> is_port_failure x | Inr a \<Rightarrow> True)"

lemma port_error_ok [simp]: "s \<in> {499, 500, 502, 503, 504} \<Longrightarrow> is_port_failure (port_error t s)"
  by (auto simp: port_error_def is_port_failure_def)

lemma translated_ok: "is_port_failure (ServingPortFailure (translate_direct_error e))"
  by (auto simp: is_port_failure_def translate_direct_error_def transport_status_def Let_def
      split: option.splits prod.splits)

lemma fails_well_bindE: "fails_well m \<Longrightarrow> (\<And>a. fails_well (f a)) \<Longrightarrow> fails_well (bindE m f)"
  unfolding fails_well_def bindE_def by (auto split: sum.splits prod.splits) (metis fst_conv sum.case(1))+

lemma fails_well_getS: "fails_well (getS f)"
  by (simp add: fails_well_def getS_def)

lemma fails_well_ret: "fails_well (ret a)"
  by (simp add: fails_well_def ret_def)

lemma fails_well_raise: "is_port_failure x \<Longrightarrow> fails_well (raise x)"
  by (simp add: fails_well_def raise_def)

lemma fails_well_on_adapter: "fails_well (on_adapter f)"
  by (simp add: fails_well_def on_adapter_def modS_def)

lemma fails_well_if: "(b \<Longrightarrow> fails_well m) \<Longrightarrow> (\<not> b \<Longrightarrow> fails_well n) \<Longrightarrow> fails_well (if b then m else n)"
  by simp

lemma fails_well_liftE: "(case r of Inl x \<Rightarrow> is_port_failure x | Inr a \<Rightarrow> True) \<Longrightarrow> fails_well (liftE r)"
  by (simp add: fails_well_def liftE_def)

lemmas fails_well_rules = fails_well_bindE fails_well_getS fails_well_ret fails_well_raise
  fails_well_on_adapter fails_well_if

lemma fails_well_get_client: "fails_well (get_client d)"
proof -
  have "fails_well (liftE (connect d b))" for b
    by (rule fails_well_liftE) (simp add: connect_def split: sum.splits)
  then have "fails_well (case client of Some c \<Rightarrow> ret c
       | None \<Rightarrow> bindE (getS (ad_binding \<circ> sm_adapter)) (\<lambda>b.
                 bindE (liftE (connect d b)) (\<lambda>c.
                 bindE (on_adapter (\<lambda>a. a\<lparr>ad_client := Some c\<rparr>)) (\<lambda>_. ret c))))" for client
    by (cases client) (auto intro!: fails_well_rules)
  then show ?thesis unfolding get_client_def by (intro fails_well_rules)
qed

lemma decode_response_ok: "case decode_response d method r of Inl x \<Rightarrow> is_port_failure x | Inr a \<Rightarrow> True"
proof (cases r)
  case (Answered url bytes)
  with Answered show ?thesis by (simp add: decode_response_def split: option.splits json.splits)
next
  case (InvokeFails t)
  then show ?thesis by (simp add: decode_response_def is_port_failure_def)
qed (simp_all add: decode_response_def translated_ok)

lemma fails_well_invoke: "fails_well (invoke d method payload deadline cancelled)"
proof -
  have "fails_well (liftE (decode_response d method r))" for r
    by (rule fails_well_liftE) (rule decode_response_ok)
  moreover have "fails_well (zoom sm_ext (\<lambda>e s. s\<lparr>sm_ext := e\<rparr>) (\<lambda>e. (let (r, e') = f e in (Inr r, e'))))" for f
    by (simp add: fails_well_def zoom_def Let_def split: prod.splits)
  ultimately show ?thesis unfolding invoke_def
    by (intro fails_well_rules fails_well_get_client) simp_all
qed

text \<open>Whatever the plugin and its SDK do, the operations of the seam raise nothing but port failures, with a
  status of 499, 500, 502, 503 or 504, and only failures with a server-side status are marked retryable.\<close>

theorem seam_errors_are_port_failures:
  "fails_well (seam_load_model d path adapter kw) \<and> fails_well (seam_infer d prompt kw event requested)
   \<and> fails_well (seam_unload_model d) \<and> fails_well (seam_get_model_info d)"
proof (intro conjI)
  show "fails_well (seam_load_model d path adapter kw)"
    unfolding seam_load_model_def by (intro fails_well_rules fails_well_invoke) simp
  have "fails_well (case v of Some (JStr t) \<Rightarrow> (if b then ret [t] else raise (port_error m 502)) | _ \<Rightarrow> raise (port_error m 502))"
    for v b m
    by (auto split: option.splits json.splits intro!: fails_well_rules)
  then show "fails_well (seam_infer d prompt kw event requested)"
    unfolding seam_infer_def Let_def by (intro fails_well_rules fails_well_invoke) simp_all
  show "fails_well (seam_unload_model d)"
    unfolding seam_unload_model_def by (intro fails_well_rules fails_well_invoke) simp
  show "fails_well (seam_get_model_info d)"
    unfolding seam_get_model_info_def by (intro fails_well_rules fails_well_invoke) simp
qed

section \<open>The load state\<close>

abbreviation loaded :: "('e, 'c) seam \<Rightarrow> bool" where
  "loaded s \<equiv> ad_is_loaded (sm_adapter s)"

lemma get_client_loaded: "get_client d s = (r, t) \<Longrightarrow> loaded t = loaded s"
  by (auto simp: get_client_def on_adapter_def py_unfold split: option.splits sum.splits)

lemma invoke_loaded:
  assumes "invoke d method payload deadline cancelled s = (r, t)"
  shows "loaded t = loaded s"
proof -
  obtain r1 u where u: "get_client d s = (r1, u)" by fastforce
  have "loaded t = loaded u"
    using assms by (auto simp: invoke_def bindE_def u getS_def raise_def zoom_def liftE_def Let_def
        split: sum.splits prod.splits if_splits)
  with get_client_loaded [OF u] show ?thesis by simp
qed

lemma seam_load_loaded:
  assumes "seam_load_model d path adapter kw s = (r, t)"
  shows "loaded t = (case r of Inl x \<Rightarrow> loaded s | Inr a \<Rightarrow> True)"
proof -
  obtain r1 u where u: "invoke d ''load_model'' (load_payload path adapter kw) (kwarg kw ''deadline_seconds'') False s = (r1, u)"
    by fastforce
  from invoke_loaded [OF u] assms show ?thesis
    by (auto simp: seam_load_model_def bindE_def u raise_def on_adapter_def modS_def split: sum.splits if_splits)
qed

lemma seam_unload_loaded:
  assumes "seam_unload_model d s = (r, t)"
  shows "loaded t = (case r of Inl x \<Rightarrow> loaded s | Inr a \<Rightarrow> False)"
proof -
  obtain r1 u where u: "invoke d ''unload_model'' [] JNull False s = (r1, u)" by fastforce
  from invoke_loaded [OF u] assms show ?thesis
    by (auto simp: seam_unload_model_def bindE_def u raise_def ret_def getS_def on_adapter_def modS_def
        split: sum.splits if_splits)
qed

lemma seam_infer_loaded:
  assumes "seam_infer d prompt kw event requested s = (r, t)"
  shows "loaded t = loaded s"
proof -
  obtain r1 u where u: "invoke d ''execute_inference'' (infer_payload prompt kw) (kwarg kw ''deadline_seconds'')
      ((if requested then EventSet else event) = EventSet) s = (r1, u)" by fastforce
  from invoke_loaded [OF u] assms show ?thesis
    by (auto simp: seam_infer_def bindE_def u raise_def ret_def getS_def Let_def
        split: sum.splits if_splits option.splits json.splits)
qed

section \<open>The seam as the engines of the inference server\<close>

text \<open>The adapters the factory made so far, one per handle, over the outside they share.\<close>

record ('e, 'c) plant =
  pl_adapters :: "'c adapter list"
  pl_ext :: 'e

fun seam_exn :: "seam_error \<Rightarrow> exn" where
  "seam_exn (ServingPortFailure f) = PyException ''ServingPortFailure'' (pf_message f) None"
| "seam_exn (SeamValueError t) = ValueError t"

definition on_plant :: "('e, 'c, 'a) seam_op \<Rightarrow> nat \<Rightarrow> ('e, 'c) plant \<Rightarrow> (exn + 'a) \<times> ('e, 'c) plant" where
  "on_plant m h w =
     (let (r, s) = m \<lparr>sm_adapter = pl_adapters w ! h, sm_ext = pl_ext w\<rparr>
      in (map_sum seam_exn id r, \<lparr>pl_adapters = (pl_adapters w)[h := sm_adapter s], pl_ext = sm_ext s\<rparr>))"

definition seam_port :: "('e, 'c) sdk \<Rightarrow> seam_binding \<Rightarrow> 'c option \<Rightarrow> (('e, 'c) plant, nat) engine_port" where
  "seam_port d b client =
     \<lparr>ei_factory = (\<lambda>provider w. case capability_factory d b client provider of
          Inl x \<Rightarrow> (Inl (seam_exn x), w)
        | Inr a \<Rightarrow> (Inr (length (pl_adapters w)), w\<lparr>pl_adapters := pl_adapters w @ [a]\<rparr>)),
      ei_load = (\<lambda>h path adapter kw. on_plant (seam_load_model d path adapter kw) h),
      ei_unload = (\<lambda>h. on_plant (seam_unload_model d) h),
      ei_infer = (\<lambda>h prompt kw w. case on_plant (seam_infer d prompt kw NoEvent False) h w of
          (Inl x, w') \<Rightarrow> (([], Some x), w') | (Inr chunks, w') \<Rightarrow> ((chunks, None), w'))\<rparr>"

definition plant_loaded :: "('e, 'c) plant \<Rightarrow> nat \<Rightarrow> bool" where
  "plant_loaded w h \<longleftrightarrow> h < length (pl_adapters w) \<and> ad_is_loaded (pl_adapters w ! h)"

definition plant_issued :: "('e, 'c) plant \<Rightarrow> nat \<Rightarrow> bool" where
  "plant_issued w h \<longleftrightarrow> h < length (pl_adapters w)"

abbreviation plant_keeps :: "nat option \<Rightarrow> ('e, 'c) plant \<Rightarrow> ('e, 'c) plant \<Rightarrow> bool" where
  "plant_keeps \<equiv> keeps_but plant_issued plant_loaded"

lemma on_plant_keeps: "on_plant m h w = (r, w') \<Longrightarrow> plant_keeps (Some h) w w'"
  by (auto simp: on_plant_def keeps_but_def plant_issued_def plant_loaded_def Let_def nth_list_update split: prod.splits)

lemma on_plant_loaded:
  assumes "on_plant m h w = (r, w')" and "plant_issued w h"
    and "\<And>s r' t. m s = (r', t) \<Longrightarrow> loaded t = f r' (loaded s)"
    and "\<And>r'. map_sum seam_exn id r' = r \<Longrightarrow> f r' (plant_loaded w h) = b"
  shows "plant_loaded w' h = b"
proof -
  let ?s = "\<lparr>sm_adapter = pl_adapters w ! h, sm_ext = pl_ext w\<rparr>"
  obtain r' t where t: "m ?s = (r', t)" by fastforce
  with assms(1) have w': "r = map_sum seam_exn id r'" "pl_adapters w' = (pl_adapters w)[h := sm_adapter t]"
    by (auto simp: on_plant_def Let_def)
  have "plant_loaded w h = loaded ?s" using assms(2) by (simp add: plant_loaded_def plant_issued_def)
  moreover have "plant_loaded w' h = loaded t" using assms(2) w'(2) by (simp add: plant_loaded_def plant_issued_def)
  ultimately show ?thesis using assms(3) [OF t] assms(4) [of r'] w'(1) by simp
qed

lemma factory_keeps:
  assumes "ei_factory (seam_port d b client) provider w = (r, w')"
  shows "plant_keeps None w w' \<and> (\<forall>h. r = Inr h \<longrightarrow> \<not> plant_issued w h \<and> plant_issued w' h)"
  using assms by (auto simp: seam_port_def keeps_but_def plant_issued_def plant_loaded_def nth_append split: sum.splits)

lemma load_keeps:
  assumes "ei_load (seam_port d b client) h path adapter kw w = (r, w')"
  shows "plant_keeps (Some h) w w' \<and> (\<forall>a. r = Inr a \<and> plant_issued w h \<longrightarrow> plant_loaded w' h)"
proof -
  have run: "on_plant (seam_load_model d path adapter kw) h w = (r, w')" using assms by (simp add: seam_port_def)
  have "plant_loaded w' h = True" if "r = Inr a" "plant_issued w h" for a
  proof (rule on_plant_loaded [OF run that(2), where f = "\<lambda>r' l. (case r' of Inl x \<Rightarrow> l | Inr a \<Rightarrow> True)"])
    show "(case r' of Inl x \<Rightarrow> plant_loaded w h | Inr a \<Rightarrow> True) = True" if "map_sum seam_exn id r' = r" for r'
      using that \<open>r = Inr a\<close> by (cases r') auto
  qed (rule seam_load_loaded)
  then show ?thesis using on_plant_keeps [OF run] by blast
qed

lemma unload_keeps:
  assumes "ei_unload (seam_port d b client) h w = (r, w')"
  shows "plant_keeps (Some h) w w' \<and> (\<forall>x. r = Inl x \<and> plant_loaded w h \<longrightarrow> plant_loaded w' h)"
proof -
  have run: "on_plant (seam_unload_model d) h w = (r, w')" using assms by (simp add: seam_port_def)
  have "plant_loaded w' h = True" if "r = Inl x" "plant_loaded w h" for x
  proof (rule on_plant_loaded [OF run, where f = "\<lambda>r' l. (case r' of Inl x \<Rightarrow> l | Inr a \<Rightarrow> False)"])
    show "plant_issued w h" using that(2) by (simp add: plant_loaded_def plant_issued_def)
    show "(case r' of Inl x \<Rightarrow> plant_loaded w h | Inr a \<Rightarrow> False) = True" if "map_sum seam_exn id r' = r" for r'
      using that \<open>r = Inl x\<close> \<open>plant_loaded w h\<close> by (cases r') auto
  qed (rule seam_unload_loaded)
  then show ?thesis using on_plant_keeps [OF run] by blast
qed

lemma infer_keeps:
  assumes "ei_infer (seam_port d b client) h prompt kw w = (r, w')"
  shows "plant_keeps None w w'"
proof -
  obtain r' where run: "on_plant (seam_infer d prompt kw NoEvent False) h w = (r', w')"
    using assms by (auto simp: seam_port_def split: prod.splits sum.splits)
  have "plant_loaded w' h = plant_loaded w h" if "plant_issued w h"
    by (rule on_plant_loaded [OF run that, where f = "\<lambda>r' l. l"]) (rule seam_infer_loaded, assumption, rule refl)
  with on_plant_keeps [OF run] show ?thesis unfolding keeps_but_def by (metis option.inject plant_loaded_def plant_issued_def)
qed

text \<open>The seam's adapters meet the server's contract.\<close>

interpretation seam: engine_contract "seam_port d b client" plant_issued plant_loaded for d b client
  by unfold_locales (simp add: plant_loaded_def plant_issued_def, erule factory_keeps, erule load_keeps,
      erule unload_keeps, erule infer_keeps)


end
