(* ===== verification/Hot_Reload.thy ===== *)
theory Hot_Reload
  imports Worker_Config
begin

text \<open>
  The configuration watcher (\<open>cy_exec/config/hot_reload.py\<close>): its polling loop, the file events of the
  optional observer, the debounced reload and \<open>reload_now\<close>. Environment and files are the process of
  \<open>Worker_Config\<close> and may change between steps; MD5 and the clock are parameters. The log of callback
  calls is part of the state; a callback that raises is logged and skipped. The lock makes a reload one step.
\<close>

record reload_event =
  re_path :: string
  re_old_hash :: string
  re_new_hash :: string
  re_timestamp :: rat
  re_success :: bool
  re_error :: "string option"

datatype delivery = ConfigCall nat worker_config | ReloadCall nat reload_event | ErrorCall nat exn

record watcher =
  wa_path :: string
  wa_debounce :: rat
  wa_watchdog :: bool
  wa_callbacks :: "nat list"
  wa_error_callbacks :: "nat list"
  wa_reload_callbacks :: "nat list"
  wa_hash :: "string option"
  wa_last_reload :: rat
  wa_running :: bool
  wa_log :: "delivery list"

text \<open>\<open>_compute_file_hash\<close>: empty when the file cannot be read.\<close>

definition compute_file_hash :: "(string \<Rightarrow> string) \<Rightarrow> process \<Rightarrow> watcher \<Rightarrow> string" where
  "compute_file_hash md5 pr w = (case pr_file pr (wa_path w) of Some (Inr text) \<Rightarrow> md5 text | _ \<Rightarrow> [])"

definition update_hash :: "(string \<Rightarrow> string) \<Rightarrow> process \<Rightarrow> watcher \<Rightarrow> bool \<times> watcher" where
  "update_hash md5 pr w =
     (let new = compute_file_hash md5 pr w in
      if new \<noteq> [] \<and> Some new \<noteq> wa_hash w then (True, w\<lparr>wa_hash := Some new\<rparr>) else (False, w))"

definition config_watcher :: "(string \<Rightarrow> string) \<Rightarrow> process \<Rightarrow> string \<Rightarrow> rat \<Rightarrow> bool \<Rightarrow> watcher" where
  "config_watcher md5 pr path debounce watchdog = snd (update_hash md5 pr
     \<lparr>wa_path = path, wa_debounce = debounce, wa_watchdog = watchdog, wa_callbacks = [],
      wa_error_callbacks = [], wa_reload_callbacks = [], wa_hash = None, wa_last_reload = 0,
      wa_running = False, wa_log = []\<rparr>)"

definition on_config :: "nat \<Rightarrow> watcher \<Rightarrow> watcher" where
  "on_config c w = w\<lparr>wa_callbacks := wa_callbacks w @ [c]\<rparr>"

definition on_error :: "nat \<Rightarrow> watcher \<Rightarrow> watcher" where
  "on_error c w = w\<lparr>wa_error_callbacks := wa_error_callbacks w @ [c]\<rparr>"

definition on_reload :: "nat \<Rightarrow> watcher \<Rightarrow> watcher" where
  "on_reload c w = w\<lparr>wa_reload_callbacks := wa_reload_callbacks w @ [c]\<rparr>"

definition should_reload :: "rat \<Rightarrow> watcher \<Rightarrow> bool" where
  "should_reload now w \<longleftrightarrow> \<not> now - wa_last_reload w < wa_debounce w"

text \<open>\<open>_do_reload\<close>: the clock reads \<open>now\<close> throughout. A failed load reports the exception to the error
  callbacks; the event it marks as failed goes nowhere.\<close>

definition do_reload :: "(string \<Rightarrow> string) \<Rightarrow> rat \<Rightarrow> process \<Rightarrow> watcher \<Rightarrow> watcher" where
  "do_reload md5 now pr w =
     (if \<not> should_reload now w then w
      else let new = compute_file_hash md5 pr w in
        if new = [] \<or> Some new = wa_hash w then w
        else let v = w\<lparr>wa_last_reload := now, wa_hash := Some new\<rparr>;
                 event = \<lparr>re_path = wa_path w, re_old_hash = (case wa_hash w of None \<Rightarrow> [] | Some h \<Rightarrow> h),
                    re_new_hash = new, re_timestamp = now, re_success = True, re_error = None\<rparr>
             in case load_worker_config pr (Some (wa_path w)) of
                  Inr c \<Rightarrow> v\<lparr>wa_log := wa_log v @ map (\<lambda>i. ConfigCall i c) (wa_callbacks v)
                                  @ map (\<lambda>i. ReloadCall i event) (wa_reload_callbacks v)\<rparr>
                | Inl x \<Rightarrow> v\<lparr>wa_log := wa_log v @ map (\<lambda>i. ErrorCall i x) (wa_error_callbacks v)\<rparr>)"

text \<open>One round of \<open>_polling_loop\<close>.\<close>

definition polling_round :: "(string \<Rightarrow> string) \<Rightarrow> rat \<Rightarrow> process \<Rightarrow> watcher \<Rightarrow> watcher" where
  "polling_round md5 now pr w = (let (changed, v) = update_hash md5 pr w in if changed then do_reload md5 now pr v else v)"

definition start :: "watcher \<Rightarrow> watcher" where
  "start w = w\<lparr>wa_running := True\<rparr>"

definition stop :: "watcher \<Rightarrow> watcher" where
  "stop w = w\<lparr>wa_running := False\<rparr>"

text \<open>\<open>reload_now\<close>; \<open>_do_reload\<close> lets no exception out, so the answer is always true.\<close>

definition reload_now :: "(string \<Rightarrow> string) \<Rightarrow> rat \<Rightarrow> process \<Rightarrow> watcher \<Rightarrow> bool \<times> watcher" where
  "reload_now md5 now pr w = (True, do_reload md5 now pr (w\<lparr>wa_last_reload := 0\<rparr>))"

text \<open>\<open>on_modified\<close> of the observer: an event of the watched file, not of a directory.\<close>

definition on_modified ::
    "(string \<Rightarrow> string) \<Rightarrow> rat \<Rightarrow> process \<Rightarrow> string \<Rightarrow> bool \<Rightarrow> watcher \<Rightarrow> watcher" where
  "on_modified md5 now pr event_path is_directory w =
     (if \<not> is_directory \<and> event_path = wa_path w then do_reload md5 now pr w else w)"

section \<open>The model registry watcher\<close>

text \<open>The watcher of the registry file, and the external callbacks its internal callback calls.\<close>

record registry_watcher =
  rw_watcher :: "watcher option"
  rw_callbacks :: "nat list"

definition registry_setup ::
    "(string \<Rightarrow> string) \<Rightarrow> process \<Rightarrow> bool \<Rightarrow> string \<Rightarrow> registry_watcher \<Rightarrow> registry_watcher" where
  "registry_setup md5 pr has_watchdog path r =
     r\<lparr>rw_watcher := Some (on_config 0 (config_watcher md5 pr path 1 has_watchdog))\<rparr>"

definition on_model_change :: "nat \<Rightarrow> registry_watcher \<Rightarrow> registry_watcher" where
  "on_model_change c r = r\<lparr>rw_callbacks := rw_callbacks r @ [c]\<rparr>"

text \<open>\<open>_on_registry_change\<close>: what each external callback receives for a delivery.\<close>

fun on_registry_change :: "registry_watcher \<Rightarrow> delivery \<Rightarrow> (nat \<times> (string \<times> model_spec) list) list" where
  "on_registry_change r (ConfigCall i c) = map (\<lambda>k. (k, wc_model_registry c)) (rw_callbacks r)"
| "on_registry_change r _ = []"

definition registry_start :: "registry_watcher \<Rightarrow> registry_watcher" where
  "registry_start r = r\<lparr>rw_watcher := map_option start (rw_watcher r)\<rparr>"

definition registry_stop :: "registry_watcher \<Rightarrow> registry_watcher" where
  "registry_stop r = r\<lparr>rw_watcher := map_option stop (rw_watcher r)\<rparr>"

definition registry_reload_now ::
    "(string \<Rightarrow> string) \<Rightarrow> rat \<Rightarrow> process \<Rightarrow> registry_watcher \<Rightarrow> bool \<times> registry_watcher" where
  "registry_reload_now md5 now pr r = (case rw_watcher r of
     None \<Rightarrow> (False, r)
   | Some w \<Rightarrow> (let (ok, v) = reload_now md5 now pr w in (ok, r\<lparr>rw_watcher := Some v\<rparr>)))"

section \<open>Runs\<close>

text \<open>The world changes, the loop makes a round, a file event arrives, or the watcher is started, stopped or
  told to reload. The loop runs in polling mode while started, events arrive in observer mode.\<close>

datatype watch_step =
    World process
  | Round rat
  | FileEvent rat string bool
  | ReloadNow rat
  | Start
  | Stop

fun watch :: "(string \<Rightarrow> string) \<Rightarrow> watch_step \<Rightarrow> process \<times> watcher \<Rightarrow> process \<times> watcher" where
  "watch md5 (World pr') (pr, w) = (pr', w)"
| "watch md5 (Round now) (pr, w) = (pr, if wa_running w \<and> \<not> wa_watchdog w then polling_round md5 now pr w else w)"
| "watch md5 (FileEvent now p d) (pr, w) = (pr, if wa_running w \<and> wa_watchdog w then on_modified md5 now pr p d w else w)"
| "watch md5 (ReloadNow now) (pr, w) = (pr, snd (reload_now md5 now pr w))"
| "watch md5 Start (pr, w) = (pr, start w)"
| "watch md5 Stop (pr, w) = (pr, stop w)"

fun is_reload_now :: "watch_step \<Rightarrow> bool" where
  "is_reload_now (ReloadNow now) = True"
| "is_reload_now _ = False"

lemma polling_round_silent:
  "wa_log (polling_round md5 now pr w) = wa_log w \<and> wa_watchdog (polling_round md5 now pr w) = wa_watchdog w"
  by (auto simp: polling_round_def update_hash_def do_reload_def compute_file_hash_def Let_def)

lemma polling_step_silent:
  assumes "\<not> wa_watchdog (snd s)" and "\<not> is_reload_now c"
  shows "wa_log (snd (watch md5 c s)) = wa_log (snd s) \<and> \<not> wa_watchdog (snd (watch md5 c s))"
  using assms by (cases s; cases c) (auto simp: polling_round_silent start_def stop_def)


text \<open>With the observer, an event of the watched file outside the debounce window that shows new content
  delivers it once: the loaded configuration goes to every configuration callback and then one event to
  every reload callback, in their order, or the failure of the load to the error callbacks; the same
  content is not loaded again, also after a failed load, and \<open>reload_now\<close> still answers true. An event
  inside the window is dropped.\<close>

theorem observed_change_delivered_once:
  assumes "compute_file_hash md5 pr w = h" and "h \<noteq> []" and "wa_hash w \<noteq> Some h"
  shows "let v = on_modified md5 now pr (wa_path w) False w in
     if should_reload now w
     then (case load_worker_config pr (Some (wa_path w)) of
             Inr c \<Rightarrow> \<exists>event. re_success event \<and> re_new_hash event = h
               \<and> wa_log v = wa_log w @ map (\<lambda>i. ConfigCall i c) (wa_callbacks w) @ map (\<lambda>i. ReloadCall i event) (wa_reload_callbacks w)
           | Inl x \<Rightarrow> wa_log v = wa_log w @ map (\<lambda>i. ErrorCall i x) (wa_error_callbacks w))
       \<and> wa_hash v = Some h
       \<and> on_modified md5 later pr (wa_path w) False v = v
       \<and> reload_now md5 later pr v = (True, v\<lparr>wa_last_reload := 0\<rparr>)
     else v = w"
proof (cases "should_reload now w")
  case False
  then show ?thesis by (simp add: on_modified_def do_reload_def)
next
  case True
  define v where "v = on_modified md5 now pr (wa_path w) False w"
  have v: "wa_path v = wa_path w" "wa_hash v = Some h"
    using assms True by (auto simp: v_def on_modified_def do_reload_def Let_def split: sum.splits)
  then have same: "compute_file_hash md5 pr (v\<lparr>wa_last_reload := t\<rparr>) = h" "compute_file_hash md5 pr v = h" for t
    using assms(1) by (simp_all add: compute_file_hash_def)
  have "on_modified md5 later pr (wa_path w) False v = v" "reload_now md5 later pr v = (True, v\<lparr>wa_last_reload := 0\<rparr>)"
    using v same by (simp_all add: on_modified_def reload_now_def do_reload_def)
  moreover have "case load_worker_config pr (Some (wa_path w)) of
             Inr c \<Rightarrow> \<exists>event. re_success event \<and> re_new_hash event = h
               \<and> wa_log v = wa_log w @ map (\<lambda>i. ConfigCall i c) (wa_callbacks w) @ map (\<lambda>i. ReloadCall i event) (wa_reload_callbacks w)
           | Inl x \<Rightarrow> wa_log v = wa_log w @ map (\<lambda>i. ErrorCall i x) (wa_error_callbacks w)"
    using assms True by (auto simp: v_def on_modified_def do_reload_def Let_def split: sum.splits intro!: exI)
  ultimately show ?thesis using v True unfolding v_def Let_def by simp
qed

section \<open>Witnesses\<close>

definition sample_md5 :: "string \<Rightarrow> string" where
  "sample_md5 t = CHR ''h'' # t"

definition sample_files :: "string \<Rightarrow> process" where
  "sample_files text = sample_process\<lparr>pr_environ := [''CYRENE_SERVING_PROVIDER_ID'' \<mapsto> ''vllm''], pr_file := (\<lambda>f. Some (Inr text))\<rparr>"

definition sample_watcher :: "bool \<Rightarrow> watcher" where
  "sample_watcher watchdog = on_reload 2 (on_config 1 (config_watcher sample_md5 (sample_files ''old'') ''/c.json'' 1 watchdog))"


theorem observed_change_delivered_once_witness:
  "wa_hash (on_modified sample_md5 10 (sample_files ''new'') ''/c.json'' False (sample_watcher True)) = Some ''hnew''"
proof -
  have "compute_file_hash sample_md5 (sample_files ''new'') (sample_watcher True) = ''hnew''"
    "''hnew'' \<noteq> []" "wa_hash (sample_watcher True) \<noteq> Some ''hnew''"
    by code_simp+
  moreover have "should_reload 10 (sample_watcher True)" "wa_path (sample_watcher True) = ''/c.json''"
    by code_simp+
  ultimately show ?thesis
    using observed_change_delivered_once [of sample_md5 "sample_files ''new''" "sample_watcher True" "''hnew''" 10] by (simp add: Let_def)
qed

end
