(* ===== verification/Path_Utils.thy ===== *)
theory Path_Utils
  imports Worker_Errors
begin

text \<open>
  Paths and file names (\<open>cy_exec/utils/path_utils.py\<close>). A resolved path is the list of its components below
  the root; \<open>resolve\<close>, which follows the links of the file system, and existence are parameters.
  Property: \<open>sanitize_filename\<close> fixes the safe names and yields safe ones, unless a NUL is removed
  between two dots.
\<close>

section \<open>Joining\<close>

definition render_path :: "string list \<Rightarrow> string" where
  "render_path cs = CHR ''/'' # join ''/'' cs"

definition path_error :: "string \<Rightarrow> exn" where
  "path_error t = PyException ''PathTraversalError'' t None"

definition sanitized_parts :: "string list \<Rightarrow> string list" where
  "sanitized_parts parts =
     filter (\<lambda>p. p \<noteq> ''.'') (map (dropWhile (\<lambda>c. c = CHR ''/'')) (filter (\<lambda>p. p \<noteq> []) parts))"

text \<open>\<open>base.joinpath(*parts)\<close> of relative parts, before it is resolved; an empty part adds nothing.\<close>

definition joinpath :: "string list \<Rightarrow> string list \<Rightarrow> string" where
  "joinpath base parts = render_path (base @ filter (\<lambda>p. p \<noteq> []) parts)"

definition relative_to :: "string list \<Rightarrow> string list \<Rightarrow> string list option" where
  "relative_to path base = (if take (length base) path = base then Some (drop (length base) path) else None)"

definition safe_join :: "(string \<Rightarrow> string list) \<Rightarrow> string \<Rightarrow> string list \<Rightarrow> string res" where
  "safe_join resolve base parts =
     (let base_path = resolve base; joined = resolve (joinpath base_path (sanitized_parts parts)) in
      case relative_to joined base_path of
        None \<Rightarrow> Inl (path_error (''Path traversal detected: '' @ [CHR 0x27] @ join ''/'' parts @ [CHR 0x27]
                  @ '' escapes base '' @ [CHR 0x27] @ base @ [CHR 0x27]))
      | Some _ \<Rightarrow> Inr (render_path joined))"

definition validate_model_path ::
    "(string \<Rightarrow> string list) \<Rightarrow> (string list \<Rightarrow> bool) \<Rightarrow> string \<Rightarrow> string list option \<Rightarrow> bool \<Rightarrow> string res" where
  "validate_model_path resolve exists path allowed_roots must_exist =
     (let resolved = resolve path; roots = (case allowed_roots of None \<Rightarrow> [] | Some rs \<Rightarrow> rs) in
      if roots \<noteq> [] \<and> \<not> list_ex (\<lambda>root. relative_to resolved (resolve root) \<noteq> None) roots
      then Inl (path_error (''Path '' @ [CHR 0x27] @ path @ [CHR 0x27] @ '' is not under any allowed root: ''
             @ py_repr (JArr (map JStr roots))))
      else if must_exist \<and> \<not> exists resolved
      then Inl (PyException ''FileNotFoundError'' (''Path does not exist: '' @ render_path resolved) None)
      else Inr (render_path resolved))"

definition get_relative_path :: "(string \<Rightarrow> string list) \<Rightarrow> string \<Rightarrow> string \<Rightarrow> string" where
  "get_relative_path resolve path base = (case relative_to (resolve path) (resolve base) of
     Some [] \<Rightarrow> ''.'' | Some cs \<Rightarrow> join ''/'' cs | None \<Rightarrow> render_path (resolve path))"

definition is_safe_path :: "(string \<Rightarrow> string list) \<Rightarrow> string \<Rightarrow> string \<Rightarrow> bool" where
  "is_safe_path resolve path base \<longleftrightarrow> relative_to (resolve path) (resolve base) \<noteq> None"

section \<open>File names\<close>

definition DANGEROUS :: "string list" where
  "DANGEROUS = [''/'', [CHR 0x5C], ''..'', [CHR 0x00], ''<'', ''>'', '':'', [CHR 0x22], ''|'', ''?'', ''*'']"

definition is_safe_filename :: "string \<Rightarrow> bool" where
  "is_safe_filename filename \<longleftrightarrow>
     \<not> list_ex (contains filename) DANGEROUS
     \<and> strip filename \<noteq> [] \<and> \<not> startswith filename ''.''"

text \<open>\<open>s.replace(d, r)\<close> for a non-empty \<open>d\<close>; \<open>n\<close> characters of a replaced occurrence are still to be skipped.\<close>

fun replace_from :: "nat \<Rightarrow> string \<Rightarrow> string \<Rightarrow> string \<Rightarrow> string" where
  "replace_from n d r [] = []"
| "replace_from (Suc n) d r (c # s) = replace_from n d r s"
| "replace_from 0 d r (c # s) =
     (if startswith (c # s) d then r @ replace_from (length d - 1) d r s else c # replace_from 0 d r s)"

definition sanitize_filename :: "string \<Rightarrow> string \<Rightarrow> string" where
  "sanitize_filename filename replacement =
     (let replaced = foldl (\<lambda>s d. replace_from 0 d (if d = [CHR 0x00] then [] else replacement) s) filename DANGEROUS;
          result = dropWhile (\<lambda>c. c = CHR ''.'') replaced
      in if strip result = [] then ''unnamed'' else result)"

section \<open>Facts on replacing\<close>

lemma contains_one: "contains s [c] \<longleftrightarrow> c \<in> set s"
  by (auto simp: contains_iff in_set_conv_decomp)

lemma startswith_one: "startswith (x # s) [c] \<longleftrightarrow> x = c"
  by (auto simp: startswith_def)

lemma replace_one: "replace_from 0 [c] r s = concat (map (\<lambda>x. if x = c then r else [x]) s)"
  by (induction s) (auto simp: startswith_one)

lemma replace_absent: "\<not> contains s d \<Longrightarrow> replace_from 0 d r s = s"
  by (induction s) auto

abbreviation dots :: string where "dots \<equiv> ''..''"

lemma replace_dots_head: "replace_from 0 dots ''_'' s = CHR ''.'' # t \<Longrightarrow> \<exists>u. s = CHR ''.'' # u"
  by (cases s) (auto split: if_splits)

lemma replace_dots_absent: "\<not> contains (replace_from n dots ''_'' s) dots"
proof (induction n dots "''_''" s rule: replace_from.induct)
  case (1 n)
  then show ?case by simp
next
  case (2 n c s)
  then show ?case by simp
next
  case (3 c s)
  show ?case
  proof (cases "startswith (c # s) dots")
    case True
    with 3 show ?thesis by (auto simp: startswith_def)
  next
    case False
    have "\<not> startswith (c # replace_from 0 dots ''_'' s) dots"
    proof
      assume "startswith (c # replace_from 0 dots ''_'' s) dots"
      then obtain t where "c = CHR ''.''" "replace_from 0 dots ''_'' s = CHR ''.'' # t"
        by (auto simp: startswith_iff)
      with replace_dots_head False show False by (fastforce simp: startswith_iff)
    qed
    with False 3 show ?thesis by simp
  qed
qed

lemma replace_one_set: "set (replace_from 0 [c] r s) \<subseteq> set r \<union> (set s - {c})"
  by (auto simp: replace_one split: if_splits)

lemma replace_dots_set: "set (replace_from n dots ''_'' s) \<subseteq> insert (CHR ''_'') (set s)"
  by (induction n dots "''_''" s rule: replace_from.induct) auto

text \<open>Replacing one character by another one that is no dot brings no two dots together.\<close>

lemma replace_one_dots:
  assumes "\<not> contains s dots" and "c \<noteq> CHR ''.''"
  shows "\<not> contains (replace_from 0 [c] ''_'' s) dots"
proof -
  have "replace_from 0 [c] ''_'' s = map (\<lambda>x. if x = c then CHR ''_'' else x) s"
    unfolding replace_one by (induction s) auto
  moreover have "\<not> contains (map (\<lambda>x. if x = c then CHR ''_'' else x) s) dots"
    using assms by (induction s) (auto simp: startswith_iff Cons_eq_append_conv split: if_splits)
  ultimately show ?thesis by simp
qed

lemma contains_suffix: "\<not> contains s d \<Longrightarrow> \<not> contains (dropWhile P s) d"
  by (induction s) auto

section \<open>Sanitizing\<close>

text \<open>One step on a name without NUL: a set of characters that stay away, and no two dots once replaced.\<close>

definition step_chars :: "char list" where
  "step_chars = [CHR ''<'', CHR ''>'', CHR '':'', CHR 0x22, CHR ''|'', CHR ''?'', CHR ''*'']"

lemma steps_clean:
  assumes "\<not> contains s dots" and "CHR ''.'' \<notin> set cs" and "CHR ''_'' \<notin> set cs"
  shows "\<not> contains (foldl (\<lambda>s c. replace_from 0 [c] ''_'' s) s cs) dots
     \<and> set (foldl (\<lambda>s c. replace_from 0 [c] ''_'' s) s cs) \<subseteq> insert (CHR ''_'') (set s - set cs)"
  using assms
proof (induction cs arbitrary: s)
  case (Cons c cs)
  let ?t = "replace_from 0 [c] ''_'' s"
  have "\<not> contains ?t dots" using Cons.prems by (intro replace_one_dots) auto
  moreover have "set ?t \<subseteq> insert (CHR ''_'') (set s - {c})" using replace_one_set [of c "''_''" s] by auto
  ultimately show ?case using Cons.IH [of ?t] Cons.prems by auto
qed auto

lemma sanitize_steps:
  "foldl (\<lambda>s d. replace_from 0 d (if d = [CHR 0x00] then [] else ''_'') s) f DANGEROUS
     = foldl (\<lambda>s c. replace_from 0 [c] ''_'' s)
        (replace_from 0 [CHR 0x00] [] (replace_from 0 dots ''_''
          (replace_from 0 [CHR 0x5C] ''_'' (replace_from 0 ''/'' ''_'' f)))) step_chars"
  by (simp add: DANGEROUS_def step_chars_def)

lemma safe_chars:
  "is_safe_filename f \<longleftrightarrow> set f \<inter> ({CHR ''/'', CHR 0x5C, CHR 0x00} \<union> set step_chars) = {}
     \<and> \<not> contains f dots \<and> strip f \<noteq> [] \<and> \<not> startswith f ''.''"
  by (auto simp: is_safe_filename_def DANGEROUS_def step_chars_def contains_one)

lemma no_leading_dot: "\<not> startswith (dropWhile (\<lambda>c. c = CHR ''.'') s) ''.''"
  by (induction s) (auto simp: startswith_one startswith_def)

lemma sanitized_name:
  assumes "CHR 0x00 \<notin> set f"
  shows "is_safe_filename (sanitize_filename f ''_'')"
proof -
  let ?u = "replace_from 0 [CHR 0x5C] ''_'' (replace_from 0 ''/'' ''_'' f)"
  let ?v = "replace_from 0 dots ''_'' ?u"
  have u: "set ?u \<subseteq> insert (CHR ''_'') (set f - {CHR ''/'', CHR 0x5C})"
    using replace_one_set [of "CHR 0x5C" "''_''" "replace_from 0 ''/'' ''_'' f"] replace_one_set [of "CHR ''/''" "''_''" f]
    by auto
  then have v: "set ?v \<subseteq> insert (CHR ''_'') (set f - {CHR ''/'', CHR 0x5C})" using replace_dots_set [of 0 ?u] by blast
  then have "CHR 0x00 \<notin> set ?v" using assms by auto
  then have skip: "replace_from 0 [CHR 0x00] [] ?v = ?v" by (intro replace_absent) (simp add: contains_one)
  define w where "w = foldl (\<lambda>s c. replace_from 0 [c] ''_'' s) ?v step_chars"
  have w: "\<not> contains w dots \<and> set w \<subseteq> insert (CHR ''_'') (set ?v - set step_chars)"
    unfolding w_def using replace_dots_absent by (intro steps_clean) (auto simp: step_chars_def)
  define r where "r = dropWhile (\<lambda>c. c = CHR ''.'') w"
  have "set r \<subseteq> set w" unfolding r_def by (auto dest: set_dropWhileD)
  then have "set r \<inter> ({CHR ''/'', CHR 0x5C, CHR 0x00} \<union> set step_chars) = {}"
    using w v assms by (auto simp: step_chars_def)
  moreover have "\<not> contains r dots" using w contains_suffix unfolding r_def by blast
  moreover have "\<not> startswith r ''.''" unfolding r_def by (rule no_leading_dot)
  moreover have "is_safe_filename ''unnamed''" by code_simp
  moreover have "sanitize_filename f ''_'' = (if strip r = [] then ''unnamed'' else r)"
    by (simp only: sanitize_filename_def sanitize_steps skip Let_def r_def w_def)
  ultimately show ?thesis by (simp add: safe_chars)
qed

lemma safe_name_kept:
  assumes "is_safe_filename f"
  shows "sanitize_filename f r = f"
proof -
  have "foldl (\<lambda>s d. replace_from 0 d (if d = [CHR 0x00] then [] else r) s) f ds = f"
    if "\<not> list_ex (contains f) ds" for ds
    using that by (induction ds) (auto simp: replace_absent)
  moreover have "dropWhile (\<lambda>c. c = CHR ''.'') f = f"
    using assms by (cases f) (auto simp: is_safe_filename_def startswith_one)
  ultimately show ?thesis using assms by (simp add: sanitize_filename_def is_safe_filename_def)
qed

text \<open>\<open>sanitize_filename\<close> leaves the safe names alone, whatever the replacement, and makes every name without a
  NUL safe, so it is idempotent on those; but the dots around a NUL are joined after the pairs of dots were replaced, and the
  result then contains the pair that \<open>is_safe_filename\<close> refuses.\<close>

theorem sanitized_names_are_safe:
  "(if CHR 0x00 \<in> set f then True else is_safe_filename (sanitize_filename f ''_''))
   \<and> (if is_safe_filename f then sanitize_filename f r = f else True)
   \<and> sanitize_filename [CHR ''a'', CHR ''.'', CHR 0x00, CHR ''.'', CHR ''b''] ''_'' = ''a..b''
   \<and> \<not> is_safe_filename ''a..b''"
proof (intro conjI)
  show "if CHR 0x00 \<in> set f then True else is_safe_filename (sanitize_filename f ''_'')"
    using sanitized_name by simp
  show "if is_safe_filename f then sanitize_filename f r = f else True"
    using safe_name_kept by simp
qed code_simp+

section \<open>Joined paths\<close>

text \<open>What \<open>safe_join\<close> returns stays below its base, as \<open>is_safe_path\<close> and \<open>validate_model_path\<close> judge it, when
  resolving a resolved path gives it back; and a traversal is refused.\<close>

theorem joined_path_stays_below:
  assumes "\<forall>x. resolve (render_path (resolve x)) = resolve x" and "safe_join resolve base parts = Inr path"
  shows "is_safe_path resolve path base \<and> validate_model_path resolve exists path (Some [base]) False = Inr path"
proof -
  obtain x where "path = render_path (resolve x)" "relative_to (resolve x) (resolve base) \<noteq> None"
    using assms(2) by (auto simp: safe_join_def Let_def split: option.splits)
  with assms(1) show ?thesis by (simp add: is_safe_path_def validate_model_path_def Let_def)
qed

text \<open>The witness resolves by splitting at the slashes, on names without dots.\<close>

definition split_resolve :: "string \<Rightarrow> string list" where
  "split_resolve p = filter (\<lambda>c. c \<noteq> []) (split_on (CHR ''/'') p)"

lemma split_on_append: "CHR ''/'' \<notin> set c \<Longrightarrow> split_on (CHR ''/'') (c @ CHR ''/'' # s) = c # split_on (CHR ''/'') s"
  by (induction c) auto

lemma split_on_single: "CHR ''/'' \<notin> set c \<Longrightarrow> split_on (CHR ''/'') c = [c]"
  by (induction c) auto

lemma split_join:
  assumes "\<forall>c \<in> set cs. c \<noteq> [] \<and> CHR ''/'' \<notin> set c"
  shows "filter (\<lambda>c. c \<noteq> []) (split_on (CHR ''/'') (join ''/'' cs)) = cs"
  using assms
proof (induction "''/''" cs rule: join.induct)
  case (3 x y zs)
  then have "split_on (CHR ''/'') (join ''/'' (x # y # zs)) = x # split_on (CHR ''/'') (join ''/'' (y # zs))"
    using split_on_append [of x "join ''/'' (y # zs)"] by simp
  with 3 show ?case by simp
qed (simp_all add: split_on_single)

theorem joined_path_stays_below_witness:
  "safe_join split_resolve ''/models'' [''/llama'', ''.''] = Inr ''/models/llama''
   \<and> is_safe_path split_resolve ''/models/llama'' ''/models''"
proof -
  have run: "safe_join split_resolve ''/models'' [''/llama'', ''.''] = Inr ''/models/llama''" by code_simp
  have "split_resolve (render_path (split_resolve x)) = split_resolve x" for x
    using split_on_parts [of _ "CHR ''/''" x]
    by (simp add: split_resolve_def [of "render_path _"] render_path_def split_join) (simp add: split_resolve_def split_join)
  with joined_path_stays_below [OF _ run] run show ?thesis by blast
qed

end
