(* ===== verification/Alerts.thy ===== *)
theory Alerts
  imports Complex_Main Worker_Errors
begin

text \<open>
  The alert manager (\<open>cy_exec_pro/core/alert_manager.py\<close>). Values are rationals where the code has floats;
  the formats \<open>.1f\<close> and \<open>str\<close> of a float and the clock are parameters. The log of callback calls is part of
  the state: a callback that raises is logged and skipped. Property: over every sequence of checks the
  alerts of a type alternate between raised and recovered, and the history is the last 1000 of them.
\<close>

datatype alert_level = INFO | WARNING | CRITICAL

datatype alert_type = QUEUE_DEPTH | MEMORY_PRESSURE | LATENCY_HIGH

record alert =
  al_type :: alert_type
  al_level :: alert_level
  al_message :: string
  al_value :: rat
  al_threshold :: rat
  al_timestamp :: rat
  al_resolved :: bool

record alert_manager =
  am_queue_threshold :: int
  am_memory_threshold :: rat
  am_latency_threshold :: rat
  am_active :: "alert_type \<Rightarrow> bool"
  am_history :: "alert list"
  am_callbacks :: "nat list"
  am_called :: "(nat \<times> alert) list"

record formats =
  fm_fixed1 :: "rat \<Rightarrow> string"
  fm_str :: "rat \<Rightarrow> string"

definition alert_manager_init :: "int \<Rightarrow> rat \<Rightarrow> rat \<Rightarrow> alert_manager" where
  "alert_manager_init queue memory latency =
     \<lparr>am_queue_threshold = queue, am_memory_threshold = memory, am_latency_threshold = latency,
      am_active = (\<lambda>_. False), am_history = [], am_callbacks = [], am_called = []\<rparr>"

definition max_history :: nat where "max_history = 1000"

definition record_alert :: "alert \<Rightarrow> alert_manager \<Rightarrow> alert_manager" where
  "record_alert a m =
     (let h = am_history m @ [a]
      in m\<lparr>am_history := (if max_history < length h then drop (length h - max_history) h else h)\<rparr>)"

definition trigger_callbacks :: "alert \<Rightarrow> alert_manager \<Rightarrow> alert_manager" where
  "trigger_callbacks a m = m\<lparr>am_called := am_called m @ map (\<lambda>c. (c, a)) (am_callbacks m)\<rparr>"

text \<open>\<open>_check\<close>: \<open>messages\<close> gives the raised and the recovered text.\<close>

definition check ::
    "rat \<Rightarrow> alert_type \<Rightarrow> rat \<Rightarrow> rat \<Rightarrow> alert_level \<Rightarrow> string \<times> string \<Rightarrow> alert_manager
      \<Rightarrow> alert option \<times> alert_manager" where
  "check now ty v threshold level messages m =
     (if threshold < v
      then (if am_active m ty then (None, m)
            else let a = \<lparr>al_type = ty, al_level = level, al_message = fst messages, al_value = v,
                          al_threshold = threshold, al_timestamp = now, al_resolved = False\<rparr>
                 in (Some a, trigger_callbacks a (record_alert a (m\<lparr>am_active := (am_active m)(ty := True)\<rparr>))))
      else (if \<not> am_active m ty then (None, m)
            else let a = \<lparr>al_type = ty, al_level = INFO, al_message = snd messages, al_value = v,
                          al_threshold = threshold, al_timestamp = now, al_resolved = True\<rparr>
                 in (Some a, trigger_callbacks a (record_alert a (m\<lparr>am_active := (am_active m)(ty := False)\<rparr>)))))"

definition check_queue_depth :: "rat \<Rightarrow> int \<Rightarrow> alert_manager \<Rightarrow> alert option \<times> alert_manager" where
  "check_queue_depth now depth m =
     check now QUEUE_DEPTH (of_int depth) (of_int (am_queue_threshold m)) WARNING
       (''Queue depth too high: '' @ show_int depth @ '' (threshold: '' @ show_int (am_queue_threshold m) @ '')'',
        ''Queue depth recovered: '' @ show_int depth) m"

definition check_memory_pressure :: "formats \<Rightarrow> rat \<Rightarrow> rat \<Rightarrow> alert_manager \<Rightarrow> alert option \<times> alert_manager" where
  "check_memory_pressure fm now pressure m =
     check now MEMORY_PRESSURE pressure (am_memory_threshold m) CRITICAL
       (''Memory pressure too high: '' @ fm_fixed1 fm pressure @ ''% (threshold: '' @ fm_str fm (am_memory_threshold m) @ ''%)'',
        ''Memory pressure recovered: '' @ fm_fixed1 fm pressure @ ''%'') m"

definition check_latency :: "formats \<Rightarrow> rat \<Rightarrow> rat \<Rightarrow> alert_manager \<Rightarrow> alert option \<times> alert_manager" where
  "check_latency fm now latency m =
     check now LATENCY_HIGH latency (am_latency_threshold m) WARNING
       (''Latency too high: '' @ fm_fixed1 fm latency @ ''ms (threshold: '' @ fm_str fm (am_latency_threshold m) @ ''ms)'',
        ''Latency recovered: '' @ fm_fixed1 fm latency @ ''ms'') m"

definition register_callback :: "nat \<Rightarrow> alert_manager \<Rightarrow> alert_manager" where
  "register_callback c m = m\<lparr>am_callbacks := am_callbacks m @ [c]\<rparr>"

definition get_alert_state :: "alert_type \<Rightarrow> alert_manager \<Rightarrow> bool" where
  "get_alert_state ty m = am_active m ty"

text \<open>\<open>xs[-limit:]\<close>: a limit of 0 selects everything, a negative one drops that many from the front.\<close>

definition get_alert_history :: "int \<Rightarrow> alert_manager \<Rightarrow> alert list" where
  "get_alert_history limit m =
     (if 0 < limit then drop (length (am_history m) - nat limit) (am_history m)
      else drop (nat (- limit)) (am_history m))"

definition reset :: "alert_manager \<Rightarrow> alert_manager" where
  "reset m = m\<lparr>am_active := (\<lambda>_. False), am_history := []\<rparr>"

section \<open>Histories of checks\<close>

datatype alert_call =
    QueueDepth rat int
  | MemoryPressure rat rat
  | Latency rat rat
  | Register nat

fun alert_step :: "formats \<Rightarrow> alert_call \<Rightarrow> alert_manager \<Rightarrow> alert option \<times> alert_manager" where
  "alert_step fm (QueueDepth now d) m = check_queue_depth now d m"
| "alert_step fm (MemoryPressure now p) m = check_memory_pressure fm now p m"
| "alert_step fm (Latency now l) m = check_latency fm now l m"
| "alert_step fm (Register c) m = (None, register_callback c m)"

text \<open>The alerts the calls returned, oldest first, and the manager afterwards.\<close>

fun alert_run :: "formats \<Rightarrow> alert_call list \<Rightarrow> alert_manager \<Rightarrow> alert list \<times> alert_manager" where
  "alert_run fm [] m = ([], m)"
| "alert_run fm (c # cs) m =
     (let (a, n) = alert_step fm c m; (as, k) = alert_run fm cs n
      in ((case a of None \<Rightarrow> as | Some x \<Rightarrow> x # as), k))"

definition last_of :: "nat \<Rightarrow> 'a list \<Rightarrow> 'a list" where
  "last_of n xs = drop (length xs - n) xs"

text \<open>What one check does, in every case.\<close>

lemma check_cases:
  obtains "check now ty v threshold level messages m = (None, m)" "(threshold < v) = am_active m ty"
  | a n where "check now ty v threshold level messages m = (Some a, n)"
      "al_type a = ty" "al_resolved a = am_active m ty" "al_resolved a \<longleftrightarrow> \<not> al_threshold a < al_value a"
      "am_active n = (am_active m)(ty := \<not> am_active m ty)" "am_history n = last_of max_history (am_history m @ [a])"
proof (cases "(threshold < v) = am_active m ty")
  case True
  then show ?thesis using that(1) by (auto simp: check_def)
next
  case False
  show ?thesis
    by (rule that(2) [of "the (fst (check now ty v threshold level messages m))" "snd (check now ty v threshold level messages m)"])
      (use False in \<open>auto simp: check_def Let_def trigger_callbacks_def record_alert_def last_of_def\<close>)
qed

lemma alert_step_cases:
  obtains n where "alert_step fm c m = (None, n)" "am_active n = am_active m" "am_history n = am_history m"
  | a n where "alert_step fm c m = (Some a, n)" "al_resolved a = am_active m (al_type a)"
      "al_resolved a \<longleftrightarrow> \<not> al_threshold a < al_value a"
      "am_active n = (am_active m)(al_type a := \<not> am_active m (al_type a))"
      "am_history n = last_of max_history (am_history m @ [a])"
proof (cases "\<exists>i. c = Register i")
  case True
  then show ?thesis using that(1) by (auto simp: register_callback_def)
next
  case False
  then obtain now ty v threshold level messages where
    c: "alert_step fm c m = check now ty v threshold level messages m"
    by (cases c) (auto simp: check_queue_depth_def check_memory_pressure_def check_latency_def)
  show ?thesis
    by (rule check_cases [of now ty v threshold level messages m]) (use that c in metis)+
qed

text \<open>\<open>alternating b xs\<close>: the alerts are a recovery first exactly when \<open>b\<close>, and then change each time.\<close>

fun alternating :: "bool \<Rightarrow> alert list \<Rightarrow> bool" where
  "alternating b [] = True"
| "alternating b (a # as) = (al_resolved a = b \<and> alternating (\<not> b) as)"

definition of_type :: "alert_type \<Rightarrow> alert list \<Rightarrow> alert list" where
  "of_type ty as = filter (\<lambda>a. al_type a = ty) as"

lemma last_of_last_of: "last_of n (last_of n xs @ [x]) = last_of n (xs @ [x])"
  by (cases "length xs \<le> n") (auto simp: last_of_def Suc_diff_le)

lemma alert_run_history:
  "am_history m = last_of max_history before \<Longrightarrow> am_history (snd (alert_run fm cs m)) = last_of max_history (before @ fst (alert_run fm cs m))"
proof (induction cs arbitrary: m before)
  case (Cons c cs)
  obtain r n where step: "alert_step fm c m = (r, n)" by fastforce
  show ?case
  proof (cases r)
    case None
    with step have "am_history n = am_history m" by (rule_tac alert_step_cases [of fm c m]) auto
    with Cons.IH [of n before] Cons.prems step None show ?thesis by (simp add: Let_def split: prod.splits)
  next
    case (Some a)
    with step have "am_history n = last_of max_history (am_history m @ [a])" by (rule_tac alert_step_cases [of fm c m]) auto
    then have "am_history n = last_of max_history (before @ [a])" using Cons.prems by (simp add: last_of_last_of)
    from Cons.IH [OF this] step Some show ?thesis by (auto simp: Let_def split: prod.splits)
  qed
qed simp

lemma alert_run_alternates:
  "alternating (am_active m ty) (of_type ty (fst (alert_run fm cs m)))
   \<and> am_active (snd (alert_run fm cs m)) ty = (am_active m ty \<noteq> odd (length (of_type ty (fst (alert_run fm cs m)))))"
proof (induction cs arbitrary: m)
  case (Cons c cs)
  obtain r n where step: "alert_step fm c m = (r, n)" by fastforce
  show ?case
  proof (cases r)
    case None
    with step have "am_active n = am_active m" by (rule_tac alert_step_cases [of fm c m]) auto
    with Cons.IH [of n] step None show ?thesis by (simp add: Let_def split: prod.splits)
  next
    case (Some a)
    with step have "al_resolved a = am_active m (al_type a)" "am_active n = (am_active m)(al_type a := \<not> am_active m (al_type a))"
      by (rule_tac alert_step_cases [of fm c m]; auto)+
    with Cons.IH [of n] step Some show ?thesis by (auto simp: of_type_def Let_def split: prod.splits)
  qed
qed (simp add: of_type_def)

lemma alert_run_justified:
  "list_all (\<lambda>a. al_resolved a \<longleftrightarrow> \<not> al_threshold a < al_value a) (fst (alert_run fm cs m))"
proof (induction cs arbitrary: m)
  case (Cons c cs)
  obtain r n where step: "alert_step fm c m = (r, n)" by fastforce
  have "list_all (\<lambda>a. al_resolved a \<longleftrightarrow> \<not> al_threshold a < al_value a) (case r of None \<Rightarrow> [] | Some a \<Rightarrow> [a])"
    using step by (rule_tac alert_step_cases [of fm c m]) auto
  with Cons.IH [of n] step show ?case by (cases r) (auto simp: Let_def split: prod.splits)
qed simp

text \<open>Over every sequence of checks of a new manager: the alerts of each type alternate, a crossing of the
  threshold first, then a recovery; each states a value on its side of the threshold; the type is active
  exactly after an odd number of them; and the history is the last 1000 alerts raised. Asked for at most
  none of them, it returns them all.\<close>

theorem alerts_alternate:
  "alternating False (of_type ty (fst (alert_run fm cs (alert_manager_init qt mt lt))))
   \<and> list_all (\<lambda>a. al_resolved a \<longleftrightarrow> \<not> al_threshold a < al_value a) (fst (alert_run fm cs (alert_manager_init qt mt lt)))
   \<and> get_alert_state ty (snd (alert_run fm cs (alert_manager_init qt mt lt)))
       = odd (length (of_type ty (fst (alert_run fm cs (alert_manager_init qt mt lt)))))
   \<and> am_history (snd (alert_run fm cs (alert_manager_init qt mt lt)))
       = last_of 1000 (fst (alert_run fm cs (alert_manager_init qt mt lt)))
   \<and> get_alert_history 0 m = am_history m"
proof -
  let ?m = "alert_manager_init qt mt lt"
  have "am_history ?m = last_of max_history []" by (simp add: alert_manager_init_def last_of_def)
  from alert_run_history [OF this] have "am_history (snd (alert_run fm cs ?m)) = last_of 1000 (fst (alert_run fm cs ?m))"
    by (simp add: max_history_def)
  moreover have "am_active ?m ty = False" by (simp add: alert_manager_init_def)
  ultimately show ?thesis
    using alert_run_alternates [of ?m ty fm cs] alert_run_justified [of fm cs ?m]
    by (simp add: get_alert_state_def get_alert_history_def)
qed

end
