(* ===== verification/Cli.thy ===== *)
theory Cli
  imports Package_Admission Store
begin

text \<open>
  The controller command (\<open>cyrene_reactor_product/cli.py\<close>): reading the configuration, building the engines
  of the bindings, the package-binding command with everything it prints and sends, the deployment list,
  and the rule that decides whether a listener may start. The two constructors of engines, the files, the
  environment and the transport are parameters; the remaining commands are in \<open>Cli_Main\<close>. What is printed is kept as the JSON document.
\<close>

section \<open>Configuration and engines\<close>

definition configuration :: "json option \<Rightarrow> dict res" where
  "configuration document = (case document of
     None \<Rightarrow> Inl (ValueError ''JSONDecodeError'')
   | Some (JObj d) \<Rightarrow> Inr d
   | Some _ \<Rightarrow> Inl (ValueError ''REACTOR_CONFIG_INVALID: expected a JSON object''))"

text \<open>A dictionary keeps the place of a key's first value and the last value.\<close>

fun dict_put :: "string \<Rightarrow> 'p \<Rightarrow> (string \<times> 'p) list \<Rightarrow> (string \<times> 'p) list" where
  "dict_put k v [] = [(k, v)]"
| "dict_put k v ((j, u) # r) = (if j = k then (k, v) # r else (j, u) # dict_put k v r)"

fun map_res :: "('a \<Rightarrow> 'b res) \<Rightarrow> 'a list \<Rightarrow> 'b list res" where
  "map_res f [] = Inr []"
| "map_res f (x # xs) = resB (f x) (\<lambda>y. resB (map_res f xs) (\<lambda>ys. Inr (y # ys)))"

fun add_packages ::
    "(string \<Rightarrow> json \<Rightarrow> 'p res) \<Rightarrow> dict \<Rightarrow> (string \<times> 'p) list \<Rightarrow> (string \<times> 'p) list res" where
  "add_packages package [] es = Inr es"
| "add_packages package ((k, v) # rest) es =
     (if k \<in> set (map fst es) then Inl (ValueError ''REACTOR_PACKAGE_RUNTIME_BINDING_DUPLICATE'')
      else resB (package k v) (\<lambda>p. add_packages package rest (es @ [(k, p)])))"

text \<open>\<open>_engines\<close>: \<open>static\<close> validates an entry and gives its binding id and port; \<open>package\<close> admits a package
  binding.\<close>

definition engines ::
    "(json \<Rightarrow> (string \<times> 'p) res) \<Rightarrow> (string \<Rightarrow> json \<Rightarrow> 'p res) \<Rightarrow> dict \<Rightarrow> (string \<times> 'p) list res" where
  "engines static package config =
     resB (case dict_get config ''serving_bindings'' of
             None \<Rightarrow> Inr []
           | Some (JArr vs) \<Rightarrow> map_res static vs
           | Some _ \<Rightarrow> Inl (TypeError ''not a list'')) (\<lambda>bindings.
     let es = foldl (\<lambda>m e. dict_put (fst e) (snd e) m) [] bindings in
     case dict_get config ''package_runtime_bindings'' of
       None \<Rightarrow> Inr es
     | Some (JObj d) \<Rightarrow>
         (if d = [] then Inl (ValueError ''REACTOR_PACKAGE_RUNTIME_BINDINGS_INVALID'') else add_packages package d es)
     | Some _ \<Rightarrow> Inl (ValueError ''REACTOR_PACKAGE_RUNTIME_BINDINGS_INVALID''))"

text \<open>\<open>_service\<close>: the engines and the one used by default.\<close>

definition service_engines ::
    "(json \<Rightarrow> (string \<times> 'p) res) \<Rightarrow> (string \<Rightarrow> json \<Rightarrow> 'p res) \<Rightarrow> dict \<Rightarrow> ((string \<times> 'p) list \<times> 'p) res" where
  "service_engines static package config =
     resB (engines static package config) (\<lambda>es. case es of
       [] \<Rightarrow> Inl (ValueError ''REACTOR_CONFIG_INVALID: at least one serving binding is required'')
     | e # _ \<Rightarrow> Inr (es, snd e))"

section \<open>The listener\<close>

definition truthy_flag :: "string option \<Rightarrow> bool" where
  "truthy_flag v \<longleftrightarrow> lower (case v of None \<Rightarrow> [] | Some t \<Rightarrow> t) \<in> {''1'', ''true'', ''yes''}"

definition listener_allowed :: "(string \<Rightarrow> string option) \<Rightarrow> string \<Rightarrow> bool \<Rightarrow> bool \<Rightarrow> bool" where
  "listener_allowed env host_name certificate key \<longleftrightarrow>
     truthy_flag (env ''CYRENE_INSECURE_HTTP'') \<or> truthy_flag (env ''REACTOR_ALLOW_INSECURE'')
     \<or> host_name \<in> {''127.0.0.1'', ''localhost'', ''::1''} \<or> (certificate \<and> key)"

section \<open>The deployment list\<close>

fun desired_value :: "desired_state \<Rightarrow> string" where
  "desired_value DS_ACTIVE = ''ACTIVE''"
| "desired_value DS_STOPPED = ''STOPPED''"

fun observed_value :: "observed_state \<Rightarrow> string" where
  "observed_value OS_STARTING = ''STARTING''"
| "observed_value OS_READY = ''READY''"
| "observed_value OS_DEGRADED = ''DEGRADED''"
| "observed_value OS_FAILED = ''FAILED''"
| "observed_value OS_STOPPING = ''STOPPING''"
| "observed_value OS_STOPPED = ''STOPPED''"

definition deployment_row :: "deployment \<Rightarrow> json" where
  "deployment_row d = JObj
     [(''id'', JStr (dp_id d)), (''desiredState'', JStr (desired_value (dp_desired_state d))),
      (''observedState'', JStr (observed_value (dp_observed_state d))),
      (''servingBindingId'', JStr (dp_serving_binding_id d)),
      (''endpointId'', case dp_endpoint_id d of None \<Rightarrow> JNull | Some e \<Rightarrow> if e = [] then JNull else JStr e)]"

definition deployment_list :: "store \<Rightarrow> json" where
  "deployment_list s = JObj [(''object'', JStr ''list''), (''data'', JArr (map deployment_row (list_deployments s)))]"

section \<open>The package-binding command\<close>

record cli_request =
  cr_method :: string
  cr_url :: string
  cr_token :: string
  cr_idempotency_key :: "string option"
  cr_body :: "json option"

datatype cli_event = Printed json | Requested cli_request

datatype cli_end = ExitCode int | SystemExit string | CliRaises exn

text \<open>The surroundings: \<open>cc_credential\<close> reads the text and the mode bits of a file; \<open>cc_send\<close> is the transport.\<close>

record cli_host =
  cc_binding_id :: "string option"
  cc_uuid :: string
  cc_credential :: "string \<Rightarrow> exn + string \<times> nat"
  cc_send :: "cli_request \<Rightarrow> http_reply"

definition SAFE_KEYS :: "string list" where
  "SAFE_KEYS = [''bindingId'', ''requestId'', ''installationId'', ''phase'', ''blocked'', ''runtimeState'', ''code'']"

fun is_scalar :: "json \<Rightarrow> bool" where
  "is_scalar (JArr vs) = False"
| "is_scalar (JObj d) = False"
| "is_scalar _ = True"

definition safe_payload :: "json \<Rightarrow> json" where
  "safe_payload payload = (case payload of
     JObj d \<Rightarrow> JObj (List.map_filter (\<lambda>k. case dict_get d k of
        Some v \<Rightarrow> if is_scalar v then Some (k, v) else None | None \<Rightarrow> None) SAFE_KEYS)
   | _ \<Rightarrow> JObj [(''code'', JStr ''REACTOR_API_RESPONSE_INVALID'')])"

definition read_token :: "cli_host \<Rightarrow> dict \<Rightarrow> cli_end + string" where
  "read_token h config = (case dict_get config ''credential_file'' of
     Some (JStr path) \<Rightarrow> (case cc_credential h path of
         Inl x \<Rightarrow> Inl (CliRaises x)
       | Inr (text, mode) \<Rightarrow>
           (let token = strip text in
            if int (length token) < 32 \<or> mode mod 64 \<noteq> 0
            then Inl (SystemExit ''REACTOR_CONTROL_AUTH_UNAVAILABLE'') else Inr token))
   | Some _ \<Rightarrow> Inl (CliRaises (TypeError ''not a path''))
   | None \<Rightarrow> Inl (CliRaises (KeyError ''credential_file'')))"

definition send_command :: "cli_host \<Rightarrow> string \<Rightarrow> cli_request \<Rightarrow> cli_event list \<times> cli_end" where
  "send_command h request_id q = (case cc_send h q of
     TransportError \<Rightarrow>
       ([Requested q, Printed (JObj [(''requestId'', JStr request_id), (''phase'', JStr ''UNKNOWN''), (''code'', JStr ''REACTOR_API_UNAVAILABLE'')])],
        ExitCode 2)
   | Reply status_code body \<Rightarrow>
       ([Requested q, Printed (safe_payload (case body of
            None \<Rightarrow> JObj [(''code'', JStr ''REACTOR_API_RESPONSE_INVALID'')] | Some v \<Rightarrow> v))],
        ExitCode (if 200 \<le> status_code \<and> status_code < 300 then 0 else 2)))"

text \<open>\<open>_package_binding\<close>: what it prints and sends, in order, and how it ends. The argument parser admits the
  commands activate, reconcile and status.\<close>

definition package_binding ::
    "cli_host \<Rightarrow> dict \<Rightarrow> string \<Rightarrow> string option \<Rightarrow> string option \<Rightarrow> cli_event list \<times> cli_end" where
  "package_binding h config command given_request installation =
     (let binding_id = strip (case cc_binding_id h of None \<Rightarrow> [] | Some b \<Rightarrow> b) in
      if \<not> binding_id_ok binding_id then ([], SystemExit ''PACKAGE_RUNTIME_BINDING_NOT_CONFIGURED'')
      else let request_id = (case given_request of None \<Rightarrow> cc_uuid h | Some r \<Rightarrow> if r = [] then cc_uuid h else r);
               base_url = rstrip_char (CHR ''/'') (case dict_get config ''control_url'' of
                  None \<Rightarrow> ''http://127.0.0.1:19300'' | Some v \<Rightarrow> py_str v)
        in case read_token h config of
          Inl e \<Rightarrow> ([], e)
        | Inr token \<Rightarrow>
            (let url = base_url @ ''/api/v1/runtime-bindings/'' @ binding_id in
             if command = ''status''
             then send_command h request_id
                    \<lparr>cr_method = ''GET'', cr_url = url, cr_token = token, cr_idempotency_key = None, cr_body = None\<rparr>
             else if command = ''activate'' \<and> (case installation of None \<Rightarrow> True | Some i \<Rightarrow> i = [])
             then ([], SystemExit ''PACKAGE_RUNTIME_INSTALLATION_ID_REQUIRED'')
             else let q = \<lparr>cr_method = ''POST'', cr_url = url @ ''/actions/'' @ command, cr_token = token,
                            cr_idempotency_key = Some request_id,
                            cr_body = (if command = ''activate''
                              then map_option (\<lambda>i. JObj [(''installationId'', JStr i)]) installation else None)\<rparr>;
                      (events, e) = send_command h request_id q
                  in (Printed (JObj [(''requestId'', JStr request_id)]) # events, e)))"

section \<open>What the command discloses\<close>

fun requests :: "cli_event list \<Rightarrow> cli_request list" where
  "requests [] = []"
| "requests (Requested q # es) = q # requests es"
| "requests (Printed v # es) = requests es"

fun disclosable :: "json \<Rightarrow> bool" where
  "disclosable (JObj d) = list_all (\<lambda>e. fst e \<in> set SAFE_KEYS \<and> is_scalar (snd e)) d"
| "disclosable _ = False"

fun prints_safely :: "cli_event \<Rightarrow> bool" where
  "prints_safely (Printed v) = disclosable v"
| "prints_safely (Requested q) = True"

lemma disclosable_filter:
  "list_all (\<lambda>e. fst e \<in> set ks \<and> is_scalar (snd e))
     (List.map_filter (\<lambda>k. case dict_get d k of Some v \<Rightarrow> if is_scalar v then Some (k, v) else None | None \<Rightarrow> None) ks)"
  by (auto simp: list_all_iff map_filter_def split: option.splits if_splits)

lemma safe_keys: "''code'' \<in> set SAFE_KEYS" "''requestId'' \<in> set SAFE_KEYS" "''phase'' \<in> set SAFE_KEYS"
  by (simp_all add: SAFE_KEYS_def)

lemma safe_payload_disclosable: "disclosable (safe_payload v)"
  by (cases v) (simp_all add: safe_payload_def disclosable_filter safe_keys)

lemma send_command_shape:
  obtains v c where "send_command h r q = ([Requested q, Printed v], ExitCode c)" "disclosable v"
    "c = 0 \<longleftrightarrow> (\<exists>s b. cc_send h q = Reply s b \<and> 200 \<le> s \<and> s < 300)"
proof (cases "cc_send h q")
  case TransportError
  then show ?thesis using that [of _ 2] by (simp add: send_command_def safe_keys)
next
  case (Reply s b)
  show ?thesis
    by (rule that [of "safe_payload (case b of None \<Rightarrow> JObj [(''code'', JStr ''REACTOR_API_RESPONSE_INVALID'')] | Some v \<Rightarrow> v)"
          "if 200 \<le> s \<and> s < 300 then 0 else 2"])
      (simp_all only: send_command_def Reply http_reply.case safe_payload_disclosable, simp)
qed

text \<open>The request a run may send, under the conditions the command checks first.\<close>

definition command_request_ok :: "cli_host \<Rightarrow> dict \<Rightarrow> string \<Rightarrow> string option \<Rightarrow> cli_event list \<Rightarrow> cli_request \<Rightarrow> bool" where
  "command_request_ok h config command installation events q \<longleftrightarrow>
     binding_id_ok (strip (case cc_binding_id h of None \<Rightarrow> [] | Some b \<Rightarrow> b))
   \<and> read_token h config = Inr (cr_token q) \<and> 32 \<le> length (cr_token q)
   \<and> (if command = ''status'' then cr_method q = ''GET'' \<and> cr_idempotency_key q = None \<and> cr_body q = None
      else cr_method q = ''POST''
        \<and> (\<exists>r. cr_idempotency_key q = Some r \<and> hd events = Printed (JObj [(''requestId'', JStr r)]))
        \<and> (command \<noteq> ''activate'' \<or> (\<exists>i. i \<noteq> [] \<and> cr_body q = Some (JObj [(''installationId'', JStr i)]))))"

lemma read_token_ends: "read_token h config = Inl e \<Longrightarrow> \<exists>t x. e = SystemExit t \<or> e = CliRaises x"
  by (auto simp: read_token_def Let_def split: option.splits json.splits sum.splits prod.splits if_splits)

lemma read_token_long: "read_token h config = Inr token \<Longrightarrow> 32 \<le> length token"
  by (auto simp: read_token_def Let_def split: option.splits json.splits sum.splits prod.splits if_splits)

text \<open>A run is refused before anything is printed or sent, or sends one request, after its id when it mutates.\<close>

lemma package_binding_shape:
  obtains (refused) e where "package_binding h config command given installation = ([], e)"
      "\<exists>t x. e = SystemExit t \<or> e = CliRaises x"
  | (sent) q r where "binding_id_ok (strip (case cc_binding_id h of None \<Rightarrow> [] | Some b \<Rightarrow> b))"
      "read_token h config = Inr (cr_token q)"
      "package_binding h config command given installation = (case send_command h r q of (events, e) \<Rightarrow>
         ((if command = ''status'' then [] else [Printed (JObj [(''requestId'', JStr r)])]) @ events, e))"
      "if command = ''status'' then cr_method q = ''GET'' \<and> cr_idempotency_key q = None \<and> cr_body q = None
       else cr_method q = ''POST'' \<and> cr_idempotency_key q = Some r
         \<and> (command \<noteq> ''activate'' \<or> (\<exists>i. i \<noteq> [] \<and> cr_body q = Some (JObj [(''installationId'', JStr i)])))"
proof -
  let ?b = "strip (case cc_binding_id h of None \<Rightarrow> [] | Some b \<Rightarrow> b)"
  let ?r = "case given of None \<Rightarrow> cc_uuid h | Some r \<Rightarrow> if r = [] then cc_uuid h else r"
  let ?url = "rstrip_char (CHR ''/'') (case dict_get config ''control_url'' of
      None \<Rightarrow> ''http://127.0.0.1:19300'' | Some v \<Rightarrow> py_str v) @ ''/api/v1/runtime-bindings/'' @ ?b"
  consider (nobinding) "\<not> binding_id_ok ?b" | (notoken) e where "binding_id_ok ?b" "read_token h config = Inl e"
    | (ready) token where "binding_id_ok ?b" "read_token h config = Inr token" by (cases "read_token h config") auto
  then show thesis
  proof cases
    case nobinding
    then show ?thesis by (intro refused) (auto simp: package_binding_def Let_def)
  next
    case (notoken e)
    then show ?thesis using read_token_ends [OF notoken(2)]
      by (intro refused [of e]) (auto simp: package_binding_def Let_def)
  next
    case (ready token)
    consider "command = ''status''" | "command = ''activate''" "case installation of None \<Rightarrow> True | Some i \<Rightarrow> i = []"
      | i where "command = ''activate''" "installation = Some i" "i \<noteq> []"
      | "command \<noteq> ''status''" "command \<noteq> ''activate''" by (cases installation) auto
    then show ?thesis
    proof cases
      case 1
      with ready show ?thesis
        by (intro sent [of "\<lparr>cr_method = ''GET'', cr_url = ?url, cr_token = token, cr_idempotency_key = None,
              cr_body = None\<rparr>" ?r]) (simp_all add: package_binding_def Let_def)
    next
      case 2
      with ready show ?thesis by (intro refused) (auto simp: package_binding_def Let_def)
    next
      case (3 i)
      with ready show ?thesis
        by (intro sent [of "\<lparr>cr_method = ''POST'', cr_url = ?url @ ''/actions/'' @ command, cr_token = token,
              cr_idempotency_key = Some ?r, cr_body = Some (JObj [(''installationId'', JStr i)])\<rparr>" ?r])
          (simp_all add: package_binding_def Let_def)
    next
      case 4
      with ready show ?thesis
        by (intro sent [of "\<lparr>cr_method = ''POST'', cr_url = ?url @ ''/actions/'' @ command, cr_token = token,
              cr_idempotency_key = Some ?r, cr_body = None\<rparr>" ?r]) (simp_all add: package_binding_def Let_def)
    qed
  qed
qed

text \<open>C32: The package-binding command sends at most one request, and only with a configured binding id and a
  private token of 32 characters or more; a mutating request carries the request id printed before it, and
  an activation its installation. Every document printed consists of scalars under the seven disclosable
  keys, whatever the API answered, and the exit code is 0 exactly after a successful answer.\<close>

theorem package_binding_discloses_little:
  "case package_binding h config command given installation of (events, e) \<Rightarrow>
     list_all prints_safely events
   \<and> (requests events = [] \<and> (\<exists>t x. e = SystemExit t \<or> e = CliRaises x)
      \<or> (\<exists>q. requests events = [q] \<and> command_request_ok h config command installation events q
           \<and> (e = ExitCode 0 \<longleftrightarrow> (\<exists>s b. cc_send h q = Reply s b \<and> 200 \<le> s \<and> s < 300))))"
proof (cases rule: package_binding_shape [of h config command given installation])
  case (refused e)
  then show ?thesis by auto
next
  case (sent q r)
  obtain v c where "send_command h r q = ([Requested q, Printed v], ExitCode c)" "disclosable v"
    "c = 0 \<longleftrightarrow> (\<exists>s b. cc_send h q = Reply s b \<and> 200 \<le> s \<and> s < 300)"
    by (rule send_command_shape)
  then show ?thesis using sent read_token_long [OF sent(2)]
    by (simp add: command_request_ok_def safe_keys split: if_splits)
qed

end
