(* ===== verification/Cli_Main.thy ===== *)
theory Cli_Main
  imports Cli Api_Properties
begin

text \<open>
  The controller's \<open>main\<close> (\<open>cyrene_reactor_product/cli.py\<close>): each command with its parsed arguments, what it
  changes, prints and returns, and the application the control command serves. Files are a map from paths to
  their text and mode bits; the configuration's document, the environment, the constructors of engines and
  receivers, and the parts of \<open>create_app\<close> from outside the repository are parameters. The argument parser and
  uvicorn are not modelled: a served application is a result.
\<close>

section \<open>Commands\<close>

datatype cli_command =
    InitSecrets
  | PackageBinding string "string option" "string option"
  | DeploymentList
  | DeploymentStop uuid
  | Control string int "string option" "string option"

type_synonym files = "string \<Rightarrow> (string \<times> nat) option"

text \<open>The token file is created exclusively, readable by its owner only (0600).\<close>

definition init_secrets :: "string \<Rightarrow> string \<Rightarrow> files \<Rightarrow> unit res \<times> files" where
  "init_secrets config token files =
     (let path = config @ ''/control.token''
      in case files path of
           Some f \<Rightarrow> (Inl (PyException ''FileExistsError'' path None), files)
         | None \<Rightarrow> (Inr (), files(path \<mapsto> (token, 384))))"

definition deployment_stop :: "'e env \<Rightarrow> uuid \<Rightarrow> 'e world \<Rightarrow> (cli_event list \<times> cli_end) \<times> 'e world" where
  "deployment_stop env i w =
     (case stop_deployment env i w of
        (Inl x, w') \<Rightarrow> (([], CliRaises x), w')
      | (Inr d, w') \<Rightarrow>
          (([Printed (JObj [(''id'', JStr (dp_id d)), (''observedState'', JStr (observed_value (dp_observed_state d)))])],
            ExitCode 0), w'))"

section \<open>Building the application\<close>

text \<open>What iterating a JSON value gives.\<close>

definition iterated :: "json \<Rightarrow> json list res" where
  "iterated v = (case v of
     JArr vs \<Rightarrow> Inr vs
   | JObj d \<Rightarrow> Inr (map (\<lambda>e. JStr (fst e)) d)
   | JStr s \<Rightarrow> Inr (map (\<lambda>c. JStr [c]) s)
   | _ \<Rightarrow> Inl (TypeError ''object is not iterable''))"

record 'e controller =
  ct_cli :: cli_host
  ct_document :: "json option"
  ct_getenv :: "string \<Rightarrow> string option"
  ct_static :: "json \<Rightarrow> (string \<times> 'e engine \<times> 'e remote option) res"
  ct_package :: "string \<Rightarrow> json \<Rightarrow> ('e engine \<times> 'e remote option) res"
  ct_receiver :: "string \<Rightarrow> json \<Rightarrow> (string \<times> 'e receiver) res"
  ct_env :: "'e env"
  ct_loads :: "string \<Rightarrow> json option"
  ct_sha256 :: "string \<Rightarrow> nat list"
  ct_owner :: "owner option res"
  ct_dump_draft :: "resource_ref \<Rightarrow> dict \<Rightarrow> string"

definition required_item :: "dict \<Rightarrow> string \<Rightarrow> json res" where
  "required_item d k = (case dict_get d k of None \<Rightarrow> Inl (KeyError k) | Some v \<Rightarrow> Inr v)"

definition required_path :: "dict \<Rightarrow> string \<Rightarrow> string res" where
  "required_path d k = resB (required_item d k) (\<lambda>v. case v of JStr s \<Rightarrow> Inr s | _ \<Rightarrow> Inl (TypeError ''not a path''))"

text \<open>Every receiver reads \<open>public_base_url\<close>; without receivers it may be absent.\<close>

definition exchange_receivers :: "'e controller \<Rightarrow> dict \<Rightarrow> (string \<times> 'e receiver) list res" where
  "exchange_receivers h config =
     resB (case dict_get config ''exchange_receivers'' of None \<Rightarrow> Inr [] | Some v \<Rightarrow> iterated v) (\<lambda>items.
     resB (map_res (\<lambda>item. resB (required_path config ''public_base_url'') (\<lambda>url. ct_receiver h url item)) items) (\<lambda>rs.
     Inr (foldl (\<lambda>m e. dict_put (fst e) (snd e) m) [] rs)))"

definition controller_env :: "'e controller \<Rightarrow> 'e engine \<Rightarrow> (string \<times> 'e engine \<times> 'e remote option) list \<Rightarrow> 'e env" where
  "controller_env h engine es = (ct_env h)\<lparr>rx_engine := engine, rx_engines := Some (map (\<lambda>(b, e, r). (b, e)) es),
     rx_workspace_grants := []\<rparr>"

text \<open>The operator's maps are checked before the credential file is read.\<close>

definition control_app :: "'e controller \<Rightarrow> files \<Rightarrow> dict \<Rightarrow> 'e app res" where
  "control_app h files config =
     resB (engines (ct_static h) (ct_package h) config) (\<lambda>es.
     resB (required_path config ''database_path'') (\<lambda>database.
     resB (required_path config ''credential_file'') (\<lambda>credential.
     resB (exchange_receivers h config) (\<lambda>receivers.
     let build = (\<lambda>credential_file. create_app (ct_loads h) (ct_sha256 h)
           (controller_env h UnconfiguredServingExecutionPort es) (map (\<lambda>(b, e, r). (b, r)) es) credential_file
           (ct_getenv h ''REACTOR_WORKSPACE_CREDENTIAL_MAP'') (ct_getenv h ''REACTOR_WORKSPACE_SERVING_BINDING_GRANTS'')
           False receivers (ct_owner h) (ct_dump_draft h))
     in resB (build None) (\<lambda>_.
        case files credential of
          None \<Rightarrow> Inl (PyException ''FileNotFoundError'' credential None)
        | Some file \<Rightarrow> build (Some file))))))"

section \<open>\<open>main\<close>\<close>

datatype 'e main_end =
    Ended "cli_event list" cli_end
  | Initialised
  | Serving "'e app" string int "string option" "string option"

fun configured_main :: "'e controller \<Rightarrow> files \<Rightarrow> dict \<Rightarrow> cli_command \<Rightarrow> 'e world \<Rightarrow> 'e main_end \<times> 'e world" where
  "configured_main h files config (PackageBinding command request installation) w =
     (case package_binding (ct_cli h) config command request installation of (events, e) \<Rightarrow> (Ended events e, w))"
| "configured_main h files config DeploymentList w =
     (case required_path config ''database_path'' of
        Inl x \<Rightarrow> (Ended [] (CliRaises x), w)
      | Inr database \<Rightarrow> (Ended [Printed (deployment_list (w_store w))] (ExitCode 0), w))"
| "configured_main h files config (DeploymentStop i) w =
     (case resB (service_engines (ct_static h) (ct_package h) config) (\<lambda>es.
             resB (required_path config ''database_path'') (\<lambda>database. Inr es)) of
        Inl x \<Rightarrow> (Ended [] (CliRaises x), w)
      | Inr (es, first) \<Rightarrow>
          (case deployment_stop (controller_env h (fst first) es) i w of
             ((events, e), w') \<Rightarrow> (Ended events e, w')))"
| "configured_main h files config (Control address port certificate key) w =
     (if \<not> listener_allowed (ct_getenv h) address (certificate \<noteq> None) (key \<noteq> None)
      then (Ended [] (SystemExit ''Remote listeners require TLS; a loopback SSH tunnel is also supported''), w)
      else case control_app h files config of
        Inl x \<Rightarrow> (Ended [] (CliRaises x), w)
      | Inr a \<Rightarrow> (Serving a address port certificate key, w))"
| "configured_main h files config InitSecrets w = (Initialised, w)"

text \<open>\<open>config\<close> is the path of the configuration, a directory for \<open>init-secrets\<close>; \<open>token\<close> the random credential.\<close>

definition controller_main ::
    "'e controller \<Rightarrow> string \<Rightarrow> string \<Rightarrow> cli_command \<Rightarrow> files \<Rightarrow> 'e world \<Rightarrow> 'e main_end \<times> files \<times> 'e world" where
  "controller_main h config token command files w =
     (if command = InitSecrets
      then (case init_secrets config token files of
              (Inl x, files') \<Rightarrow> (Ended [] (CliRaises x), files', w)
            | (Inr u, files') \<Rightarrow> (Initialised, files', w))
      else case configuration (ct_document h) of
        Inl x \<Rightarrow> (Ended [] (CliRaises x), files, w)
      | Inr d \<Rightarrow> (case configured_main h files d command w of (e, w') \<Rightarrow> (e, files, w')))"

section \<open>What a command may do\<close>

lemma create_app_token:
  assumes "create_app loads sha env remotes (Some f) raw grants dev receivers owner dump = Inr a"
  shows "\<exists>tok. ap_token a = Some tok \<and> 32 \<le> length tok \<and> ap_allow_unauthenticated_dev a = dev"
  using assms by (auto simp: create_app_def Let_def resB_Inr_iff split: sum.splits prod.splits if_splits)

lemma configured_main_Serving:
  "configured_main h files config c w = (Serving a address port certificate key, w') \<Longrightarrow>
     c = Control address port certificate key \<and> w' = w \<and> control_app h files config = Inr a
     \<and> listener_allowed (ct_getenv h) address (certificate \<noteq> None) (key \<noteq> None)"
  by (cases c) (auto split: sum.splits prod.splits if_splits)

lemma controller_main_Serving:
  assumes "controller_main h config token command files w = (Serving a address port certificate key, files', w')"
  shows "files' = files \<and> (\<exists>d. configured_main h files d command w = (Serving a address port certificate key, w'))"
proof (cases "command = InitSecrets")
  case True
  with assms show ?thesis
    by (cases "init_secrets config token files"; cases "fst (init_secrets config token files)")
      (auto simp: controller_main_def)
next
  case False
  with assms show ?thesis
    by (cases "configuration (ct_document h)") (auto simp: controller_main_def split: prod.splits)
qed

lemma control_app_created:
  assumes "control_app h files d = Inr a"
  obtains es credential receivers f where "files credential = Some f"
    "create_app (ct_loads h) (ct_sha256 h) (controller_env h UnconfiguredServingExecutionPort es)
      (map (\<lambda>(b, e, r). (b, r)) es) (Some f) (ct_getenv h ''REACTOR_WORKSPACE_CREDENTIAL_MAP'')
      (ct_getenv h ''REACTOR_WORKSPACE_SERVING_BINDING_GRANTS'') False receivers (ct_owner h) (ct_dump_draft h) = Inr a"
  using assms unfolding control_app_def Let_def resB_Inr_iff
  by (elim exE conjE) (split option.split_asm; simp)

text \<open>A credential that exists is never overwritten, and a new one is private; the command prints no secret,
  since it ends without a document.\<close>

theorem init_secrets_exclusive:
  "case init_secrets config token files of (r, files') \<Rightarrow>
     (\<forall>path. files path \<noteq> None \<longrightarrow> files' path = files path)
   \<and> (r = Inr () \<longleftrightarrow> files (config @ ''/control.token'') = None)
   \<and> (\<forall>path. files' path \<noteq> files path \<longrightarrow> path = config @ ''/control.token'' \<and> files' path = Some (token, 384))"
  by (auto simp: init_secrets_def Let_def split: option.splits)

text \<open>C33: What the control command serves is always protected: with a control token of 32 characters or more, so
  that every request outside the health probes needs a bearer, never in development mode, and on a remote
  address only with a certificate and a key or under an explicit permission. No other command serves.\<close>

theorem served_application_is_protected:
  assumes "controller_main h config token command files w = (Serving a address port certificate key, files', w')"
  shows "command = Control address port certificate key
    \<and> (\<exists>tok. ap_token a = Some tok \<and> 32 \<le> length tok) \<and> \<not> ap_allow_unauthenticated_dev a
    \<and> (authorize a q = Inr sc \<longrightarrow> health_path (rq_path q) \<or> (\<exists>tok. presents q tok))
    \<and> (address \<in> {''127.0.0.1'', ''localhost'', ''::1''} \<or> certificate \<noteq> None \<and> key \<noteq> None
       \<or> truthy_flag (ct_getenv h ''CYRENE_INSECURE_HTTP'') \<or> truthy_flag (ct_getenv h ''REACTOR_ALLOW_INSECURE''))
    \<and> files' = files \<and> w' = w"
proof -
  from controller_main_Serving [OF assms] obtain d where files: "files' = files"
    and main: "configured_main h files d command w = (Serving a address port certificate key, w')" by blast
  note served = configured_main_Serving [OF main]
  then have "control_app h files d = Inr a" by blast
  then obtain es credential receivers f where
    app: "create_app (ct_loads h) (ct_sha256 h) (controller_env h UnconfiguredServingExecutionPort es)
      (map (\<lambda>(b, e, r). (b, r)) es) (Some f) (ct_getenv h ''REACTOR_WORKSPACE_CREDENTIAL_MAP'')
      (ct_getenv h ''REACTOR_WORKSPACE_SERVING_BINDING_GRANTS'') False receivers (ct_owner h) (ct_dump_draft h) = Inr a"
    by (rule control_app_created)
  obtain tok where tok: "ap_token a = Some tok" "32 \<le> length tok" "\<not> ap_allow_unauthenticated_dev a"
    using create_app_token [OF app] by auto
  have "health_path (rq_path q) \<or> (\<exists>tok. presents q tok)" if "authorize a q = Inr sc"
  proof (cases sc)
    case (Some w)
    then show ?thesis using authorize_scope [OF app] that by blast
  next
    case None
    with that tok(1) show ?thesis
      by (auto simp: authorize_def health_path_def check_control_token_cases resB_Inr_iff
        split: if_splits sum.splits)
  qed
  then show ?thesis using served files tok by (auto simp: listener_allowed_def)
qed

text \<open>A controller on the loopback address, without bindings.\<close>

definition sample_controller :: "unit controller" where
  "sample_controller = \<lparr>ct_cli = \<lparr>cc_binding_id = None, cc_uuid = ''u0'', cc_credential = (\<lambda>path. Inl (KeyError path)),
       cc_send = (\<lambda>q. TransportError)\<rparr>,
     ct_document = Some (JObj [(''database_path'', JStr ''db''), (''credential_file'', JStr ''control.token'')]),
     ct_getenv = (\<lambda>name. None), ct_static = (\<lambda>v. Inl (KeyError ''binding'')),
     ct_package = (\<lambda>b v. Inl (KeyError b)), ct_receiver = (\<lambda>url v. Inl (KeyError url)),
     ct_env = sample_env import_engine, ct_loads = sample_loads ''gpu-1'', ct_sha256 = sample_digest,
     ct_owner = Inr None, ct_dump_draft = (\<lambda>r d. rr_id r)\<rparr>"

definition sample_control :: "unit main_end \<times> files \<times> unit world" where
  "sample_control = controller_main sample_controller ''config'' ''unused'' (Control ''127.0.0.1'' 19300 None None)
     (\<lambda>path. if path = ''control.token'' then Some (sample_token, 384) else None) (as_world empty_state)"

theorem served_application_is_protected_witness:
  "\<exists>a files' w' tok. sample_control = (Serving a ''127.0.0.1'' 19300 None None, files', w') \<and> ap_token a = Some tok
     \<and> 32 \<le> length tok \<and> \<not> isl (authorize a (workspace_request\<lparr>rq_path := ''/healthz''\<rparr>))"
proof -
  have "case fst sample_control of Serving a h p c k \<Rightarrow> h = ''127.0.0.1'' \<and> p = 19300 \<and> c = None \<and> k = None
      \<and> \<not> isl (authorize a (workspace_request\<lparr>rq_path := ''/healthz''\<rparr>)) | _ \<Rightarrow> False" by code_simp
  then obtain a where a: "fst sample_control = Serving a ''127.0.0.1'' 19300 None None"
    and admitted: "\<not> isl (authorize a (workspace_request\<lparr>rq_path := ''/healthz''\<rparr>))"
    by (auto split: main_end.splits)
  obtain files' w' where run: "sample_control = (Serving a ''127.0.0.1'' 19300 None None, files', w')"
    using a by (metis prod.collapse)
  from served_application_is_protected [OF run [unfolded sample_control_def], of workspace_request None]
  show ?thesis using run admitted by blast
qed

end
