(* ===== verification/Worker_Startup.thy ===== *)
theory Worker_Startup
  imports Grpc_Servicer
begin

text \<open>
  What the worker opens when it starts: the TLS configuration (\<open>cy_exec/utils/tls.py\<close>), the addresses both
  gRPC servers listen on (\<open>create_grpc_server\<close>, \<open>create_async_grpc_server\<close>), the health endpoint
  (\<open>cy_exec/health/health_server.py\<close>), and how the command line picks a model (\<open>cy_exec/main.py\<close>). Files,
  the platform and grpc's credentials are parameters; the order of the steps is in \<open>Worker_Main\<close>.
\<close>

section \<open>TLS\<close>

record tls_host =
  th_getenv :: "string \<Rightarrow> string option"
  th_is_file :: "string \<Rightarrow> bool"
  th_exists :: "string \<Rightarrow> bool"
  th_read :: "string \<Rightarrow> string"
  th_path_text :: "string \<Rightarrow> string"

text \<open>The credentials are made from these three texts by grpc.\<close>

record tls_config =
  tc_certificate_chain :: "string option"
  tc_private_key :: "string option"
  tc_root_certificates :: "string option"

definition tls_candidates :: "(string \<times> string) list" where
  "tls_candidates =
     [(''./certs/fullchain.pem'', ''./certs/privkey.pem''),
      (''./certs/server.crt'', ''./certs/server.key''),
      (''/etc/cy-llm/certs/fullchain.pem'', ''/etc/cy-llm/certs/privkey.pem''),
      (''/etc/ssl/certs/server.crt'', ''/etc/ssl/private/server.key'')]"

definition resolve_grpc_tls_paths :: "tls_host \<Rightarrow> string option \<times> string option \<times> string option" where
  "resolve_grpc_tls_paths h =
     (let cert = th_getenv h ''CY_LLM_GRPC_TLS_CERT''; key = th_getenv h ''CY_LLM_GRPC_TLS_KEY'';
          ca = th_getenv h ''CY_LLM_GRPC_TLS_CA''
      in if truthy_str cert \<and> truthy_str key then (cert, key, ca)
         else case find (\<lambda>c. th_is_file h (fst c) \<and> th_is_file h (snd c)) tls_candidates of
           Some c \<Rightarrow> (Some (fst c), Some (snd c), ca)
         | None \<Rightarrow> (None, None, ca))"

definition read_tls_file :: "tls_host \<Rightarrow> string option \<Rightarrow> string option res" where
  "read_tls_file h path = (case path of
     None \<Rightarrow> Inr None
   | Some p \<Rightarrow>
       (if p = [] then Inr None
        else if \<not> th_exists h p
        then Inl (PyException ''FileNotFoundError'' (''TLS file not found: '' @ th_path_text h p) None)
        else Inr (Some (th_read h p))))"

definition is_insecure_grpc_allowed :: "tls_host \<Rightarrow> bool" where
  "is_insecure_grpc_allowed h \<longleftrightarrow>
     strip (lower (case th_getenv h ''CY_LLM_ENV'' of None \<Rightarrow> ''development'' | Some v \<Rightarrow> v)) \<noteq> ''production''
     \<or> strip (lower (case th_getenv h ''CY_LLM_ALLOW_INSECURE_GRPC'' of None \<Rightarrow> ''false'' | Some v \<Rightarrow> v))
         \<in> {''1'', ''true'', ''yes''}"

definition load_grpc_tls_config :: "tls_host \<Rightarrow> tls_config option res" where
  "load_grpc_tls_config h =
     (let (cert, key, ca) = resolve_grpc_tls_paths h
      in if \<not> truthy_str cert \<or> \<not> truthy_str key
         then (if is_insecure_grpc_allowed h then Inr None
               else Inl (PyException ''RuntimeError'' ''gRPC TLS cert/key is required in production'' None))
         else resB (read_tls_file h cert) (\<lambda>chain.
              resB (read_tls_file h key) (\<lambda>private.
              resB (if truthy_str ca then read_tls_file h ca else Inr None) (\<lambda>root.
              Inr (Some \<lparr>tc_certificate_chain = chain, tc_private_key = private, tc_root_certificates = root\<rparr>)))))"

section \<open>Listeners\<close>

datatype listener = Plain string | Secure string tls_config

text \<open>\<open>create_grpc_server\<close>: Linux only, a Unix socket, and TCP when a port is given; a port of 0 is none. The
  text of its platform error is left empty.\<close>

definition require_linux :: "string \<Rightarrow> unit res" where
  "require_linux platform = (if platform \<noteq> ''Linux'' then Inl (PyException ''RuntimeError'' [] None) else Inr ())"

definition sync_listeners :: "string \<Rightarrow> string \<Rightarrow> int option \<Rightarrow> listener list res" where
  "sync_listeners platform uds_path port = resB (require_linux platform) (\<lambda>_.
     Inr (Plain (''unix://'' @ uds_path)
        # (case port of None \<Rightarrow> [] | Some p \<Rightarrow> if p = 0 then [] else [Plain (''[::]:'' @ show_int p)])))"

definition async_listeners :: "tls_host \<Rightarrow> int \<Rightarrow> listener list res" where
  "async_listeners h port = resB (load_grpc_tls_config h) (\<lambda>tls.
     Inr [case tls of None \<Rightarrow> Plain (''[::]:'' @ show_int port) | Some c \<Rightarrow> Secure (''[::]:'' @ show_int port) c])"

section \<open>Health endpoint\<close>

text \<open>\<open>do_GET\<close>: status, content type and body. The checker may be absent, answer, or raise (\<open>Some None\<close>).\<close>

definition health_get :: "bool option option \<Rightarrow> string option \<Rightarrow> string \<Rightarrow> int \<times> string \<times> string" where
  "health_get checker metrics path =
     (if path \<notin> {''/healthz'', ''/metrics''} then (404, [], [])
      else if path = ''/healthz''
      then (let healthy = (case checker of None \<Rightarrow> True | Some None \<Rightarrow> False | Some (Some b) \<Rightarrow> b)
            in (if healthy then 200 else 503, ''application/json'',
                dumps_default (JObj [(''status'', JStr (if healthy then ''ok'' else ''unhealthy''))])))
      else (200, ''text/plain; version=0.0.4'', case metrics of None \<Rightarrow> [] | Some m \<Rightarrow> m))"

section \<open>The command line's model\<close>

definition resolve_spec :: "worker_config \<Rightarrow> string \<Rightarrow> model_spec option" where
  "resolve_spec c name = map_of (wc_model_registry c) name"

definition cli_engine_kwargs :: "wire_texts \<Rightarrow> model_spec \<Rightarrow> dict" where
  "cli_engine_kwargs w spec =
     (if truthy_str (ms_quantization spec) then [(''quantization'', opt_str (ms_quantization spec))] else [])
     @ (case ms_gpu_memory_utilization spec of
          None \<Rightarrow> [] | Some r \<Rightarrow> if r = 0 then [] else [(''gpu_memory_utilization'', JFloat (wt_float w r))])
     @ (case ms_max_model_len spec of None \<Rightarrow> [] | Some n \<Rightarrow> if n = 0 then [] else [(''max_model_len'', JInt n)])"

text \<open>\<open>main\<close> with a prompt: what it streams, or \<open>None\<close> when the model is not registered.\<close>

definition run_prompt ::
    "wire_texts \<Rightarrow> ('e, 'h) engine_port \<Rightarrow> bool \<Rightarrow> rat \<Rightarrow> worker_config \<Rightarrow> string \<Rightarrow> string \<Rightarrow> int \<Rightarrow> rat
      \<Rightarrow> ('e, 'h) server \<Rightarrow> ((item list \<times> exn option) \<times> ('e, 'h) server) option" where
  "run_prompt w p allow latency c name prompt max_new_tokens temperature s =
     (case resolve_spec c name of
        None \<Rightarrow> None
      | Some spec \<Rightarrow> Some (stream_predict (wt_texts w) p allow False latency
          \<lparr>sq_load = \<lparr>lr_model_id = name, lr_model_path = ms_model_path spec, lr_adapter_path = ms_adapter_path spec,
             lr_provider_id = (if truthy_str (ms_provider_id spec) then opt_text (ms_provider_id spec) else wc_provider_id c),
             lr_engine_kwargs = cli_engine_kwargs w spec\<rparr>,
           sq_prompt = prompt,
           sq_generation_kwargs = [(''max_new_tokens'', JInt max_new_tokens), (''temperature'', JFloat (wt_float w temperature))]\<rparr> s))"

section \<open>What production may open\<close>

text \<open>In production, without the two development flags, the worker refuses to start without a token, and the
  asynchronous server never listens in the clear. The synchronous server always does: it never asks for
  the TLS configuration.\<close>

theorem production_listeners:
  assumes "ts_environ k = th_getenv h" and "th_getenv h ''CY_LLM_ENV'' = Some ''production''"
    and "th_getenv h ''CY_LLM_ALLOW_INSECURE_INTERNAL_TOKEN'' = None" and "th_getenv h ''CY_LLM_ALLOW_INSECURE_GRPC'' = None"
  shows "(enforce_internal_token_policy k = (Inr (), k) \<longleftrightarrow> ts_token k \<noteq> [])
    \<and> (case async_listeners h port of
         Inl x \<Rightarrow> True | Inr ls \<Rightarrow> \<exists>c. ls = [Secure (''[::]:'' @ show_int port) c])
    \<and> (\<exists>ls. sync_listeners ''Linux'' uds (Some 50051) = Inr ls \<and> Plain (''[::]:'' @ show_int 50051) \<in> set ls)"
proof -
  have prod: "strip (lower ''production'') = ''production''" "strip (lower ''false'') \<notin> {''1'', ''true'', ''yes''}"
    by code_simp+
  have "\<not> is_insecure_internal_token_allowed k"
    using assms prod by (simp add: is_insecure_internal_token_allowed_def getenv_def)
  then have "enforce_internal_token_policy k = (Inr (), k) \<longleftrightarrow> ts_token k \<noteq> []"
    by (simp add: enforce_internal_token_policy_def py_unfold)
  moreover have "\<not> is_insecure_grpc_allowed h"
    using assms prod by (simp add: is_insecure_grpc_allowed_def)
  then have "case async_listeners h port of
      Inl x \<Rightarrow> True | Inr ls \<Rightarrow> \<exists>c. ls = [Secure (''[::]:'' @ show_int port) c]"
    by (auto simp: async_listeners_def load_grpc_tls_config_def resB_def split: prod.splits option.splits sum.splits if_splits)
  ultimately show ?thesis by (simp add: sync_listeners_def require_linux_def resB_def)
qed

end
