(* ===== verification/Worker_Main.thy ===== *)
theory Worker_Main
  imports Worker_Startup Seam_Properties Server_Properties Worker_Config
begin

text \<open>
  The worker's \<open>main\<close> (\<open>cy_exec/main.py\<close>) from its parsed arguments: the token policy, the configuration,
  the printed registry, the inference server behind the resolved binding, one command-line prompt, and the
  serving phase with the order in which it opens and closes its servers. What the calls served in between did
  to the inference server is a parameter, as are the texts outside ASCII. \<open>--config\<close> is parsed and never read.
\<close>

section \<open>Printing the registry\<close>

fun common_prefix :: "string \<Rightarrow> string \<Rightarrow> string" where
  "common_prefix (c # s) (d # t) = (if c = d then c # common_prefix s t else [])"
| "common_prefix s t = []"

definition blank_char :: "char \<Rightarrow> bool" where
  "blank_char c \<longleftrightarrow> c = CHR '' '' \<or> code c = 9"

fun margin_of :: "string list \<Rightarrow> string" where
  "margin_of [] = []"
| "margin_of [s] = s"
| "margin_of (s # t # ss) = margin_of (common_prefix s t # ss)"

text \<open>\<open>textwrap.dedent\<close>: blank lines are emptied, then the common margin of the other lines is removed.\<close>

definition dedent :: "string \<Rightarrow> string" where
  "dedent s =
     (let rows = map (\<lambda>l. if list_all blank_char l then [] else l) (split_on (CHR 0x0A) s);
          margin = margin_of (map (takeWhile blank_char) (filter (\<lambda>l. l \<noteq> []) rows))
      in join [CHR 0x0A] (map (\<lambda>l. if startswith l margin then drop (length margin) l else l) rows))"

definition registry_entry :: "worker_config \<Rightarrow> string \<times> model_spec \<Rightarrow> string" where
  "registry_entry c e = (case e of (name, spec) \<Rightarrow>
     dedent (''  - '' @ name @ [CHR 0x0A]
       @ ''    model:   '' @ ms_model_path spec @ [CHR 0x0A]
       @ ''    adapter: '' @ (if truthy_str (ms_adapter_path spec) then opt_text (ms_adapter_path spec) else ''-'') @ [CHR 0x0A]
       @ ''    provider: '' @ (if truthy_str (ms_provider_id spec) then opt_text (ms_provider_id spec) else wc_provider_id c)))"

definition format_registry :: "string \<Rightarrow> worker_config \<Rightarrow> string" where
  "format_registry header c = join [CHR 0x0A] (header # map (registry_entry c) (wc_model_registry c))"

section \<open>The health server's port\<close>

fun grouped_digits :: "string \<Rightarrow> bool" where
  "grouped_digits [] = False"
| "grouped_digits [c] = is_digit c"
| "grouped_digits (c # d # s) = (is_digit c \<and> (if d = CHR ''_'' then grouped_digits s else grouped_digits (d # s)))"

definition digits_value :: "string \<Rightarrow> int" where
  "digits_value s = foldl (\<lambda>n c. if c = CHR ''_'' then n else 10 * n + (int (code c) - 48)) 0 s"

text \<open>\<open>int(text)\<close>.\<close>

definition int_of_text :: "string \<Rightarrow> int res" where
  "int_of_text s =
     (let t = strip s; negative = startswith t ''-'';
          u = (if negative \<or> startswith t ''+'' then drop 1 t else t)
      in if grouped_digits u then Inr (if negative then - digits_value u else digits_value u)
         else Inl (ValueError ''invalid literal for int() with base 10''))"

definition health_port :: "(string \<Rightarrow> string option) \<Rightarrow> int option \<Rightarrow> int res" where
  "health_port env port = (case port of
     Some p \<Rightarrow> Inr p
   | None \<Rightarrow> int_of_text (case env ''CY_LLM_HEALTH_PORT'' of None \<Rightarrow> ''9090'' | Some t \<Rightarrow> t))"

section \<open>\<open>main\<close>\<close>

record worker_args =
  wa_model :: string
  wa_prompt :: "string option"
  wa_list_models :: bool
  wa_registry :: "string option"
  wa_max_new_tokens :: int
  wa_temperature :: rat
  wa_serve :: bool
  wa_port :: "int option"
  wa_uds_path :: string

datatype worker_event =
    PrintedRegistry string
  | PrintedItem item
  | PrintedNewline
  | Listening "listener list"
  | HealthListening int
  | GrpcStopped int
  | HealthStopped
  | EnginesShutDown

datatype worker_end = WorkerReturns | WorkerRaises exn | UnknownModel string

record ('e, 'h) worker_host =
  wh_platform :: string
  wh_process :: process
  wh_token :: token_state
  wh_header :: string
  wh_texts :: wire_texts
  wh_engines :: "seam_binding \<Rightarrow> ('e, 'h) engine_port"
  wh_latency :: rat
  wh_allow :: bool
  wh_served :: "('e, 'h) server \<Rightarrow> ('e, 'h) server"

definition build_server :: "'e \<Rightarrow> ('e, 'h) server" where
  "build_server e = \<lparr>sv_engines = [], sv_shutting_down = False, sv_telemetry = telemetry_init, sv_ext = e, sv_progress = []\<rparr>"

type_synonym ('e, 'h) worker_run = "worker_event list \<times> worker_end \<times> ('e, 'h) server"

definition shut_down :: "('e, 'h) engine_port \<Rightarrow> ('e, 'h) server \<Rightarrow> ('e, 'h) worker_run" where
  "shut_down p s = (case shutdown p s of
     (Inl x, t) \<Rightarrow> ([], WorkerRaises x, t) | (Inr u, t) \<Rightarrow> ([EnginesShutDown], WorkerReturns, t))"

text \<open>\<open>_serve_forever\<close>: the gRPC server listens before the health server's port is read.\<close>

definition serve_forever ::
    "('e, 'h) worker_host \<Rightarrow> ('e, 'h) engine_port \<Rightarrow> worker_args \<Rightarrow> ('e, 'h) server \<Rightarrow> ('e, 'h) worker_run" where
  "serve_forever h p args s =
     (case sync_listeners (wh_platform h) (wa_uds_path args) (wa_port args) of
        Inl x \<Rightarrow> ([], WorkerRaises x, s)
      | Inr listeners \<Rightarrow>
          (case health_port (pr_environ (wh_process h)) None of
             Inl x \<Rightarrow> ([Listening listeners], WorkerRaises x, s)
           | Inr port \<Rightarrow>
               (case shut_down p (wh_served h s) of (events, e, t) \<Rightarrow>
                  ([Listening listeners, HealthListening port, GrpcStopped 5, HealthStopped] @ events, e, t))))"

text \<open>The rest of \<open>main\<close> once a prompt has been answered or was not given.\<close>

definition serve_or_stop ::
    "('e, 'h) worker_host \<Rightarrow> ('e, 'h) engine_port \<Rightarrow> worker_args \<Rightarrow> ('e, 'h) server \<Rightarrow> ('e, 'h) worker_run" where
  "serve_or_stop h p args s = (if wa_serve args then serve_forever h p args s else shut_down p s)"

definition prompt_then ::
    "('e, 'h) worker_host \<Rightarrow> ('e, 'h) engine_port \<Rightarrow> worker_args \<Rightarrow> worker_config \<Rightarrow> ('e, 'h) server \<Rightarrow> ('e, 'h) worker_run"
  where
  "prompt_then h p args c s =
     (if \<not> truthy_str (wa_prompt args) then serve_or_stop h p args s
      else case run_prompt (wh_texts h) p (wh_allow h) (wh_latency h) c (wa_model args) (opt_text (wa_prompt args))
             (wa_max_new_tokens args) (wa_temperature args) s of
        None \<Rightarrow> ([], UnknownModel (wa_model args), s)
      | Some ((items, Some x), t) \<Rightarrow> (map PrintedItem items, WorkerRaises x, t)
      | Some ((items, None), t) \<Rightarrow>
          (case serve_or_stop h p args t of (events, e, u) \<Rightarrow> (map PrintedItem items @ PrintedNewline # events, e, u)))"

definition worker_main :: "('e, 'h) worker_host \<Rightarrow> worker_args \<Rightarrow> 'e \<Rightarrow> ('e, 'h) worker_run" where
  "worker_main h args e =
     (let s = build_server e in
      case fst (enforce_internal_token_policy (wh_token h)) of
        Inl x \<Rightarrow> ([], WorkerRaises x, s)
      | Inr u \<Rightarrow>
          (case load_worker_config (wh_process h) (wa_registry args) of
             Inl x \<Rightarrow> ([], WorkerRaises x, s)
           | Inr c \<Rightarrow>
               (let listed = (if wa_list_models args then [PrintedRegistry (format_registry (wh_header h) c)] else [])
                in if wa_list_models args \<and> \<not> truthy_str (wa_prompt args) \<and> \<not> wa_serve args
                   then (listed, WorkerReturns, s)
                   else case resolve_execution_engine_resolver (pr_environ (wh_process h)) of
                     Inl x \<Rightarrow> (listed, WorkerRaises (seam_exn x), s)
                   | Inr b \<Rightarrow> (case prompt_then h (wh_engines h b) args c s of
                       (events, r, t) \<Rightarrow> (listed @ events, r, t)))))"
section \<open>The worker's life\<close>

lemma shut_down_run:
  obtains t where "shut_down p s = ([EnginesShutDown], WorkerReturns, t)" "sv_shutting_down t"
proof -
  let ?s = "s\<lparr>sv_shutting_down := True\<rparr>"
  obtain t where t: "unload_all p (sort (get_loaded_models (sv_engines s))) ?s = (Inr (), t)"
    using unload_all_returns by blast
  then have "shut_down p s = ([EnginesShutDown], WorkerReturns, t)"
    by (simp add: shut_down_def shutdown_def py_simps)
  with that unload_all_stays_down [OF t] show ?thesis by simp
qed

definition served_in_order :: "worker_event list \<Rightarrow> bool" where
  "served_in_order events \<longleftrightarrow> (\<exists>before ls port. events
     = before @ [Listening ls, HealthListening port, GrpcStopped 5, HealthStopped, EnginesShutDown])"

definition ends_shut_down :: "worker_event list \<Rightarrow> bool" where
  "ends_shut_down events \<longleftrightarrow> (\<exists>before. events = before @ [EnginesShutDown])"

lemma served_append: "served_in_order es \<Longrightarrow> served_in_order (xs @ es)"
  unfolding served_in_order_def by (metis append_assoc)

lemma ends_append: "ends_shut_down es \<Longrightarrow> ends_shut_down (xs @ es)"
  unfolding ends_shut_down_def by (metis append_assoc)

lemma served_ends: "served_in_order es \<Longrightarrow> ends_shut_down es"
  by (fastforce simp: served_in_order_def ends_shut_down_def)

lemma serve_or_stop_returns:
  assumes "serve_or_stop h p args s = (events, WorkerReturns, t)"
  shows "sv_shutting_down t \<and> (if wa_serve args then served_in_order events else events = [EnginesShutDown])"
proof (cases "wa_serve args")
  case True
  obtain u where u: "shut_down p (wh_served h s) = ([EnginesShutDown], WorkerReturns, u)" "sv_shutting_down u"
    by (rule shut_down_run)
  from True assms u obtain ls port
    where "events = [Listening ls, HealthListening port, GrpcStopped 5, HealthStopped, EnginesShutDown]" "t = u"
    by (auto simp: serve_or_stop_def serve_forever_def split: sum.splits)
  with True u show ?thesis unfolding served_in_order_def by (metis append_Nil)
next
  case False
  then show ?thesis using assms shut_down_run [of p s] by (auto simp: serve_or_stop_def)
qed

lemma serve_or_stop_raises:
  assumes "serve_or_stop h p args s = (events, r, t)" and "r \<noteq> WorkerReturns"
  shows "EnginesShutDown \<notin> set events"
proof -
  obtain u where "shut_down p s = ([EnginesShutDown], WorkerReturns, u)" by (rule shut_down_run)
  moreover obtain v where "shut_down p (wh_served h s) = ([EnginesShutDown], WorkerReturns, v)" by (rule shut_down_run)
  ultimately show ?thesis using assms by (auto simp: serve_or_stop_def serve_forever_def split: sum.splits if_splits)
qed

lemma prompt_then_run:
  assumes "prompt_then h p args c s = (events, r, t)"
  shows "if r = WorkerReturns then sv_shutting_down t \<and> ends_shut_down events
      \<and> (wa_serve args \<longrightarrow> served_in_order events) else EnginesShutDown \<notin> set events"
proof -
  have tail: "if r = WorkerReturns then sv_shutting_down t \<and> ends_shut_down (xs @ es)
      \<and> (wa_serve args \<longrightarrow> served_in_order (xs @ es)) else EnginesShutDown \<notin> set (xs @ es)"
    if run: "serve_or_stop h p args u = (es, r, t)" and xs: "EnginesShutDown \<notin> set xs" for u es xs
  proof (cases "r = WorkerReturns")
    case True
    with serve_or_stop_returns [of h p args u es t] run
    have "sv_shutting_down t" "if wa_serve args then served_in_order es else ends_shut_down es"
      by (auto simp: ends_shut_down_def)
    then show ?thesis using True served_append ends_append served_ends by (simp split: if_splits)
  next
    case False
    with serve_or_stop_raises [OF run] xs show ?thesis by simp
  qed
  consider (none) "\<not> truthy_str (wa_prompt args)" "serve_or_stop h p args s = (events, r, t)"
    | (unknown) "r = UnknownModel (wa_model args)" "events = []"
    | (raised) items x where "r = WorkerRaises x" "events = map PrintedItem items"
    | (answered) items u es where "serve_or_stop h p args u = (es, r, t)" "events = (map PrintedItem items @ [PrintedNewline]) @ es"
    using assms by (auto simp: prompt_then_def split: if_splits option.splits prod.splits)
  then show ?thesis
  proof cases
    case none
    with tail [of s events "[]"] show ?thesis unfolding append_Nil by simp
  next
    case (answered items u es)
    have "EnginesShutDown \<notin> set (map PrintedItem items @ [PrintedNewline])" by auto
    from tail [OF answered(1) this] show ?thesis unfolding answered(2) .
  qed auto
qed

text \<open>What the worker does from start to end. Nothing is opened, loaded or printed unless the token policy holds
  and the configuration loads. A run that returns, except one that only lists the models, ends by shutting
  the engines down, and a serving run does so after its gRPC and health servers have stopped; a run that
  raises, or does not know its model, has shut no engine down.\<close>

theorem worker_lifecycle:
  assumes "worker_main h args e = (events, r, t)"
  shows "(events \<noteq> [] \<longrightarrow> fst (enforce_internal_token_policy (wh_token h)) = Inr ()
            \<and> \<not> isl (load_worker_config (wh_process h) (wa_registry args)))
    \<and> (r = WorkerReturns \<longrightarrow> (\<exists>m. events = [PrintedRegistry m] \<and> t = build_server e)
         \<or> sv_shutting_down t \<and> ends_shut_down events \<and> (wa_serve args \<longrightarrow> served_in_order events))
    \<and> (r \<noteq> WorkerReturns \<longrightarrow> EnginesShutDown \<notin> set events)"
proof (cases "fst (enforce_internal_token_policy (wh_token h))")
  case (Inl x)
  with assms show ?thesis by (auto simp: worker_main_def Let_def)
next
  case policy: (Inr u)
  show ?thesis
  proof (cases "load_worker_config (wh_process h) (wa_registry args)")
    case (Inl x)
    with assms policy show ?thesis by (auto simp: worker_main_def Let_def)
  next
    case config: (Inr c)
    define listed where "listed = (if wa_list_models args then [PrintedRegistry (format_registry (wh_header h) c)] else [])"
    consider (only) "r = WorkerReturns" "\<exists>m. events = [PrintedRegistry m]" "t = build_server e"
      | (unbound) x where "r = WorkerRaises x" "events = listed"
      | (run) b es where "prompt_then h (wh_engines h b) args c (build_server e) = (es, r, t)" "events = listed @ es"
      using assms policy config
      by (auto simp: worker_main_def Let_def listed_def split: if_splits sum.splits prod.splits)
    then show ?thesis
    proof cases
      case only
      with policy config show ?thesis by auto
    next
      case unbound
      with policy config show ?thesis by (auto simp: listed_def)
    next
      case (run b es)
      have quiet: "EnginesShutDown \<notin> set listed" by (simp add: listed_def)
      show ?thesis using prompt_then_run [OF run(1)] policy config run(2) quiet served_append ends_append
        by (auto split: if_splits)
    qed
  qed
qed

end
