(* ===== verification/Worker_Logging.thy ===== *)
theory Worker_Logging
  imports Json
begin

text \<open>
  The optional structured logging of the worker (\<open>cy_exec_pro/utils/structured_logging.py\<close>): redaction by
  field name and by token pattern, one JSON record, and the context manager that replaces the process's
  log-record factory. The regular expressions are deterministic on their inputs, so they are written as
  scanners: their repeated classes are disjoint from what follows them, and no backtracking can change a
  match. Handlers and the standard library's level filtering are left out.
\<close>

section \<open>Sensitive fields and values\<close>

definition SENSITIVE_FIELD_WORDS :: "string list" where
  "SENSITIVE_FIELD_WORDS =
     [''password'', ''passwd'', ''secret'', ''token'', ''apikey'', ''api_key'', ''api-key'', ''auth'', ''credential'',
      ''privatekey'', ''private_key'', ''private-key'', ''accesskey'', ''access_key'', ''access-key'']"

text \<open>\<open>re.match('.*word.*')\<close> ignoring case: a dot matches no line feed, so the word must stand in the
  first line of the name.\<close>

definition is_sensitive_field :: "string \<Rightarrow> bool" where
  "is_sensitive_field name =
     list_ex (contains (takeWhile (\<lambda>c. c \<noteq> chr 10) (lower name))) SENSITIVE_FIELD_WORDS"

definition keep_ends :: "nat \<Rightarrow> string \<Rightarrow> string" where
  "keep_ends n s = take n s @ ''...'' @ drop (length s - n) s"

definition redact_value :: "string \<Rightarrow> string" where
  "redact_value s = (if length s \<le> 8 then ''***'' else if length s \<le> 16 then keep_ends 2 s else keep_ends 4 s)"

section \<open>Token patterns in free text\<close>

definition ascii_alnum :: "char \<Rightarrow> bool" where
  "ascii_alnum c \<longleftrightarrow> is_digit c \<or> is_upper c \<or> is_lower c"

definition bearer_char :: "char \<Rightarrow> bool" where
  "bearer_char c \<longleftrightarrow> ascii_alnum c \<or> c \<in> set ''-._~+/''"

text \<open>How many characters a pattern matches at the head of a text.\<close>

definition match_api_key :: "string \<Rightarrow> nat option" where
  "match_api_key s =
     (let n = length (takeWhile ascii_alnum (drop 3 s))
      in if startswith s ''sk-'' \<and> 32 \<le> n then Some (3 + n) else None)"

definition match_bearer :: "string \<Rightarrow> nat option" where
  "match_bearer s =
     (let a = drop 6 s; n = length (takeWhile is_space a);
          b = drop n a; m = length (takeWhile bearer_char b);
          k = length (takeWhile (\<lambda>c. c = CHR ''='') (drop m b))
      in if startswith s ''Bearer'' \<and> 0 < n \<and> 0 < m then Some (6 + n + m + k) else None)"

text \<open>\<open>regex.sub\<close>: the leftmost matches, from left to right, without overlap.\<close>

function regex_sub :: "(string \<Rightarrow> nat option) \<Rightarrow> (string \<Rightarrow> string) \<Rightarrow> string \<Rightarrow> string" where
  "regex_sub m f [] = []"
| "regex_sub m f (c # s) =
     (case m (c # s) of
        None \<Rightarrow> c # regex_sub m f s
      | Some n \<Rightarrow> f (take n (c # s)) @ regex_sub m f (drop (n - 1) s))"
  by pat_completeness auto
termination by (relation "measure (\<lambda>(m, f, s). length s)") auto

definition redact_api_keys :: "string \<Rightarrow> string" where
  "redact_api_keys text = regex_sub match_bearer redact_value (regex_sub match_api_key redact_value text)"

section \<open>Dictionaries\<close>

text \<open>Items of a list are entered only when they are mappings: a text in a list is copied unread.\<close>

fun redact_dict :: "dict \<Rightarrow> dict"
  and redact_field :: "string \<times> json \<Rightarrow> string \<times> json"
  and redact_plain :: "json \<Rightarrow> json"
  and redact_list_item :: "json \<Rightarrow> json" where
  "redact_dict d = map redact_field d"
| "redact_field (k, v) = (k, if is_sensitive_field k then JStr (redact_value (py_str v)) else redact_plain v)"
| "redact_plain (JObj d) = JObj (redact_dict d)"
| "redact_plain (JArr xs) = JArr (map redact_list_item xs)"
| "redact_plain (JStr s) = JStr (redact_api_keys s)"
| "redact_plain v = v"
| "redact_list_item (JObj d) = JObj (redact_dict d)"
| "redact_list_item v = v"

section \<open>One record\<close>

text \<open>A \<open>LogRecord\<close>: what \<open>format\<close> reads of it, and every attribute a context or the standard library adds
  beside the standard ones. Attribute values are JSON values, as the runtime logs them.\<close>

record exc_info =
  xi_type :: string
  xi_message :: string
  xi_traceback :: string

record worker_record =
  wr_levelname :: string
  wr_name :: string
  wr_message :: string
  wr_pathname :: string
  wr_lineno :: int
  wr_funcName :: string
  wr_exc_info :: "exc_info option"
  wr_attrs :: dict

definition standard_fields :: "string list" where
  "standard_fields =
     [''name'', ''msg'', ''args'', ''created'', ''filename'', ''funcName'', ''levelname'', ''levelno'', ''lineno'',
      ''module'', ''msecs'', ''message'', ''pathname'', ''process'', ''processName'', ''relativeCreated'',
      ''thread'', ''threadName'', ''exc_info'', ''exc_text'', ''stack_info'', ''trace_id'']"

text \<open>\<open>Path(p).name\<close> on a POSIX path.\<close>

definition path_name :: "string \<Rightarrow> string" where
  "path_name p = (case rev (filter (\<lambda>c. c \<noteq> [] \<and> c \<noteq> ''.'') (split_on (CHR ''/'') p)) of [] \<Rightarrow> [] | c # _ \<Rightarrow> c)"

definition log_fields :: "string \<Rightarrow> worker_record \<Rightarrow> dict" where
  "log_fields now r =
     [(''timestamp'', JStr now), (''level'', JStr (wr_levelname r)), (''logger'', JStr (wr_name r)),
      (''message'', JStr (wr_message r))]
     @ (case dict_get (wr_attrs r) ''trace_id'' of None \<Rightarrow> [] | Some t \<Rightarrow> [(''trace_id'', t)])
     @ (if wr_pathname r = [] then [] else
          [(''source'', JObj [(''file'', JStr (path_name (wr_pathname r))), (''line'', JInt (wr_lineno r)),
             (''function'', JStr (wr_funcName r))])])
     @ (case wr_exc_info r of None \<Rightarrow> [] | Some x \<Rightarrow>
          [(''exception'', JObj [(''type'', JStr (xi_type x)), (''message'', JStr (xi_message x)),
             (''traceback'', JStr (xi_traceback x))])])"

definition extra_fields :: "worker_record \<Rightarrow> dict" where
  "extra_fields r = filter (\<lambda>e. fst e \<notin> set standard_fields) (wr_attrs r)"

text \<open>\<open>StructuredFormatter.format\<close>: the extra fields are redacted on their own and again with the record.\<close>

definition log_data :: "bool \<Rightarrow> string \<Rightarrow> worker_record \<Rightarrow> dict" where
  "log_data redact now r =
     (let extra = extra_fields r;
          entry = log_fields now r
            @ (if extra = [] then [] else [(''extra'', JObj (if redact then redact_dict extra else extra))])
      in if redact then redact_dict entry else entry)"

definition format_record :: "bool \<Rightarrow> string \<Rightarrow> worker_record \<Rightarrow> string" where
  "format_record redact now r = dumps False '', '' '': '' (JObj (log_data redact now r))"

section \<open>The log context\<close>

text \<open>
  The process has one record factory. \<open>LogContext.__enter__\<close> saves it in the context object and installs a
  closure over that object; the closure reads \<open>self.old_factory\<close> when it is called. Context objects are
  numbered; \<open>Base\<close> is the standard library's factory.
\<close>

datatype factory = Base | Ctx nat

record log_state =
  ls_factory :: factory
  ls_old_factory :: "nat \<Rightarrow> factory option"
  ls_context :: "nat \<Rightarrow> dict"

definition new_context :: "nat \<Rightarrow> dict \<Rightarrow> log_state \<Rightarrow> log_state" where
  "new_context i context s = s\<lparr>ls_context := (ls_context s)(i := context), ls_old_factory := (ls_old_factory s)(i := None)\<rparr>"

definition context_enter :: "nat \<Rightarrow> log_state \<Rightarrow> log_state" where
  "context_enter i s = s\<lparr>ls_old_factory := (ls_old_factory s)(i \<mapsto> ls_factory s), ls_factory := Ctx i\<rparr>"

definition context_exit :: "nat \<Rightarrow> log_state \<Rightarrow> log_state" where
  "context_exit i s = (case ls_old_factory s i of None \<Rightarrow> s | Some f \<Rightarrow> s\<lparr>ls_factory := f\<rparr>)"

definition set_attributes :: "dict \<Rightarrow> dict \<Rightarrow> dict" where
  "set_attributes context attrs = fold (\<lambda>(k, v) d. dict_set d k v) context attrs"

text \<open>The attributes of a new record, or \<open>None\<close> when the factories call each other without end (or the context was never entered).\<close>

partial_function (option) record_factory :: "log_state \<Rightarrow> factory \<Rightarrow> dict \<Rightarrow> dict option" where
  "record_factory s f attrs =
     (case f of
        Base \<Rightarrow> Some attrs
      | Ctx i \<Rightarrow> (case ls_old_factory s i of
          None \<Rightarrow> None
        | Some old \<Rightarrow> Option.bind (record_factory s old attrs) (\<lambda>r. Some (set_attributes (ls_context s i) r))))"

text \<open>\<open>log_with_context\<close>: the attributes of its record, and the state afterwards.\<close>

definition log_with_context :: "nat \<Rightarrow> dict \<Rightarrow> dict \<Rightarrow> log_state \<Rightarrow> dict option \<times> log_state" where
  "log_with_context i context attrs s =
     (let s1 = context_enter i (new_context i context s)
      in (record_factory s1 (ls_factory s1) attrs, context_exit i s1))"
section \<open>No bearer token survives\<close>

text \<open>A token at the head of a text, by positions: the word, white space up to position \<open>n\<close>, a token character.\<close>

definition bearer_at :: "string \<Rightarrow> bool" where
  "bearer_at s \<longleftrightarrow> (\<exists>n > 6. n < length s \<and> (\<forall>i < 6. s ! i = ''Bearer'' ! i)
     \<and> (\<forall>i. 6 \<le> i \<and> i < n \<longrightarrow> is_space (s ! i)) \<and> bearer_char (s ! n))"

lemma bearer_char_not_space: "bearer_char c \<Longrightarrow> \<not> is_space c"
  by (auto simp: bearer_char_def ascii_alnum_def is_digit_def is_upper_def is_lower_def is_space_def code_def)

lemma takeWhile_run:
  "n < length (takeWhile P s) \<Longrightarrow> P (s ! n)"
  "length (takeWhile P s) < length s \<Longrightarrow> \<not> P (s ! length (takeWhile P s))"
  by (metis nth_mem set_takeWhileD takeWhile_nth, metis nth_length_takeWhile)

lemma startswith_bearer: "startswith s ''Bearer'' \<longleftrightarrow> take 6 s = ''Bearer''"
  by (simp add: startswith_def eval_nat_numeral)

lemma match_bearer_iff: "match_bearer s \<noteq> None \<longleftrightarrow> bearer_at s"
proof
  assume "match_bearer s \<noteq> None"
  then have m: "startswith s ''Bearer''" "0 < length (takeWhile is_space (drop 6 s))"
      "0 < length (takeWhile bearer_char (drop (length (takeWhile is_space (drop 6 s))) (drop 6 s)))"
    by (auto simp: match_bearer_def Let_def split: if_splits)
  define n where "n = length (takeWhile is_space (drop 6 s))"
  have "n + 6 < length s" using m(3) n_def by (cases "n + 6 < length s") (auto simp: add.commute)
  moreover have six: "take 6 s = ''Bearer''" using m(1) by (simp add: startswith_bearer)
  have "s ! i = ''Bearer'' ! i" if "i < 6" for i
    using that nth_take [of i 6 s, unfolded six] by simp
  moreover have "is_space (s ! i)" if "6 \<le> i" "i < n + 6" for i
    using takeWhile_run(1) [of "i - 6" is_space "drop 6 s"] that n_def calculation(1) by simp
  moreover have "bearer_char (s ! (n + 6))"
    using takeWhile_run(1) [of 0 bearer_char "drop n (drop 6 s)"] m(3) n_def calculation(1) by (simp add: add.commute)
  ultimately show "bearer_at s" using m(2) n_def unfolding bearer_at_def by (intro exI [of _ "n + 6"]) simp
next
  assume "bearer_at s"
  then obtain n where n: "n > 6" "n < length s" "\<forall>i < 6. s ! i = ''Bearer'' ! i"
      "\<forall>i. 6 \<le> i \<and> i < n \<longrightarrow> is_space (s ! i)" "bearer_char (s ! n)" by (auto simp: bearer_at_def)
  have "take 6 s = ''Bearer''" using n by (intro nth_equalityI) auto
  moreover have "takeWhile is_space (drop 6 s) = take (n - 6) (drop 6 s)"
    using n bearer_char_not_space by (intro takeWhile_eq_take_P_nth) auto
  then have "length (takeWhile is_space (drop 6 s)) = n - 6" using n by simp
  ultimately show "match_bearer s \<noteq> None"
    using n by (auto simp: match_bearer_def startswith_bearer Let_def takeWhile_eq_Nil_iff hd_drop_conv_nth)
qed
text \<open>A match is longer than the word, and what follows it cannot continue it.\<close>

lemma match_bearer_shape:
  assumes "match_bearer s = Some n"
  shows "8 \<le> n" "n \<le> length s" "take 6 s = ''Bearer''"
    "s ! (n - 1) = CHR ''='' \<or> (n < length s \<longrightarrow> \<not> bearer_char (s ! n))"
proof -
  define w where "w = length (takeWhile is_space (drop 6 s))"
  define b where "b = drop w (drop 6 s)"
  define m where "m = length (takeWhile bearer_char b)"
  define k where "k = length (takeWhile (\<lambda>c. c = CHR ''='') (drop m b))"
  note d = w_def b_def m_def k_def
  have n: "n = 6 + w + m + k" "0 < w" "0 < m" and six: "take 6 s = ''Bearer''"
    using assms by (auto simp: match_bearer_def startswith_bearer Let_def d split: if_splits)
  have "w \<le> length s - 6" using length_takeWhile_le [of is_space "drop 6 s"] by (simp add: w_def)
  moreover have "m \<le> length b" "k \<le> length b - m"
    using length_takeWhile_le [of bearer_char b] length_takeWhile_le [of "\<lambda>c. c = CHR ''=''" "drop m b"]
    by (simp_all add: m_def k_def)
  moreover have "length b = length s - 6 - w" by (simp add: b_def)
  ultimately have len: "n \<le> length s" "m + k \<le> length b" and nb: "6 + w \<le> length s" using n by linarith+
  have at: "b ! i = s ! (6 + w + i)" if "i < length b" for i
    using that nb by (simp add: b_def add.commute add.left_commute)
  show "8 \<le> n" "n \<le> length s" "take 6 s = ''Bearer''" using n len six by simp_all
  show "s ! (n - 1) = CHR ''='' \<or> (n < length s \<longrightarrow> \<not> bearer_char (s ! n))"
  proof (cases k)
    case 0
    have "\<not> bearer_char (b ! m)" if "m < length b"
      using that takeWhile_run(2) [of bearer_char b] by (simp add: m_def)
    then show ?thesis using at [of m] n 0 by (simp add: b_def add.commute add.left_commute)
  next
    case (Suc j)
    then have "drop m b ! j = CHR ''=''"
      using takeWhile_run(1) [of j "\<lambda>c. c = CHR ''=''" "drop m b"] by (simp add: k_def)
    then show ?thesis using at [of "m + j"] n Suc len by (simp add: add.assoc)
  qed
qed

lemma redact_value_shape:
  "length s \<le> 8 \<Longrightarrow> redact_value s = ''***''"
  "8 < length s \<Longrightarrow> \<exists>k \<in> {2, 4}. redact_value s = take k s @ ''...'' @ drop (length s - k) s"
  by (auto simp: redact_value_def keep_ends_def)

text \<open>A redacted text agrees with the original up to its first mask: up to a star, or up to the dots after
  \<open>Be\<close> or \<open>Bear\<close>.\<close>

abbreviation hide_bearer :: "string \<Rightarrow> string" where
  "hide_bearer s \<equiv> regex_sub match_bearer redact_value s"

lemma hide_bearer_agrees:
  "hide_bearer s = s \<or> (\<exists>p r q z. s = p @ r \<and> hide_bearer s = p @ z # q
     \<and> (z = CHR ''*'' \<or> z = CHR ''.'' \<and> p \<noteq> [] \<and> last p \<in> {CHR ''e'', CHR ''r''}))"
proof (induction "match_bearer" redact_value s rule: regex_sub.induct)
  case (2 c s)
  show ?case
  proof (cases "match_bearer (c # s)")
    case None
    from 2(1) [OF None] show ?thesis
    proof
      assume "\<exists>p r q z. s = p @ r \<and> hide_bearer s = p @ z # q
        \<and> (z = CHR ''*'' \<or> z = CHR ''.'' \<and> p \<noteq> [] \<and> last p \<in> {CHR ''e'', CHR ''r''})"
      then obtain p r q z where "s = p @ r" "hide_bearer s = p @ z # q"
          "z = CHR ''*'' \<or> z = CHR ''.'' \<and> p \<noteq> [] \<and> last p \<in> {CHR ''e'', CHR ''r''}" by blast
      with None show ?thesis by (intro disjI2 exI [of _ "c # p"] exI [of _ r] exI [of _ q] exI [of _ z]) auto
    qed (simp add: None)
  next
    case (Some n)
    note m = match_bearer_shape [OF Some]
    let ?t = "take n (c # s)" and ?rest = "hide_bearer (drop (n - 1) s)"
    have out: "hide_bearer (c # s) = redact_value ?t @ ?rest" using Some by simp
    have len: "length ?t = n" using m by simp
    show ?thesis
    proof (cases "n \<le> 8")
      case True
      then have "hide_bearer (c # s) = [] @ CHR ''*'' # ''**'' @ ?rest"
        using out redact_value_shape(1) [of ?t] len by simp
      then show ?thesis
        by (intro disjI2 exI [of _ "[]"] exI [of _ "c # s"] exI [of _ "''**'' @ ?rest"] exI [of _ "CHR ''*''"]) simp
    next
      case False
      then have "8 < n" by simp
      from redact_value_shape(2) [of ?t, unfolded len, OF this] obtain k where
        k: "k \<in> {2, 4}" "redact_value ?t = take k ?t @ ''...'' @ drop (n - k) ?t" by (elim bexE)
      have "take k ?t = take k (take 6 (c # s))" using k(1) m(1) by (auto simp: min_def)
      then have p: "take k ?t = take k ''Bearer''" using m(3) by simp
      have "min k n = k" using k(1) m(1) by auto
      then have q: "take k (c # s) = take k ''Bearer''" using p [unfolded take_take] by metis
      have "take k ''Bearer'' \<noteq> [] \<and> last (take k ''Bearer'') \<in> {CHR ''e'', CHR ''r''}" using k(1) by auto
      moreover have "c # s = take k ''Bearer'' @ drop k (c # s)"
        using q append_take_drop_id [of k "c # s"] by metis
      moreover have "hide_bearer (c # s) = take k ''Bearer'' @ CHR ''.'' # ''..'' @ drop (n - k) ?t @ ?rest"
        using out k(2) p by simp
      ultimately show ?thesis by blast
    qed
  qed
qed simp
lemma hide_bearer_head:
  "hide_bearer s \<noteq> [] \<Longrightarrow> hide_bearer s ! 0 = CHR ''*'' \<or> s \<noteq> [] \<and> hide_bearer s ! 0 = s ! 0"
  using hide_bearer_agrees [of s] by (auto simp: nth_append)

text \<open>A token cannot begin where the text is unchanged: it would reach into the mask.\<close>

lemma no_bearer_before_mask:
  assumes "\<not> bearer_at (p @ r)" "z = CHR ''*'' \<or> z = CHR ''.'' \<and> p \<noteq> [] \<and> last p \<in> {CHR ''e'', CHR ''r''}"
  shows "\<not> bearer_at (p @ z # q)"
proof
  assume "bearer_at (p @ z # q)"
  then obtain n where n: "n > 6" "n < length (p @ z # q)" "\<forall>i < 6. (p @ z # q) ! i = ''Bearer'' ! i"
      "\<forall>i. 6 \<le> i \<and> i < n \<longrightarrow> is_space ((p @ z # q) ! i)" "bearer_char ((p @ z # q) ! n)" by (auto simp: bearer_at_def)
  have star: "\<not> bearer_char (CHR ''*'')" "\<not> is_space (CHR ''*'')" "\<not> is_space (CHR ''.'')"
    "\<not> is_space (CHR ''e'')" "\<not> is_space (CHR ''r'')" by code_simp+
  consider "n < length p" | "n = length p" | "length p < n" by linarith
  then show False
  proof cases
    case 1
    then have "(p @ r) ! i = (p @ z # q) ! i" if "i \<le> n" for i using that by (simp add: nth_append)
    with n 1 have "bearer_at (p @ r)" unfolding bearer_at_def by (intro exI [of _ n]) auto
    with assms(1) show False by simp
  next
    case 2
    then have "z = CHR ''.''" using n(5) assms(2) star(1) by auto
    with assms(2) have "is_space (last p) \<Longrightarrow> False" using star by auto
    moreover have "is_space (p ! (n - 1))" using n(1,4) 2 by (auto simp: nth_append dest!: spec [of _ "n - 1"])
    moreover have "p ! (n - 1) = last p" using 2 n(1) by (cases p) (simp_all add: last_conv_nth)
    ultimately show False by simp
  next
    case 3
    have z: "(p @ z # q) ! length p = z" by simp
    show False
    proof (cases "length p < 6")
      case True
      then have "z = ''Bearer'' ! length p" using n(3) z by metis
      moreover have "''Bearer'' ! length p \<in> set ''Bearer''" using True by (intro nth_mem) simp
      ultimately show False using assms(2) by auto
    next
      case False
      then have "is_space z" using n(4) 3 z by (metis not_le)
      then show False using assms(2) star by auto
    qed
  qed
qed
lemma bearer_at_drop:
  "bearer_at (drop k s) \<Longrightarrow> k + 6 < length s \<and> (\<forall>i < 6. s ! (k + i) = ''Bearer'' ! i)"
  by (auto simp: bearer_at_def)

text \<open>Nor inside a mask: the last character of a match is \<open>=\<close>, or no token character follows it.\<close>

lemma no_bearer_in_mask:
  assumes m: "match_bearer s = Some n" and k: "k < length (redact_value (take n s))"
  shows "\<not> bearer_at (drop k (redact_value (take n s) @ hide_bearer (drop n s)))"
proof
  let ?M = "redact_value (take n s)" and ?r = "hide_bearer (drop n s)"
  assume "bearer_at (drop k (?M @ ?r))"
  then have len: "k + 6 < length (?M @ ?r)" and B: "\<And>i. i < 6 \<Longrightarrow> (?M @ ?r) ! (k + i) = ''Bearer'' ! i"
    using bearer_at_drop by blast+
  note B0 = B [of 0, simplified]
  note shape = match_bearer_shape [OF m]
  have t: "length (take n s) = n" using shape(2) by simp
  show False
  proof (cases "n \<le> 8")
    case True
    then have "?M = ''***''" using redact_value_shape(1) t by simp
    moreover from this have "k = 0 \<or> k = 1 \<or> k = 2" using k by auto
    ultimately show False using B0 by auto
  next
    case False
    then have "8 < n" by simp
    from redact_value_shape(2) [of "take n s", unfolded t, OF this] obtain e where
      e: "e \<in> {2, 4}" "?M = take e (take n s) @ ''...'' @ drop (n - e) (take n s)" by (elim bexE)
    have "min e n = e" "min e 6 = e" using e(1) \<open>8 < n\<close> by auto
    then have be: "take e (take n s) = take e ''Bearer''" using shape(3) by (metis take_take)
    have lM: "length ?M = 2 * e + 3" using e(2) t e(1) \<open>8 < n\<close> by auto
    have dot: "?M ! i = CHR ''.''" if "e \<le> i" "i < e + 3" for i
    proof -
      have "i = e \<or> i = e + 1 \<or> i = e + 2" using that by linarith
      then show ?thesis using e(1) unfolding e(2) be by (auto simp: nth_append)
    qed
    have MB: "?M ! i = ''Bearer'' ! i" if "i < e" for i
      using that e(1) unfolding e(2) be by (auto simp: nth_append simp del: take_Suc_Cons)
    have M: "?M ! (k + i) = ''Bearer'' ! i" if "i < 6" "k + i < 2 * e + 3" for i
      using B [OF that(1)] that(2) lM by (simp add: nth_append)
    consider "k = 0" | "0 < k" "k < e" | "e \<le> k" "k < e + 3" | "e + 3 \<le> k" by linarith
    then show False
    proof cases
      case 1
      then show False using M [of e] dot [of e] e(1) by auto
    next
      case 2
      then have "k = 1 \<or> k = 2 \<or> k = 3" using e(1) by auto
      then show False using MB [OF 2(2)] M [of 0] 2 by auto
    next
      case 3
      then show False using dot [OF 3] M [of 0] by simp
    next
      case 4
      define j where "j = 2 * e + 2 - k"
      have j: "j \<le> 3" "k + j = 2 * e + 2" using 4 k lM e(1) by (auto simp: j_def)
      have "?M ! (2 * e + 2) = s ! (n - 1)"
        using e(1) t \<open>8 < n\<close> shape(2) unfolding e(2)
        by (auto simp: nth_append min_def intro!: arg_cong [of _ _ "nth s"])
      then have "s ! (n - 1) = ''Bearer'' ! j" using M [of j] j by simp
      moreover have "j = 0 \<or> j = 1 \<or> j = 2 \<or> j = 3" using j(1) by linarith
      ultimately have stop: "n < length s \<longrightarrow> \<not> bearer_char (s ! n)" using shape(4) by auto
      have "(?M @ ?r) ! (k + (j + 1)) = ''Bearer'' ! (j + 1)" using B [of "j + 1"] j by simp
      then have r0: "?r ! 0 = ''Bearer'' ! (j + 1)" using j lM by (simp add: nth_append)
      have "''Bearer'' ! (j + 1) \<in> set ''Bearer''" using j by (intro nth_mem) simp
      moreover have "\<forall>c \<in> set ''Bearer''. bearer_char c \<and> c \<noteq> CHR ''*''" by code_simp
      ultimately have r: "bearer_char (?r ! 0)" "?r ! 0 \<noteq> CHR ''*''" using r0 by auto
      have "?r \<noteq> []" using len lM 4 j by auto
      with hide_bearer_head [of "drop n s"] r stop show False by auto
    qed
  qed
qed

lemma hide_bearer_clean: "\<not> bearer_at (drop k (hide_bearer s))"
proof (induction "match_bearer" redact_value s arbitrary: k rule: regex_sub.induct)
  case 1
  then show ?case by (simp add: bearer_at_def)
next
  case (2 c s)
  show ?case
  proof (cases "match_bearer (c # s)")
    case None
    then have not: "\<not> bearer_at (c # s)" using match_bearer_iff by blast
    have "\<not> bearer_at (c # hide_bearer s)"
    proof (cases "hide_bearer s = s")
      case False
      with hide_bearer_agrees [of s] obtain p r q z where a: "s = p @ r" "hide_bearer s = p @ z # q"
          "z = CHR ''*'' \<or> z = CHR ''.'' \<and> p \<noteq> [] \<and> last p \<in> {CHR ''e'', CHR ''r''}" by blast
      have "z = CHR ''*'' \<or> z = CHR ''.'' \<and> c # p \<noteq> [] \<and> last (c # p) \<in> {CHR ''e'', CHR ''r''}"
        using a(3) by auto
      moreover have "\<not> bearer_at ((c # p) @ r)" using not a(1) by simp
      ultimately show ?thesis using no_bearer_before_mask [of "c # p" r z q] a(2) by simp
    qed (simp add: not)
    with 2(1) [OF None] None show ?thesis by (cases k) simp_all
  next
    case (Some n)
    have n: "0 < n" using match_bearer_shape(1) [OF Some] by simp
    then have out: "hide_bearer (c # s) = redact_value (take n (c # s)) @ hide_bearer (drop n (c # s))"
      using Some by (cases n) simp_all
    show ?thesis
    proof (cases "k < length (redact_value (take n (c # s)))")
      case True
      then show ?thesis unfolding out by (rule no_bearer_in_mask [OF Some])
    next
      case False
      have "drop n (c # s) = drop (n - 1) s" using n by (cases n) simp_all
      with False show ?thesis unfolding out using 2(2) [OF Some] by simp
    qed
  qed
qed
lemma sub_nothing:
  "CHR ''s'' \<notin> set s \<Longrightarrow> regex_sub match_api_key f s = s"
  "CHR ''B'' \<notin> set s \<Longrightarrow> regex_sub match_bearer f s = s"
  by (induction s) (auto simp: match_api_key_def match_bearer_def startswith_def)

text \<open>Whatever the text, no bearer token can be read in its redaction. The other pattern has no such law: of two
  keys without a separator, the first match takes the second key's first two characters with it, and all the
  rest of the second key is shown. A text in a list is not redacted at all.\<close>

theorem redacted_text_has_no_bearer:
  "match_bearer (drop k (redact_api_keys text)) = None
   \<and> redact_api_keys (''sk-'' @ replicate 32 CHR ''a'' @ ''sk-'' @ replicate 32 CHR ''b'')
     = ''sk-a...aask-'' @ replicate 32 CHR ''b''
   \<and> redact_plain (JArr [JStr text]) = JArr [JStr text]"
proof (intro conjI)
  show "match_bearer (drop k (redact_api_keys text)) = None"
    using hide_bearer_clean match_bearer_iff unfolding redact_api_keys_def by blast
  let ?t = "''sk-'' @ replicate 32 CHR ''a'' @ ''sk-'' @ replicate 32 CHR ''b''"
  have "match_api_key ?t = Some 37"
    by (simp add: match_api_key_def startswith_def ascii_alnum_def is_digit_def is_upper_def is_lower_def code_def
        eval_nat_numeral)
  then have "regex_sub match_api_key redact_value ?t
      = redact_value (take 37 ?t) @ regex_sub match_api_key redact_value (''-'' @ replicate 32 CHR ''b'')"
    by (simp add: eval_nat_numeral)
  also have "redact_value (take 37 ?t) = ''sk-a...aask''"
    by (simp add: redact_value_def keep_ends_def eval_nat_numeral)
  also have "regex_sub match_api_key redact_value (''-'' @ replicate 32 CHR ''b'') = ''-'' @ replicate 32 CHR ''b''"
    by (rule sub_nothing) simp
  finally show "redact_api_keys ?t = ''sk-a...aask-'' @ replicate 32 CHR ''b''"
    by (simp add: redact_api_keys_def sub_nothing del: regex_sub.simps)
qed simp

section \<open>Nested and interleaved contexts\<close>

datatype context_step = Enter nat | Exit nat

fun context_run :: "context_step list \<Rightarrow> log_state \<Rightarrow> log_state" where
  "context_run [] s = s"
| "context_run (Enter i # xs) s = context_run xs (context_enter i s)"
| "context_run (Exit i # xs) s = context_run xs (context_exit i s)"

lemma context_run_append [simp]: "context_run (xs @ ys) s = context_run ys (context_run xs s)"
  by (induction xs s rule: context_run.induct) auto

text \<open>\<open>with\<close> blocks of one thread: no object is entered again inside its own block.\<close>

inductive nested :: "nat set \<Rightarrow> context_step list \<Rightarrow> bool" where
  no_block: "nested A []"
| block: "i \<notin> A \<Longrightarrow> nested (insert i A) xs \<Longrightarrow> nested A ys \<Longrightarrow> nested A (Enter i # xs @ Exit i # ys)"

lemma nested_restores:
  "nested A xs \<Longrightarrow> ls_factory (context_run xs s) = ls_factory s
     \<and> (\<forall>i \<in> A. ls_old_factory (context_run xs s) i = ls_old_factory s i)"
proof (induction arbitrary: s rule: nested.induct)
  case (block i A xs ys)
  from block.IH(1) [of "context_enter i s"] show ?case
    using block.IH(2) [of "context_exit i (context_run xs (context_enter i s))"] block.hyps(1)
    by (auto simp: context_enter_def context_exit_def)
qed simp

text \<open>Nested contexts leave the factory as it was. Two that overlap, as two threads make them, do not: the
  first object's fields are on every later record. An object entered twice makes no further record.\<close>

theorem contexts_nest_or_leak:
  "(if nested {} xs then ls_factory (context_run xs s) = ls_factory s else True)
   \<and> (if i \<noteq> j \<and> ls_factory s = Base
      then (let t = context_run [Enter i, Enter j, Exit i, Exit j] s
            in record_factory t (ls_factory t) attrs = Some (set_attributes (ls_context s i) attrs))
      else True)
   \<and> (let t = context_run [Enter i, Enter i] s in record_factory t (ls_factory t) attrs = None)"
proof (intro conjI)
  show "if nested {} xs then ls_factory (context_run xs s) = ls_factory s else True"
    using nested_restores by simp
  show "if i \<noteq> j \<and> ls_factory s = Base
      then (let t = context_run [Enter i, Enter j, Exit i, Exit j] s
            in record_factory t (ls_factory t) attrs = Some (set_attributes (ls_context s i) attrs))
      else True"
    by (simp add: context_enter_def context_exit_def Let_def record_factory.simps [of _ "Ctx i"]
        record_factory.simps [of _ Base])
  have never: "t = context_run [Enter i, Enter i] s \<and> f = Ctx i \<longrightarrow> False" if "record_factory t f a = Some r" for t f a r
    by (rule record_factory.raw_induct
          [where P = "\<lambda>t f a r. t = context_run [Enter i, Enter i] s \<and> f = Ctx i \<longrightarrow> False", OF _ that])
      (auto simp: context_enter_def bind_eq_Some_conv, blast)
  let ?t = "context_run [Enter i, Enter i] s"
  have "ls_factory ?t = Ctx i" by (simp add: context_enter_def)
  then have "record_factory ?t (ls_factory ?t) attrs = None" using never by (metis option.exhaust)
  then show "let t = ?t in record_factory t (ls_factory t) attrs = None" by (simp add: Let_def)
qed

end

