(* ===== verification/Contract_Release.thy ===== *)
theory Contract_Release
  imports Json "HOL-Library.AList"
begin

text \<open>
  The packaging of the Product catalog (\<open>tools/release/product_contract_release.py\<close>): the validation of the
  source, \<open>prepare\<close>, the validation of the attestation bundle, \<open>finalize\<close> and the exit code. Bytes are
  strings of code points below 256. Git, the checkout, the bundle file, SHA-256 and \<open>json.loads\<close> are
  parameters; the output directory is the state. Failures to write and messages on the terminal are
  left out.
\<close>

section \<open>Parameters, errors and the output directory\<close>

datatype release_exn =
    ReleaseError string
  | OsFailure string
  | ValueFailure string

record release_host =
  rh_root :: string
  rh_git :: "string list \<Rightarrow> string + string"
  rh_checkout :: "string option"
  rh_bundle :: "string + string"
  rh_bundle_copied :: "string option"
  rh_loads :: "string \<Rightarrow> string + json"
  rh_sha256_hex :: "string \<Rightarrow> string"

record release_args =
  ra_repository :: string
  ra_ref :: string
  ra_commit :: string
  ra_run_id :: string
  ra_run_attempt :: string

text \<open>Files by their path below the output directory, and the directories in it.\<close>

record output_dir =
  od_path :: string
  od_files :: "(string \<times> string) list"
  od_dirs :: "string list"

type_synonym 'a rel = "(output_dir, release_exn, 'a) py"

definition SOURCE_CATALOG_PATH :: string where
  "SOURCE_CATALOG_PATH = ''contracts/product/v2/catalog.json''"

definition WORKFLOW_PATH :: string where
  "WORKFLOW_PATH = ''.github/workflows/product-contract.yml''"

definition PREDICATE_TYPE :: string where
  "PREDICATE_TYPE = ''https://slsa.dev/provenance/v1''"

definition ALLOWED_REFS :: "string list" where
  "ALLOWED_REFS = [''refs/heads/develop'', ''refs/heads/main'', ''refs/heads/release'']"

definition REPOSITORIES :: "(string \<times> string) list" where
  "REPOSITORIES =
     [(''DoHorizon-AI/Cyrene-Catalyst'', ''catalyst''), (''DoHorizon-AI/Cyrene-Echo'', ''echo''),
      (''DoHorizon-AI/Cyrene-Exchange'', ''exchange''), (''DoHorizon-AI/Cyrene-Navigator'', ''navigator''),
      (''DoHorizon-AI/Cyrene-Reactor'', ''reactor''), (''DoHorizon-AI/Cyrene-Yield'', ''yield'')]"

definition sha1_pattern :: "string \<Rightarrow> bool" where
  "sha1_pattern s \<longleftrightarrow> length s = 40 \<and> list_all is_hex s"

definition tagged_sha256 :: "release_host \<Rightarrow> string \<Rightarrow> string" where
  "tagged_sha256 h bytes = ''sha256:'' @ rh_sha256_hex h bytes"

section \<open>The source\<close>

text \<open>A failing git command, as \<open>_run_git\<close> reports it.\<close>

definition run_git :: "release_host \<Rightarrow> string list \<Rightarrow> release_exn + string" where
  "run_git h args = (case rh_git h args of
     Inl error \<Rightarrow> Inl (ReleaseError (''git '' @ join '' '' args @ '' failed in '' @ rh_root h @ '': '' @ error))
   | Inr out \<Rightarrow> Inr out)"

definition decode_ascii :: "string \<Rightarrow> release_exn + string" where
  "decode_ascii s = (if \<exists>c \<in> set s. 128 \<le> code c then Inl (ValueFailure ''ascii'') else Inr s)"

definition read_file :: "string option \<Rightarrow> release_exn + string" where
  "read_file f = (case f of None \<Rightarrow> Inl (OsFailure ''read_bytes'') | Some bytes \<Rightarrow> Inr bytes)"

definition check_catalog :: "release_host \<Rightarrow> string \<Rightarrow> string \<Rightarrow> release_exn + unit" where
  "check_catalog h owner_id bytes = (case rh_loads h bytes of
     Inl error \<Rightarrow> Inl (ReleaseError (''source catalog is not valid UTF-8 JSON: '' @ error))
   | Inr (JObj catalog) \<Rightarrow>
       (if get_or_null catalog ''schemaVersion'' \<noteq> JStr ''cyrene.product.operation-catalog.v2''
        then Inl (ReleaseError ''source catalog has an unexpected schemaVersion'')
        else if get_or_null catalog ''ownerId'' \<noteq> JStr owner_id
        then Inl (ReleaseError (''catalog ownerId '' @ py_repr (get_or_null catalog ''ownerId'')
               @ '' does not match '' @ repr_str owner_id))
        else Inr ())
   | Inr _ \<Rightarrow> Inl (ReleaseError ''source catalog must be a JSON object''))"

definition validate_release_source :: "release_host \<Rightarrow> release_args \<Rightarrow> (string \<times> string) rel" where
  "validate_release_source h a = (case map_of REPOSITORIES (ra_repository a) of
     None \<Rightarrow> raise (ReleaseError (''untrusted Product repository: '' @ ra_repository a))
   | Some owner_id \<Rightarrow>
       (if ra_ref a \<notin> set ALLOWED_REFS
        then raise (ReleaseError (''source ref is not an approved release channel: '' @ ra_ref a))
        else if \<not> sha1_pattern (ra_commit a)
        then raise (ReleaseError ''source commit must be a lowercase 40-character Git SHA'')
        else
          bindE (liftE (run_git h [''rev-parse'', ''HEAD''])) (\<lambda>out.
          bindE (liftE (decode_ascii out)) (\<lambda>text.
          if strip text \<noteq> ra_commit a
          then raise (ReleaseError (''checkout HEAD '' @ strip text @ '' does not match source commit '' @ ra_commit a))
          else
            bindE (liftE (run_git h [''show'', ra_commit a @ '':'' @ SOURCE_CATALOG_PATH])) (\<lambda>catalog.
            bindE (liftE (read_file (rh_checkout h))) (\<lambda>checkout.
            if checkout \<noteq> catalog
            then raise (ReleaseError ''checked-out catalog bytes differ from the requested source commit'')
            else bindE (liftE (check_catalog h owner_id catalog)) (\<lambda>_. ret (owner_id, catalog))))))))"

section \<open>\<open>prepare\<close>\<close>

definition write_file :: "string \<Rightarrow> string \<Rightarrow> output_dir \<Rightarrow> output_dir" where
  "write_file path bytes d = d\<lparr>od_files := AList.update path bytes (od_files d)\<rparr>"

definition make_dir :: "string \<Rightarrow> output_dir \<Rightarrow> output_dir" where
  "make_dir path d = d\<lparr>od_dirs := List.insert path (od_dirs d)\<rparr>"

definition prepare :: "release_host \<Rightarrow> release_args \<Rightarrow> unit rel" where
  "prepare h a =
     bindE (validate_release_source h a) (\<lambda>(owner_id, catalog).
     bindE (getS (\<lambda>d. od_files d \<noteq> [] \<or> od_dirs d \<noteq> [])) (\<lambda>used.
     bindE (getS od_path) (\<lambda>path.
     if used then raise (ReleaseError (''output directory must be empty: '' @ path))
     else bindE (modS (make_dir ''contracts/product/v2'')) (\<lambda>_.
          bindE (modS (write_file SOURCE_CATALOG_PATH catalog)) (\<lambda>_.
          modS (make_dir ''attestations/owners''))))))"

section \<open>The bundle\<close>

text \<open>White space and line ends of bytes: only those of ASCII.\<close>

definition byte_space :: "char \<Rightarrow> bool" where
  "byte_space c \<longleftrightarrow> (9 \<le> code c \<and> code c \<le> 13) \<or> code c = 32"

definition blank :: "string \<Rightarrow> bool" where
  "blank line \<longleftrightarrow> list_all byte_space line"

fun split_lines :: "string \<Rightarrow> string \<Rightarrow> string list" where
  "split_lines acc [] = (if acc = [] then [] else [rev acc])"
| "split_lines acc [c] = (if code c \<in> {10, 13} then [rev acc] else [rev (c # acc)])"
| "split_lines acc (c # d # s) =
     (if code c = 13 \<and> code d = 10 then rev acc # split_lines [] s
      else if code c \<in> {10, 13} then rev acc # split_lines [] (d # s)
      else split_lines (c # acc) (d # s))"

fun check_lines :: "release_host \<Rightarrow> nat \<Rightarrow> string list \<Rightarrow> release_exn + unit" where
  "check_lines h n [] = Inr ()"
| "check_lines h n (line # lines) = (case rh_loads h line of
     Inl error \<Rightarrow> Inl (ReleaseError (''attestation bundle line '' @ show_nat n @ '' is not JSON: '' @ error))
   | Inr (JObj _) \<Rightarrow> check_lines h (Suc n) lines
   | Inr _ \<Rightarrow> Inl (ReleaseError (''attestation bundle line '' @ show_nat n @ '' is not an object'')))"

definition validate_bundle :: "release_host \<Rightarrow> release_exn + string" where
  "validate_bundle h = (case rh_bundle h of
     Inl error \<Rightarrow> Inl (ReleaseError (''cannot read downloaded attestation bundle: '' @ error))
   | Inr bytes \<Rightarrow>
       (let lines = filter (\<lambda>line. \<not> blank line) (split_lines [] bytes)
        in if blank bytes then Inl (ReleaseError ''downloaded attestation bundle is empty'')
           else if lines = [] then Inl (ReleaseError ''downloaded attestation bundle contains no JSON records'')
           else case check_lines h 1 lines of Inl e \<Rightarrow> Inl e | Inr _ \<Rightarrow> Inr bytes))"

section \<open>\<open>finalize\<close>\<close>

text \<open>\<open>str.isdigit\<close> accepts the superscripts one, two and three; \<open>int\<close> does not, and refuses a text of more
  than 4300 digits.\<close>

definition str_isdigit :: "string \<Rightarrow> bool" where
  "str_isdigit s \<longleftrightarrow> s \<noteq> [] \<and> list_all (\<lambda>c. is_digit c \<or> code c \<in> {178, 179, 185}) s"

definition int_of_digits :: "string \<Rightarrow> release_exn + int" where
  "int_of_digits s =
     (if list_all is_digit s \<and> length s \<le> 4300 then Inr (int (read_nat s)) else Inl (ValueFailure ''int''))"

definition bundle_path :: "string \<Rightarrow> string" where
  "bundle_path owner_id = ''attestations/owners/'' @ owner_id @ ''.jsonl''"

definition owner_publication ::
    "release_host \<Rightarrow> release_args \<Rightarrow> string \<Rightarrow> int \<Rightarrow> string \<Rightarrow> string \<Rightarrow> json" where
  "owner_publication h a owner_id attempt catalog bundle =
     (let digest = tagged_sha256 h catalog; path = ra_repository a @ ''/'' @ SOURCE_CATALOG_PATH
      in JObj
       [(''ownerId'', JStr owner_id),
        (''source'', JObj [(''repository'', JStr (ra_repository a)), (''ref'', JStr (ra_ref a)),
           (''commit'', JStr (ra_commit a))]),
        (''catalogPath'', JStr path), (''catalogSha256'', JStr digest),
        (''provenance'', JObj
          [(''attestation'', JObj [(''attestation'', JObj
             [(''kind'', JStr ''github-artifact-attestation''), (''subjectName'', JStr ''catalog.json''),
              (''repository'', JStr (ra_repository a)),
              (''workflow'', JStr (ra_repository a @ ''/'' @ WORKFLOW_PATH)),
              (''predicateType'', JStr PREDICATE_TYPE),
              (''run'', JObj [(''id'', JStr (ra_run_id a)), (''attempt'', JInt attempt),
                 (''url'', JStr (''https://github.com/'' @ ra_repository a @ ''/actions/runs/'' @ ra_run_id a
                    @ ''/attempts/'' @ ra_run_attempt a))])])]),
           (''bundlePath'', JStr (bundle_path owner_id)), (''bundleSha256'', JStr (tagged_sha256 h bundle)),
           (''subjectPath'', JStr path), (''subjectDigest'', JStr digest)])])"

definition check_run :: "release_args \<Rightarrow> release_exn + int" where
  "check_run a =
     (if \<not> str_isdigit (ra_run_id a) \<or> \<not> str_isdigit (ra_run_attempt a)
      then Inl (ReleaseError ''GitHub Actions run id and attempt must be positive integers'')
      else case int_of_digits (ra_run_id a) of
        Inl e \<Rightarrow> Inl e
      | Inr i \<Rightarrow>
          (if i < 1 then Inl (ReleaseError ''GitHub Actions run id and attempt must be positive integers'')
           else case int_of_digits (ra_run_attempt a) of
             Inl e \<Rightarrow> Inl e
           | Inr n \<Rightarrow> (if n < 1 then Inl (ReleaseError ''GitHub Actions run id and attempt must be positive integers'')
                       else Inr n)))"

definition finalize :: "release_host \<Rightarrow> release_args \<Rightarrow> unit rel" where
  "finalize h a =
     bindE (validate_release_source h a) (\<lambda>(owner_id, catalog).
     bindE (liftE (check_run a)) (\<lambda>attempt.
     bindE (getS (\<lambda>d. map_of (od_files d) SOURCE_CATALOG_PATH)) (\<lambda>prepared.
     if prepared \<noteq> Some catalog
     then raise (ReleaseError ''prepared artifact catalog does not match the source commit'')
     else
       bindE (liftE (validate_bundle h)) (\<lambda>bundle.
       bindE (modS (make_dir ''attestations/owners'')) (\<lambda>_.
       bindE (liftE (read_file (rh_bundle_copied h))) (\<lambda>copied.
       bindE (modS (write_file (bundle_path owner_id) copied)) (\<lambda>_.
       if copied \<noteq> bundle then raise (ReleaseError ''copied attestation bundle bytes changed'')
       else modS (write_file ''owner-publication-v1.json''
              (dumps_indent True 0 (sorted_keys (owner_publication h a owner_id attempt catalog bundle)) @ [chr 10])))))))))"

text \<open>The exit code: only the failures the handler names give 2, any other is a traceback and 1.\<close>

definition exit_code :: "release_exn + unit \<Rightarrow> int" where
  "exit_code r = (case r of Inr _ \<Rightarrow> 0 | Inl (ValueFailure _) \<Rightarrow> 1 | Inl _ \<Rightarrow> 2)"
section \<open>What is released\<close>

definition source_ok :: "release_host \<Rightarrow> release_args \<Rightarrow> string \<Rightarrow> string \<Rightarrow> bool" where
  "source_ok h a owner_id catalog \<longleftrightarrow>
     map_of REPOSITORIES (ra_repository a) = Some owner_id \<and> ra_ref a \<in> set ALLOWED_REFS \<and> sha1_pattern (ra_commit a)
     \<and> (\<exists>out. rh_git h [''rev-parse'', ''HEAD''] = Inr out \<and> strip out = ra_commit a)
     \<and> rh_git h [''show'', ra_commit a @ '':'' @ SOURCE_CATALOG_PATH] = Inr catalog \<and> rh_checkout h = Some catalog
     \<and> (\<exists>doc. rh_loads h catalog = Inr (JObj doc) \<and> dict_get doc ''ownerId'' = Some (JStr owner_id)
          \<and> dict_get doc ''schemaVersion'' = Some (JStr ''cyrene.product.operation-catalog.v2''))"

lemma validate_release_source_reads: "snd (validate_release_source h a d) = d"
  by (auto simp: validate_release_source_def py_unfold split: option.splits sum.splits)

lemma run_git_Inr: "run_git h args = Inr out \<longleftrightarrow> rh_git h args = Inr out"
  by (simp add: run_git_def split: sum.splits)

lemma check_catalog_Inr:
  "check_catalog h owner bytes = Inr u \<Longrightarrow> \<exists>doc. rh_loads h bytes = Inr (JObj doc)
     \<and> dict_get doc ''ownerId'' = Some (JStr owner)
     \<and> dict_get doc ''schemaVersion'' = Some (JStr ''cyrene.product.operation-catalog.v2'')"
  by (auto simp: check_catalog_def get_or_null_def split: sum.splits json.splits if_splits option.splits)

lemma validate_release_source_ok:
  assumes "validate_release_source h a d = (Inr (owner_id, catalog), e)"
  shows "e = d \<and> source_ok h a owner_id catalog"
proof
  show "e = d" using validate_release_source_reads [of h a d] assms by simp
  show "source_ok h a owner_id catalog"
    using assms unfolding validate_release_source_def source_ok_def
    by (auto simp: bindE_Inr liftE_Inr run_git_Inr decode_ascii_def read_file_def ret_def raise_def
        dest!: check_catalog_Inr split: option.splits if_splits)
qed

text \<open>A release that succeeds publishes the committed bytes of a trusted repository on an approved ref, under
  their digest, with the bundle as it was read; whatever refuses the source leaves the directory alone.
  \<open>prepare\<close> writes nothing but the catalog.\<close>

theorem released_bytes_are_committed:
  "finalize h a d = (Inr (), e) \<Longrightarrow> \<exists>owner_id catalog bundle attempt.
     source_ok h a owner_id catalog \<and> rh_bundle h = Inr bundle \<and> 1 \<le> attempt
     \<and> map_of (od_files d) SOURCE_CATALOG_PATH = Some catalog
     \<and> map_of (od_files e) = (map_of (od_files d))(bundle_path owner_id \<mapsto> bundle,
          ''owner-publication-v1.json'' \<mapsto>
            dumps_indent True 0 (sorted_keys (owner_publication h a owner_id attempt catalog bundle)) @ [chr 10])"
  "prepare h a d = (Inr (), e) \<Longrightarrow> \<exists>owner_id catalog.
     source_ok h a owner_id catalog \<and> od_files d = [] \<and> od_files e = [(SOURCE_CATALOG_PATH, catalog)]"
  "prepare h a d = (Inl x, e) \<Longrightarrow> e = d"
proof -
  assume "finalize h a d = (Inr (), e)"
  then show "\<exists>owner_id catalog bundle attempt.
     source_ok h a owner_id catalog \<and> rh_bundle h = Inr bundle \<and> 1 \<le> attempt
     \<and> map_of (od_files d) SOURCE_CATALOG_PATH = Some catalog
     \<and> map_of (od_files e) = (map_of (od_files d))(bundle_path owner_id \<mapsto> bundle,
          ''owner-publication-v1.json'' \<mapsto>
            dumps_indent True 0 (sorted_keys (owner_publication h a owner_id attempt catalog bundle)) @ [chr 10])"
    unfolding finalize_def
    by (auto simp: bindE_Inr liftE_Inr modS_def getS_def raise_def check_run_def validate_bundle_def Let_def
        write_file_def make_dir_def AList.update_conv' not_less dest!: validate_release_source_ok split: if_splits sum.splits, blast)
next
  assume "prepare h a d = (Inr (), e)"
  then show "\<exists>owner_id catalog.
     source_ok h a owner_id catalog \<and> od_files d = [] \<and> od_files e = [(SOURCE_CATALOG_PATH, catalog)]"
    unfolding prepare_def
    by (auto simp: bindE_Inr modS_def getS_def raise_def write_file_def make_dir_def dest!: validate_release_source_ok
        split: if_splits)
next
  assume "prepare h a d = (Inl x, e)"
  then show "e = d"
    using validate_release_source_reads [of h a d] unfolding prepare_def
    by (auto simp: py_unfold split: sum.splits if_splits prod.splits)
qed
text \<open>A run id with a superscript digit passes the check that is meant to refuse it and ends the tool with
  another exception than the one it reports.\<close>

lemma superscript_run_id:
  "check_run (a\<lparr>ra_run_id := [chr 178], ra_run_attempt := ''1''\<rparr>) = Inl (ValueFailure ''int'')"
  "exit_code (Inl (ValueFailure ''int'')) = 1"
  by (simp_all add: check_run_def str_isdigit_def int_of_digits_def is_digit_def code_def chr_def exit_code_def)

end

