(* ===== verification/Schema_Projection.thy ===== *)
theory Schema_Projection
  imports Json "HOL-Library.AList"
begin

text \<open>
  The two schema projections (\<open>product/scripts/project_model_version_schema.py\<close> and
  \<open>project_artifact_ref_schema.py\<close>): the link that is rebased, the provenance documents, and writing or
  checking the generated files. Git, SHA-256 and \<open>json.loads\<close> are parameters; the generated directory is
  the state, by file name.
\<close>

section \<open>Parameters\<close>

datatype projection_exn =
    GitFailure
  | JsonDecodeError
  | RuntimeFailure string

record projection_host =
  ph_git_show :: "string \<Rightarrow> string \<Rightarrow> string option"
  ph_loads :: "string \<Rightarrow> json option"
  ph_sha256_hex :: "string \<Rightarrow> string"

text \<open>\<open>str.encode()\<close> on code points below 256.\<close>

definition utf8_char :: "char \<Rightarrow> string" where
  "utf8_char c = (if code c < 128 then [c] else [chr (192 + code c div 64), chr (128 + code c mod 64)])"

definition utf8 :: "string \<Rightarrow> string" where
  "utf8 s = concat (map utf8_char s)"

definition git_show :: "projection_host \<Rightarrow> string \<Rightarrow> string \<Rightarrow> projection_exn + string" where
  "git_show h revision path = (case ph_git_show h revision path of None \<Rightarrow> Inl GitFailure | Some bytes \<Rightarrow> Inr bytes)"

definition decode_json :: "projection_host \<Rightarrow> string \<Rightarrow> projection_exn + json" where
  "decode_json h bytes = (case ph_loads h bytes of None \<Rightarrow> Inl JsonDecodeError | Some v \<Rightarrow> Inr v)"

section \<open>The rebased link\<close>

definition SOURCE_ARTIFACT_REF :: string where
  "SOURCE_ARTIFACT_REF = ''./generated/platform/artifact-ref.schema.json''"

definition PROJECTED_ARTIFACT_REF :: string where
  "PROJECTED_ARTIFACT_REF = ''../platform/artifact-ref.schema.json''"

fun project :: "json \<Rightarrow> json" and project_entry :: "string \<times> json \<Rightarrow> string \<times> json" where
  "project (JObj d) = JObj (map project_entry d)"
| "project (JArr xs) = JArr (map project xs)"
| "project (JStr s) = JStr (if s = SOURCE_ARTIFACT_REF then PROJECTED_ARTIFACT_REF else s)"
| "project v = v"
| "project_entry (k, v) = (k, project v)"

section \<open>Outputs\<close>

definition yield_revision :: string where
  "yield_revision = ''6fea8f835ce2561aaed4b0d9996856f6a3ef1ee6''"

definition yield_schema :: string where
  "yield_schema = ''contracts/product/v1/model-version.schema.json''"

definition yield_provenance :: "projection_host \<Rightarrow> string \<Rightarrow> string \<Rightarrow> json" where
  "yield_provenance h source projected = JObj
     [(''repository'', JStr ''DoHorizon-AI/Cyrene-Yield''), (''revision'', JStr yield_revision),
      (''sha256'', JObj [(yield_schema, JStr (ph_sha256_hex h source))]),
      (''projectionSha256'', JObj [(''model-version.schema.json'', JStr (ph_sha256_hex h projected))]),
      (''transform'', JStr ''rebase ArtifactRef reference for Reactor generated tree'')]"

definition yield_outputs :: "projection_host \<Rightarrow> projection_exn + (string \<times> string) list" where
  "yield_outputs h =
     (case git_show h yield_revision yield_schema of
        Inl e \<Rightarrow> Inl e
      | Inr source \<Rightarrow> (case decode_json h source of
          Inl e \<Rightarrow> Inl e
        | Inr document \<Rightarrow>
            (let projected = utf8 (dumps_indent False 0 (project document) @ [chr 10]);
                 provenance = utf8 (dumps_indent True 0 (yield_provenance h source projected) @ [chr 10])
             in Inr [(''model-version.schema.json'', projected), (''lifecycle-sources.json'', provenance)])))"

definition platform_revision :: string where
  "platform_revision = ''c59be6f2bd82489fbe933dadff84fc589e00afd9''"

definition platform_schema :: string where
  "platform_schema = ''contracts/schemas/manifests/artifact_ref.schema.json''"

definition platform_provenance :: "projection_host \<Rightarrow> string \<Rightarrow> json" where
  "platform_provenance h source = JObj
     [(''repository'', JStr ''DoHorizon-AI/Cyrene-Platform''), (''revision'', JStr platform_revision),
      (''sha256'', JObj [(platform_schema, JStr (ph_sha256_hex h source))])]"

definition platform_outputs :: "projection_host \<Rightarrow> projection_exn + (string \<times> string) list" where
  "platform_outputs h =
     (case git_show h platform_revision platform_schema of
        Inl e \<Rightarrow> Inl e
      | Inr source \<Rightarrow> (case decode_json h source of
          Inl e \<Rightarrow> Inl e
        | Inr _ \<Rightarrow> Inr [(''artifact-ref.schema.json'', source),
            (''lifecycle-sources.json'', utf8 (dumps_indent True 0 (platform_provenance h source) @ [chr 10]))]))"

section \<open>Writing and checking\<close>

type_synonym 'a pro = "((string \<times> string) list, projection_exn, 'a) py"

fun emit_outputs :: "bool \<Rightarrow> string \<Rightarrow> (string \<times> string) list \<Rightarrow> unit pro" where
  "emit_outputs check owner [] = ret ()"
| "emit_outputs check owner ((path, content) # outputs) =
     (if check
      then bindE (getS (\<lambda>files. map_of files path)) (\<lambda>found.
           if found \<noteq> Some content
           then raise (RuntimeFailure (''generated '' @ owner @ '' projection differs: '' @ path))
           else emit_outputs check owner outputs)
      else bindE (modS (AList.update path content)) (\<lambda>_. emit_outputs check owner outputs))"

definition project_model_version :: "projection_host \<Rightarrow> bool \<Rightarrow> unit pro" where
  "project_model_version h check = bindE (liftE (yield_outputs h)) (emit_outputs check ''Yield'')"

definition project_artifact_ref :: "projection_host \<Rightarrow> bool \<Rightarrow> unit pro" where
  "project_artifact_ref h check = bindE (liftE (platform_outputs h)) (emit_outputs check ''Platform'')"

section \<open>The check accepts what was written, and nothing else\<close>

lemma emit_check:
  "emit_outputs True owner outputs files = (r, after) \<Longrightarrow>
     after = files \<and> (r = Inr () \<longleftrightarrow> (\<forall>(path, content) \<in> set outputs. map_of files path = Some content))"
  by (induction outputs) (auto simp: py_unfold split: if_splits)

lemma emit_write:
  "distinct (map fst outputs) \<Longrightarrow>
     \<exists>after. emit_outputs False owner outputs files = (Inr (), after) \<and> map_of after = map_of files ++ map_of outputs"
proof (induction outputs arbitrary: files)
  case (Cons o' outputs)
  obtain path content where o: "o' = (path, content)" by fastforce
  from Cons.IH [of "AList.update path content files", unfolded AList.update_conv'] Cons.prems obtain after where
    a: "emit_outputs False owner outputs (AList.update path content files) = (Inr (), after)"
       "map_of after = (map_of files)(path \<mapsto> content) ++ map_of outputs" by (auto simp: fun_upd_def)
  have "path \<notin> dom (map_of outputs)" using Cons.prems o by (simp add: dom_map_of_conv_image_fst)
  then have "(map_of files)(path \<mapsto> content) ++ map_of outputs = map_of files ++ map_of (o' # outputs)"
    by (auto simp: o map_add_def fun_eq_iff split: option.splits)
  then have "map_of after = map_of files ++ map_of (o' # outputs)" by (rule trans [OF a(2)])
  moreover have "emit_outputs False owner (o' # outputs) files = (Inr (), after)" using a(1) by (simp add: o py_unfold)
  ultimately show ?case by blast
qed (simp add: py_unfold)

lemma outputs_distinct:
  "yield_outputs h = Inr outputs \<Longrightarrow> distinct (map fst outputs)"
  "platform_outputs h = Inr outputs \<Longrightarrow> distinct (map fst outputs)"
  by (auto simp: yield_outputs_def platform_outputs_def Let_def split: sum.splits)

text \<open>What was written passes the check, which changes nothing; a projection names the rebased link wherever
  the source named the other, and projecting twice is projecting once.\<close>

theorem written_projection_checks:
  "project_model_version h False files = (Inr (), after) \<Longrightarrow> project_model_version h True after = (Inr (), after)"
  "project_artifact_ref h False files = (Inr (), after) \<Longrightarrow> project_artifact_ref h True after = (Inr (), after)"
  "snd (project_model_version h True files) = files"
  "project (project v) = project v"
proof -
  have checks: "emit_outputs True owner outputs after = (Inr (), after)"
    if d: "distinct (map fst outputs)" and w: "emit_outputs False owner outputs files = (Inr (), after)"
    for owner outputs
  proof -
    have "map_of after = map_of files ++ map_of outputs" using emit_write [OF d, of owner files] w by auto
    then have "\<forall>(path, content) \<in> set outputs. map_of after path = Some content"
      using d by (auto simp: map_add_def split: option.splits)
    then show ?thesis using emit_check [of owner outputs after] by (metis prod.exhaust_sel)
  qed
  show "project_model_version h False files = (Inr (), after) \<Longrightarrow> project_model_version h True after = (Inr (), after)"
    using checks outputs_distinct(1) [of h] unfolding project_model_version_def
    by (auto simp: py_unfold split: sum.splits)
  show "project_artifact_ref h False files = (Inr (), after) \<Longrightarrow> project_artifact_ref h True after = (Inr (), after)"
    using checks outputs_distinct(2) [of h] unfolding project_artifact_ref_def
    by (auto simp: py_unfold split: sum.splits)
  show "snd (project_model_version h True files) = files"
    using emit_check unfolding project_model_version_def
    by (auto simp: py_unfold split: sum.splits) (metis prod.collapse)
  have "project (project v) = project v" and "project_entry (project_entry e) = project_entry e" for e
    by (induction v and e rule: project_project_entry.induct)
      (auto simp: SOURCE_ARTIFACT_REF_def PROJECTED_ARTIFACT_REF_def)
  then show "project (project v) = project v" by simp
qed

end
