(* ===== verification/Spec2Isabelle.thy ===== *)
theory Spec2Isabelle
  imports Store_Properties Service_Properties Remote_Properties Admission_Properties
    Stream_Buffer_Properties Scheduler_Properties Server_Properties Http_Properties
    Grpc_Properties Seam_Properties Hot_Reload Path_Utils Alerts Cli_Main
    Worker_Main Worker_Logging Contract_Release Schema_Projection
begin

text \<open>
  \<^bold>\<open>Cyrene Reactor: a model of the Product controller and of the inference worker, and their correctness.\<close>

  The repository has two Python programs. The \<^emph>\<open>Product controller\<close> (\<open>src/product/src/cyrene_reactor_product\<close>)
  owns Deployments, Endpoints, drafts and model imports in a SQLite store, drives a serving engine through a port,
  and offers them over HTTP to operators and, in a restricted form, to Workspaces. The \<^emph>\<open>inference worker\<close>
  (\<open>src/runtime/core/src/cy_exec\<close>, optional parts in \<open>src/runtime/pro/src/cy_exec_pro\<close>) serves token streams over
  gRPC from engines it reaches through plugins. \<open>src/tools\<close> and \<open>src/product/scripts\<close> package contracts.

  \<^bold>\<open>How a program is read.\<close> A Python function is a HOL function on the state it changes. In the Product it is a
  computation \<open>'s \<Rightarrow> (exception + 'a) \<times> 's\<close> (\<open>Prelude\<close>: \<open>bindE\<close>, \<open>catchE\<close>, \<open>txn\<close>): a raise is the left value, and
  what was written before it stays unless a transaction rolls it back. Threads are interleavings of atomic pieces
  (the step functions of \<open>Task_Scheduler\<close> and \<open>Stream_Buffer\<close>, the race of \<open>Package_Owner\<close>, observations that commit
  late in \<open>Service\<close>). Everything outside \<open>src/\<close> is an argument of the definitions that use it, normally a record
  of functions over an external state that may answer, raise and change in any way.

  \<^bold>\<open>Theories and sources: the Product\<close>
  \<^item> \<open>Prelude\<close>, \<open>WP\<close>, \<open>Text\<close>, \<open>Json\<close>, \<open>Url\<close>, \<open>Samples\<close>: computations, weakest preconditions and the relation \<open>frame_rel\<close>
    carried through a computation by syntax-directed rules (\<open>frame_rules\<close>); the string, \<open>json\<close> and \<open>urlsplit\<close>
    functions of the standard library; concrete documents for witnesses.
  \<^item> \<open>Errors\<close> (\<open>errors.py\<close>), \<open>Domain\<close> (\<open>domain.py\<close>): exceptions, the error catalog, every document and validator.
  \<^item> \<open>Store\<close> (\<open>store.py\<close>): the tables, and every operation of \<open>ReactorStore\<close>. \<open>Interfaces\<close> states three contracts
    as locales: \<open>keyed_table\<close>, \<open>seq_ledger\<close> (numbered rows and cursor paging) and \<open>idempotent_create\<close>;
    \<open>Store_Facts\<close> interprets them on the store's own tables, ledgers and create commands, \<open>Store_Audit\<close> proves
    that every operation keeps the invariant \<open>store_ok\<close> and only grows the audit data, \<open>Store_Properties\<close> states
    what clients rely on.
  \<^item> \<open>Engine\<close> (\<open>engine.py\<close>, \<open>runtime_activity.py\<close>), \<open>Service\<close> (\<open>service.py\<close>): the serving port and the service over
    store, engines, clock and UUID supply. \<open>Service_Frame\<close> states as the locale \<open>store_frame\<close> what a relation
    between databases must be kept by and carries it through every operation; it is interpreted on the audit
    order and, in \<open>Http_Properties\<close>, on where import scopes and documents come from. \<open>Service_Audit\<close>, \<open>Service_History\<close>, \<open>Service_WP\<close>, \<open>Service_Lifecycle\<close>,
    \<open>Service_Create\<close>, \<open>Draft_Properties\<close>, \<open>Service_Properties\<close>: the invariant over every history of calls, the
    outcome of launch, reconcile, stop and restart whatever the engine does, idempotence, isolation, paging.
  \<^item> \<open>Remote_Engine\<close>, \<open>Remote_Properties\<close> (\<open>remote_engine.py\<close>): the HTTP client of a binding; where its credential
    travels and what a started handle has proved.
  \<^item> \<open>Package_Runtime\<close>, \<open>Package_Owner\<close>, \<open>Package_Owner_Facts\<close>, \<open>Package_Owner_Properties\<close>, \<open>Package_Admission\<close>,
    \<open>Admission_Properties\<close> (\<open>package_runtime_owner.py\<close> and its table in \<open>store.py\<close>): durable intent, dispatch,
    receipt and reconciliation. The SDK is the tree of the callbacks it makes. Facts of one row under every
    later call are one locale, \<open>row_invariant\<close>, interpreted for three kinds of row.
  \<^item> \<open>Workspace_Auth\<close>, \<open>Workspace_Projection\<close>, \<open>Logging\<close>, \<open>Exchange_Handoff\<close>, \<open>Api\<close>, \<open>Api_Properties\<close>
    (\<open>workspace_auth.py\<close>, \<open>workspace_projection.py\<close>, \<open>logging.py\<close>, \<open>exchange_handoff.py\<close>, \<open>api.py\<close>): one definition
    per route handler; which requests are admitted, and that a Workspace reads and writes only its own imports.
  \<^item> \<open>Api_Requests\<close>, \<open>Http_History\<close>, \<open>Http_Properties\<close>: the constraints of the request bodies, every route with its
    path, and the two databases over any history of requests. The locale \<open>http_frame\<close> extends \<open>store_frame\<close> by the
    owner's table and carries a pair of relations through every handler; three interpretations give the
    consistency of both databases, the origin of what a Workspace reads, and that its listing is always served.
  \<^item> \<open>Cli\<close>, \<open>Cli_Main\<close> (\<open>cli.py\<close>): configuration, engines of the bindings, and every command from its parsed
    arguments, up to the application that the control command serves.

  \<^bold>\<open>Theories and sources: the worker\<close>
  \<^item> \<open>Stream_Buffer\<close>, \<open>Task_Scheduler\<close>, \<open>Telemetry\<close>, \<open>Inference_Server\<close> with their \<open>_Properties\<close>
    (\<open>utils/stream_buffer.py\<close>, \<open>core/task_scheduler.py\<close>, \<open>core/telemetry.py\<close>, \<open>core/server.py\<close>,
    \<open>core/memory_manager.py\<close>).
  \<^item> \<open>Capability_Seam\<close> (\<open>capability_seam.py\<close>): resolver, provider and plugin adapter. \<open>Residency\<close> states the contract
    between the server and its engines as the locale \<open>engine_contract\<close> and proves in it what the server
    guarantees; \<open>Seam_Properties\<close> interprets it on the adapter the worker builds, and so composes the two.
  \<^item> \<open>Worker_Errors\<close>, \<open>Worker_Auth\<close>, \<open>Worker_Config\<close>, \<open>Hot_Reload\<close> (\<open>exceptions.py\<close>, \<open>utils/auth.py\<close>,
    \<open>config/models.py\<close>, \<open>config/config_loader.py\<close>, \<open>config/hot_reload.py\<close>).
  \<^item> \<open>Grpc_Servicer\<close>, \<open>Grpc_Properties\<close> (\<open>grpc_servicer.py\<close>, \<open>grpc_servicer_async.py\<close>): both services over the same
    server, the shape of their streams, their agreement, and where they differ.
  \<^item> \<open>Path_Utils\<close>, \<open>Alerts\<close>, \<open>Worker_Startup\<close>, \<open>Worker_Main\<close>, \<open>Worker_Logging\<close> (\<open>utils/path_utils.py\<close>, \<open>core/alert_manager.py\<close>,
    \<open>utils/tls.py\<close> with \<open>health/health_server.py\<close> and \<open>main.py\<close>, \<open>utils/structured_logging.py\<close>).
  \<^item> \<open>Contract_Release\<close>, \<open>Schema_Projection\<close> (\<open>src/tools/release\<close>, \<open>src/product/scripts\<close>): the released catalog and
    the projected schemas.

  \<^bold>\<open>Properties.\<close> They carry the labels C1 to C40 where they are stated. C1 to C12 are about the store and the service, C2 among
  them about the whole Product, C13 to C15 about the package runtime owner, C16 to C18 about admission and the remote
  port, C19 to C24 about the worker's buffer, telemetry, scheduler and server, C25 to C31 about its services, seam and
  configuration, C32 and C33 about the command line, C34 to C40 about the HTTP adapter and logging. Other theorems without a label
  are facts of the same kind about less central code.

  \<^bold>\<open>Bounds.\<close> Lengths and limits are the sources': 500 and 1000 for pages and histories, 512 latencies, 50000
  prompt characters, the field bounds of the documents. \<open>uint32\<close> fields of the protocol are \<open>32 word\<close>; Python's
  integers are \<open>int\<close>. Every recursive definition is total, so no fuel is used, except where the code may not return:
  the log-record factories of \<open>Worker_Logging\<close> are a \<open>partial_function\<close>. Waiting is modelled by the steps a thread
  can take, and that it ends is the property C20.

  \<^bold>\<open>Abstractions.\<close> Strings are Latin-1, so the Chinese message texts of the worker are parameters or left empty.
  Floats the code computes with are rationals; other floats are the text of their literal. UUIDs and datetimes
  are their canonical texts. A document's dump and reload through Pydantic is the identity, and routing and body
  parsing of FastAPI, SQLite's locking and HTTP below one request and one reply are taken as documented.

  \<^bold>\<open>Parameters\<close>, with no assumption beyond a type unless a property names one: serving engines and activity
  brokers, the network, the package runtime SDK, the plugin SDK, the Yield contracts, Pydantic's lax
  conversions, \<open>json.loads\<close>, SHA-256 and MD5, \<open>git\<close>, environment, files and \<open>Path.resolve\<close>, clocks, UUIDs and tokens.

  \<^bold>\<open>Not modelled:\<close> argparse, uvicorn, signals, threads' start and exit, gRPC options and OpenTelemetry calls, which no
  modelled result depends on; handler set-up of \<open>logging\<close>; generated protocol code; FastAPI's matching of
  paths and the streaming of an opened export; \<open>check_silent_exceptions.py\<close>, which is a walk over Python's own syntax trees; the Rust
  host-placement command; tests, contracts and deployment files.
\<close>

end
